(* ===== verification/Prelude.thy ===== *)
theory Prelude
  imports Main "HOL-Library.AList"
begin

text \<open>
  Shared vocabulary of the development: Go errors as values, the Go string functions the
  sources call (\<open>strings.Contains\<close>, \<open>strings.Split\<close>), loops that stop at the first
  error, reachable states of a step relation, and two locales whose lemmas every component
  reuses: \<open>loop_contract\<close> (what one iteration keeps, the whole loop keeps) and
  \<open>step_invariant\<close> (what every step keeps, every reachable state has).
\<close>

named_theorems go_simps \<open>unfolding rules of the Go library functions\<close>

subsection \<open>Errors\<close>

text \<open>
  A Go \<open>error\<close> value. The sources distinguish one class of errors from the rest
  (\<open>errors.IsNotFound\<close>); everything else is only compared with \<open>nil\<close> or printed.
\<close>

datatype goerror = NotFoundErr string | GoErr string

type_synonym 'a result = "goerror + 'a"

fun Error :: "goerror \<Rightarrow> string" where
  "Error (NotFoundErr s) = s"
| "Error (GoErr s) = s"

fun IsNotFound :: "goerror \<Rightarrow> bool" where
  "IsNotFound (NotFoundErr _) = True"
| "IsNotFound (GoErr _) = False"

text \<open>The error half of a two-value Go return.\<close>

fun errOf :: "'a result \<Rightarrow> goerror option" where
  "errOf (Inl e) = Some e"
| "errOf (Inr _) = None"

subsection \<open>Strings\<close>

fun strContains :: "string \<Rightarrow> string \<Rightarrow> bool" where
  "strContains [] sub = (sub = [])"
| "strContains (c # s) sub = (take (length sub) (c # s) = sub \<or> strContains s sub)"

fun splitOn :: "char \<Rightarrow> string \<Rightarrow> string list" where
  "splitOn c [] = [[]]"
| "splitOn c (x # xs) =
     (if x = c then [] # splitOn c xs
      else (case splitOn c xs of [] \<Rightarrow> [[x]] | p # ps \<Rightarrow> (x # p) # ps))"

lemma strContains_iff: "strContains s sub \<longleftrightarrow> (\<exists>a b. s = a @ sub @ b)"
proof (induction s)
  case Nil
  then show ?case by simp
next
  case (Cons c s)
  show ?case
  proof
    assume "strContains (c # s) sub"
    then consider "take (length sub) (c # s) = sub" | "strContains s sub" by auto
    then show "\<exists>a b. c # s = a @ sub @ b"
    proof cases
      case 1
      then have "c # s = [] @ sub @ drop (length sub) (c # s)"
        by (metis append_Nil append_take_drop_id)
      then show ?thesis by blast
    next
      case 2
      with Cons.IH obtain a b where "s = a @ sub @ b" by blast
      then have "c # s = (c # a) @ sub @ b" by simp
      then show ?thesis by blast
    qed
  next
    assume "\<exists>a b. c # s = a @ sub @ b"
    then obtain a b where ab: "c # s = a @ sub @ b" by blast
    show "strContains (c # s) sub"
    proof (cases a)
      case Nil
      with ab have "take (length sub) (c # s) = sub" by simp
      then show ?thesis by simp
    next
      case (Cons d a')
      with ab have "s = a' @ sub @ b" by simp
      with Cons.IH have "strContains s sub" by blast
      then show ?thesis by simp
    qed
  qed
qed

lemma splitOn_neq_Nil [simp]: "splitOn c s \<noteq> []"
  by (cases s) (auto split: list.splits)

lemma length_splitOn: "length (splitOn c s) = Suc (count_list s c)"
  by (induction s) (auto split: list.splits)

lemma splitOn_append:
  "c \<notin> set a \<Longrightarrow> splitOn c (a @ c # b) = a # splitOn c b"
  by (induction a) auto

lemma splitOn_none: "c \<notin> set a \<Longrightarrow> splitOn c a = [a]"
  by (induction a) auto

lemma splitOn_parts: "p \<in> set (splitOn c s) \<Longrightarrow> c \<notin> set p"
proof (induction s arbitrary: p)
  case Nil
  then show ?case by simp
next
  case (Cons x xs)
  then show ?case by (fastforce split: if_splits list.splits)
qed

text \<open>A separator that occurs in neither prefix splits a string in one way only.\<close>

lemma append_sep_eq:
  assumes "c \<notin> set a" and "c \<notin> set b"
  shows "a @ c # x = b @ c # y \<longleftrightarrow> a = b \<and> x = y"
proof
  assume eq: "a @ c # x = b @ c # y"
  have pre: "takeWhile (\<lambda>z. z \<noteq> c) (u @ c # v) = u" if "c \<notin> set u" for u v
    using that by (induction u) auto
  from pre [OF assms(1), of x] pre [OF assms(2), of y] eq have "a = b" by simp
  with eq show "a = b \<and> x = y" by simp
qed simp

fun joinWith :: "char \<Rightarrow> string list \<Rightarrow> string" where
  "joinWith c [] = []"
| "joinWith c [p] = p"
| "joinWith c (p # q # ps) = p @ c # joinWith c (q # ps)"

lemma joinWith_Cons: "ps \<noteq> [] \<Longrightarrow> joinWith c (p # ps) = p @ c # joinWith c ps"
  by (cases ps) auto

lemma joinWith_Cons_char: "joinWith c ((x # p) # ps) = x # joinWith c (p # ps)"
  by (cases ps) auto

lemma join_splitOn: "joinWith c (splitOn c s) = s"
proof (induction s)
  case Nil
  then show ?case by simp
next
  case (Cons x xs)
  then show ?case
    by (cases "splitOn c xs") (auto simp: joinWith_Cons joinWith_Cons_char)
qed

subsection \<open>Loops that return at the first error\<close>

text \<open>
  \<open>for _, x := range xs { ...; if err != nil { return err } }\<close> followed by
  \<open>return nil\<close>: the state threads through the iterations, the first error ends the loop.
\<close>

fun runLoop :: "('a \<Rightarrow> 'w \<Rightarrow> goerror option \<times> 'w) \<Rightarrow> 'a list \<Rightarrow> 'w \<Rightarrow> goerror option \<times> 'w" where
  "runLoop body [] w = (None, w)"
| "runLoop body (x # xs) w =
     (case body x w of
        (Some e, w') \<Rightarrow> (Some e, w')
      | (None, w') \<Rightarrow> runLoop body xs w')"

locale loop_contract =
  fixes body :: "'a \<Rightarrow> 'w \<Rightarrow> goerror option \<times> 'w"
    and rel :: "'w \<Rightarrow> 'w \<Rightarrow> bool"
    and pre :: "'a \<Rightarrow> bool"
  assumes rel_refl: "rel w w"
    and rel_trans: "rel u v \<Longrightarrow> rel v w \<Longrightarrow> rel u w"
    and body_rel: "pre x \<Longrightarrow> rel w (snd (body x w))"
begin

lemma runLoop_rel: "\<forall>x \<in> set xs. pre x \<Longrightarrow> rel w (snd (runLoop body xs w))"
proof (induction xs arbitrary: w)
  case Nil
  show ?case by (simp add: rel_refl)
next
  case (Cons x xs)
  obtain r w1 where b: "body x w = (r, w1)" by (cases "body x w")
  with Cons.prems body_rel [of x w] have w1: "rel w w1" by simp
  show ?case
  proof (cases r)
    case None
    with b Cons w1 show ?thesis by (auto intro: rel_trans)
  next
    case (Some e)
    with b w1 show ?thesis by simp
  qed
qed

end

lemma runLoop_append:
  "runLoop body (xs @ ys) w =
     (case runLoop body xs w of
        (Some e, w') \<Rightarrow> (Some e, w')
      | (None, w') \<Rightarrow> runLoop body ys w')"
  by (induction xs arbitrary: w) (auto split: prod.splits option.splits)

subsection \<open>Step relations\<close>

inductive reach :: "('s \<Rightarrow> bool) \<Rightarrow> ('s \<Rightarrow> 's \<Rightarrow> bool) \<Rightarrow> 's \<Rightarrow> bool"
  for init :: "'s \<Rightarrow> bool" and step :: "'s \<Rightarrow> 's \<Rightarrow> bool" where
  reach_init: "init s \<Longrightarrow> reach init step s"
| reach_step: "reach init step s \<Longrightarrow> step s t \<Longrightarrow> reach init step t"

locale step_invariant =
  fixes init :: "'s \<Rightarrow> bool"
    and step :: "'s \<Rightarrow> 's \<Rightarrow> bool"
    and inv :: "'s \<Rightarrow> bool"
  assumes inv_init: "init s \<Longrightarrow> inv s"
    and inv_step: "step s t \<Longrightarrow> inv s \<Longrightarrow> inv t"
begin

lemma reach_inv: "reach init step s \<Longrightarrow> inv s"
  by (induction rule: reach.induct) (auto intro: inv_init inv_step)

end

subsection \<open>Association lists\<close>

lemma map_of_find: "map_of kvs k = map_option snd (find (\<lambda>p. fst p = k) kvs)"
  by (induction kvs) auto

lemma find_in_set: "find P xs = Some x \<Longrightarrow> x \<in> set xs \<and> P x"
  by (induction xs) (auto split: if_splits)

lemma find_None_all: "find P xs = None \<longleftrightarrow> (\<forall>x \<in> set xs. \<not> P x)"
  by (induction xs) auto

lemma find_append_none: "find P xs = None \<Longrightarrow> find P (xs @ ys) = find P ys"
  by (induction xs) (auto split: if_splits)

lemma filter_unique:
  assumes "distinct (map f xs)" and "x \<in> set xs"
  shows "filter (\<lambda>y. f y = f x) xs = [x]"
  using assms
proof (induction xs)
  case Nil
  then show ?case by simp
next
  case (Cons y ys)
  have none: "filter (\<lambda>z. f z = f y) ys = []"
    using Cons.prems(1) unfolding filter_empty_conv by (metis distinct.simps(2) image_eqI list.set_map list.simps(9))
  show ?case
  proof (cases "x = y")
    case True
    with none show ?thesis by simp
  next
    case False
    with Cons show ?thesis by (auto simp: image_iff)
  qed
qed

end
