(* ===== verification/GoHeap.thy ===== *)
theory GoHeap
  imports Prelude
begin

text \<open>
  Go values the controller shares by reference. A \<open>corev1.ResourceList\<close> is a Go map, so a
  struct that holds one holds a reference: copying the struct shares the map, and a write
  through one copy is seen through the other. The heap below makes that explicit; a nil map
  is the address \<open>None\<close>. The model keeps a map as an association list: its order is the
  order in which \<open>range\<close> happens to visit the keys.
\<close>

subsection \<open>Quantities\<close>

text \<open>
  \<open>resource.Quantity\<close>: the amount (a decimal with at most nine fractional digits, here the
  integer number of nano-units; the library falls back to big decimals, so sums do not
  overflow), the suffix format, and the cached string that \<open>Add\<close> drops. \<open>Cmp\<close> and
  \<open>Equal\<close> look at the amount only; \<open>reflect.DeepEqual\<close> sees all three.
\<close>

datatype quantityFormat = DecimalSI | BinarySI | DecimalExponent

record quantity =
  q_amount :: int
  q_format :: quantityFormat
  q_s :: string

definition Cmp :: "quantity \<Rightarrow> quantity \<Rightarrow> int" where
  "Cmp q y = sgn (q_amount q - q_amount y)"

definition quantityEqual :: "quantity \<Rightarrow> quantity \<Rightarrow> bool" where
  "quantityEqual q y \<longleftrightarrow> Cmp q y = 0"

definition quantityAdd :: "quantity \<Rightarrow> quantity \<Rightarrow> quantity" where
  "quantityAdd q y =
     \<lparr>q_amount = q_amount q + q_amount y,
      q_format = (if q_amount q = 0 then q_format y else q_format q),
      q_s = []\<rparr>"

lemma Cmp_pos [go_simps]: "Cmp q y > 0 \<longleftrightarrow> q_amount y < q_amount q"
  by (auto simp: Cmp_def sgn_if)

lemma quantityEqual_iff [go_simps]: "quantityEqual q y \<longleftrightarrow> q_amount q = q_amount y"
  by (auto simp: quantityEqual_def Cmp_def sgn_if)

lemma quantityAdd_amount [simp]: "q_amount (quantityAdd q y) = q_amount q + q_amount y"
  by (simp add: quantityAdd_def)

subsection \<open>Resource lists\<close>

type_synonym resourceList = "(string \<times> quantity) list"

text \<open>
  What a resource list says: the amount of each resource it names.
\<close>

definition amounts :: "resourceList \<Rightarrow> string \<Rightarrow> int option" where
  "amounts m k = map_option q_amount (map_of m k)"

abbreviation distinctKeys :: "resourceList \<Rightarrow> bool" where
  "distinctKeys m \<equiv> distinct (map fst m)"

fun areEntriesEqual :: "resourceList \<Rightarrow> resourceList \<Rightarrow> bool" where
  "areEntriesEqual [] m2 = True"
| "areEntriesEqual ((key, value1) # rest) m2 =
     (case map_of m2 key of
        None \<Rightarrow> False
      | Some value2 \<Rightarrow> (if \<not> quantityEqual value1 value2 then False else areEntriesEqual rest m2))"

definition areResourceMapsEqual :: "resourceList \<Rightarrow> resourceList \<Rightarrow> bool" where
  "areResourceMapsEqual m1 m2 =
     (if length m1 \<noteq> length m2 then False else areEntriesEqual m1 m2)"

lemma areEntriesEqual_iff:
  "areEntriesEqual m1 m2 \<longleftrightarrow>
     (\<forall>(k, v) \<in> set m1. \<exists>v'. map_of m2 k = Some v' \<and> q_amount v = q_amount v')"
  by (induction m1 m2 rule: areEntriesEqual.induct)
    (auto simp: quantityEqual_iff split: option.splits)

lemma dom_amounts: "dom (amounts m) = fst ` set m"
  by (auto simp: amounts_def dom_def map_of_eq_None_iff[symmetric] dom_map_of_conv_image_fst[symmetric]
      simp flip: not_None_eq)

lemma amounts_in: "distinctKeys m \<Longrightarrow> (k, v) \<in> set m \<Longrightarrow> amounts m k = Some (q_amount v)"
  by (simp add: amounts_def)

lemma areEntriesEqual_amounts:
  assumes "distinctKeys m1"
  shows "areEntriesEqual m1 m2 \<longleftrightarrow> (\<forall>k \<in> fst ` set m1. amounts m1 k = amounts m2 k)"
proof -
  have "(\<exists>v'. map_of m2 k = Some v' \<and> q_amount v = q_amount v') \<longleftrightarrow> amounts m1 k = amounts m2 k"
    if "(k, v) \<in> set m1" for k v
    using amounts_in [OF assms that] by (cases "map_of m2 k") (auto simp: amounts_def)
  then show ?thesis
    unfolding areEntriesEqual_iff by (auto simp: split_beta)
qed

lemma areResourceMapsEqual_amounts:
  assumes "distinctKeys m1" and "distinctKeys m2"
  shows "areResourceMapsEqual m1 m2 \<longleftrightarrow> amounts m1 = amounts m2"
proof
  assume eq: "areResourceMapsEqual m1 m2"
  then have len: "length m1 = length m2" and ent: "areEntriesEqual m1 m2"
    by (auto simp: areResourceMapsEqual_def split: if_splits)
  have sub: "fst ` set m1 \<subseteq> fst ` set m2"
    using ent assms(1) by (metis areEntriesEqual_amounts dom_amounts domIff subsetI)
  have "card (fst ` set m1) = card (fst ` set m2)"
    using len assms by (metis distinct_card length_map list.set_map)
  with sub have "fst ` set m1 = fst ` set m2"
    by (simp add: card_subset_eq)
  with ent assms(1) show "amounts m1 = amounts m2"
    by (metis (no_types, lifting) areEntriesEqual_amounts dom_amounts domIff ext)
next
  assume eq: "amounts m1 = amounts m2"
  then have "fst ` set m1 = fst ` set m2" by (metis dom_amounts)
  then have "length m1 = length m2"
    using assms by (metis distinct_card length_map list.set_map)
  with eq assms(1) show "areResourceMapsEqual m1 m2"
    by (simp add: areResourceMapsEqual_def areEntriesEqual_amounts)
qed

lemma areResourceMapsEqual_refl: "distinctKeys m \<Longrightarrow> areResourceMapsEqual m m"
  by (simp add: areResourceMapsEqual_amounts)

subsection \<open>The heap of maps\<close>

type_synonym addr = nat

record heap =
  hp_maps :: "addr \<Rightarrow> resourceList"
  hp_next :: addr

fun deref :: "heap \<Rightarrow> addr option \<Rightarrow> resourceList" where
  "deref h None = []"
| "deref h (Some a) = hp_maps h a"

definition allocMap :: "resourceList \<Rightarrow> heap \<Rightarrow> addr \<times> heap" where
  "allocMap m h = (hp_next h, h\<lparr>hp_maps := (hp_maps h)(hp_next h := m), hp_next := Suc (hp_next h)\<rparr>)"

text \<open>\<open>m[k] = v\<close> on a map that is not nil.\<close>

definition writeMap :: "addr \<Rightarrow> string \<Rightarrow> quantity \<Rightarrow> heap \<Rightarrow> heap" where
  "writeMap a k v h = h\<lparr>hp_maps := (hp_maps h)(a := AList.update k v (hp_maps h a))\<rparr>"

text \<open>\<open>ResourceList.DeepCopy\<close>: nil stays nil, anything else gets a map of its own.\<close>

fun copyMap :: "addr option \<Rightarrow> heap \<Rightarrow> addr option \<times> heap" where
  "copyMap None h = (None, h)"
| "copyMap (Some a) h = (case allocMap (hp_maps h a) h of (b, h') \<Rightarrow> (Some b, h'))"

text \<open>Reading a decoded API object: the list as it came over the wire, or nil.\<close>

fun loadMap :: "resourceList option \<Rightarrow> heap \<Rightarrow> addr option \<times> heap" where
  "loadMap None h = (None, h)"
| "loadMap (Some m) h = (case allocMap m h of (b, h') \<Rightarrow> (Some b, h'))"

text \<open>Encoding for the wire: the current content of the map.\<close>

definition valMap :: "heap \<Rightarrow> addr option \<Rightarrow> resourceList option" where
  "valMap h r = map_option (hp_maps h) r"

text \<open>
  A reference is live when it points below the allocation mark; \<open>heapExt\<close> says that a step
  only allocated: no map that existed before it changed.
\<close>

definition liveRef :: "heap \<Rightarrow> addr option \<Rightarrow> bool" where
  "liveRef h r \<longleftrightarrow> (\<forall>a. r = Some a \<longrightarrow> a < hp_next h)"

definition heapExt :: "heap \<Rightarrow> heap \<Rightarrow> bool" where
  "heapExt h h' \<longleftrightarrow> hp_next h \<le> hp_next h' \<and> (\<forall>a < hp_next h. hp_maps h' a = hp_maps h a)"

lemma liveRef_None [simp]: "liveRef h None"
  by (simp add: liveRef_def)

lemma liveRef_Some [simp]: "liveRef h (Some a) \<longleftrightarrow> a < hp_next h"
  by (simp add: liveRef_def)

lemma heapExt_refl [simp, intro]: "heapExt h h"
  by (simp add: heapExt_def)

lemma heapExt_trans [trans]: "heapExt u v \<Longrightarrow> heapExt v w \<Longrightarrow> heapExt u w"
  by (auto simp: heapExt_def)

lemma heapExt_live: "heapExt h h' \<Longrightarrow> liveRef h r \<Longrightarrow> liveRef h' r"
  by (cases r) (auto simp: heapExt_def)

lemma heapExt_deref: "heapExt h h' \<Longrightarrow> liveRef h r \<Longrightarrow> deref h' r = deref h r"
  by (cases r) (auto simp: heapExt_def)

lemma heapExt_valMap: "heapExt h h' \<Longrightarrow> liveRef h r \<Longrightarrow> valMap h' r = valMap h r"
  by (cases r) (auto simp: heapExt_def valMap_def)

lemma heapExt_allocMap: "heapExt h (snd (allocMap m h))"
  by (auto simp: heapExt_def allocMap_def)

lemma heapExt_loadMap: "heapExt h (snd (loadMap r h))"
  by (cases r) (auto simp: heapExt_def allocMap_def)

lemma heapExt_copyMap: "heapExt h (snd (copyMap r h))"
  by (cases r) (auto simp: heapExt_def allocMap_def)

lemma copyMap_val: "copyMap r h = (r', h') \<Longrightarrow> valMap h' r' = valMap h r"
  by (cases r) (auto simp: allocMap_def valMap_def)

lemma copyMap_live: "copyMap r h = (r', h') \<Longrightarrow> liveRef h' r'"
  by (cases r) (auto simp: allocMap_def)

lemma copyMap_fresh: "copyMap r h = (Some a, h') \<Longrightarrow> hp_next h \<le> a"
  by (cases r) (auto simp: allocMap_def)

lemma loadMap_val: "loadMap m h = (r', h') \<Longrightarrow> valMap h' r' = m"
  by (cases m) (auto simp: allocMap_def valMap_def)

lemma loadMap_live: "loadMap m h = (r', h') \<Longrightarrow> liveRef h' r'"
  by (cases m) (auto simp: allocMap_def)

lemma deref_valMap: "deref h r = (case valMap h r of None \<Rightarrow> [] | Some m \<Rightarrow> m)"
  by (cases r) (auto simp: valMap_def)

lemma writeMap_next [simp]: "hp_next (writeMap a k v h) = hp_next h"
  by (simp add: writeMap_def)

lemma writeMap_same: "hp_maps (writeMap a k v h) a = AList.update k v (hp_maps h a)"
  by (simp add: writeMap_def)

lemma writeMap_other: "b \<noteq> a \<Longrightarrow> hp_maps (writeMap a k v h) b = hp_maps h b"
  by (simp add: writeMap_def)

end
