(* ===== verification/ApiTypes.thy ===== *)
theory ApiTypes
  imports GoHeap
begin

text \<open>
  The API objects the controller handles. A record that holds resource lists is polymorphic in
  how it holds them: \<open>'m = addr option\<close> is the object in memory (references into the heap),
  \<open>'m = resourceList option\<close> the object on the wire. \<open>trav*\<close> visits the references of an
  object in field order; with \<open>loadMap\<close> it decodes a wire object, with \<open>copyMap\<close> it is the
  generated \<open>DeepCopy\<close>. Both are interpretations of one locale.
\<close>

subsection \<open>Records\<close>

record 'm rqSpec =
  spec_hard :: 'm
  spec_scopes :: "string list"
  spec_scopeSelector :: "string option"

record 'm resourceQuota =
  rq_name :: string
  rq_ns :: string
  rq_rv :: string
  rq_spec :: "'m rqSpec"
  rq_stHard :: 'm
  rq_stUsed :: 'm

record 'm rqNameAndSpec =
  ns_name :: string
  ns_spec :: "'m rqSpec"

record 'm vmmrq =
  v_name :: string
  v_ns :: string
  v_rv :: string
  v_specAdd :: 'm
  v_add :: 'm
  v_migs :: "(string \<times> string list) list option"
  v_orig :: "'m rqNameAndSpec list"

type_synonym href = "addr option"
type_synonym wire = "resourceList option"

datatype migrationPhase =
    MigrationPhaseUnset | MigrationPending | MigrationScheduling | MigrationScheduled
  | MigrationPreparingTarget | MigrationTargetReady | MigrationRunning
  | MigrationSucceeded | MigrationFailed

text \<open>\<open>m_conds = None\<close> is the nil slice; a condition is its type.\<close>

record migration =
  m_name :: string
  m_ns :: string
  m_uid :: string
  m_vmiName :: string
  m_phase :: migrationPhase
  m_conds :: "string list option"

record vmi =
  vmi_name :: string
  vmi_ns :: string
  vmi_uid :: string
  vmi_node :: string

text \<open>A pod: the metadata the sources read; the rest of it travels unread in \<open>pod_spec\<close>.\<close>

record pod =
  pod_name :: string
  pod_ns :: string
  pod_labels :: "(string \<times> string) list"
  pod_spec :: string

record limitRangeItem =
  lri_type :: string
  lri_default :: resourceList
  lri_defaultRequest :: resourceList

record limitRange =
  lr_limits :: "limitRangeItem list"

subsection \<open>Objects as containers of resource lists\<close>

definition mapSpec :: "('a \<Rightarrow> 'b) \<Rightarrow> 'a rqSpec \<Rightarrow> 'b rqSpec" where
  "mapSpec f s = \<lparr>spec_hard = f (spec_hard s), spec_scopes = spec_scopes s,
                  spec_scopeSelector = spec_scopeSelector s\<rparr>"

definition mapNameSpec :: "('a \<Rightarrow> 'b) \<Rightarrow> 'a rqNameAndSpec \<Rightarrow> 'b rqNameAndSpec" where
  "mapNameSpec f x = \<lparr>ns_name = ns_name x, ns_spec = mapSpec f (ns_spec x)\<rparr>"

definition mapRQ :: "('a \<Rightarrow> 'b) \<Rightarrow> 'a resourceQuota \<Rightarrow> 'b resourceQuota" where
  "mapRQ f q = \<lparr>rq_name = rq_name q, rq_ns = rq_ns q, rq_rv = rq_rv q,
                rq_spec = mapSpec f (rq_spec q), rq_stHard = f (rq_stHard q), rq_stUsed = f (rq_stUsed q)\<rparr>"

definition mapVmmrq :: "('a \<Rightarrow> 'b) \<Rightarrow> 'a vmmrq \<Rightarrow> 'b vmmrq" where
  "mapVmmrq f v = \<lparr>v_name = v_name v, v_ns = v_ns v, v_rv = v_rv v, v_specAdd = f (v_specAdd v),
                   v_add = f (v_add v), v_migs = v_migs v, v_orig = map (mapNameSpec f) (v_orig v)\<rparr>"

abbreviation valSpec :: "heap \<Rightarrow> href rqSpec \<Rightarrow> wire rqSpec" where
  "valSpec h \<equiv> mapSpec (valMap h)"

abbreviation valNameSpec :: "heap \<Rightarrow> href rqNameAndSpec \<Rightarrow> wire rqNameAndSpec" where
  "valNameSpec h \<equiv> mapNameSpec (valMap h)"

abbreviation valRQ :: "heap \<Rightarrow> href resourceQuota \<Rightarrow> wire resourceQuota" where
  "valRQ h \<equiv> mapRQ (valMap h)"

abbreviation valVmmrq :: "heap \<Rightarrow> href vmmrq \<Rightarrow> wire vmmrq" where
  "valVmmrq h \<equiv> mapVmmrq (valMap h)"

lemma mapSpec_simps [simp]:
  "spec_hard (mapSpec f s) = f (spec_hard s)"
  "spec_scopes (mapSpec f s) = spec_scopes s"
  "spec_scopeSelector (mapSpec f s) = spec_scopeSelector s"
  by (simp_all add: mapSpec_def)

lemma mapNameSpec_simps [simp]:
  "ns_name (mapNameSpec f x) = ns_name x"
  "ns_spec (mapNameSpec f x) = mapSpec f (ns_spec x)"
  by (simp_all add: mapNameSpec_def)

lemma mapRQ_simps [simp]:
  "rq_name (mapRQ f q) = rq_name q"
  "rq_ns (mapRQ f q) = rq_ns q"
  "rq_rv (mapRQ f q) = rq_rv q"
  "rq_spec (mapRQ f q) = mapSpec f (rq_spec q)"
  "rq_stHard (mapRQ f q) = f (rq_stHard q)"
  "rq_stUsed (mapRQ f q) = f (rq_stUsed q)"
  by (simp_all add: mapRQ_def)

lemma mapVmmrq_simps [simp]:
  "v_name (mapVmmrq f v) = v_name v"
  "v_ns (mapVmmrq f v) = v_ns v"
  "v_rv (mapVmmrq f v) = v_rv v"
  "v_specAdd (mapVmmrq f v) = f (v_specAdd v)"
  "v_add (mapVmmrq f v) = f (v_add v)"
  "v_migs (mapVmmrq f v) = v_migs v"
  "v_orig (mapVmmrq f v) = map (mapNameSpec f) (v_orig v)"
  by (simp_all add: mapVmmrq_def)

lemma mapSpec_cong [cong]:
  "s = t \<Longrightarrow> f (spec_hard t) = g (spec_hard t) \<Longrightarrow> mapSpec f s = mapSpec g t"
  by (simp add: mapSpec_def)

subsection \<open>Live objects\<close>

definition liveNameSpec :: "heap \<Rightarrow> href rqNameAndSpec \<Rightarrow> bool" where
  "liveNameSpec h x \<longleftrightarrow> liveRef h (spec_hard (ns_spec x))"

definition liveRQ :: "heap \<Rightarrow> href resourceQuota \<Rightarrow> bool" where
  "liveRQ h q \<longleftrightarrow> liveRef h (spec_hard (rq_spec q)) \<and> liveRef h (rq_stHard q) \<and> liveRef h (rq_stUsed q)"

definition liveVmmrq :: "heap \<Rightarrow> href vmmrq \<Rightarrow> bool" where
  "liveVmmrq h v \<longleftrightarrow> liveRef h (v_specAdd v) \<and> liveRef h (v_add v) \<and> (\<forall>x \<in> set (v_orig v). liveNameSpec h x)"

lemma heapExt_liveNameSpec: "heapExt h h' \<Longrightarrow> liveNameSpec h x \<Longrightarrow> liveNameSpec h' x"
  by (auto simp: liveNameSpec_def intro: heapExt_live)

lemma heapExt_liveRQ: "heapExt h h' \<Longrightarrow> liveRQ h q \<Longrightarrow> liveRQ h' q"
  by (auto simp: liveRQ_def intro: heapExt_live)

lemma heapExt_liveVmmrq: "heapExt h h' \<Longrightarrow> liveVmmrq h v \<Longrightarrow> liveVmmrq h' v"
  by (auto simp: liveVmmrq_def intro: heapExt_live heapExt_liveNameSpec)

lemma heapExt_valNameSpec: "heapExt h h' \<Longrightarrow> liveNameSpec h x \<Longrightarrow> valNameSpec h' x = valNameSpec h x"
  by (simp add: liveNameSpec_def mapNameSpec_def mapSpec_def heapExt_valMap)

lemma heapExt_valRQ: "heapExt h h' \<Longrightarrow> liveRQ h q \<Longrightarrow> valRQ h' q = valRQ h q"
  by (simp add: liveRQ_def mapRQ_def mapSpec_def heapExt_valMap)

lemma heapExt_valVmmrq: "heapExt h h' \<Longrightarrow> liveVmmrq h v \<Longrightarrow> valVmmrq h' v = valVmmrq h v"
  by (simp add: liveVmmrq_def mapVmmrq_def heapExt_valMap heapExt_valNameSpec)

subsection \<open>Traversals: decoding and deep copies\<close>

definition travNameSpec ::
  "('a \<Rightarrow> heap \<Rightarrow> 'b \<times> heap) \<Rightarrow> 'a rqNameAndSpec \<Rightarrow> heap \<Rightarrow> 'b rqNameAndSpec \<times> heap" where
  "travNameSpec f x h =
     (case f (spec_hard (ns_spec x)) h of (r, h1) \<Rightarrow> (mapNameSpec (\<lambda>_. r) x, h1))"

fun travNameSpecs ::
  "('a \<Rightarrow> heap \<Rightarrow> 'b \<times> heap) \<Rightarrow> 'a rqNameAndSpec list \<Rightarrow> heap \<Rightarrow> 'b rqNameAndSpec list \<times> heap" where
  "travNameSpecs f [] h = ([], h)"
| "travNameSpecs f (x # xs) h =
     (case travNameSpec f x h of (y, h1) \<Rightarrow>
      case travNameSpecs f xs h1 of (ys, h2) \<Rightarrow> (y # ys, h2))"

definition travRQ ::
  "('a \<Rightarrow> heap \<Rightarrow> 'b \<times> heap) \<Rightarrow> 'a resourceQuota \<Rightarrow> heap \<Rightarrow> 'b resourceQuota \<times> heap" where
  "travRQ f q h =
     (case f (spec_hard (rq_spec q)) h of (a, h1) \<Rightarrow>
      case f (rq_stHard q) h1 of (b, h2) \<Rightarrow>
      case f (rq_stUsed q) h2 of (c, h3) \<Rightarrow>
        (\<lparr>rq_name = rq_name q, rq_ns = rq_ns q, rq_rv = rq_rv q,
          rq_spec = mapSpec (\<lambda>_. a) (rq_spec q), rq_stHard = b, rq_stUsed = c\<rparr>, h3))"

definition travVmmrq ::
  "('a \<Rightarrow> heap \<Rightarrow> 'b \<times> heap) \<Rightarrow> 'a vmmrq \<Rightarrow> heap \<Rightarrow> 'b vmmrq \<times> heap" where
  "travVmmrq f v h =
     (case f (v_specAdd v) h of (a, h1) \<Rightarrow>
      case f (v_add v) h1 of (b, h2) \<Rightarrow>
      case travNameSpecs f (v_orig v) h2 of (os, h3) \<Rightarrow>
        (\<lparr>v_name = v_name v, v_ns = v_ns v, v_rv = v_rv v, v_specAdd = a, v_add = b,
          v_migs = v_migs v, v_orig = os\<rparr>, h3))"

definition loadVmmrq :: "wire vmmrq \<Rightarrow> heap \<Rightarrow> href vmmrq \<times> heap" where
  "loadVmmrq = travVmmrq loadMap"

definition deepCopyVmmrq :: "href vmmrq \<Rightarrow> heap \<Rightarrow> href vmmrq \<times> heap" where
  "deepCopyVmmrq = travVmmrq copyMap"

definition deepCopyNameSpec :: "href rqNameAndSpec \<Rightarrow> heap \<Rightarrow> href rqNameAndSpec \<times> heap" where
  "deepCopyNameSpec = travNameSpec copyMap"

definition deepCopyRQ :: "href resourceQuota \<Rightarrow> heap \<Rightarrow> href resourceQuota \<times> heap" where
  "deepCopyRQ = travRQ copyMap"

text \<open>
  The interface: one reference visited. \<open>val\<close> is what the visited reference is to read
  afterwards, \<open>ok\<close> when that is defined.
\<close>

locale ref_traversal =
  fixes f :: "'a \<Rightarrow> heap \<Rightarrow> href \<times> heap"
    and val :: "heap \<Rightarrow> 'a \<Rightarrow> wire"
    and ok :: "heap \<Rightarrow> 'a \<Rightarrow> bool"
  assumes f_ext: "f x h = (r, h') \<Longrightarrow> heapExt h h'"
    and f_live: "f x h = (r, h') \<Longrightarrow> liveRef h' r"
    and f_fresh: "f x h = (Some a, h') \<Longrightarrow> hp_next h \<le> a"
    and f_val: "f x h = (r, h') \<Longrightarrow> valMap h' r = val h x"
    and val_ext: "heapExt h h' \<Longrightarrow> ok h x \<Longrightarrow> val h' x = val h x"
    and ok_ext: "heapExt h h' \<Longrightarrow> ok h x \<Longrightarrow> ok h' x"
begin

definition okNameSpec :: "heap \<Rightarrow> 'a rqNameAndSpec \<Rightarrow> bool" where
  "okNameSpec h x \<longleftrightarrow> ok h (spec_hard (ns_spec x))"

definition okRQ :: "heap \<Rightarrow> 'a resourceQuota \<Rightarrow> bool" where
  "okRQ h q \<longleftrightarrow> ok h (spec_hard (rq_spec q)) \<and> ok h (rq_stHard q) \<and> ok h (rq_stUsed q)"

definition okVmmrq :: "heap \<Rightarrow> 'a vmmrq \<Rightarrow> bool" where
  "okVmmrq h v \<longleftrightarrow> ok h (v_specAdd v) \<and> ok h (v_add v) \<and> (\<forall>x \<in> set (v_orig v). okNameSpec h x)"

lemma okNameSpec_ext: "heapExt h h' \<Longrightarrow> okNameSpec h x \<Longrightarrow> okNameSpec h' x"
  by (auto simp: okNameSpec_def intro: ok_ext)

lemma mapNameSpec_ext: "heapExt h h' \<Longrightarrow> okNameSpec h x \<Longrightarrow> mapNameSpec (val h') x = mapNameSpec (val h) x"
  by (simp add: okNameSpec_def mapNameSpec_def mapSpec_def val_ext)

lemma travNameSpec_correct:
  assumes "travNameSpec f x h = (y, h')"
  shows "heapExt h h' \<and> liveNameSpec h' y \<and> valNameSpec h' y = mapNameSpec (val h) x
     \<and> (\<forall>a. spec_hard (ns_spec y) = Some a \<longrightarrow> hp_next h \<le> a)"
proof -
  obtain r h1 where r: "f (spec_hard (ns_spec x)) h = (r, h1)" by fastforce
  with assms have y: "y = mapNameSpec (\<lambda>_. r) x" "h' = h1" by (auto simp: travNameSpec_def)
  show ?thesis
    using f_ext [OF r] f_live [OF r] f_val [OF r] f_fresh r
    by (auto simp: y liveNameSpec_def mapNameSpec_def mapSpec_def)
qed

lemma travNameSpecs_correct:
  assumes "travNameSpecs f xs h = (ys, h')" and "\<forall>x \<in> set xs. okNameSpec h x"
  shows "heapExt h h' \<and> (\<forall>y \<in> set ys. liveNameSpec h' y) \<and> map (valNameSpec h') ys = map (mapNameSpec (val h)) xs
     \<and> (\<forall>y \<in> set ys. \<forall>a. spec_hard (ns_spec y) = Some a \<longrightarrow> hp_next h \<le> a)"
  using assms
proof (induction xs arbitrary: ys h)
  case Nil
  then show ?case by simp
next
  case (Cons x xs)
  obtain y h1 where y: "travNameSpec f x h = (y, h1)" by fastforce
  obtain zs h2 where zs: "travNameSpecs f xs h1 = (zs, h2)" by fastforce
  have eqs: "ys = y # zs" "h' = h2" using Cons.prems y zs by auto
  note Y = travNameSpec_correct [OF y]
  have ok1: "\<forall>x \<in> set xs. okNameSpec h1 x" using Cons.prems Y by (auto intro: okNameSpec_ext)
  have IH: "heapExt h1 h2 \<and> (\<forall>y \<in> set zs. liveNameSpec h2 y)
      \<and> map (valNameSpec h2) zs = map (mapNameSpec (val h1)) xs
      \<and> (\<forall>y \<in> set zs. \<forall>a. spec_hard (ns_spec y) = Some a \<longrightarrow> hp_next h1 \<le> a)"
    using Cons.IH [of h1 zs] zs eqs ok1 by simp
  have m: "map (mapNameSpec (val h1)) xs = map (mapNameSpec (val h)) xs"
    using Y Cons.prems(2) by (auto intro: mapNameSpec_ext)
  have e: "heapExt h h2" using Y IH by (blast intro: heapExt_trans)
  have y2: "liveNameSpec h2 y" "valNameSpec h2 y = mapNameSpec (val h) x"
    using Y IH by (metis heapExt_liveNameSpec, metis heapExt_valNameSpec)
  have le: "hp_next h \<le> hp_next h1" using Y by (simp add: heapExt_def)
  have fr: "\<forall>z \<in> set zs. \<forall>a. spec_hard (ns_spec z) = Some a \<longrightarrow> hp_next h \<le> a"
    using IH le by (meson le_trans)
  show ?case using e y2 fr IH Y m by (simp add: eqs)
qed

lemma travRQ_correct:
  assumes "travRQ f q h = (q', h')" and "okRQ h q"
  shows "heapExt h h' \<and> liveRQ h' q' \<and> valRQ h' q' = mapRQ (val h) q
     \<and> (\<forall>a. spec_hard (rq_spec q') = Some a \<longrightarrow> hp_next h \<le> a)
     \<and> (\<forall>a. rq_stHard q' = Some a \<longrightarrow> hp_next h \<le> a)
     \<and> (\<forall>a. rq_stUsed q' = Some a \<longrightarrow> hp_next h \<le> a)"
proof -
  obtain a h1 where a: "f (spec_hard (rq_spec q)) h = (a, h1)" by fastforce
  obtain b h2 where b: "f (rq_stHard q) h1 = (b, h2)" by fastforce
  obtain c h3 where c: "f (rq_stUsed q) h2 = (c, h3)" by fastforce
  note e = f_ext [OF a] f_ext [OF b] f_ext [OF c]
  have q': "q' = \<lparr>rq_name = rq_name q, rq_ns = rq_ns q, rq_rv = rq_rv q,
      rq_spec = mapSpec (\<lambda>_. a) (rq_spec q), rq_stHard = b, rq_stUsed = c\<rparr>" "h' = h3"
    using assms(1) a b c by (auto simp: travRQ_def)
  have le: "hp_next h \<le> hp_next h1" "hp_next h1 \<le> hp_next h2" using e by (auto simp: heapExt_def)
  have v: "valMap h3 a = val h (spec_hard (rq_spec q))" "valMap h3 b = val h (rq_stHard q)"
      "valMap h3 c = val h (rq_stUsed q)"
    using a b c e assms(2) f_val f_live val_ext
    by (metis (no_types, lifting) heapExt_trans heapExt_valMap okRQ_def)+
  have l: "liveRef h3 a" "liveRef h3 b" "liveRef h3 c"
    using f_live [OF a] f_live [OF b] f_live [OF c] e by (meson heapExt_live heapExt_trans)+
  have fr: "\<forall>x. a = Some x \<longrightarrow> hp_next h \<le> x" "\<forall>x. b = Some x \<longrightarrow> hp_next h \<le> x" "\<forall>x. c = Some x \<longrightarrow> hp_next h \<le> x"
    using f_fresh a b c le by fastforce+
  show ?thesis
    using v l fr e by (auto simp: q' liveRQ_def mapRQ_def mapSpec_def intro: heapExt_trans)
qed

lemma travVmmrq_correct:
  assumes "travVmmrq f v h = (v', h')" and "okVmmrq h v"
  shows "heapExt h h' \<and> liveVmmrq h' v' \<and> valVmmrq h' v' = mapVmmrq (val h) v
     \<and> (\<forall>y \<in> set (v_orig v'). \<forall>a. spec_hard (ns_spec y) = Some a \<longrightarrow> hp_next h \<le> a)
     \<and> (\<forall>a. v_specAdd v' = Some a \<longrightarrow> hp_next h \<le> a) \<and> (\<forall>a. v_add v' = Some a \<longrightarrow> hp_next h \<le> a)"
proof -
  obtain a h1 where a: "f (v_specAdd v) h = (a, h1)" by fastforce
  obtain b h2 where b: "f (v_add v) h1 = (b, h2)" by fastforce
  obtain os h3 where os: "travNameSpecs f (v_orig v) h2 = (os, h3)" by fastforce
  note e = f_ext [OF a] f_ext [OF b]
  have e12: "heapExt h h2" using e by (rule heapExt_trans)
  have v': "v' = \<lparr>v_name = v_name v, v_ns = v_ns v, v_rv = v_rv v, v_specAdd = a, v_add = b,
          v_migs = v_migs v, v_orig = os\<rparr>" "h' = h3"
    using assms(1) a b os by (auto simp: travVmmrq_def)
  have ok2: "\<forall>x \<in> set (v_orig v). okNameSpec h2 x"
    using assms(2) e12 by (auto simp: okVmmrq_def intro: okNameSpec_ext)
  note O = travNameSpecs_correct [OF os ok2]
  have m: "map (mapNameSpec (val h2)) (v_orig v) = map (mapNameSpec (val h)) (v_orig v)"
    using assms(2) e12 by (auto simp: okVmmrq_def intro: mapNameSpec_ext)
  have vv: "valMap h3 a = val h (v_specAdd v)" "valMap h3 b = val h (v_add v)"
    using a b e O assms(2) f_val f_live val_ext
    by (metis (no_types, lifting) heapExt_trans heapExt_valMap okVmmrq_def)+
  have l: "liveRef h3 a" "liveRef h3 b"
    using f_live [OF a] f_live [OF b] e O by (meson heapExt_live heapExt_trans)+
  have le: "hp_next h \<le> hp_next h1" "hp_next h \<le> hp_next h2" using e e12 by (auto simp: heapExt_def)
  have fr: "\<forall>x. a = Some x \<longrightarrow> hp_next h \<le> x" "\<forall>x. b = Some x \<longrightarrow> hp_next h \<le> x"
    using f_fresh a b le(1) by (fastforce, fastforce)
  have "\<forall>y \<in> set os. \<forall>a. spec_hard (ns_spec y) = Some a \<longrightarrow> hp_next h \<le> a"
    using O le(2) by (meson le_trans)
  moreover have "heapExt h h3" using e12 O by (blast intro: heapExt_trans)
  ultimately show ?thesis
    using vv l O m fr by (simp add: v' liveVmmrq_def mapVmmrq_def)
qed

end

interpretation load: ref_traversal loadMap "\<lambda>h m. m" "\<lambda>h m. True"
proof unfold_locales
  show "loadMap x h = (r, h') \<Longrightarrow> heapExt h h'" for x h r h'
    using heapExt_loadMap [of h x] by simp
  show "loadMap x h = (r, h') \<Longrightarrow> liveRef h' r" for x h r h' by (rule loadMap_live)
  show "loadMap x h = (Some a, h') \<Longrightarrow> hp_next h \<le> a" for x h a h'
    by (cases x) (auto simp: allocMap_def)
  show "loadMap x h = (r, h') \<Longrightarrow> valMap h' r = x" for x h r h' by (rule loadMap_val)
qed auto

interpretation copy: ref_traversal copyMap valMap liveRef
proof unfold_locales
  show "copyMap x h = (r, h') \<Longrightarrow> heapExt h h'" for x h r h'
    using heapExt_copyMap [of h x] by simp
  show "copyMap x h = (r, h') \<Longrightarrow> liveRef h' r" for x h r h' by (rule copyMap_live)
  show "copyMap x h = (Some a, h') \<Longrightarrow> hp_next h \<le> a" for x h a h' by (rule copyMap_fresh)
  show "copyMap x h = (r, h') \<Longrightarrow> valMap h' r = valMap h x" for x h r h' by (rule copyMap_val)
qed (auto intro: heapExt_valMap heapExt_live)

lemma copy_ok_iff [simp]:
  "copy.okNameSpec h x \<longleftrightarrow> liveNameSpec h x"
  "copy.okRQ h q \<longleftrightarrow> liveRQ h q"
  "copy.okVmmrq h v \<longleftrightarrow> liveVmmrq h v"
  by (auto simp: copy.okNameSpec_def copy.okRQ_def copy.okVmmrq_def
      liveNameSpec_def liveRQ_def liveVmmrq_def)

lemma load_ok [simp]: "load.okVmmrq h v"
  by (simp add: load.okVmmrq_def load.okNameSpec_def)

lemma mapVmmrq_ident: "mapVmmrq (\<lambda>m. m) v = v"
  by (cases v) (simp add: mapVmmrq_def mapNameSpec_def mapSpec_def map_idI)

lemma loadVmmrq_correct:
  "loadVmmrq v h = (v', h') \<Longrightarrow> heapExt h h' \<and> liveVmmrq h' v' \<and> valVmmrq h' v' = v
     \<and> (\<forall>a. v_specAdd v' = Some a \<longrightarrow> hp_next h \<le> a) \<and> (\<forall>a. v_add v' = Some a \<longrightarrow> hp_next h \<le> a)"
  using load.travVmmrq_correct [of v h v' h'] by (simp add: loadVmmrq_def mapVmmrq_ident)

lemma deepCopyVmmrq_correct:
  "deepCopyVmmrq v h = (v', h') \<Longrightarrow> liveVmmrq h v \<Longrightarrow>
     heapExt h h' \<and> liveVmmrq h' v' \<and> valVmmrq h' v' = valVmmrq h v"
  using copy.travVmmrq_correct [of v h v' h'] by (simp add: deepCopyVmmrq_def)

lemma deepCopyNameSpec_correct:
  "deepCopyNameSpec x h = (y, h') \<Longrightarrow>
     heapExt h h' \<and> liveNameSpec h' y \<and> valNameSpec h' y = valNameSpec h x
     \<and> (\<forall>a. spec_hard (ns_spec y) = Some a \<longrightarrow> hp_next h \<le> a)"
  using copy.travNameSpec_correct [of x h y h'] by (simp add: deepCopyNameSpec_def)

lemma deepCopyRQ_correct:
  "deepCopyRQ q h = (q', h') \<Longrightarrow> liveRQ h q \<Longrightarrow>
     heapExt h h' \<and> liveRQ h' q' \<and> valRQ h' q' = valRQ h q
     \<and> (\<forall>a. spec_hard (rq_spec q') = Some a \<longrightarrow> hp_next h \<le> a)
     \<and> (\<forall>a. rq_stHard q' = Some a \<longrightarrow> hp_next h \<le> a)
     \<and> (\<forall>a. rq_stUsed q' = Some a \<longrightarrow> hp_next h \<le> a)"
  using copy.travRQ_correct [of q h q' h'] by (simp add: deepCopyRQ_def)

end
