(* ===== verification/NamespaceCache.thy ===== *)
theory NamespaceCache
  imports Prelude
begin

text \<open>
  \<open>pkg/mtq-controller/namespace-lock-utils/namespace-cache.go\<close>: what the controller remembers
  about the lock of each namespace. The locale \<open>lock_cache\<close> is the interface the controller
  relies on; its client lemmas say when such a cache stays truthful about a set of locked
  namespaces.
\<close>

datatype lockState = Unknown | Locked | Unlocked

type_synonym nsCache = "string \<rightharpoonup> lockState"

definition NewNamespaceCache :: nsCache where
  "NewNamespaceCache = Map.empty"

definition MarkLockStateUnlocked :: "string \<Rightarrow> nsCache \<Rightarrow> nsCache" where
  "MarkLockStateUnlocked namespace nc = nc(namespace \<mapsto> Unlocked)"

definition MarkLockStateLocked :: "string \<Rightarrow> nsCache \<Rightarrow> nsCache" where
  "MarkLockStateLocked namespace nc = nc(namespace \<mapsto> Locked)"

definition GetLockState :: "nsCache \<Rightarrow> string \<Rightarrow> lockState" where
  "GetLockState nc namespace = (case nc namespace of Some lockState \<Rightarrow> lockState | None \<Rightarrow> Unknown)"

subsection \<open>The interface\<close>

locale lock_cache =
  fixes emptyCache :: "'c"
    and get :: "'c \<Rightarrow> string \<Rightarrow> lockState"
    and markLocked :: "string \<Rightarrow> 'c \<Rightarrow> 'c"
    and markUnlocked :: "string \<Rightarrow> 'c \<Rightarrow> 'c"
  assumes get_empty: "get emptyCache ns = Unknown"
    and get_markLocked: "get (markLocked ns c) ns' = (if ns' = ns then Locked else get c ns')"
    and get_markUnlocked: "get (markUnlocked ns c) ns' = (if ns' = ns then Unlocked else get c ns')"
begin

definition truthful :: "'c \<Rightarrow> string set \<Rightarrow> bool" where
  "truthful c L \<longleftrightarrow> (\<forall>ns. (get c ns = Locked \<longrightarrow> ns \<in> L) \<and> (get c ns = Unlocked \<longrightarrow> ns \<notin> L))"

lemma truthful_empty: "truthful emptyCache L"
  by (simp add: truthful_def get_empty)

lemma truthful_lock: "truthful c L \<Longrightarrow> truthful (markLocked ns c) (insert ns L)"
  by (simp add: truthful_def get_markLocked)

lemma truthful_unlock: "truthful c L \<Longrightarrow> truthful (markUnlocked ns c) (L - {ns})"
  by (simp add: truthful_def get_markUnlocked)

lemma truthful_Locked: "truthful c L \<Longrightarrow> get c ns = Locked \<Longrightarrow> ns \<in> L"
  by (simp add: truthful_def)

lemma truthful_Unlocked: "truthful c L \<Longrightarrow> get c ns = Unlocked \<Longrightarrow> ns \<notin> L"
  by (simp add: truthful_def)

end

interpretation nsc: lock_cache NewNamespaceCache GetLockState MarkLockStateLocked MarkLockStateUnlocked
  by unfold_locales
    (auto simp: GetLockState_def NewNamespaceCache_def MarkLockStateLocked_def MarkLockStateUnlocked_def)

end
