(* ===== verification/WebhookConfig.thy ===== *)
theory WebhookConfig
  imports Prelude
begin

text \<open>
  The webhook configuration that locks a namespace
  (\<open>pkg/validating-webhook-lock/validating-webhook-lock.go\<close>): the object
  \<open>LockNamespace\<close> creates, and the comparison with which \<open>NamespaceLocked\<close> recognises it.
  Fields of the API types that the sources neither set nor read are left out. A nil pointer
  is \<open>None\<close>; a function that can dereference one returns an option, \<open>None\<close> for the panic.
\<close>

datatype failurePolicyType = Fail | Ignore
datatype sideEffectClass = SideEffectClassUnknown | SideEffectClassNone | SideEffectClassSome | SideEffectClassNoneOnDryRun
datatype matchPolicyType = Exact | Equivalent
datatype scopeType = ClusterScope | NamespacedScope | AllScopes
datatype operationType = OperationAll | OpCreate | OpUpdate | OpDelete | OpConnect

record serviceReference =
  svc_ns :: string
  svc_name :: string
  svc_path :: "string option"
  svc_port :: "int option"

record ruleWithOperations =
  rl_operations :: "operationType list"
  rl_apiGroups :: "string list"
  rl_apiVersions :: "string list"
  rl_resources :: "string list"
  rl_scope :: "scopeType option"

record labelSelector =
  sel_matchLabels :: "(string \<times> string) list"

record validatingWebhook =
  wh_name :: string
  wh_service :: "serviceReference option"
  wh_caBundle :: "nat list"
  wh_rules :: "ruleWithOperations list"
  wh_failurePolicy :: "failurePolicyType option"
  wh_matchPolicy :: "matchPolicyType option"
  wh_nsSelector :: "labelSelector option"
  wh_sideEffects :: "sideEffectClass option"
  wh_versions :: "string list"

record vwc =
  vwc_name :: string
  vwc_labels :: "(string \<times> string) list"
  vwc_webhooks :: "validatingWebhook list"

definition MTQLockServerServiceName :: string where
  "MTQLockServerServiceName = ''mtq-lock''"

definition LabelMetadataName :: string where
  "LabelMetadataName = ''kubernetes.io/metadata.name''"

definition lockName :: "string \<Rightarrow> string" where
  "lockName ns = ''lock.'' @ ns @ ''.com''"

lemma lockName_inj [simp]: "lockName a = lockName b \<longleftrightarrow> a = b"
  by (simp add: lockName_def)

definition lockRule :: "operationType list \<Rightarrow> string \<Rightarrow> ruleWithOperations" where
  "lockRule ops res =
     \<lparr>rl_operations = ops, rl_apiGroups = [''*''], rl_apiVersions = [''*''],
      rl_resources = [res], rl_scope = Some NamespacedScope\<rparr>"

definition getLockingValidatingWebhook :: "string \<Rightarrow> string \<Rightarrow> nat list \<Rightarrow> validatingWebhook" where
  "getLockingValidatingWebhook mtqNs nsToLock caBundle =
     \<lparr>wh_name = lockName nsToLock,
      wh_service = Some \<lparr>svc_ns = mtqNs, svc_name = MTQLockServerServiceName,
                         svc_path = Some ''/validate-pods'', svc_port = Some 443\<rparr>,
      wh_caBundle = caBundle,
      wh_rules =
        [lockRule [OpUpdate] ''resourcequotas'',
         lockRule [OpDelete, OpCreate] ''virtualmachinemigrationresourcequotas'',
         lockRule [OpCreate] ''pods''],
      wh_failurePolicy = Some Fail,
      wh_matchPolicy = Some Equivalent,
      wh_nsSelector = Some \<lparr>sel_matchLabels = [(LabelMetadataName, nsToLock)]\<rparr>,
      wh_sideEffects = Some SideEffectClassNone,
      wh_versions = [''v1'', ''v1beta1'']\<rparr>"

text \<open>The object \<open>LockNamespace\<close> sends.\<close>

definition lockingVWC :: "string \<Rightarrow> string \<Rightarrow> nat list \<Rightarrow> vwc" where
  "lockingVWC nsToLock mtqNS caBundle =
     \<lparr>vwc_name = lockName nsToLock,
      vwc_labels = [(''mtq-lock-server'', ''mtq-lock-server'')],
      vwc_webhooks = [getLockingValidatingWebhook mtqNS nsToLock caBundle]\<rparr>"

text \<open>
  \<open>if existing == nil || *existing != *expected { log(...); return false }\<close>. For the failure
  policy the log line dereferences the pointer that has just been found nil: \<open>ptrDiffers\<close> is
  the outcome of that condition, \<open>None\<close> for the panic, \<open>Some True\<close> for the early return. The
  log lines of the two policies after it print the pointers themselves.
\<close>

fun ptrDiffers :: "'a option \<Rightarrow> 'a \<Rightarrow> bool option" where
  "ptrDiffers None expected = None"
| "ptrDiffers (Some existing) expected = Some (existing \<noteq> expected)"

lemma ptrDiffers_bind:
  "(case ptrDiffers p x of None \<Rightarrow> None | Some True \<Rightarrow> Some False | Some False \<Rightarrow> k) = Some True \<longleftrightarrow>
     p = Some x \<and> k = Some True"
  by (cases p) (auto split: bool.splits)

definition isOurValidatingWebhookConfiguration ::
  "string \<Rightarrow> string \<Rightarrow> vwc \<Rightarrow> nat list \<Rightarrow> bool option" where
  "isOurValidatingWebhookConfiguration mtqNs lockedNs existingVWHC caBundle =
     (let expected = getLockingValidatingWebhook mtqNs lockedNs caBundle in
      if length (vwc_webhooks existingVWHC) \<noteq> 1 then Some False
      else let existing = vwc_webhooks existingVWHC ! 0 in
      if wh_caBundle existing \<noteq> wh_caBundle expected then Some False
      else if wh_name existing \<noteq> wh_name expected then Some False
      else if wh_versions existing \<noteq> wh_versions expected then Some False
      else if wh_nsSelector existing \<noteq> wh_nsSelector expected then Some False
      else case ptrDiffers (wh_failurePolicy existing) Fail of
        None \<Rightarrow> None | Some True \<Rightarrow> Some False | Some False \<Rightarrow>
      if wh_sideEffects existing \<noteq> Some SideEffectClassNone then Some False
      else if wh_matchPolicy existing \<noteq> Some Equivalent then Some False
      else if wh_service expected \<noteq> wh_service existing then Some False
      else if wh_rules expected \<noteq> wh_rules existing then Some False
      else Some True)"

subsection \<open>What the comparison decides\<close>

text \<open>The API server fills in the failure policy (documented defaulting).\<close>

definition defaulted :: "validatingWebhook \<Rightarrow> bool" where
  "defaulted wh \<longleftrightarrow> wh_failurePolicy wh \<noteq> None"

lemma isOur_True_iff:
  "isOurValidatingWebhookConfiguration mtqNs lockedNs c ca = Some True \<longleftrightarrow>
     vwc_webhooks c = [getLockingValidatingWebhook mtqNs lockedNs ca]"
proof (cases "vwc_webhooks c")
  case Nil
  then show ?thesis by (simp add: isOurValidatingWebhookConfiguration_def Let_def)
next
  case (Cons wh rest)
  show ?thesis
  proof (cases rest)
    case Nil
    let ?e = "getLockingValidatingWebhook mtqNs lockedNs ca"
    have e: "wh_failurePolicy ?e = Some Fail" "wh_sideEffects ?e = Some SideEffectClassNone"
      "wh_matchPolicy ?e = Some Equivalent"
      by (simp_all add: getLockingValidatingWebhook_def)
    have "isOurValidatingWebhookConfiguration mtqNs lockedNs c ca = Some True
      \<longleftrightarrow> wh_caBundle wh = wh_caBundle ?e \<and> wh_name wh = wh_name ?e \<and> wh_versions wh = wh_versions ?e
        \<and> wh_nsSelector wh = wh_nsSelector ?e \<and> wh_failurePolicy wh = Some Fail
        \<and> wh_sideEffects wh = Some SideEffectClassNone \<and> wh_matchPolicy wh = Some Equivalent
        \<and> wh_service ?e = wh_service wh \<and> wh_rules ?e = wh_rules wh"
      unfolding isOurValidatingWebhookConfiguration_def Let_def Cons Nil
      by (simp add: ptrDiffers_bind)
    also have "\<dots> \<longleftrightarrow> wh = ?e"
      using e by (auto intro!: validatingWebhook.equality)
    finally have "isOurValidatingWebhookConfiguration mtqNs lockedNs c ca = Some True \<longleftrightarrow> wh = ?e" .
    then show ?thesis by (simp add: Cons Nil)
  next
    case (Cons b bs)
    then show ?thesis
      using \<open>vwc_webhooks c = wh # rest\<close>
      by (simp add: isOurValidatingWebhookConfiguration_def Let_def)
  qed
qed

lemma isOur_no_panic:
  assumes "\<forall>wh \<in> set (vwc_webhooks c). defaulted wh"
  shows "isOurValidatingWebhookConfiguration mtqNs lockedNs c ca \<noteq> None"
proof (cases "length (vwc_webhooks c) = 1")
  case False
  then show ?thesis by (simp add: isOurValidatingWebhookConfiguration_def Let_def)
next
  case True
  then obtain wh where c: "vwc_webhooks c = [wh]" by (metis One_nat_def length_0_conv length_Suc_conv)
  with assms have "defaulted wh" by simp
  then show ?thesis
    by (auto simp: defaulted_def isOurValidatingWebhookConfiguration_def Let_def c split: bool.splits)
qed

lemma isOur_name_differs:
  assumes "vwc_webhooks c = [wh]" and "wh_name wh \<noteq> lockName lockedNs"
  shows "isOurValidatingWebhookConfiguration mtqNs lockedNs c ca = Some False"
  using assms by (simp add: isOurValidatingWebhookConfiguration_def Let_def getLockingValidatingWebhook_def)

end
