(* ===== verification/World.thy ===== *)
theory World
  imports ApiTypes NamespaceCache WebhookConfig
begin

text \<open>
  What the controller runs against. \<open>api\<close> is the Kubernetes API server, a service outside the
  repository: a record of functions on an unspecified server state \<open>'s\<close>, so that every theorem
  that takes an \<open>api\<close> holds for every behaviour of the server, failures included. \<open>env\<close> holds
  what one pass reads and does not change: the informer snapshots and the library functions of
  KubeVirt and Kubernetes the controller calls. \<open>world\<close> is what a pass changes: the heap of
  maps, the objects of the resource-quota informer (shared, and mutated in place by the
  controller), the namespace cache, the server, the log of API calls with their outcomes, and
  the events recorded.
\<close>

record 's api =
  api_listVmmrqs :: "string \<Rightarrow> 's \<Rightarrow> wire vmmrq list result \<times> 's"
  api_updateVmmrqStatus :: "wire vmmrq \<Rightarrow> 's \<Rightarrow> goerror option \<times> 's"
  api_updateRQ :: "wire resourceQuota \<Rightarrow> 's \<Rightarrow> goerror option \<times> 's"
  api_getVWC :: "string \<Rightarrow> 's \<Rightarrow> vwc result \<times> 's"
  api_createVWC :: "vwc \<Rightarrow> 's \<Rightarrow> goerror option \<times> 's"
  api_updateVWC :: "vwc \<Rightarrow> 's \<Rightarrow> goerror option \<times> 's"
  api_deleteVWC :: "string \<Rightarrow> 's \<Rightarrow> goerror option \<times> 's"
  api_bundleBytes :: "'s \<Rightarrow> nat list result \<times> 's"

datatype apiCall =
    ListVmmrqs string
  | UpdateVmmrqStatus "wire vmmrq"
  | UpdateRQ "wire resourceQuota"
  | GetVWC string
  | CreateVWC vwc
  | UpdateVWC vwc
  | DeleteVWC string
  | FetchBundle

record limitedResource =
  lim_resource :: string
  lim_matchContains :: "string list"

record env =
  e_mtqNs :: string
  e_migByKey :: "string \<Rightarrow> migration option result"
  e_migByNs :: "string \<Rightarrow> migration list result"
  e_migList :: "migration list"
  e_vmiByKey :: "string \<Rightarrow> vmi option result"
  e_podByNs :: "string \<Rightarrow> pod list result"
  e_lrByNs :: "string \<Rightarrow> limitRange list result"
  e_rqByNsErr :: "string \<Rightarrow> goerror option"
  e_rqByKeyErr :: "string \<Rightarrow> goerror option"
  e_selectorErr :: "(string \<times> string) list \<Rightarrow> goerror option"
  e_renderLaunchManifest :: "vmi \<Rightarrow> pod result"
  e_convertToCore :: "pod \<Rightarrow> pod result"
  e_podMutateLimit :: "limitRange \<Rightarrow> pod \<Rightarrow> pod result"
  e_convertFromCore :: "pod \<Rightarrow> pod result"
  e_usage :: "pod \<Rightarrow> string list result"
  e_checkRequest :: "wire resourceQuota \<Rightarrow> pod \<Rightarrow> limitedResource \<Rightarrow> goerror option"
  e_parallelMigrationsPerCluster :: nat
  e_parallelOutboundMigrationsPerNode :: nat
  e_rangeKeys :: "string list \<Rightarrow> string list"

text \<open>An event: the object's namespace and name, the reason, the message and the error text.\<close>

record event =
  ev_ns :: string
  ev_name :: string
  ev_reason :: string
  ev_message :: string
  ev_error :: string

record 's world =
  w_heap :: heap
  w_rqs :: "href resourceQuota list"
  w_nsc :: nsCache
  w_srv :: 's
  w_log :: "(apiCall \<times> goerror option) list"
  w_events :: "event list"

text \<open>Running one API call and recording it.\<close>

definition doRead :: "apiCall \<Rightarrow> ('s \<Rightarrow> 'a result \<times> 's) \<Rightarrow> 's world \<Rightarrow> 'a result \<times> 's world" where
  "doRead c f w = (case f (w_srv w) of (r, s) \<Rightarrow> (r, w\<lparr>w_srv := s, w_log := w_log w @ [(c, errOf r)]\<rparr>))"

definition doWrite :: "apiCall \<Rightarrow> ('s \<Rightarrow> goerror option \<times> 's) \<Rightarrow> 's world \<Rightarrow> goerror option \<times> 's world" where
  "doWrite c f w = (case f (w_srv w) of (r, s) \<Rightarrow> (r, w\<lparr>w_srv := s, w_log := w_log w @ [(c, r)]\<rparr>))"

text \<open>The calls a pass adds to the log.\<close>

definition logged :: "'s world \<Rightarrow> 's world \<Rightarrow> (apiCall \<times> goerror option) list" where
  "logged w w' = drop (length (w_log w)) (w_log w')"

definition logExt :: "'s world \<Rightarrow> 's world \<Rightarrow> bool" where
  "logExt w w' \<longleftrightarrow> take (length (w_log w)) (w_log w') = w_log w"

lemma logExt_refl [simp, intro]: "logExt w w"
  by (simp add: logExt_def)

lemma logExt_iff: "logExt w w' \<longleftrightarrow> (\<exists>l. w_log w' = w_log w @ l)"
  unfolding logExt_def by (metis append_eq_conv_conj append_take_drop_id)

lemma logExt_trans [trans]: "logExt u v \<Longrightarrow> logExt v w \<Longrightarrow> logExt u w"
  by (auto simp: logExt_iff)

lemma logged_append: "w_log w' = w_log w @ l \<Longrightarrow> logged w w' = l"
  by (simp add: logged_def)

lemma logged_trans: "logExt u v \<Longrightarrow> logExt v w \<Longrightarrow> logged u w = logged u v @ logged v w"
  by (auto simp: logExt_iff logged_def)

lemma logged_refl [simp]: "logged w w = []"
  by (simp add: logged_def)

lemma doRead_frame:
  assumes "doRead c f w = (r, w')"
  shows "w_heap w' = w_heap w" "w_rqs w' = w_rqs w" "w_nsc w' = w_nsc w" "w_events w' = w_events w"
    "w_log w' = w_log w @ [(c, errOf r)]" "f (w_srv w) = (r, w_srv w')"
  using assms by (auto simp: doRead_def split: prod.splits)

lemma doWrite_frame:
  assumes "doWrite c f w = (r, w')"
  shows "w_heap w' = w_heap w" "w_rqs w' = w_rqs w" "w_nsc w' = w_nsc w" "w_events w' = w_events w"
    "w_log w' = w_log w @ [(c, r)]" "f (w_srv w) = (r, w_srv w')"
  using assms by (auto simp: doWrite_def split: prod.splits)

text \<open>
  \<open>cache.MetaNamespaceKeyFunc\<close>: namespace/name, the bare name for a cluster-scoped object.
\<close>

definition metaKey :: "string \<Rightarrow> string \<Rightarrow> string" where
  "metaKey ns name = (if ns = [] then name else ns @ CHR ''/'' # name)"

lemma metaKey_inj [simp]: "metaKey ns a = metaKey ns b \<longleftrightarrow> a = b"
  by (simp add: metaKey_def)

text \<open>The resource-quota informer: its store by key and its namespace index.\<close>

definition rqKey :: "'m resourceQuota \<Rightarrow> string" where
  "rqKey q = metaKey (rq_ns q) (rq_name q)"

definition rqGetByKey :: "env \<Rightarrow> string \<Rightarrow> 's world \<Rightarrow> href resourceQuota option result" where
  "rqGetByKey en key w =
     (case e_rqByKeyErr en key of Some e \<Rightarrow> Inl e | None \<Rightarrow> Inr (find (\<lambda>q. rqKey q = key) (w_rqs w)))"

definition rqByNamespace :: "env \<Rightarrow> string \<Rightarrow> 's world \<Rightarrow> href resourceQuota list result" where
  "rqByNamespace en ns w =
     (case e_rqByNsErr en ns of Some e \<Rightarrow> Inl e | None \<Rightarrow> Inr (filter (\<lambda>q. rq_ns q = ns) (w_rqs w)))"

text \<open>
  \<open>rqToModify.Spec.Hard = r\<close> on the shared object the store handed out: the informer's own
  object changes.
\<close>

definition setHard :: "href \<Rightarrow> href resourceQuota \<Rightarrow> href resourceQuota" where
  "setHard r q = q\<lparr>rq_spec := (rq_spec q)\<lparr>spec_hard := r\<rparr>\<rparr>"

definition assignHard :: "string \<Rightarrow> href \<Rightarrow> 's world \<Rightarrow> 's world" where
  "assignHard key r w = w\<lparr>w_rqs := map (\<lambda>q. if rqKey q = key then setHard r q else q) (w_rqs w)\<rparr>"

lemma setHard_simps [simp]:
  "rq_name (setHard r q) = rq_name q" "rq_ns (setHard r q) = rq_ns q" "rq_rv (setHard r q) = rq_rv q"
  "spec_hard (rq_spec (setHard r q)) = r" "rq_stHard (setHard r q) = rq_stHard q"
  "rq_stUsed (setHard r q) = rq_stUsed q" "rqKey (setHard r q) = rqKey q"
  "spec_scopes (rq_spec (setHard r q)) = spec_scopes (rq_spec q)"
  by (simp_all add: setHard_def rqKey_def)

lemma assignHard_frame [simp]:
  "w_heap (assignHard key r w) = w_heap w" "w_nsc (assignHard key r w) = w_nsc w"
  "w_srv (assignHard key r w) = w_srv w" "w_log (assignHard key r w) = w_log w"
  "w_events (assignHard key r w) = w_events w"
  "length (w_rqs (assignHard key r w)) = length (w_rqs w)"
  by (simp_all add: assignHard_def)

lemma find_map_key:
  "(\<And>q. rqKey (f q) = rqKey q) \<Longrightarrow>
   find (\<lambda>q. rqKey q = k) (map f qs) = map_option f (find (\<lambda>q. rqKey q = k) qs)"
  by (induction qs) auto

lemma find_assignHard:
  "find (\<lambda>q. rqKey q = k) (w_rqs (assignHard key r w)) =
     map_option (\<lambda>q. if k = key then setHard r q else q) (find (\<lambda>q. rqKey q = k) (w_rqs w))"
proof -
  have "find (\<lambda>q. rqKey q = k) (w_rqs (assignHard key r w)) =
      map_option (\<lambda>q. if rqKey q = key then setHard r q else q) (find (\<lambda>q. rqKey q = k) (w_rqs w))"
    unfolding assignHard_def by (simp add: find_map_key)
  then show ?thesis by (cases "find (\<lambda>q. rqKey q = k) (w_rqs w)") (auto dest: find_in_set)
qed

lemma rqGetByKey_find:
  "rqGetByKey en key w = Inr r \<Longrightarrow> find (\<lambda>q. rqKey q = key) (w_rqs w) = r"
  by (auto simp: rqGetByKey_def split: option.splits)

lemma rqKey_mapRQ [simp]: "rqKey (mapRQ f q) = rqKey q"
  by (simp add: rqKey_def)

end
