(* ===== verification/Passes.thy ===== *)
theory Passes
  imports World
begin

text \<open>
  A Go function that returns early is a sequence of operations on the world, each of which
  either hands a value to the next one or ends the function. \<open>bindOp\<close> is that sequencing;
  \<open>triple\<close> is the Hoare triple with a postcondition for the value and one for every early
  end. The locale \<open>pass_relation\<close> lifts a relation each operation keepsRel to whole functions.
\<close>

datatype enqueueState = Immediate | Forget | BackOff | AddAfterFiveSeconds

text \<open>How \<open>execute\<close> ends: its two results, or a panic.\<close>

datatype outcome = Returned "goerror option" enqueueState | Panicked

type_synonym ('s, 'a) op = "'s world \<Rightarrow> (outcome + 'a) \<times> 's world"

definition bindOp :: "('s, 'a) op \<Rightarrow> ('a \<Rightarrow> ('s, 'b) op) \<Rightarrow> ('s, 'b) op" where
  "bindOp m k w = (case m w of (Inl out, w') \<Rightarrow> (Inl out, w') | (Inr a, w') \<Rightarrow> k a w')"

definition returnOp :: "'a \<Rightarrow> ('s, 'a) op" where
  "returnOp a w = (Inr a, w)"

text \<open>\<open>if err != nil { return err, st }\<close>, after a call and after a call with a value.\<close>

definition tryErr :: "enqueueState \<Rightarrow> ('s world \<Rightarrow> goerror option \<times> 's world) \<Rightarrow> ('s, unit) op" where
  "tryErr st f w = (case f w of (Some err, w') \<Rightarrow> (Inl (Returned (Some err) st), w') | (None, w') \<Rightarrow> (Inr (), w'))"

definition tryVal :: "enqueueState \<Rightarrow> ('s world \<Rightarrow> 'a result \<times> 's world) \<Rightarrow> ('s, 'a) op" where
  "tryVal st f w = (case f w of (Inl err, w') \<Rightarrow> (Inl (Returned (Some err) st), w') | (Inr a, w') \<Rightarrow> (Inr a, w'))"

definition tryPure :: "enqueueState \<Rightarrow> 'a result \<Rightarrow> ('s, 'a) op" where
  "tryPure st r w = (case r of Inl err \<Rightarrow> (Inl (Returned (Some err) st), w) | Inr a \<Rightarrow> (Inr a, w))"

subsection \<open>Hoare triples\<close>

definition triple ::
  "('w \<Rightarrow> bool) \<Rightarrow> ('w \<Rightarrow> ('e + 'a) \<times> 'w) \<Rightarrow> ('a \<Rightarrow> 'w \<Rightarrow> bool) \<Rightarrow> ('e \<Rightarrow> 'w \<Rightarrow> bool) \<Rightarrow> bool" where
  "triple pre m post exc \<longleftrightarrow>
     (\<forall>w. pre w \<longrightarrow> (case m w of (Inl out, w') \<Rightarrow> exc out w' | (Inr a, w') \<Rightarrow> post a w'))"

lemma tripleI:
  assumes "\<And>w out w'. pre w \<Longrightarrow> m w = (Inl out, w') \<Longrightarrow> exc out w'"
    and "\<And>w a w'. pre w \<Longrightarrow> m w = (Inr a, w') \<Longrightarrow> post a w'"
  shows "triple pre m post exc"
  using assms by (auto simp: triple_def split: prod.split sum.split)

lemma tripleD:
  "triple pre m post exc \<Longrightarrow> pre w \<Longrightarrow> m w = (Inl out, w') \<Longrightarrow> exc out w'"
  "triple pre m post exc \<Longrightarrow> pre w \<Longrightarrow> m w = (Inr a, w') \<Longrightarrow> post a w'"
  by (auto simp: triple_def split: prod.splits)

lemma triple_bind:
  assumes "triple pre m mid exc" and "\<And>a. triple (mid a) (k a) post exc"
  shows "triple pre (bindOp m k) post exc"
  using assms by (fastforce simp: triple_def bindOp_def split: prod.splits sum.splits)

lemma triple_return: "(\<And>w. pre w \<Longrightarrow> post a w) \<Longrightarrow> triple pre (returnOp a) post exc"
  by (simp add: triple_def returnOp_def)

lemma triple_conseq:
  assumes "triple pre m post exc" and "\<And>w. pre' w \<Longrightarrow> pre w"
    and "\<And>a w. post a w \<Longrightarrow> post' a w" and "\<And>e w. exc e w \<Longrightarrow> exc' e w"
  shows "triple pre' m post' exc'"
  using assms by (fastforce simp: triple_def split: prod.splits sum.splits)

lemma triple_conj:
  "triple pre m post exc \<Longrightarrow> triple pre' m post' exc' \<Longrightarrow>
   triple (\<lambda>w. pre w \<and> pre' w) m (\<lambda>a w. post a w \<and> post' a w) (\<lambda>e w. exc e w \<and> exc' e w)"
  by (fastforce simp: triple_def split: prod.splits sum.splits)

lemma triple_tryErr:
  assumes "\<And>w r w'. pre w \<Longrightarrow> f w = (Some r, w') \<Longrightarrow> exc (Returned (Some r) st) w'"
    and "\<And>w w'. pre w \<Longrightarrow> f w = (None, w') \<Longrightarrow> post () w'"
  shows "triple pre (tryErr st f) post exc"
  using assms by (auto simp: triple_def tryErr_def split: prod.splits option.splits)

lemma triple_tryVal:
  assumes "\<And>w r w'. pre w \<Longrightarrow> f w = (Inl r, w') \<Longrightarrow> exc (Returned (Some r) st) w'"
    and "\<And>w a w'. pre w \<Longrightarrow> f w = (Inr a, w') \<Longrightarrow> post a w'"
  shows "triple pre (tryVal st f) post exc"
  using assms by (auto simp: triple_def tryVal_def split: prod.splits sum.splits)

lemma triple_tryPure:
  assumes "\<And>w e. pre w \<Longrightarrow> r = Inl e \<Longrightarrow> exc (Returned (Some e) st) w"
    and "\<And>w a. pre w \<Longrightarrow> r = Inr a \<Longrightarrow> post a w"
  shows "triple pre (tryPure st r) post exc"
  using assms by (auto simp: triple_def tryPure_def split: sum.splits)

subsection \<open>Relations every operation keepsRel\<close>

locale pass_relation =
  fixes rel :: "'s world \<Rightarrow> 's world \<Rightarrow> bool"
  assumes pass_refl: "rel w w"
    and pass_trans: "rel u v \<Longrightarrow> rel v w \<Longrightarrow> rel u w"
begin

definition keepsRel :: "('s, 'a) op \<Rightarrow> bool" where
  "keepsRel m \<longleftrightarrow> (\<forall>w. rel w (snd (m w)))"

lemma keepsRelI: "(\<And>w r w'. m w = (r, w') \<Longrightarrow> rel w w') \<Longrightarrow> keepsRel m"
  unfolding keepsRel_def by (metis prod.collapse)

lemma keepsRelD: "keepsRel m \<Longrightarrow> m w = (r, w') \<Longrightarrow> rel w w'"
  unfolding keepsRel_def by (metis snd_conv)

lemma keepsRel_bind: "keepsRel m \<Longrightarrow> (\<And>a. keepsRel (k a)) \<Longrightarrow> keepsRel (bindOp m k)"
proof (rule keepsRelI)
  fix w r w'
  assume m: "keepsRel m" and k: "\<And>a. keepsRel (k a)" and run: "bindOp m k w = (r, w')"
  obtain x w1 where x: "m w = (x, w1)" by fastforce
  have "rel w w1" using keepsRelD [OF m x] .
  moreover have "rel w1 w'"
    using run x k by (cases x) (auto simp: bindOp_def pass_refl dest: keepsRelD)
  ultimately show "rel w w'" by (rule pass_trans)
qed

lemma keepsRel_return: "keepsRel (returnOp a)"
  by (rule keepsRelI) (simp add: returnOp_def pass_refl)

lemma keepsRel_tryPure: "keepsRel (tryPure st r)"
  by (rule keepsRelI) (auto simp: tryPure_def pass_refl split: sum.splits)

lemma keepsRel_tryErr: "(\<And>w r w'. f w = (r, w') \<Longrightarrow> rel w w') \<Longrightarrow> keepsRel (tryErr st f)"
  by (rule keepsRelI) (auto simp: tryErr_def split: prod.splits option.splits)

lemma keepsRel_tryVal: "(\<And>w r w'. f w = (r, w') \<Longrightarrow> rel w w') \<Longrightarrow> keepsRel (tryVal st f)"
  by (rule keepsRelI) (auto simp: tryVal_def split: prod.splits sum.splits)

end

lemma bindOpE:
  assumes "bindOp m k w = (r, w')"
  obtains (early) out where "m w = (Inl out, w')" "r = Inl out"
  | (go) a w1 where "m w = (Inr a, w1)" "k a w1 = (r, w')"
  using assms by (auto simp: bindOp_def split: prod.splits sum.splits)

end
