(* ===== verification/WebhookLock.thy ===== *)
theory WebhookLock
  imports World
begin

text \<open>
  \<open>LockNamespace\<close>, \<open>UnlockNamespace\<close> and \<open>NamespaceLocked\<close> of
  \<open>pkg/validating-webhook-lock/validating-webhook-lock.go\<close>, over an arbitrary API server.
\<close>

definition LockNamespace :: "'s api \<Rightarrow> string \<Rightarrow> string \<Rightarrow> nat list \<Rightarrow> 's world \<Rightarrow> goerror option \<times> 's world" where
  "LockNamespace A nsToLock mtqNS caBundle w =
     (let c = lockingVWC nsToLock mtqNS caBundle
      in doWrite (CreateVWC c) (api_createVWC A c) w)"

definition UnlockNamespace :: "'s api \<Rightarrow> string \<Rightarrow> 's world \<Rightarrow> goerror option \<times> 's world" where
  "UnlockNamespace A ns w = doWrite (DeleteVWC (lockName ns)) (api_deleteVWC A (lockName ns)) w"

text \<open>
  The Boolean with its error, or a panic (\<open>None\<close>). The call passes its namespaces to
  \<open>isOurValidatingWebhookConfiguration\<close> in the order the source writes them: the namespace to
  verify where the parameter is called \<open>mtqNs\<close>, and the operator's namespace where it is
  called \<open>lockedNs\<close>.
\<close>

definition NamespaceLocked ::
  "'s api \<Rightarrow> string \<Rightarrow> string \<Rightarrow> nat list \<Rightarrow> 's world \<Rightarrow> (bool \<times> goerror option) option \<times> 's world" where
  "NamespaceLocked A nsToVerify mtqNs caBundle w =
     (let webhookName = lockName nsToVerify in
      case doRead (GetVWC webhookName) (api_getVWC A webhookName) w of
        (Inl err, w1) \<Rightarrow> (if IsNotFound err then (Some (False, None), w1) else (Some (False, Some err), w1))
      | (Inr vw, w1) \<Rightarrow>
          (case isOurValidatingWebhookConfiguration nsToVerify mtqNs vw caBundle of
             None \<Rightarrow> (None, w1)
           | Some True \<Rightarrow> (Some (True, None), w1)
           | Some False \<Rightarrow>
               (let vw' = vw\<lparr>vwc_webhooks := [getLockingValidatingWebhook mtqNs nsToVerify caBundle]\<rparr>
                in case doWrite (UpdateVWC vw') (api_updateVWC A vw') w1 of
                     (Some err, w2) \<Rightarrow> (Some (False, Some err), w2)
                   | (None, w2) \<Rightarrow> (Some (True, None), w2))))"

subsection \<open>What these operations leave alone\<close>

lemma LockNamespace_frame:
  assumes "LockNamespace A ns m ca w = (r, w')"
  shows "w_heap w' = w_heap w" "w_rqs w' = w_rqs w" "w_nsc w' = w_nsc w" "w_events w' = w_events w"
    "w_log w' = w_log w @ [(CreateVWC (lockingVWC ns m ca), r)]"
  using doWrite_frame [OF assms [unfolded LockNamespace_def Let_def]] by auto

lemma UnlockNamespace_frame:
  assumes "UnlockNamespace A ns w = (r, w')"
  shows "w_heap w' = w_heap w" "w_rqs w' = w_rqs w" "w_nsc w' = w_nsc w" "w_events w' = w_events w"
    "w_log w' = w_log w @ [(DeleteVWC (lockName ns), r)]"
  using doWrite_frame [OF assms [unfolded UnlockNamespace_def]] by auto

lemma NamespaceLocked_frame:
  assumes "NamespaceLocked A ns m ca w = (r, w')"
  shows "w_heap w' = w_heap w \<and> w_rqs w' = w_rqs w \<and> w_nsc w' = w_nsc w \<and> w_events w' = w_events w
     \<and> (\<exists>l. w_log w' = w_log w @ l \<and> (\<forall>c e. (c, e) \<in> set l \<longrightarrow> (\<exists>n. c = GetVWC n) \<or> (\<exists>v. c = UpdateVWC v)))"
proof -
  obtain g w1 where g: "doRead (GetVWC (lockName ns)) (api_getVWC A (lockName ns)) w = (g, w1)"
    by fastforce
  note G = doRead_frame [OF g]
  show ?thesis
  proof (cases g)
    case (Inl err)
    then show ?thesis using assms G g by (auto simp: NamespaceLocked_def split: if_splits)
  next
    case (Inr vw)
    let ?vw = "vw\<lparr>vwc_webhooks := [getLockingValidatingWebhook m ns ca]\<rparr>"
    obtain u w2 where u: "doWrite (UpdateVWC ?vw) (api_updateVWC A ?vw) w1 = (u, w2)" by fastforce
    show ?thesis
      using assms g G Inr u doWrite_frame [OF u]
      by (auto simp: NamespaceLocked_def Let_def split: option.splits bool.splits)
  qed
qed

subsection \<open>Properties\<close>

text \<open>The comparison answers yes exactly for a configuration whose only webhook equals, field by
  field, the locking webhook the controller would create for the two namespaces it is given.\<close>

theorem own_config_recognized:
  "isOurValidatingWebhookConfiguration mtqNs lockedNs c ca = Some True \<longleftrightarrow>
     vwc_webhooks c = [getLockingValidatingWebhook mtqNs lockedNs ca]"
  by (rule isOur_True_iff)

text \<open>\<open>NamespaceLocked\<close> never recognises the lock the controller created itself: it passes the two
  namespaces in the wrong order, so for every namespace but the operator's own it answers a read
  of that very configuration with an update that writes the same webhook again, and reports an
  error when that update is refused.\<close>

theorem own_lock_is_rewritten:
  assumes "api_getVWC A (lockName ns) (w_srv w) = (Inr (lockingVWC ns mtqNs ca), s)" and "ns \<noteq> mtqNs"
  shows "NamespaceLocked A ns mtqNs ca w =
    (let u = api_updateVWC A (lockingVWC ns mtqNs ca) s in
     (Some (fst u = None, fst u),
      w\<lparr>w_srv := snd u, w_log := w_log w @ [(GetVWC (lockName ns), None), (UpdateVWC (lockingVWC ns mtqNs ca), fst u)]\<rparr>))"
proof -
  have no: "isOurValidatingWebhookConfiguration ns mtqNs (lockingVWC ns mtqNs ca) ca = Some False"
    by (rule isOur_name_differs [where wh = "getLockingValidatingWebhook mtqNs ns ca"])
      (use assms(2) in \<open>simp_all add: lockingVWC_def getLockingValidatingWebhook_def\<close>)
  have same: "(lockingVWC ns mtqNs ca)\<lparr>vwc_webhooks := [getLockingValidatingWebhook mtqNs ns ca]\<rparr> = lockingVWC ns mtqNs ca"
    by (simp add: lockingVWC_def)
  obtain e s' where u: "api_updateVWC A (lockingVWC ns mtqNs ca) s = (e, s')" by fastforce
  show ?thesis
    using assms(1) no u
    by (cases e) (simp_all add: NamespaceLocked_def doRead_def doWrite_def same Let_def)
qed

definition storeApi :: "vwc \<Rightarrow> unit api" where
  "storeApi c = \<lparr>api_listVmmrqs = (\<lambda>ns s. (Inr [], s)), api_updateVmmrqStatus = (\<lambda>v s. (None, s)),
     api_updateRQ = (\<lambda>q s. (None, s)), api_getVWC = (\<lambda>n s. (Inr c, s)), api_createVWC = (\<lambda>v s. (None, s)),
     api_updateVWC = (\<lambda>v s. (Some (GoErr ''forbidden''), s)), api_deleteVWC = (\<lambda>n s. (None, s)),
     api_bundleBytes = (\<lambda>s. (Inr [1], s))\<rparr>"

definition emptyWorld :: "unit world" where
  "emptyWorld = \<lparr>w_heap = \<lparr>hp_maps = (\<lambda>_. []), hp_next = 0\<rparr>, w_rqs = [], w_nsc = NewNamespaceCache, w_srv = (),
     w_log = [], w_events = []\<rparr>"

theorem own_lock_is_rewritten_witness:
  "fst (NamespaceLocked (storeApi (lockingVWC ''ns1'' ''mtq'' [1])) ''ns1'' ''mtq'' [1] emptyWorld)
     = Some (False, Some (GoErr ''forbidden''))"
proof -
  have "api_getVWC (storeApi (lockingVWC ''ns1'' ''mtq'' [1])) (lockName ''ns1'') (w_srv emptyWorld)
      = (Inr (lockingVWC ''ns1'' ''mtq'' [1]), ())" by (simp add: storeApi_def)
  from own_lock_is_rewritten [OF this] show ?thesis by (simp add: storeApi_def Let_def)
qed

end
