(* ===== verification/QuotaMaps.thy ===== *)
theory QuotaMaps
  imports World
begin

text \<open>
  The quota arithmetic of \<open>pkg/mtq-controller/vmmrq-controller/vmmrq-controller.go\<close>:
  \<open>addResourcesToRQ\<close> and the selection functions around the saved quota specs.
  \<open>addResourcesToRQ\<close> writes into the map its argument shares with the caller; \<open>addHard\<close> is
  the pure function it implements, and \<open>addResourcesToRQ_heap\<close> the refinement.
\<close>

subsection \<open>addResourcesToRQ\<close>

text \<open>The inner loop: every entry of the added list with the current resource's name.\<close>

fun addMatching :: "addr \<Rightarrow> addr \<Rightarrow> string \<Rightarrow> quantity \<Rightarrow> resourceList \<Rightarrow> heap \<Rightarrow> heap" where
  "addMatching spec status rqResourceName currQuantity [] h = h"
| "addMatching spec status rqResourceName currQuantity ((vmmrqResourceName, quantityToAdd) # rl) h =
     (if rqResourceName = vmmrqResourceName
      then (let q = quantityAdd currQuantity quantityToAdd
            in addMatching spec status rqResourceName q rl
                 (writeMap status rqResourceName q (writeMap spec rqResourceName q h)))
      else addMatching spec status rqResourceName currQuantity rl h)"

text \<open>
  The outer loop ranges over the keys of \<open>Spec.Hard\<close>; its body overwrites the value of the
  key it is at and adds none, so the keys and the values still to come are those at the start.
\<close>

fun addToAll :: "addr \<Rightarrow> addr \<Rightarrow> resourceList \<Rightarrow> resourceList \<Rightarrow> heap \<Rightarrow> heap" where
  "addToAll spec status [] rl h = h"
| "addToAll spec status ((rqResourceName, currQuantity) # kvs) rl h =
     addToAll spec status kvs rl (addMatching spec status rqResourceName currQuantity rl h)"

definition addResourcesToRQ :: "href resourceQuota \<Rightarrow> href \<Rightarrow> heap \<Rightarrow> href resourceQuota \<times> heap" where
  "addResourcesToRQ rq rl h =
     (let hard = spec_hard (rq_spec rq);
          newRQ = \<lparr>rq_name = [], rq_ns = [], rq_rv = [],
                   rq_spec = \<lparr>spec_hard = hard, spec_scopes = [], spec_scopeSelector = None\<rparr>,
                   rq_stHard = hard, rq_stUsed = rq_stUsed rq\<rparr>
      in (newRQ, (case hard of None \<Rightarrow> h | Some a \<Rightarrow> addToAll a a (hp_maps h a) (deref h rl) h)))"

subsection \<open>What it computes\<close>

definition addEntry :: "resourceList \<Rightarrow> string \<times> quantity \<Rightarrow> string \<times> quantity" where
  "addEntry rl kv = (fst kv, case map_of rl (fst kv) of None \<Rightarrow> snd kv | Some d \<Rightarrow> quantityAdd (snd kv) d)"

definition addHard :: "resourceList \<Rightarrow> resourceList \<Rightarrow> resourceList" where
  "addHard hard rl = map (addEntry rl) hard"

lemma fst_addEntry [simp]: "fst (addEntry rl kv) = fst kv"
  by (simp add: addEntry_def)

lemma keys_addHard [simp]: "map fst (addHard hard rl) = map fst hard"
  by (simp add: addHard_def)

lemma addHard_Nil [simp]: "addHard hard [] = hard"
  by (simp add: addHard_def addEntry_def map_idI)

lemma map_of_addHard:
  "map_of (addHard hard rl) k =
     map_option (\<lambda>q. case map_of rl k of None \<Rightarrow> q | Some d \<Rightarrow> quantityAdd q d) (map_of hard k)"
  by (induction hard) (auto simp: addHard_def addEntry_def)

lemma amounts_addHard:
  "amounts (addHard hard rl) k =
     map_option (\<lambda>q. q + (case amounts rl k of None \<Rightarrow> 0 | Some d \<Rightarrow> d)) (amounts hard k)"
  by (cases "map_of hard k"; cases "map_of rl k") (simp_all add: amounts_def map_of_addHard)

lemma update_append: "k \<notin> fst ` set xs \<Longrightarrow> AList.update k v (xs @ ys) = xs @ AList.update k v ys"
  by (induction xs) auto

lemma update_update_same: "AList.update k v (AList.update k u al) = AList.update k v al"
  by (induction al) auto

lemma writeMap_twice: "writeMap a k v (writeMap a k u h) = writeMap a k v h"
  by (simp add: writeMap_def update_update_same)

lemma addMatching_absent: "k \<notin> fst ` set rl \<Longrightarrow> addMatching a b k q rl h = h"
  by (induction rl) (auto split: prod.splits)

lemma addMatching_one:
  "distinctKeys rl \<Longrightarrow>
     addMatching a a k q rl h =
       (case map_of rl k of None \<Rightarrow> h | Some d \<Rightarrow> writeMap a k (quantityAdd q d) h)"
proof (induction rl)
  case Nil
  then show ?case by simp
next
  case (Cons kd rl)
  then show ?case
    by (cases kd) (auto simp: Let_def addMatching_absent writeMap_twice)
qed

lemma addToAll_result:
  assumes "distinctKeys rl" and "distinctKeys (pre @ kvs)" and "hp_maps h a = map (addEntry rl) pre @ kvs"
  shows "addToAll a a kvs rl h = h\<lparr>hp_maps := (hp_maps h)(a := map (addEntry rl) (pre @ kvs))\<rparr>"
  using assms(2,3)
proof (induction kvs arbitrary: pre h)
  case Nil
  then have "(hp_maps h)(a := map (addEntry rl) pre) = hp_maps h" by auto
  then show ?case by simp
next
  case (Cons kv kvs)
  obtain k q where kv: "kv = (k, q)" by fastforce
  let ?h1 = "addMatching a a k q rl h"
  have notin: "k \<notin> fst ` set (map (addEntry rl) pre)"
    using Cons.prems(1) by (auto simp: kv image_iff)
  have upd: "AList.update k v (map (addEntry rl) pre @ (k, q) # kvs) = map (addEntry rl) pre @ (k, v) # kvs" for v
    using update_append [OF notin] by simp
  have entry: "addEntry rl (k, q) = (k, case map_of rl k of None \<Rightarrow> q | Some d \<Rightarrow> quantityAdd q d)"
    by (simp add: addEntry_def split: option.splits)
  have h1: "hp_maps ?h1 = (hp_maps h)(a := map (addEntry rl) (pre @ [kv]) @ kvs)" "hp_next ?h1 = hp_next h"
    using Cons.prems(2) upd
    by (auto simp: addMatching_one [OF assms(1)] writeMap_def kv entry fun_eq_iff split: option.splits)
  have "addToAll a a kvs rl ?h1 = ?h1\<lparr>hp_maps := (hp_maps ?h1)(a := map (addEntry rl) ((pre @ [kv]) @ kvs))\<rparr>"
    by (rule Cons.IH) (use Cons.prems(1) h1 in simp_all)
  also have "\<dots> = h\<lparr>hp_maps := (hp_maps h)(a := map (addEntry rl) (pre @ kv # kvs))\<rparr>"
    using h1 by (auto intro!: heap.equality)
  finally show ?case by (simp add: kv fun_upd_def)
qed

lemma addResourcesToRQ_heap:
  assumes "distinctKeys (deref h (spec_hard (rq_spec rq)))" and "distinctKeys (deref h rl)"
  shows "snd (addResourcesToRQ rq rl h) =
     (case spec_hard (rq_spec rq) of
        None \<Rightarrow> h
      | Some a \<Rightarrow> h\<lparr>hp_maps := (hp_maps h)(a := addHard (hp_maps h a) (deref h rl))\<rparr>)"
  using assms addToAll_result [where pre = "[]"]
  by (auto simp: addResourcesToRQ_def Let_def addHard_def split: option.splits)

lemma addResourcesToRQ_fields:
  assumes "addResourcesToRQ rq rl h = (q', h')"
  shows "spec_hard (rq_spec q') = spec_hard (rq_spec rq)" "rq_stHard q' = spec_hard (rq_spec rq)"
    "rq_stUsed q' = rq_stUsed rq" "spec_scopes (rq_spec q') = []" "spec_scopeSelector (rq_spec q') = None"
    "rq_name q' = []"
  using assms by (auto simp: addResourcesToRQ_def Let_def)

lemma addMatching_frame:
  "hp_next (addMatching a b k q rl h) = hp_next h \<and>
     (\<forall>c. c \<noteq> a \<longrightarrow> c \<noteq> b \<longrightarrow> hp_maps (addMatching a b k q rl h) c = hp_maps h c)"
  by (induction a b k q rl h rule: addMatching.induct) (auto simp: Let_def writeMap_other)

lemma addToAll_frame:
  "hp_next (addToAll a b kvs rl h) = hp_next h \<and>
     (\<forall>c. c \<noteq> a \<longrightarrow> c \<noteq> b \<longrightarrow> hp_maps (addToAll a b kvs rl h) c = hp_maps h c)"
  by (induction a b kvs rl h rule: addToAll.induct) (auto simp: addMatching_frame)

text \<open>Only the map the argument itself refers to can change.\<close>

lemma addResourcesToRQ_frame:
  assumes "addResourcesToRQ rq rl h = (q', h')"
  shows "hp_next h' = hp_next h" "spec_hard (rq_spec rq) \<noteq> Some c \<Longrightarrow> hp_maps h' c = hp_maps h c"
  using assms by (auto simp: addResourcesToRQ_def Let_def addToAll_frame split: option.splits)

lemma addResourcesToRQ_ext:
  assumes "addResourcesToRQ rq rl h = (q', h')"
    and "\<And>a. spec_hard (rq_spec rq) = Some a \<Longrightarrow> m \<le> a" and "m \<le> hp_next h"
  shows "\<forall>c < m. hp_maps h' c = hp_maps h c"
  using addResourcesToRQ_frame(2) [OF assms(1)] assms(2) by (metis leD)

subsection \<open>Looking up saved specs\<close>

fun getRQNameAndSpecIfExist ::
  "href rqNameAndSpec list \<Rightarrow> string \<Rightarrow> heap \<Rightarrow> href rqNameAndSpec option \<times> heap" where
  "getRQNameAndSpecIfExist [] name h = (None, h)"
| "getRQNameAndSpecIfExist (rq # rqs) name h =
     (if ns_name rq = name then (case deepCopyNameSpec rq h of (c, h1) \<Rightarrow> (Some c, h1))
      else getRQNameAndSpecIfExist rqs name h)"

lemma getRQNameAndSpecIfExist_find:
  "getRQNameAndSpecIfExist rqs name h =
     (case find (\<lambda>r. ns_name r = name) rqs of
        None \<Rightarrow> (None, h)
      | Some r \<Rightarrow> (case deepCopyNameSpec r h of (c, h1) \<Rightarrow> (Some c, h1)))"
  by (induction rqs) auto

lemma getRQNameAndSpecIfExist_correct:
  assumes "getRQNameAndSpecIfExist rqs name h = (r, h')"
  shows "heapExt h h'"
    "map_option (valNameSpec h') r = map_option (valNameSpec h) (find (\<lambda>x. ns_name x = name) rqs)"
    "\<And>x. r = Some x \<Longrightarrow> liveNameSpec h' x"
    "\<And>x a. r = Some x \<Longrightarrow> spec_hard (ns_spec x) = Some a \<Longrightarrow> hp_next h \<le> a"
    "r = None \<Longrightarrow> h' = h"
  using assms unfolding getRQNameAndSpecIfExist_find
  by (auto split: option.splits prod.splits dest: deepCopyNameSpec_correct)

fun foundIn :: "'m rqNameAndSpec list \<Rightarrow> string \<Rightarrow> bool \<Rightarrow> bool" where
  "foundIn [] name found = found"
| "foundIn (rqInCurr # rqs) name found = foundIn rqs name (if ns_name rqInCurr = name then True else found)"

fun restoreLoop :: "'m rqNameAndSpec list \<Rightarrow> 'm rqNameAndSpec list \<Rightarrow> 'm rqNameAndSpec list \<Rightarrow> 'm rqNameAndSpec list" where
  "restoreLoop [] cur acc = acc"
| "restoreLoop (rqInPrev # prev) cur acc =
     restoreLoop prev cur (if \<not> foundIn cur (ns_name rqInPrev) False then acc @ [rqInPrev] else acc)"

definition getRQListToRestore :: "'m vmmrq \<Rightarrow> 'm vmmrq \<Rightarrow> 'm rqNameAndSpec list" where
  "getRQListToRestore currVmmrq prevVmmrq = restoreLoop (v_orig prevVmmrq) (v_orig currVmmrq) []"

lemma foundIn_iff: "foundIn rqs name found \<longleftrightarrow> found \<or> name \<in> ns_name ` set rqs"
  by (induction rqs arbitrary: found) auto

lemma restoreLoop_filter:
  "restoreLoop prev cur acc = acc @ filter (\<lambda>r. ns_name r \<notin> ns_name ` set cur) prev"
  by (induction prev arbitrary: acc) (auto simp: foundIn_iff)

lemma getRQListToRestore_filter:
  "getRQListToRestore cur prev = filter (\<lambda>r. ns_name r \<notin> ns_name ` set (v_orig cur)) (v_orig prev)"
  by (simp add: getRQListToRestore_def restoreLoop_filter)

definition shouldLockNS :: "'m vmmrq \<Rightarrow> bool" where
  "shouldLockNS vmmrq \<longleftrightarrow> length (v_orig vmmrq) > 0"

subsection \<open>flatStringToStringMapNoDups\<close>

fun insertKeys :: "string list \<Rightarrow> string list \<Rightarrow> string list" where
  "insertKeys found [] = found"
| "insertKeys found (rq # s) = insertKeys (if rq \<in> set found then found else found @ [rq]) s"

definition flatStringToStringMapNoDups :: "env \<Rightarrow> (string \<times> string list) list \<Rightarrow> string list" where
  "flatStringToStringMapNoDups en m = e_rangeKeys en (insertKeys [] (concat (map snd m)))"

text \<open>\<open>range\<close> over a Go map visits every key once, in an unspecified order.\<close>

definition rangeOk :: "env \<Rightarrow> bool" where
  "rangeOk en \<longleftrightarrow> (\<forall>ks. distinct ks \<longrightarrow> distinct (e_rangeKeys en ks) \<and> set (e_rangeKeys en ks) = set ks)"

lemma insertKeys_distinct: "distinct found \<Longrightarrow> distinct (insertKeys found s)"
  by (induction s arbitrary: found) auto

lemma insertKeys_set: "set (insertKeys found s) = set found \<union> set s"
  by (induction s arbitrary: found) auto

lemma flat_distinct: "rangeOk en \<Longrightarrow> distinct (flatStringToStringMapNoDups en m)"
  by (simp add: rangeOk_def flatStringToStringMapNoDups_def insertKeys_distinct)

lemma flat_set: "rangeOk en \<Longrightarrow> set (flatStringToStringMapNoDups en m) = (\<Union>(_, s) \<in> set m. set s)"
  by (fastforce simp: rangeOk_def flatStringToStringMapNoDups_def insertKeys_distinct insertKeys_set)

subsection \<open>shouldUpdateVmmrq\<close>

text \<open>\<open>reflect.DeepEqual\<close> on the types that occur: a nil map differs from an empty one.\<close>

fun deepEqualMap :: "('a \<times> 'b) list option \<Rightarrow> ('a \<times> 'b) list option \<Rightarrow> bool" where
  "deepEqualMap None None = True"
| "deepEqualMap (Some m) (Some m') = (length m = length m' \<and> list_all (\<lambda>(k, v). map_of m' k = Some v) m)"
| "deepEqualMap _ _ = False"

definition deepEqualNameSpec :: "wire rqNameAndSpec \<Rightarrow> wire rqNameAndSpec \<Rightarrow> bool" where
  "deepEqualNameSpec x y \<longleftrightarrow> ns_name x = ns_name y
     \<and> deepEqualMap (spec_hard (ns_spec x)) (spec_hard (ns_spec y))
     \<and> spec_scopes (ns_spec x) = spec_scopes (ns_spec y)
     \<and> spec_scopeSelector (ns_spec x) = spec_scopeSelector (ns_spec y)"

definition shouldUpdateVmmrq :: "heap \<Rightarrow> href vmmrq \<Rightarrow> href vmmrq \<Rightarrow> bool" where
  "shouldUpdateVmmrq h currVmmrq prevVmmrq \<longleftrightarrow>
     \<not> list_all2 deepEqualNameSpec (map (valNameSpec h) (v_orig currVmmrq)) (map (valNameSpec h) (v_orig prevVmmrq))
     \<or> \<not> deepEqualMap (v_migs currVmmrq) (v_migs prevVmmrq)"

subsection \<open>parseKey\<close>

definition parseKey :: "string \<Rightarrow> (string \<times> string) result" where
  "parseKey key =
     (let parts = splitOn (CHR ''/'') key in
      if length parts \<noteq> 2 then Inl (GoErr (''error: input key: '' @ key @ '' is not in the expected format''))
      else Inr (parts ! 0, parts ! 1))"

lemma parseKey_metaKey:
  assumes "ns \<noteq> []" and "CHR ''/'' \<notin> set ns" and "CHR ''/'' \<notin> set name"
  shows "parseKey (metaKey ns name) = Inr (ns, name)"
  using assms by (simp add: parseKey_def metaKey_def Let_def splitOn_append splitOn_none)

lemma parseKey_Inr:
  assumes "parseKey key = Inr (ns, name)"
  shows "key = ns @ CHR ''/'' # name" "CHR ''/'' \<notin> set ns" "CHR ''/'' \<notin> set name"
proof -
  let ?p = "splitOn (CHR ''/'') key"
  from assms have len: "length ?p = 2" and parts: "ns = ?p ! 0" "name = ?p ! 1"
    by (auto simp: parseKey_def Let_def split: if_splits)
  then have p: "?p = [ns, name]"
    by (cases ?p; cases "tl ?p") (auto simp: numeral_2_eq_2)
  from join_splitOn [of "CHR ''/''" key] p show "key = ns @ CHR ''/'' # name" by simp
  from splitOn_parts [of _ "CHR ''/''" key] p
  show "CHR ''/'' \<notin> set ns" "CHR ''/'' \<notin> set name" by auto
qed

lemma parseKey_total: "parseKey key \<noteq> Inl (NotFoundErr e)"
  by (simp add: parseKey_def Let_def)

end
