(* ===== verification/QuotaOps.thy ===== *)
theory QuotaOps
  imports QuotaMaps
begin

text \<open>
  The operations of \<open>vmmrq-controller.go\<close> that read or write resource quotas through the
  informer and the API server: which quotas block a migration, which saved specs to keep,
  restoring a quota, enlarging it. Both write loops are instances of \<open>loop_contract\<close>.
\<close>

subsection \<open>getAllBlockingRQsInNS\<close>

fun matchingRQs :: "href resourceQuota list \<Rightarrow> string \<Rightarrow> href rqNameAndSpec list" where
  "matchingRQs [] blockingRQ = []"
| "matchingRQs (rqInNS # objs) blockingRQ =
     (if rq_name rqInNS = blockingRQ
      then \<lparr>ns_name = rq_name rqInNS, ns_spec = rq_spec rqInNS\<rparr> # matchingRQs objs blockingRQ
      else matchingRQs objs blockingRQ)"

fun gatherBlocking ::
  "href rqNameAndSpec list \<Rightarrow> href resourceQuota list \<Rightarrow> string list \<Rightarrow> heap \<Rightarrow> href rqNameAndSpec list \<times> heap" where
  "gatherBlocking orig objs [] h = ([], h)"
| "gatherBlocking orig objs (blockingRQ # rest) h =
     (case getRQNameAndSpecIfExist orig blockingRQ h of
        (Some origRQ, h1) \<Rightarrow> (case gatherBlocking orig objs rest h1 of (xs, h2) \<Rightarrow> (origRQ # xs, h2))
      | (None, h1) \<Rightarrow>
          (case gatherBlocking orig objs rest h1 of (xs, h2) \<Rightarrow> (matchingRQs objs blockingRQ @ xs, h2)))"

definition getAllBlockingRQsInNS ::
  "env \<Rightarrow> href vmmrq \<Rightarrow> string \<Rightarrow> 's world \<Rightarrow> href rqNameAndSpec list result \<times> 's world" where
  "getAllBlockingRQsInNS en vmmrq ns w =
     (let blockingRQlist = flatStringToStringMapNoDups en (case v_migs vmmrq of None \<Rightarrow> [] | Some m \<Rightarrow> m) in
      case rqByNamespace en ns w of
        Inl err \<Rightarrow> (Inl err, w)
      | Inr objs \<Rightarrow>
          (case gatherBlocking (v_orig vmmrq) objs blockingRQlist (w_heap w) of
             (xs, h) \<Rightarrow> (Inr xs, w\<lparr>w_heap := h\<rparr>)))"

subsection \<open>getCurrBlockingRQInNS\<close>

definition getCurrLauncherLimitedResource :: "env \<Rightarrow> pod \<Rightarrow> limitedResource result" where
  "getCurrLauncherLimitedResource en podToCreate =
     (case e_usage en podToCreate of
        Inl err \<Rightarrow> Inl err
      | Inr usage \<Rightarrow> Inr \<lparr>lim_resource = ''pods'', lim_matchContains = usage\<rparr>)"

definition admitPodToQuota ::
  "env \<Rightarrow> heap \<Rightarrow> href resourceQuota \<Rightarrow> pod \<Rightarrow> limitedResource \<Rightarrow> goerror option" where
  "admitPodToQuota en h resourceQuota p lim = e_checkRequest en (valRQ h resourceQuota) p lim"

definition exceedsQuota :: "goerror option \<Rightarrow> bool" where
  "exceedsQuota err = (case err of None \<Rightarrow> False | Some e \<Rightarrow> strContains (Error e) ''exceeded quota'')"

text \<open>The quota as it was before the controller enlarged it, on a copy of its own.\<close>

definition originalView ::
  "href rqNameAndSpec list \<Rightarrow> href resourceQuota \<Rightarrow> heap \<Rightarrow> href resourceQuota \<times> heap" where
  "originalView orig resourceQuota h =
     (case deepCopyRQ resourceQuota h of (copy, h1) \<Rightarrow>
      case getRQNameAndSpecIfExist orig (rq_name resourceQuota) h1 of
        (None, h2) \<Rightarrow> (copy, h2)
      | (Some x, h2) \<Rightarrow> (copy\<lparr>rq_spec := ns_spec x, rq_stHard := spec_hard (ns_spec x)\<rparr>, h2))"

text \<open>
  The loop: the names collected so far, and on the early return the error of the enlarged
  quota, which goes into the event.
\<close>

fun scanQuotas ::
  "env \<Rightarrow> pod \<Rightarrow> limitedResource \<Rightarrow> href rqNameAndSpec list \<Rightarrow> href \<Rightarrow> href resourceQuota list \<Rightarrow>
     string list \<Rightarrow> heap \<Rightarrow> (string list \<times> goerror option) \<times> heap" where
  "scanQuotas en p lim orig toAdd [] acc h = ((acc, None), h)"
| "scanQuotas en p lim orig toAdd (resourceQuota # qs) acc h =
     (case originalView orig resourceQuota h of (copy, h1) \<Rightarrow>
      let errWithCurrRQ = admitPodToQuota en h1 copy p lim in
      case addResourcesToRQ copy toAdd h1 of (modified, h2) \<Rightarrow>
      let errWithModifiedRQ = admitPodToQuota en h2 modified p lim in
      if exceedsQuota errWithCurrRQ \<and> errWithModifiedRQ = None
      then scanQuotas en p lim orig toAdd qs (acc @ [rq_name resourceQuota]) h2
      else if exceedsQuota errWithModifiedRQ then (([], errWithModifiedRQ), h2)
      else scanQuotas en p lim orig toAdd qs acc h2)"

definition FailedToReleaseMigrationReason :: string where
  "FailedToReleaseMigrationReason = ''NotEnoughResourceToRelease''"

definition releaseFailedEvent :: "href vmmrq \<Rightarrow> migration \<Rightarrow> pod \<Rightarrow> goerror \<Rightarrow> event" where
  "releaseFailedEvent vmmrq m p err =
     \<lparr>ev_ns = m_ns m, ev_name = pod_name p, ev_reason = FailedToReleaseMigrationReason,
      ev_message = ''Warning: Currently VMMRQ: '' @ v_name vmmrq @ '' in namespace: '' @ m_ns m
        @ '' doesn't have enough resoures to release blocked migration: '' @ m_name m,
      ev_error = Error err\<rparr>"

definition getCurrBlockingRQInNS ::
  "env \<Rightarrow> href vmmrq \<Rightarrow> migration \<Rightarrow> pod \<Rightarrow> href \<Rightarrow> 's world \<Rightarrow> string list result \<times> 's world" where
  "getCurrBlockingRQInNS en vmmrq m podToCreate resourceListToAdd w =
     (case rqByNamespace en (m_ns m) w of
        Inl err \<Rightarrow> (Inl err, w)
      | Inr objs \<Rightarrow>
     (case getCurrLauncherLimitedResource en podToCreate of
        Inl err \<Rightarrow> (Inl err, w)
      | Inr lim \<Rightarrow>
     (case scanQuotas en podToCreate lim (v_orig vmmrq) resourceListToAdd objs [] (w_heap w) of
        ((names, None), h) \<Rightarrow> (Inr names, w\<lparr>w_heap := h\<rparr>)
      | ((names, Some err), h) \<Rightarrow>
          (Inr names, w\<lparr>w_heap := h, w_events := w_events w @ [releaseFailedEvent vmmrq m podToCreate err]\<rparr>))))"

subsection \<open>restoreOriginalRQs and addResourcesToRQs\<close>

definition restoreOne ::
  "'s api \<Rightarrow> env \<Rightarrow> string \<Rightarrow> href rqNameAndSpec \<Rightarrow> 's world \<Rightarrow> goerror option \<times> 's world" where
  "restoreOne A en namespace quotaNameAndSpec w =
     (let key = metaKey namespace (ns_name quotaNameAndSpec) in
      case rqGetByKey en key w of
        Inl err \<Rightarrow> (Some err, w)
      | Inr None \<Rightarrow> (None, w)
      | Inr (Some rqToModify) \<Rightarrow>
          (let hard = spec_hard (ns_spec quotaNameAndSpec); h = w_heap w in
           if areResourceMapsEqual (deref h hard) (deref h (spec_hard (rq_spec rqToModify)))
           then (None, w)
           else let q = valRQ h (setHard hard rqToModify)
                in doWrite (UpdateRQ q) (api_updateRQ A q) (assignHard key hard w)))"

definition restoreOriginalRQs ::
  "'s api \<Rightarrow> env \<Rightarrow> href rqNameAndSpec list \<Rightarrow> string \<Rightarrow> 's world \<Rightarrow> goerror option \<times> 's world" where
  "restoreOriginalRQs A en toRestore namespace w =
     (if length toRestore = 0 then (None, w) else runLoop (restoreOne A en namespace) toRestore w)"

definition enlargeOne ::
  "'s api \<Rightarrow> env \<Rightarrow> href \<Rightarrow> string \<Rightarrow> href rqNameAndSpec \<Rightarrow> 's world \<Rightarrow> goerror option \<times> 's world" where
  "enlargeOne A en toAdd namespace quotaNameAndSpec w =
     (let key = metaKey namespace (ns_name quotaNameAndSpec) in
      case rqGetByKey en key w of
        Inl err \<Rightarrow> (Some err, w)
      | Inr None \<Rightarrow> (None, w)
      | Inr (Some rqToModify) \<Rightarrow>
          (let h = w_heap w in
           if \<not> areResourceMapsEqual (deref h (spec_hard (ns_spec quotaNameAndSpec)))
                  (deref h (spec_hard (rq_spec rqToModify)))
           then (None, w)
           else case addResourcesToRQ rqToModify toAdd h of (newRQ, h1) \<Rightarrow>
             (let hard = spec_hard (rq_spec newRQ); q = valRQ h1 (setHard hard rqToModify)
              in doWrite (UpdateRQ q) (api_updateRQ A q) (assignHard key hard (w\<lparr>w_heap := h1\<rparr>)))))"

definition addResourcesToRQs ::
  "'s api \<Rightarrow> env \<Rightarrow> href vmmrq \<Rightarrow> string \<Rightarrow> 's world \<Rightarrow> goerror option \<times> 's world" where
  "addResourcesToRQs A en currVmmrq namespace w =
     runLoop (enlargeOne A en (v_add currVmmrq) namespace) (v_orig currVmmrq) w"

subsection \<open>What the write loops touch\<close>

definition onlyRQUpdates :: "string \<Rightarrow> (apiCall \<times> goerror option) list \<Rightarrow> bool" where
  "onlyRQUpdates ns l \<longleftrightarrow> (\<forall>(c, e) \<in> set l. \<exists>q n. c = UpdateRQ q \<and> rqKey q = metaKey ns n)"

definition quotaRel :: "string \<Rightarrow> 's world \<Rightarrow> 's world \<Rightarrow> bool" where
  "quotaRel ns w w' \<longleftrightarrow> w_nsc w' = w_nsc w \<and> w_events w' = w_events w
     \<and> map rqKey (w_rqs w') = map rqKey (w_rqs w) \<and> hp_next (w_heap w') = hp_next (w_heap w)
     \<and> (\<exists>l. w_log w' = w_log w @ l \<and> onlyRQUpdates ns l)"

definition sameHeap :: "'s world \<Rightarrow> 's world \<Rightarrow> bool" where
  "sameHeap w w' \<longleftrightarrow> w_heap w' = w_heap w"

lemma quotaRel_refl: "quotaRel ns w w"
  by (simp add: quotaRel_def onlyRQUpdates_def)

lemma quotaRel_trans: "quotaRel ns u v \<Longrightarrow> quotaRel ns v w \<Longrightarrow> quotaRel ns u w"
  unfolding quotaRel_def onlyRQUpdates_def by fastforce

lemma map_rqKey_assignHard [simp]: "map rqKey (w_rqs (assignHard key r w)) = map rqKey (w_rqs w)"
  by (simp add: assignHard_def)

lemma assignHard_write_rel:
  assumes "doWrite (UpdateRQ q) (api_updateRQ A q) (assignHard key r (w\<lparr>w_heap := h\<rparr>)) = (e, w')"
    and "hp_next h = hp_next (w_heap w)" and "rqKey q = metaKey ns n"
  shows "quotaRel ns w w'"
  using doWrite_frame [OF assms(1)] assms(2,3)
  by (auto simp: quotaRel_def onlyRQUpdates_def)

text \<open>One iteration either does nothing to the world or assigns the quota and sends it.\<close>

lemma restoreOneE:
  assumes "restoreOne A en ns x w = (r, w')"
  obtains (failed) e where "rqGetByKey en (metaKey ns (ns_name x)) w = Inl e" "r = Some e" "w' = w"
  | (absent) "rqGetByKey en (metaKey ns (ns_name x)) w = Inr None" "r = None" "w' = w"
  | (same) q where "rqGetByKey en (metaKey ns (ns_name x)) w = Inr (Some q)"
      "areResourceMapsEqual (deref (w_heap w) (spec_hard (ns_spec x))) (deref (w_heap w) (spec_hard (rq_spec q)))"
      "r = None" "w' = w"
  | (send) q where "rqGetByKey en (metaKey ns (ns_name x)) w = Inr (Some q)"
      "\<not> areResourceMapsEqual (deref (w_heap w) (spec_hard (ns_spec x))) (deref (w_heap w) (spec_hard (rq_spec q)))"
      "doWrite (UpdateRQ (valRQ (w_heap w) (setHard (spec_hard (ns_spec x)) q)))
         (api_updateRQ A (valRQ (w_heap w) (setHard (spec_hard (ns_spec x)) q)))
         (assignHard (metaKey ns (ns_name x)) (spec_hard (ns_spec x)) w) = (r, w')"
  using assms by (auto simp: restoreOne_def Let_def split: sum.splits option.splits if_splits)

lemma enlargeOneE:
  assumes "enlargeOne A en toAdd ns x w = (r, w')"
  obtains (failed) e where "rqGetByKey en (metaKey ns (ns_name x)) w = Inl e" "r = Some e" "w' = w"
  | (absent) "rqGetByKey en (metaKey ns (ns_name x)) w = Inr None" "r = None" "w' = w"
  | (modified) q where "rqGetByKey en (metaKey ns (ns_name x)) w = Inr (Some q)"
      "\<not> areResourceMapsEqual (deref (w_heap w) (spec_hard (ns_spec x))) (deref (w_heap w) (spec_hard (rq_spec q)))"
      "r = None" "w' = w"
  | (send) q newRQ h1 where "rqGetByKey en (metaKey ns (ns_name x)) w = Inr (Some q)"
      "areResourceMapsEqual (deref (w_heap w) (spec_hard (ns_spec x))) (deref (w_heap w) (spec_hard (rq_spec q)))"
      "addResourcesToRQ q toAdd (w_heap w) = (newRQ, h1)"
      "doWrite (UpdateRQ (valRQ h1 (setHard (spec_hard (rq_spec q)) q)))
         (api_updateRQ A (valRQ h1 (setHard (spec_hard (rq_spec q)) q)))
         (assignHard (metaKey ns (ns_name x)) (spec_hard (rq_spec q)) (w\<lparr>w_heap := h1\<rparr>)) = (r, w')"
  using assms
  by (auto simp: enlargeOne_def Let_def addResourcesToRQ_fields
      split: sum.splits option.splits if_splits prod.splits)

lemma restoreOne_rel: "quotaRel ns w (snd (restoreOne A en ns x w))"
proof -
  obtain r w' where res: "restoreOne A en ns x w = (r, w')" by fastforce
  from res have "quotaRel ns w w'"
  proof (cases rule: restoreOneE)
    case (send q)
    have "w\<lparr>w_heap := w_heap w\<rparr> = w" by simp
    moreover have "rqKey q = metaKey ns (ns_name x)" using find_in_set [OF rqGetByKey_find [OF send(1)]] by simp
    ultimately show ?thesis using send(3) assignHard_write_rel [where w = w and h = "w_heap w"] by fastforce
  qed (simp_all add: quotaRel_refl)
  with res show ?thesis by simp
qed

lemma enlargeOne_rel: "quotaRel ns w (snd (enlargeOne A en toAdd ns x w))"
proof -
  obtain r w' where res: "enlargeOne A en toAdd ns x w = (r, w')" by fastforce
  from res have "quotaRel ns w w'"
  proof (cases rule: enlargeOneE)
    case (send q newRQ h1)
    have "rqKey q = metaKey ns (ns_name x)" using find_in_set [OF rqGetByKey_find [OF send(1)]] by simp
    then show ?thesis
      using assignHard_write_rel [OF send(4) addResourcesToRQ_frame(1) [OF send(3)]] by simp
  qed (simp_all add: quotaRel_refl)
  with res show ?thesis by simp
qed

lemma restoreOne_heap: "sameHeap w (snd (restoreOne A en ns x w))"
proof -
  obtain r w' where res: "restoreOne A en ns x w = (r, w')" by fastforce
  from res have "sameHeap w w'"
    by (cases rule: restoreOneE) (auto simp: sameHeap_def dest: doWrite_frame(1))
  with res show ?thesis by simp
qed

interpretation restore: loop_contract "restoreOne A en ns" "quotaRel ns" "\<lambda>_. True" for A en ns
  by unfold_locales (auto intro: quotaRel_refl quotaRel_trans restoreOne_rel)

interpretation restoreHeap: loop_contract "restoreOne A en ns" sameHeap "\<lambda>_. True" for A en ns
  by unfold_locales (auto simp: sameHeap_def intro: restoreOne_heap [unfolded sameHeap_def])

interpretation enlarge: loop_contract "enlargeOne A en add ns" "quotaRel ns" "\<lambda>_. True" for A en add ns
  by unfold_locales (auto intro: quotaRel_refl quotaRel_trans enlargeOne_rel)

lemma restoreOriginalRQs_rel: "quotaRel ns w (snd (restoreOriginalRQs A en xs ns w))"
  using restore.runLoop_rel [of xs ns w] by (simp add: restoreOriginalRQs_def quotaRel_refl)

lemma restoreOriginalRQs_heap: "w_heap (snd (restoreOriginalRQs A en xs ns w)) = w_heap w"
  using restoreHeap.runLoop_rel [of xs w] by (simp add: restoreOriginalRQs_def sameHeap_def)

lemma addResourcesToRQs_rel: "quotaRel ns w (snd (addResourcesToRQs A en vm ns w))"
  using enlarge.runLoop_rel [of "v_orig vm" ns w] by (simp add: addResourcesToRQs_def)

end
