(* ===== verification/Migrations.thy ===== *)
theory Migrations
  imports World
begin

text \<open>
  The parts of \<open>vmmrq-controller.go\<close> that look at migrations, pods and limit ranges: which
  migration is blocked by a quota, how many run, and the limit range with the largest
  defaults of a namespace. All of it reads informers only, so these are pure functions of
  \<open>env\<close>. The predicates of KubeVirt's API package they call (\<open>IsFinal\<close>, \<open>IsRunning\<close>,
  \<open>ListUnfinishedMigrations\<close>) are translated from the vendored package.
\<close>

subsection \<open>Phases\<close>

definition IsFinal :: "migration \<Rightarrow> bool" where
  "IsFinal m \<longleftrightarrow> m_phase m = MigrationFailed \<or> m_phase m = MigrationSucceeded"

definition IsRunning :: "migration \<Rightarrow> bool" where
  "IsRunning m =
     (case m_phase m of
        MigrationFailed \<Rightarrow> False | MigrationPending \<Rightarrow> False
      | MigrationPhaseUnset \<Rightarrow> False | MigrationSucceeded \<Rightarrow> False
      | _ \<Rightarrow> True)"

definition ListUnfinishedMigrations :: "env \<Rightarrow> migration list" where
  "ListUnfinishedMigrations en = filter (\<lambda>m. \<not> IsFinal m) (e_migList en)"

definition RejectedByResourceQuota :: string where
  "RejectedByResourceQuota = ''migrationRejectedByResourceQuota''"

subsection \<open>Target pods\<close>

definition targetPodLabels :: "migration \<Rightarrow> vmi \<Rightarrow> (string \<times> string) list" where
  "targetPodLabels m v =
     [(''kubevirt.io/created-by'', vmi_uid v), (''kubevirt.io'', ''virt-launcher''),
      (''kubevirt.io/migrationJobUID'', m_uid m)]"

text \<open>\<open>selector.Matches\<close> for a selector made of match-labels: every pair is among the labels.\<close>

definition selectorMatches :: "(string \<times> string) list \<Rightarrow> (string \<times> string) list \<Rightarrow> bool" where
  "selectorMatches sel labels = list_all (\<lambda>(k, v). map_of labels k = Some v) sel"

fun matchingPods :: "(string \<times> string) list \<Rightarrow> pod list \<Rightarrow> pod list \<Rightarrow> pod list" where
  "matchingPods selector [] pods = pods"
| "matchingPods selector (p # objs) pods =
     matchingPods selector objs (if selectorMatches selector (pod_labels p) then pods @ [p] else pods)"

definition listMatchingTargetPods :: "env \<Rightarrow> migration \<Rightarrow> vmi \<Rightarrow> pod list result" where
  "listMatchingTargetPods en m v =
     (case e_selectorErr en (targetPodLabels m v) of
        Some err \<Rightarrow> Inl err
      | None \<Rightarrow>
     (case e_podByNs en (m_ns m) of
        Inl err \<Rightarrow> Inl err
      | Inr objs \<Rightarrow> Inr (matchingPods (targetPodLabels m v) objs [])))"

text \<open>The method of the same name repeats the function.\<close>

definition ctrl_listMatchingTargetPods :: "env \<Rightarrow> migration \<Rightarrow> vmi \<Rightarrow> pod list result" where
  "ctrl_listMatchingTargetPods en m v =
     (case e_selectorErr en (targetPodLabels m v) of
        Some err \<Rightarrow> Inl err
      | None \<Rightarrow>
     (case e_podByNs en (m_ns m) of
        Inl err \<Rightarrow> Inl err
      | Inr objs \<Rightarrow> Inr (matchingPods (targetPodLabels m v) objs [])))"

lemma matchingPods_filter:
  "matchingPods sel objs acc = acc @ filter (\<lambda>p. selectorMatches sel (pod_labels p)) objs"
  by (induction objs arbitrary: acc) auto

lemma listMatchingTargetPods_filter:
  "listMatchingTargetPods en m v = Inr ps \<longleftrightarrow>
     e_selectorErr en (targetPodLabels m v) = None \<and>
     (\<exists>objs. e_podByNs en (m_ns m) = Inr objs
        \<and> ps = filter (\<lambda>p. selectorMatches (targetPodLabels m v) (pod_labels p)) objs)"
  by (auto simp: listMatchingTargetPods_def matchingPods_filter split: option.splits sum.splits)

subsection \<open>isBlockedMigration\<close>

fun hasRejectedCond :: "string list \<Rightarrow> bool" where
  "hasRejectedCond [] = False"
| "hasRejectedCond (cond # conds) = (if cond = RejectedByResourceQuota then True else hasRejectedCond conds)"

definition condsOf :: "migration \<Rightarrow> string list" where
  "condsOf m = (case m_conds m of None \<Rightarrow> [] | Some cs \<Rightarrow> cs)"

definition isBlockedMigration :: "env \<Rightarrow> vmi \<Rightarrow> migration \<Rightarrow> bool result" where
  "isBlockedMigration en v m =
     (if m_phase m \<noteq> MigrationPending then Inr False
      else case listMatchingTargetPods en m v of
        Inl err \<Rightarrow> Inl err
      | Inr targetPods \<Rightarrow>
          (if length targetPods > 0 then Inr False else Inr (hasRejectedCond (condsOf m))))"

lemma hasRejectedCond_iff: "hasRejectedCond cs \<longleftrightarrow> RejectedByResourceQuota \<in> set cs"
  by (induction cs) auto

lemma isBlockedMigration_iff:
  "isBlockedMigration en v m = Inr True \<longleftrightarrow>
     m_phase m = MigrationPending \<and> listMatchingTargetPods en m v = Inr []
     \<and> RejectedByResourceQuota \<in> set (condsOf m)"
  by (auto simp: isBlockedMigration_def hasRejectedCond_iff split: sum.splits)

subsection \<open>Running migrations\<close>

definition slashKey :: "string \<Rightarrow> string \<Rightarrow> string" where
  "slashKey ns name = ns @ CHR ''/'' # name"

definition outboundMigrationsOnNode :: "env \<Rightarrow> string \<Rightarrow> migration list \<Rightarrow> nat" where
  "outboundMigrationsOnNode en node runningMigrations =
     foldl (\<lambda>sum m. case e_vmiByKey en (slashKey (m_ns m) (m_vmiName m)) of
                      Inr (Some v) \<Rightarrow> (if vmi_node v = node then sum + 1 else sum)
                    | _ \<Rightarrow> sum) 0 runningMigrations"

fun collectRunning :: "env \<Rightarrow> migration list \<Rightarrow> migration list \<Rightarrow> migration list result" where
  "collectRunning en [] runningMigrations = Inr runningMigrations"
| "collectRunning en (m # ms) runningMigrations =
     (if IsRunning m then collectRunning en ms (runningMigrations @ [m])
      else case e_vmiByKey en (slashKey (m_ns m) (m_vmiName m)) of
        Inl err \<Rightarrow> Inl err
      | Inr None \<Rightarrow> collectRunning en ms runningMigrations
      | Inr (Some v) \<Rightarrow>
          (case ctrl_listMatchingTargetPods en m v of
             Inl err \<Rightarrow> Inl err
           | Inr pods \<Rightarrow>
               collectRunning en ms (if length pods > 0 then runningMigrations @ [m] else runningMigrations)))"

definition findRunningMigrations :: "env \<Rightarrow> migration list result" where
  "findRunningMigrations en = collectRunning en (ListUnfinishedMigrations en) []"

definition reachedMaxParallelMigration :: "env \<Rightarrow> string \<Rightarrow> bool result" where
  "reachedMaxParallelMigration en nodeName =
     (case findRunningMigrations en of
        Inl err \<Rightarrow> Inl (GoErr (''failed to determin the number of running migrations: '' @ Error err))
      | Inr runningMigrations \<Rightarrow>
          (if length runningMigrations \<ge> e_parallelMigrationsPerCluster en then Inr True
           else if outboundMigrationsOnNode en nodeName runningMigrations
                     \<ge> e_parallelOutboundMigrationsPerNode en then Inr True
           else Inr False))"

text \<open>A migration takes a slot when it runs, or is unfinished with a target pod already there.\<close>

definition occupies :: "env \<Rightarrow> migration \<Rightarrow> bool" where
  "occupies en m \<longleftrightarrow> IsRunning m \<or>
     (\<exists>v p ps. e_vmiByKey en (slashKey (m_ns m) (m_vmiName m)) = Inr (Some v)
        \<and> listMatchingTargetPods en m v = Inr (p # ps))"

definition onNode :: "env \<Rightarrow> string \<Rightarrow> migration \<Rightarrow> bool" where
  "onNode en node m \<longleftrightarrow>
     (\<exists>v. e_vmiByKey en (slashKey (m_ns m) (m_vmiName m)) = Inr (Some v) \<and> vmi_node v = node)"

lemma ctrl_listMatchingTargetPods_eq: "ctrl_listMatchingTargetPods = listMatchingTargetPods"
  by (intro ext) (simp add: ctrl_listMatchingTargetPods_def listMatchingTargetPods_def)

lemma collectRunning_filter:
  "collectRunning en ms acc = Inr rs \<Longrightarrow> rs = acc @ filter (occupies en) ms"
  by (induction ms arbitrary: acc)
    (fastforce simp: occupies_def ctrl_listMatchingTargetPods_eq neq_Nil_conv
       split: if_splits sum.splits option.splits)+

lemma IsFinal_not_running: "IsFinal m \<Longrightarrow> \<not> IsRunning m"
  by (auto simp: IsFinal_def IsRunning_def)

lemma findRunningMigrations_filter:
  "findRunningMigrations en = Inr rs \<Longrightarrow> rs = filter (\<lambda>m. \<not> IsFinal m \<and> occupies en m) (e_migList en)"
  using collectRunning_filter [of en "ListUnfinishedMigrations en" "[]" rs]
  by (simp add: findRunningMigrations_def ListUnfinishedMigrations_def conj_commute)

lemma outbound_count: "outboundMigrationsOnNode en node ms = length (filter (onNode en node) ms)"
proof -
  have "foldl (\<lambda>sum m. case e_vmiByKey en (slashKey (m_ns m) (m_vmiName m)) of
                      Inr (Some v) \<Rightarrow> (if vmi_node v = node then sum + 1 else sum)
                    | _ \<Rightarrow> sum) k ms = k + length (filter (onNode en node) ms)" for k :: nat
    by (induction ms arbitrary: k) (auto simp: onNode_def split: sum.splits option.splits)
  from this [of 0] show ?thesis by (simp add: outboundMigrationsOnNode_def)
qed

lemma reachedMaxParallelMigration_iff:
  assumes "findRunningMigrations en = Inr rs"
  shows "reachedMaxParallelMigration en node = Inr
    (let slots = filter (\<lambda>m. \<not> IsFinal m \<and> occupies en m) (e_migList en) in
     e_parallelMigrationsPerCluster en \<le> length slots
     \<or> e_parallelOutboundMigrationsPerNode en \<le> length (filter (onNode en node) slots))"
  using findRunningMigrations_filter [OF assms] assms
  by (simp add: reachedMaxParallelMigration_def outbound_count Let_def)

subsection \<open>Limit ranges\<close>

fun keepMax :: "resourceList \<Rightarrow> resourceList \<Rightarrow> resourceList" where
  "keepMax [] acc = acc"
| "keepMax ((resourceName, quantity) # rest) acc =
     keepMax rest
       (case map_of acc resourceName of
          None \<Rightarrow> AList.update resourceName quantity acc
        | Some val \<Rightarrow> (if Cmp quantity val > 0 then AList.update resourceName quantity acc else acc))"

definition LimitTypeContainer :: string where
  "LimitTypeContainer = ''Container''"

fun maxOfItems :: "limitRangeItem list \<Rightarrow> resourceList \<times> resourceList \<Rightarrow> resourceList \<times> resourceList" where
  "maxOfItems [] acc = acc"
| "maxOfItems (item # items) (maxDefaults, maxRequests) =
     maxOfItems items
       (if lri_type item \<noteq> LimitTypeContainer then (maxDefaults, maxRequests)
        else (keepMax (lri_default item) maxDefaults, keepMax (lri_defaultRequest item) maxRequests))"

fun maxOfRanges :: "limitRange list \<Rightarrow> resourceList \<times> resourceList \<Rightarrow> resourceList \<times> resourceList" where
  "maxOfRanges [] acc = acc"
| "maxOfRanges (lr # lrs) acc = maxOfRanges lrs (maxOfItems (lr_limits lr) acc)"

definition getLimitRangeWithMaxDefaults :: "env \<Rightarrow> string \<Rightarrow> limitRange result" where
  "getLimitRangeWithMaxDefaults en ns =
     (case e_lrByNs en ns of
        Inl err \<Rightarrow> Inl err
      | Inr lrs \<Rightarrow>
          (case maxOfRanges lrs ([], []) of (maxDefaults, maxRequests) \<Rightarrow>
             Inr \<lparr>lr_limits = [\<lparr>lri_type = LimitTypeContainer, lri_default = maxDefaults,
                               lri_defaultRequest = maxRequests\<rparr>]\<rparr>))"

text \<open>The largest amount, counting a resource nobody names as absent.\<close>

fun maxOpt :: "int option \<Rightarrow> int option \<Rightarrow> int option" where
  "maxOpt None y = y"
| "maxOpt x None = x"
| "maxOpt (Some a) (Some b) = Some (max a b)"

definition maxAmounts :: "(string \<Rightarrow> int option) list \<Rightarrow> string \<Rightarrow> int option" where
  "maxAmounts fs k = foldl (\<lambda>acc f. maxOpt acc (f k)) None fs"

lemma maxOpt_None [simp]: "maxOpt a None = a"
  by (cases a) auto

lemma amounts_Cons: "amounts ((k, q) # m) j = (if j = k then Some (q_amount q) else amounts m j)"
  by (simp add: amounts_def)

lemma amounts_Nil [simp]: "amounts [] j = None"
  by (simp add: amounts_def)

lemma amounts_update: "amounts (AList.update k q m) j = (if j = k then Some (q_amount q) else amounts m j)"
  by (simp add: amounts_def update_conv')

lemma keepMax_amounts:
  "distinctKeys m \<Longrightarrow> amounts (keepMax m acc) k = maxOpt (amounts acc k) (amounts m k)"
proof (induction m arbitrary: acc)
  case Nil
  then show ?case by simp
next
  case (Cons kv m)
  obtain j q where kv: "kv = (j, q)" by fastforce
  let ?acc = "case map_of acc j of None \<Rightarrow> AList.update j q acc
        | Some val \<Rightarrow> (if Cmp q val > 0 then AList.update j q acc else acc)"
  have none: "amounts m j = None" using Cons.prems by (auto simp: kv amounts_def map_of_eq_None_iff)
  have "amounts ?acc k = maxOpt (amounts acc k) (if k = j then Some (q_amount q) else None)"
  proof (cases "map_of acc j")
    case None
    then have "amounts acc j = None" by (simp add: amounts_def)
    with None show ?thesis by (simp add: amounts_update)
  next
    case (Some v)
    then have "amounts acc j = Some (q_amount v)" by (simp add: amounts_def)
    with Some show ?thesis by (auto simp: amounts_update Cmp_pos max_def)
  qed
  with Cons none show ?case by (simp add: kv amounts_Cons)
qed

definition containerItems :: "limitRange list \<Rightarrow> limitRangeItem list" where
  "containerItems lrs = filter (\<lambda>i. lri_type i = LimitTypeContainer) (concat (map lr_limits lrs))"

lemma maxOfItems_fst:
  "\<forall>i \<in> set items. distinctKeys (lri_default i) \<Longrightarrow>
   amounts (fst (maxOfItems items acc)) k =
     foldl (\<lambda>x i. maxOpt x (amounts (lri_default i) k)) (amounts (fst acc) k)
       (filter (\<lambda>i. lri_type i = LimitTypeContainer) items)"
  by (induction items acc rule: maxOfItems.induct) (auto simp: keepMax_amounts)

lemma maxOfItems_snd:
  "\<forall>i \<in> set items. distinctKeys (lri_defaultRequest i) \<Longrightarrow>
   amounts (snd (maxOfItems items acc)) k =
     foldl (\<lambda>x i. maxOpt x (amounts (lri_defaultRequest i) k)) (amounts (snd acc) k)
       (filter (\<lambda>i. lri_type i = LimitTypeContainer) items)"
  by (induction items acc rule: maxOfItems.induct) (auto simp: keepMax_amounts)

lemma maxOfRanges_concat: "maxOfRanges lrs acc = maxOfItems (concat (map lr_limits lrs)) acc"
proof -
  have app: "maxOfItems (xs @ ys) acc = maxOfItems ys (maxOfItems xs acc)" for xs ys acc
    by (induction xs acc rule: maxOfItems.induct) auto
  show ?thesis by (induction lrs arbitrary: acc) (auto simp: app)
qed

lemma getLimitRangeWithMaxDefaults_max:
  assumes "e_lrByNs en ns = Inr lrs"
    and "\<forall>i \<in> set (concat (map lr_limits lrs)).
           distinctKeys (lri_default i) \<and> distinctKeys (lri_defaultRequest i)"
  shows "\<exists>d r. getLimitRangeWithMaxDefaults en ns = Inr \<lparr>lr_limits = [\<lparr>lri_type = LimitTypeContainer,
            lri_default = d, lri_defaultRequest = r\<rparr>]\<rparr>
     \<and> amounts d = maxAmounts (map (\<lambda>i. amounts (lri_default i)) (containerItems lrs))
     \<and> amounts r = maxAmounts (map (\<lambda>i. amounts (lri_defaultRequest i)) (containerItems lrs))"
proof -
  obtain d r where dr: "maxOfItems (concat (map lr_limits lrs)) ([], []) = (d, r)" by fastforce
  have fm: "foldl (\<lambda>x f. maxOpt x (f k)) a (map g xs) = foldl (\<lambda>x i. maxOpt x (g i k)) a xs"
    for a k and g :: "limitRangeItem \<Rightarrow> string \<Rightarrow> int option" and xs
    by (induction xs arbitrary: a) auto
  have d: "amounts d = maxAmounts (map (\<lambda>i. amounts (lri_default i)) (containerItems lrs))"
    using maxOfItems_fst [of "concat (map lr_limits lrs)" "([], [])"] assms(2) dr
    by (intro ext) (simp add: maxAmounts_def containerItems_def fm)
  have r: "amounts r = maxAmounts (map (\<lambda>i. amounts (lri_defaultRequest i)) (containerItems lrs))"
    using maxOfItems_snd [of "concat (map lr_limits lrs)" "([], [])"] assms(2) dr
    by (intro ext) (simp add: maxAmounts_def containerItems_def fm)
  show ?thesis
    using d r assms(1) dr by (auto simp: getLimitRangeWithMaxDefaults_def maxOfRanges_concat)
qed

lemma maxAmounts_upper:
  assumes "f \<in> set fs" and "f k = Some a"
  shows "\<exists>b. maxAmounts fs k = Some b \<and> a \<le> b"
proof -
  have keep: "\<exists>b. foldl (\<lambda>acc f. maxOpt acc (f k)) (Some a) gs = Some b \<and> a \<le> b" for gs a
  proof (induction gs arbitrary: a)
    case (Cons g gs)
    show ?case
    proof (cases "g k")
      case (Some c)
      with Cons [of "max a c"] show ?thesis by auto
    qed (use Cons in simp)
  qed simp
  have "\<exists>b. foldl (\<lambda>acc f. maxOpt acc (f k)) x fs = Some b \<and> a \<le> b" for x
    using assms(1)
  proof (induction fs arbitrary: x)
    case (Cons g gs)
    show ?case
    proof (cases "g = f")
      case True
      obtain c where "maxOpt x (Some a) = Some c" "a \<le> c" by (cases x) auto
      with keep [of c gs] True assms(2) show ?thesis by (auto intro: order_trans)
    qed (use Cons in auto)
  qed simp
  then show ?thesis by (simp add: maxAmounts_def)
qed

subsection \<open>addLimitRangeDefault\<close>

text \<open>The pod afterwards and the error; the pod is only written by the last conversion.\<close>

definition addLimitRangeDefault :: "env \<Rightarrow> limitRange \<Rightarrow> pod \<Rightarrow> goerror option \<times> pod" where
  "addLimitRangeDefault en lrWithMaxDefaults targetPod =
     (case e_convertToCore en targetPod of
        Inl err \<Rightarrow> (Some err, targetPod)
      | Inr apiTargetPod \<Rightarrow>
     (case e_podMutateLimit en lrWithMaxDefaults apiTargetPod of
        Inl err \<Rightarrow> (Some err, targetPod)
      | Inr apiTargetPod' \<Rightarrow>
     (case e_convertFromCore en apiTargetPod' of
        Inl err \<Rightarrow> (Some err, targetPod)
      | Inr p \<Rightarrow> (None, p))))"

end
