(* ===== verification/VmmrqController.thy ===== *)
theory VmmrqController
  imports Passes WebhookLock QuotaOps Migrations
begin

text \<open>
  \<open>execute\<close> of \<open>pkg/mtq-controller/vmmrq-controller/vmmrq-controller.go\<close>: one pass of the
  controller for a migration key. The function is cut into its consecutive parts, each an
  operation that continues or ends the pass; \<open>executeLocked\<close> is what runs between
  \<open>nsLockMap.Lock\<close> and \<open>nsLockMap.Unlock\<close> (\<open>NamespaceLockMap\<close> models those).
\<close>

subsection \<open>Reading the VMMRQ\<close>

definition countErr :: "string \<Rightarrow> goerror" where
  "countErr ns = GoErr (''there should be 1 virtualMachineMigrationResourceQuota in '' @ ns @ '' namespace'')"

definition readVmmrq :: "'s api \<Rightarrow> string \<Rightarrow> ('s, href vmmrq) op" where
  "readVmmrq A ns =
     bindOp (tryVal BackOff (doRead (ListVmmrqs ns) (api_listVmmrqs A ns)))
       (\<lambda>items w.
          if length items \<noteq> 1 then (Inl (Returned (Some (countErr ns)) Forget), w)
          else case loadVmmrq (items ! 0) (w_heap w) of (vmmrq, h) \<Rightarrow> (Inr vmmrq, w\<lparr>w_heap := h\<rparr>))"

text \<open>\<open>if migs == nil { migs = make(...) }\<close>\<close>

definition makeMigs :: "'m vmmrq \<Rightarrow> 'm vmmrq" where
  "makeMigs v = (case v_migs v of None \<Rightarrow> v\<lparr>v_migs := Some []\<rparr> | Some _ \<Rightarrow> v)"

definition sendStatus :: "'s api \<Rightarrow> href vmmrq \<Rightarrow> 's world \<Rightarrow> goerror option \<times> 's world" where
  "sendStatus A vmmrq w =
     (let v = valVmmrq (w_heap w) vmmrq in doWrite (UpdateVmmrqStatus v) (api_updateVmmrqStatus A v) w)"

definition syncAdditional :: "'s api \<Rightarrow> href vmmrq \<Rightarrow> ('s, href vmmrq) op" where
  "syncAdditional A vmmrq w =
     (if \<not> areResourceMapsEqual (deref (w_heap w) (v_specAdd vmmrq)) (deref (w_heap w) (v_add vmmrq))
      then (let vmmrq' = vmmrq\<lparr>v_add := v_specAdd vmmrq\<rparr>
            in bindOp (tryErr Immediate (sendStatus A vmmrq')) (\<lambda>_. returnOp vmmrq') w)
      else (Inr vmmrq, w))"

definition snapshot :: "href vmmrq \<Rightarrow> ('s, href vmmrq) op" where
  "snapshot vmmrq w = (case deepCopyVmmrq vmmrq (w_heap w) of (prev, h) \<Rightarrow> (Inr prev, w\<lparr>w_heap := h\<rparr>))"

subsection \<open>The migration\<close>

text \<open>Is it blocked, is the limit of parallel migrations reached, and its VMI.\<close>

definition inspectMigration :: "env \<Rightarrow> string \<Rightarrow> migration option \<Rightarrow> ('s, bool \<times> bool \<times> vmi option) op" where
  "inspectMigration en ns migration =
     (case migration of
        None \<Rightarrow> returnOp (False, False, None)
      | Some m \<Rightarrow>
          bindOp (tryPure BackOff (e_vmiByKey en (slashKey ns (m_vmiName m)))) (\<lambda>vmiObj.
          case vmiObj of
            None \<Rightarrow> tryPure BackOff (Inl (GoErr ''VMI doesn't exist for migration''))
          | Some v \<Rightarrow>
              bindOp (tryPure BackOff (isBlockedMigration en v m)) (\<lambda>blocked.
              bindOp (tryPure Immediate (reachedMaxParallelMigration en (vmi_node v))) (\<lambda>reachedMax.
              returnOp (blocked, reachedMax, Some v)))))"

definition deleteMig :: "string \<Rightarrow> 'm vmmrq \<Rightarrow> 'm vmmrq" where
  "deleteMig name v = v\<lparr>v_migs := map_option (AList.delete name) (v_migs v)\<rparr>"

text \<open>Assigning into a nil map panics.\<close>

definition assignMig :: "string \<Rightarrow> string list \<Rightarrow> 'm vmmrq \<Rightarrow> ('s, 'm vmmrq) op" where
  "assignMig name rqs v w =
     (case v_migs v of
        None \<Rightarrow> (Inl Panicked, w)
      | Some m \<Rightarrow> (Inr (v\<lparr>v_migs := Some (AList.update name rqs m)\<rparr>), w))"

definition targetPodOp :: "env \<Rightarrow> string \<Rightarrow> vmi \<Rightarrow> ('s, pod) op" where
  "targetPodOp en ns v =
     bindOp (tryPure Immediate (e_renderLaunchManifest en v)) (\<lambda>targetPod.
     bindOp (tryPure Immediate (getLimitRangeWithMaxDefaults en ns)) (\<lambda>lrWithMaxDefaults.
     case addLimitRangeDefault en lrWithMaxDefaults targetPod of
       (Some err, p) \<Rightarrow> tryPure Immediate (Inl err)
     | (None, p) \<Rightarrow> returnOp p))"

definition decideBlocking ::
  "env \<Rightarrow> string \<Rightarrow> string \<Rightarrow> migration option \<Rightarrow> bool \<times> bool \<times> vmi option \<Rightarrow> href vmmrq \<Rightarrow>
     ('s, href vmmrq \<times> enqueueState) op" where
  "decideBlocking en ns migrationName migration insp vmmrq =
     (case (insp, migration) of
        ((True, False, Some v), Some m) \<Rightarrow>
          bindOp (targetPodOp en ns v) (\<lambda>targetPod.
          bindOp (tryVal Immediate (getCurrBlockingRQInNS en vmmrq m targetPod (v_add vmmrq))) (\<lambda>currBlockingRQList.
          if length currBlockingRQList = 0 then returnOp (deleteMig migrationName vmmrq, Immediate)
          else bindOp (assignMig migrationName currBlockingRQList vmmrq) (\<lambda>vm. returnOp (vm, Immediate))))
      | ((True, True, _), _) \<Rightarrow> returnOp (deleteMig migrationName vmmrq, AddAfterFiveSeconds)
      | _ \<Rightarrow> returnOp (deleteMig migrationName vmmrq, Forget))"

subsection \<open>The namespace lock\<close>

definition bundleOr :: "nat list result \<Rightarrow> nat list" where
  "bundleOr r = (case r of Inl _ \<Rightarrow> [] | Inr ca \<Rightarrow> ca)"

text \<open>In the Unknown case the error of \<open>BundleBytes\<close> is overwritten before it is looked at.\<close>

definition readLock :: "'s api \<Rightarrow> env \<Rightarrow> string \<Rightarrow> ('s, bool) op" where
  "readLock A en ns w =
     (case GetLockState (w_nsc w) ns of
        Locked \<Rightarrow> (Inr True, w)
      | Unlocked \<Rightarrow> (Inr False, w)
      | Unknown \<Rightarrow>
          (case doRead FetchBundle (api_bundleBytes A) w of (ca, w1) \<Rightarrow>
           case NamespaceLocked A ns (e_mtqNs en) (bundleOr ca) w1 of
             (None, w2) \<Rightarrow> (Inl Panicked, w2)
           | (Some (nsLocked, Some err), w2) \<Rightarrow> (Inl (Returned (Some err) Immediate), w2)
           | (Some (nsLocked, None), w2) \<Rightarrow> (Inr nsLocked, w2)))"

definition markLocked :: "string \<Rightarrow> ('s, unit) op" where
  "markLocked ns w = (Inr (), w\<lparr>w_nsc := MarkLockStateLocked ns (w_nsc w)\<rparr>)"

definition markUnlocked :: "string \<Rightarrow> ('s, unit) op" where
  "markUnlocked ns w = (Inr (), w\<lparr>w_nsc := MarkLockStateUnlocked ns (w_nsc w)\<rparr>)"

definition acquireLock :: "'s api \<Rightarrow> env \<Rightarrow> string \<Rightarrow> ('s, unit) op" where
  "acquireLock A en ns =
     bindOp (tryVal Immediate (doRead FetchBundle (api_bundleBytes A))) (\<lambda>caBundle.
     bindOp (tryErr Immediate (LockNamespace A ns (e_mtqNs en) caBundle)) (\<lambda>_.
     markLocked ns))"

definition releaseLock :: "'s api \<Rightarrow> string \<Rightarrow> ('s, unit) op" where
  "releaseLock A ns = bindOp (tryErr Immediate (UnlockNamespace A ns)) (\<lambda>_. markUnlocked ns)"

definition whenOp :: "bool \<Rightarrow> ('s, unit) op \<Rightarrow> ('s, unit) op" where
  "whenOp b m = (if b then m else returnOp ())"

subsection \<open>The pass\<close>

definition adoptOriginals :: "env \<Rightarrow> string \<Rightarrow> href vmmrq \<Rightarrow> ('s, href vmmrq) op" where
  "adoptOriginals en ns vmmrq =
     bindOp (tryVal Immediate (getAllBlockingRQsInNS en vmmrq ns)) (\<lambda>allBlockingRQsInNS.
     returnOp (vmmrq\<lparr>v_orig := allBlockingRQsInNS\<rparr>))"

definition publish :: "'s api \<Rightarrow> href vmmrq \<Rightarrow> href vmmrq \<Rightarrow> ('s, unit) op" where
  "publish A vmmrq prevVmmrq w =
     whenOp (shouldUpdateVmmrq (w_heap w) vmmrq prevVmmrq) (tryErr Immediate (sendStatus A vmmrq)) w"

definition reconcile ::
  "'s api \<Rightarrow> env \<Rightarrow> string \<Rightarrow> href vmmrq \<Rightarrow> href vmmrq \<Rightarrow> ('s, unit) op" where
  "reconcile A en ns vmmrq prevVmmrq =
     bindOp (readLock A en ns) (\<lambda>nsLocked.
     bindOp (whenOp (shouldLockNS vmmrq \<and> \<not> nsLocked) (acquireLock A en ns)) (\<lambda>_.
     bindOp (tryErr Immediate (restoreOriginalRQs A en (getRQListToRestore vmmrq prevVmmrq) ns)) (\<lambda>_.
     bindOp (publish A vmmrq prevVmmrq) (\<lambda>_.
     bindOp (tryErr Immediate (addResourcesToRQs A en vmmrq ns)) (\<lambda>_.
     whenOp (\<not> shouldLockNS vmmrq \<and> nsLocked) (releaseLock A ns))))))"

definition executeLocked ::
  "'s api \<Rightarrow> env \<Rightarrow> string \<Rightarrow> string \<Rightarrow> migration option \<Rightarrow> ('s, enqueueState) op" where
  "executeLocked A en ns migrationName migration =
     bindOp (readVmmrq A ns) (\<lambda>vmmrq0.
     bindOp (syncAdditional A (makeMigs vmmrq0)) (\<lambda>vmmrq1.
     bindOp (snapshot vmmrq1) (\<lambda>prevVmmrq.
     bindOp (inspectMigration en ns migration) (\<lambda>insp.
     bindOp (decideBlocking en ns migrationName migration insp vmmrq1) (\<lambda>(vmmrq2, finalEnqueueState).
     bindOp (adoptOriginals en ns vmmrq2) (\<lambda>vmmrq.
     bindOp (reconcile A en ns vmmrq prevVmmrq) (\<lambda>_.
     returnOp finalEnqueueState)))))))"

definition execute :: "'s api \<Rightarrow> env \<Rightarrow> string \<Rightarrow> 's world \<Rightarrow> outcome \<times> 's world" where
  "execute A en key w =
     (case e_migByKey en key of
        Inl err \<Rightarrow> (Returned (Some err) Forget, w)
      | Inr migration \<Rightarrow>
     (case parseKey key of
        Inl err \<Rightarrow> (Returned (Some err) Forget, w)
      | Inr (migartionNS, migrationName) \<Rightarrow>
     (case executeLocked A en migartionNS migrationName migration w of
        (Inl out, w') \<Rightarrow> (out, w')
      | (Inr finalEnqueueState, w') \<Rightarrow> (Returned None finalEnqueueState, w'))))"

subsection \<open>The work queue\<close>

text \<open>What a handler or a worker asks of the queue.\<close>

datatype queueOp =
    QAdd string
  | QAddRateLimited string
  | QForget string
  | QAddAfter string nat
  | QDone string

fun enqueueOps :: "enqueueState \<Rightarrow> string \<Rightarrow> queueOp list" where
  "enqueueOps BackOff key = [QAddRateLimited key]"
| "enqueueOps Forget key = [QForget key]"
| "enqueueOps Immediate key = [QAdd key]"
| "enqueueOps AddAfterFiveSeconds key = [QAddAfter key 5]"

text \<open>
  One round of a worker on the key the queue handed out (\<open>None\<close>: shut down): whether the worker
  goes on (\<open>None\<close> when the pass panics). \<open>Done\<close> is deferred, so it comes last, and also
  runs when the pass panics.
\<close>

definition Execute :: "'s api \<Rightarrow> env \<Rightarrow> string option \<Rightarrow> 's world \<Rightarrow> bool option \<times> queueOp list \<times> 's world" where
  "Execute A en got w =
     (case got of
        None \<Rightarrow> (Some False, [], w)
      | Some key \<Rightarrow>
          (case execute A en key w of
             (Panicked, w') \<Rightarrow> (None, [QDone key], w')
           | (Returned err st, w') \<Rightarrow> (Some True, enqueueOps st key @ [QDone key], w')))"

fun enqueueMigration :: "migration \<Rightarrow> queueOp list" where
  "enqueueMigration m = [QAdd (metaKey (m_ns m) (m_name m))]"

definition deleteMigration :: "migration \<Rightarrow> queueOp list" where
  "deleteMigration m = enqueueMigration m"

definition updateMigration :: "migration \<Rightarrow> migration \<Rightarrow> queueOp list" where
  "updateMigration old cur = enqueueMigration cur"

text \<open>One enqueue per condition that says the quota rejected the migration.\<close>

fun enqueueForConds :: "migration \<Rightarrow> string list \<Rightarrow> queueOp list" where
  "enqueueForConds m [] = []"
| "enqueueForConds m (cond # conds) =
     (if cond = RejectedByResourceQuota then enqueueMigration m @ enqueueForConds m conds
      else enqueueForConds m conds)"

fun enqueueRejected :: "migration list \<Rightarrow> queueOp list" where
  "enqueueRejected [] = []"
| "enqueueRejected (m # objs) =
     (case m_conds m of
        None \<Rightarrow> enqueueRejected objs
      | Some conds \<Rightarrow> enqueueForConds m conds @ enqueueRejected objs)"

definition fakeKey :: "string \<Rightarrow> string" where
  "fakeKey ns = ns @ ''/fake''"

text \<open>\<open>ByIndex\<close> returns no objects with its error, which the handlers ignore.\<close>

definition migsOfNs :: "env \<Rightarrow> string \<Rightarrow> migration list" where
  "migsOfNs en ns = (case e_migByNs en ns of Inl _ \<Rightarrow> [] | Inr objs \<Rightarrow> objs)"

definition addVmmrq :: "env \<Rightarrow> 'm vmmrq \<Rightarrow> queueOp list" where
  "addVmmrq en vmmrq =
     (let ops = enqueueRejected (migsOfNs en (v_ns vmmrq))
      in if ops = [] then [QAdd (fakeKey (v_ns vmmrq))] else ops)"

text \<open>
  \<open>equality.Semantic.DeepEqual\<close> of two specs: the same resources with the same amounts; unlike
  \<open>reflect.DeepEqual\<close> it does not tell a nil map from an empty one.
\<close>

definition semanticEqual :: "wire \<Rightarrow> wire \<Rightarrow> bool" where
  "semanticEqual a b = areResourceMapsEqual (case a of None \<Rightarrow> [] | Some m \<Rightarrow> m) (case b of None \<Rightarrow> [] | Some m \<Rightarrow> m)"

definition updateVmmrq :: "env \<Rightarrow> wire vmmrq \<Rightarrow> wire vmmrq \<Rightarrow> queueOp list" where
  "updateVmmrq en oldVmmrq curVmmrq =
     (if semanticEqual (v_specAdd curVmmrq) (v_specAdd oldVmmrq) then []
      else let ops = enqueueRejected (migsOfNs en (v_ns curVmmrq))
           in if ops = [] then [QAdd (fakeKey (v_ns curVmmrq))] else ops)"

fun enqueueVmmrqs :: "'m vmmrq list \<Rightarrow> queueOp list" where
  "enqueueVmmrqs [] = []"
| "enqueueVmmrqs (vmmrq # objs) =
     (if v_orig vmmrq = [] then enqueueVmmrqs objs
      else (case v_migs vmmrq of
              Some (kv # kvs) \<Rightarrow> map (\<lambda>(name, _). QAdd (slashKey (v_ns vmmrq) name)) (kv # kvs)
            | _ \<Rightarrow> [QAdd (fakeKey (v_ns vmmrq))]) @ enqueueVmmrqs objs)"

definition enqueueAll :: "env \<Rightarrow> 'm vmmrq list \<Rightarrow> queueOp list" where
  "enqueueAll en vmmrqObjs = enqueueVmmrqs vmmrqObjs @ enqueueRejected (e_migList en)"

end
