(* ===== verification/QuotaSpec.thy ===== *)
theory QuotaSpec
  imports QuotaOps
begin

text \<open>
  What the quota operations compute, stated on values instead of references. For each
  operation a specification on wire values and the lemma that the heap-level code implements
  it; the code only allocates while it looks for blocking quotas, so the informer's shared
  objects keep their content (\<open>heapExt\<close>).
\<close>

definition wfHeap :: "heap \<Rightarrow> bool" where
  "wfHeap h \<longleftrightarrow> (\<forall>a. distinctKeys (hp_maps h a))"

lemma wfHeap_deref: "wfHeap h \<Longrightarrow> distinctKeys (deref h r)"
  by (cases r) (auto simp: wfHeap_def)

lemma wfHeap_copyMap: "wfHeap h \<Longrightarrow> wfHeap (snd (copyMap r h))"
  by (cases r) (auto simp: wfHeap_def allocMap_def)

lemma wfHeap_deepCopyNameSpec: "wfHeap h \<Longrightarrow> wfHeap (snd (deepCopyNameSpec x h))"
  using wfHeap_copyMap [of h "spec_hard (ns_spec x)"]
  by (auto simp: deepCopyNameSpec_def travNameSpec_def split: prod.splits)

lemma wfHeap_deepCopyRQ:
  assumes "wfHeap h"
  shows "wfHeap (snd (deepCopyRQ q h))"
proof -
  obtain a h1 where a: "copyMap (spec_hard (rq_spec q)) h = (a, h1)" by fastforce
  obtain b h2 where b: "copyMap (rq_stHard q) h1 = (b, h2)" by fastforce
  obtain c h3 where c: "copyMap (rq_stUsed q) h2 = (c, h3)" by fastforce
  have "wfHeap h1" using wfHeap_copyMap [OF assms, of "spec_hard (rq_spec q)"] a by simp
  then have "wfHeap h2" using wfHeap_copyMap [of h1 "rq_stHard q"] b by simp
  then have "wfHeap h3" using wfHeap_copyMap [of h2 "rq_stUsed q"] c by simp
  then show ?thesis by (simp add: deepCopyRQ_def travRQ_def a b c)
qed

lemma wfHeap_getRQ: "wfHeap h \<Longrightarrow> wfHeap (snd (getRQNameAndSpecIfExist rqs name h))"
  using wfHeap_deepCopyNameSpec [of h]
  by (auto simp: getRQNameAndSpecIfExist_find split: option.splits prod.splits) (metis snd_conv)

lemma wfHeap_addResourcesToRQ:
  assumes "wfHeap h"
  shows "wfHeap (snd (addResourcesToRQ rq rl h))"
  using assms by (auto simp: addResourcesToRQ_heap wfHeap_deref wfHeap_def split: option.splits)

subsection \<open>The quota the admission check sees\<close>

definition originalViewV :: "wire rqNameAndSpec list \<Rightarrow> wire resourceQuota \<Rightarrow> wire resourceQuota" where
  "originalViewV orig q =
     (case find (\<lambda>x. ns_name x = rq_name q) orig of
        None \<Rightarrow> q
      | Some x \<Rightarrow> q\<lparr>rq_spec := ns_spec x, rq_stHard := spec_hard (ns_spec x)\<rparr>)"

definition enlargedV :: "resourceList \<Rightarrow> wire resourceQuota \<Rightarrow> wire resourceQuota" where
  "enlargedV toAdd q =
     (let hard = map_option (\<lambda>m. addHard m toAdd) (spec_hard (rq_spec q))
      in \<lparr>rq_name = [], rq_ns = [], rq_rv = [],
          rq_spec = \<lparr>spec_hard = hard, spec_scopes = [], spec_scopeSelector = None\<rparr>,
          rq_stHard = hard, rq_stUsed = rq_stUsed q\<rparr>)"

lemma find_map_name:
  "find (\<lambda>x. ns_name x = n) (map (mapNameSpec f) xs) = map_option (mapNameSpec f) (find (\<lambda>x. ns_name x = n) xs)"
  by (induction xs) auto

lemma originalView_correct:
  assumes res: "originalView orig q h = (c, h')" and live: "liveRQ h q" and orig: "\<forall>x \<in> set orig. liveNameSpec h x"
  shows "heapExt h h' \<and> liveRQ h' c \<and> valRQ h' c = originalViewV (map (valNameSpec h) orig) (valRQ h q)
     \<and> (\<forall>a. spec_hard (rq_spec c) = Some a \<longrightarrow> hp_next h \<le> a)
     \<and> (\<forall>a. rq_stUsed c = Some a \<longrightarrow> spec_hard (rq_spec c) \<noteq> Some a)"
proof -
  obtain cp h1 where cp: "deepCopyRQ q h = (cp, h1)" by fastforce
  obtain o' h2 where o': "getRQNameAndSpecIfExist orig (rq_name q) h1 = (o', h2)" by fastforce
  note C = deepCopyRQ_correct [OF cp live]
  note O = getRQNameAndSpecIfExist_correct [OF o']
  have used: "rq_stUsed cp = Some a \<Longrightarrow> spec_hard (rq_spec cp) \<noteq> Some a" for a
    using cp by (auto simp: deepCopyRQ_def travRQ_def allocMap_def split: prod.splits
        elim!: copyMap.elims)
  have orig1: "map (valNameSpec h1) orig = map (valNameSpec h) orig"
    using C orig by (auto intro: heapExt_valNameSpec)
  have liveU: "liveRef h1 (rq_stUsed cp)" using C by (simp add: liveRQ_def)
  show ?thesis
  proof (cases o')
    case None
    then have "find (\<lambda>x. ns_name x = rq_name q) (map (valNameSpec h) orig) = None"
      using O(2) None by (simp add: orig1 [symmetric] find_map_name)
    moreover have "h2 = h1" using O(5) None by simp
    ultimately show ?thesis
      using C used res cp o' None by (simp add: originalView_def originalViewV_def)
  next
    case (Some x)
    have f: "find (\<lambda>x. ns_name x = rq_name q) (map (valNameSpec h) orig) = Some (valNameSpec h2 x)"
      using O(2) Some by (simp add: orig1 [symmetric] find_map_name)
    have c: "c = cp\<lparr>rq_spec := ns_spec x, rq_stHard := spec_hard (ns_spec x)\<rparr>" "h' = h2"
      using res cp o' Some by (auto simp: originalView_def)
    have e: "heapExt h h2" using C O(1) by (blast intro: heapExt_trans)
    have fresh: "hp_next h1 \<le> a" if "spec_hard (ns_spec x) = Some a" for a
      using O(4) Some that by blast
    have le: "hp_next h \<le> hp_next h1" using C by (simp add: heapExt_def)
    have val: "valMap h2 (rq_stUsed cp) = valMap h (rq_stUsed q)"
      using heapExt_valMap [OF O(1) liveU] C by (metis mapRQ_simps(6))
    have nm: "rq_name cp = rq_name q" "rq_ns cp = rq_ns q" "rq_rv cp = rq_rv q"
      using cp by (auto simp: deepCopyRQ_def travRQ_def split: prod.splits)
    have "spec_hard (ns_spec x) \<noteq> Some a" if "rq_stUsed cp = Some a" for a
      using liveU fresh that by force
    then show ?thesis
      using e O(1,3) Some fresh le C val nm f
      by (auto simp: c liveRQ_def liveNameSpec_def originalViewV_def mapRQ_def
          intro: heapExt_live dest: order_trans)
  qed
qed

lemma enlarge_copy_correct:
  assumes res: "addResourcesToRQ c toAdd h = (m, h')" and wf: "wfHeap h"
    and used: "\<forall>a. rq_stUsed c = Some a \<longrightarrow> spec_hard (rq_spec c) \<noteq> Some a"
  shows "valRQ h' m = enlargedV (deref h toAdd) (valRQ h c)"
proof -
  have h': "h' = (case spec_hard (rq_spec c) of None \<Rightarrow> h
        | Some a \<Rightarrow> h\<lparr>hp_maps := (hp_maps h)(a := addHard (hp_maps h a) (deref h toAdd))\<rparr>)"
    using addResourcesToRQ_heap [of h c toAdd] wf res by (simp add: wfHeap_deref)
  have "valMap h' (rq_stUsed c) = valMap h (rq_stUsed c)"
    using used h' by (cases "rq_stUsed c") (auto simp: valMap_def split: option.splits)
  moreover have "valMap h' (spec_hard (rq_spec c)) = map_option (\<lambda>m. addHard m (deref h toAdd)) (valMap h (spec_hard (rq_spec c)))"
    using h' by (auto simp: valMap_def split: option.splits)
  moreover have "m = \<lparr>rq_name = [], rq_ns = [], rq_rv = [],
       rq_spec = \<lparr>spec_hard = spec_hard (rq_spec c), spec_scopes = [], spec_scopeSelector = None\<rparr>,
       rq_stHard = spec_hard (rq_spec c), rq_stUsed = rq_stUsed c\<rparr>"
    using res by (auto simp: addResourcesToRQ_def Let_def)
  ultimately show ?thesis by (simp add: enlargedV_def mapRQ_def mapSpec_def Let_def)
qed

subsection \<open>getCurrBlockingRQInNS\<close>

text \<open>A quota blocks the pod and stops blocking it once enlarged; or it blocks it even then.\<close>

definition unblocks :: "env \<Rightarrow> pod \<Rightarrow> limitedResource \<Rightarrow> wire rqNameAndSpec list \<Rightarrow> resourceList \<Rightarrow> wire resourceQuota \<Rightarrow> bool" where
  "unblocks en p lim orig toAdd q \<longleftrightarrow>
     exceedsQuota (e_checkRequest en (originalViewV orig q) p lim)
     \<and> e_checkRequest en (enlargedV toAdd (originalViewV orig q)) p lim = None"

definition stillExceeded :: "env \<Rightarrow> pod \<Rightarrow> limitedResource \<Rightarrow> wire rqNameAndSpec list \<Rightarrow> resourceList \<Rightarrow> wire resourceQuota \<Rightarrow> bool" where
  "stillExceeded en p lim orig toAdd q \<longleftrightarrow>
     exceedsQuota (e_checkRequest en (enlargedV toAdd (originalViewV orig q)) p lim)"

definition blockingSpec :: "env \<Rightarrow> pod \<Rightarrow> limitedResource \<Rightarrow> wire rqNameAndSpec list \<Rightarrow> resourceList \<Rightarrow> wire resourceQuota list \<Rightarrow> string list" where
  "blockingSpec en p lim orig toAdd qs =
     (if \<exists>q \<in> set qs. stillExceeded en p lim orig toAdd q then []
      else map rq_name (filter (unblocks en p lim orig toAdd) qs))"

lemma exceedsQuota_None [simp]: "\<not> exceedsQuota None"
  by (simp add: exceedsQuota_def)

lemma scanQuotas_correct:
  assumes "scanQuotas en p lim orig toAdd qs acc h = ((names, err), h')"
    and "wfHeap h" and "\<forall>q \<in> set qs. liveRQ h q" and "\<forall>x \<in> set orig. liveNameSpec h x" and "liveRef h toAdd"
  shows "heapExt h h' \<and> wfHeap h'
    \<and> (let V = map (valNameSpec h) orig; T = deref h toAdd; Q = map (valRQ h) qs in
       if \<exists>q \<in> set Q. stillExceeded en p lim V T q then names = [] \<and> err \<noteq> None
       else names = acc @ map rq_name (filter (unblocks en p lim V T) Q) \<and> err = None)"
  using assms
proof (induction qs arbitrary: acc h)
  case Nil
  then show ?case by simp
next
  case (Cons q qs)
  obtain c h1 where c: "originalView orig q h = (c, h1)" by fastforce
  obtain m h2 where m: "addResourcesToRQ c toAdd h1 = (m, h2)" by fastforce
  have ov: "heapExt h h1" "valRQ h1 c = originalViewV (map (valNameSpec h) orig) (valRQ h q)"
      "\<And>a. spec_hard (rq_spec c) = Some a \<Longrightarrow> hp_next h \<le> a"
      "\<forall>a. rq_stUsed c = Some a \<longrightarrow> spec_hard (rq_spec c) \<noteq> Some a"
    using originalView_correct [OF c] Cons.prems by auto
  have wf1: "wfHeap h1"
    using c wfHeap_deepCopyRQ [OF Cons.prems(2), of q] wfHeap_getRQ
    by (auto simp: originalView_def split: prod.splits option.splits) (metis snd_conv)+
  have wf2: "wfHeap h2" using wfHeap_addResourcesToRQ [OF wf1, of c toAdd] m by simp
  have T1: "deref h1 toAdd = deref h toAdd" using ov(1) Cons.prems(5) by (rule heapExt_deref)
  have mv: "valRQ h2 m = enlargedV (deref h toAdd) (originalViewV (map (valNameSpec h) orig) (valRQ h q))"
    using enlarge_copy_correct [OF m wf1 ov(4)] ov(2) T1 by simp
  have e2: "heapExt h h2"
    using addResourcesToRQ_ext [OF m ov(3)] addResourcesToRQ_frame(1) [OF m] ov(1)
    by (auto simp: heapExt_def)
  have frame: "\<forall>q \<in> set qs. liveRQ h2 q" "\<forall>x \<in> set orig. liveNameSpec h2 x" "liveRef h2 toAdd"
      "map (valRQ h2) qs = map (valRQ h) qs" "map (valNameSpec h2) orig = map (valNameSpec h) orig"
      "deref h2 toAdd = deref h toAdd"
    using e2 Cons.prems(3-5)
    by (auto intro: heapExt_liveRQ heapExt_liveNameSpec heapExt_live heapExt_valRQ heapExt_valNameSpec heapExt_deref)
  let ?cur = "admitPodToQuota en h1 c p lim" and ?mod = "admitPodToQuota en h2 m p lim"
  have unb: "exceedsQuota ?cur \<and> ?mod = None \<longleftrightarrow>
      unblocks en p lim (map (valNameSpec h) orig) (deref h toAdd) (valRQ h q)"
    by (simp add: admitPodToQuota_def ov(2) mv unblocks_def)
  have exc: "exceedsQuota ?mod \<longleftrightarrow>
      stillExceeded en p lim (map (valNameSpec h) orig) (deref h toAdd) (valRQ h q)"
    by (simp add: admitPodToQuota_def mv stillExceeded_def)
  consider (unb) "exceedsQuota ?cur \<and> ?mod = None" | (exc) "exceedsQuota ?mod"
    | (other) "\<not> (exceedsQuota ?cur \<and> ?mod = None)" "\<not> exceedsQuota ?mod" by blast
  then show ?case
  proof cases
    case unb
    then have nex: "\<not> exceedsQuota ?mod" by auto
    from unb Cons.prems(1) c m
    have rec: "scanQuotas en p lim orig toAdd qs (acc @ [rq_name q]) h2 = ((names, err), h')"
      by (simp add: Let_def)
    show ?thesis
      using Cons.IH [OF rec wf2 frame(1-3)] e2 nex unb \<open>exceedsQuota ?cur \<and> ?mod = None\<close>
      by (auto simp: Let_def frame(4-6) exc [symmetric] \<open>(exceedsQuota ?cur \<and> ?mod = None) = _\<close> [symmetric] intro: heapExt_trans)
  next
    case exc
    then have "?mod \<noteq> None" by (metis exceedsQuota_None)
    with exc Cons.prems(1) c m have r: "names = []" "err = ?mod" "h' = h2" by (auto simp: Let_def)
    show ?thesis
      using r e2 wf2 \<open>?mod \<noteq> None\<close> exc \<open>exceedsQuota ?mod = _\<close> by (auto simp: Let_def)
  next
    case other
    with Cons.prems(1) c m have rec: "scanQuotas en p lim orig toAdd qs acc h2 = ((names, err), h')"
      by (auto simp: Let_def)
    show ?thesis
      using Cons.IH [OF rec wf2 frame(1-3)] e2 other unb exc
      by (auto simp: Let_def frame(4-6) intro: heapExt_trans)
  qed
qed

lemma getCurrBlockingRQInNS_correct:
  assumes res: "getCurrBlockingRQInNS en vm m p toAdd w = (Inr names, w')"
    and objs: "rqByNamespace en (m_ns m) w = Inr objs" and lim: "getCurrLauncherLimitedResource en p = Inr lim"
    and wf: "wfHeap (w_heap w)" and live: "\<forall>q \<in> set (w_rqs w). liveRQ (w_heap w) q"
      "\<forall>x \<in> set (v_orig vm). liveNameSpec (w_heap w) x" "liveRef (w_heap w) toAdd"
  shows "names = blockingSpec en p lim (map (valNameSpec (w_heap w)) (v_orig vm)) (deref (w_heap w) toAdd)
           (map (valRQ (w_heap w)) objs)"
proof -
  obtain ns e h' where s: "scanQuotas en p lim (v_orig vm) toAdd objs [] (w_heap w) = ((ns, e), h')"
    by (metis prod.exhaust)
  have "set objs \<subseteq> set (w_rqs w)"
    using objs by (auto simp: rqByNamespace_def split: option.splits)
  then have "\<forall>q \<in> set objs. liveRQ (w_heap w) q" using live(1) by blast
  from scanQuotas_correct [OF s wf this live(2,3)] have "ns = blockingSpec en p lim
      (map (valNameSpec (w_heap w)) (v_orig vm)) (deref (w_heap w) toAdd) (map (valRQ (w_heap w)) objs)"
    by (auto simp: blockingSpec_def Let_def split: if_splits)
  moreover have "names = ns"
    using res objs lim s by (auto simp: getCurrBlockingRQInNS_def split: option.splits)
  ultimately show ?thesis by simp
qed

end
