(* ===== verification/QuotaEffects.thy ===== *)
theory QuotaEffects
  imports QuotaSpec
begin

text \<open>
  The effect of restoring and enlarging quotas, on the informer's shared objects and on the
  API server. \<open>hardAt w key\<close> is the limit the informer shows for a quota. The lemmas give the
  exact effect of one iteration and of a whole loop, whatever the API server answers, and
  what a failed update leaves behind.
\<close>

subsection \<open>getAllBlockingRQsInNS\<close>

definition toNameSpec :: "'m resourceQuota \<Rightarrow> 'm rqNameAndSpec" where
  "toNameSpec q = \<lparr>ns_name = rq_name q, ns_spec = rq_spec q\<rparr>"

definition gatherSpec :: "'m rqNameAndSpec list \<Rightarrow> 'm resourceQuota list \<Rightarrow> string list \<Rightarrow> 'm rqNameAndSpec list" where
  "gatherSpec orig objs names =
     concat (map (\<lambda>n. case find (\<lambda>x. ns_name x = n) orig of
                         Some x \<Rightarrow> [x]
                       | None \<Rightarrow> map toNameSpec (filter (\<lambda>q. rq_name q = n) objs)) names)"

lemma matchingRQs_filter: "matchingRQs objs n = map toNameSpec (filter (\<lambda>q. rq_name q = n) objs)"
  by (induction objs) (auto simp: toNameSpec_def)

lemma valNameSpec_toNameSpec [simp]: "mapNameSpec f (toNameSpec q) = toNameSpec (mapRQ f q)"
  by (simp add: toNameSpec_def mapNameSpec_def)

lemma filter_name_mapRQ:
  "map toNameSpec (filter (\<lambda>q. rq_name q = n) (map (mapRQ f) objs)) =
     map (mapNameSpec f) (map toNameSpec (filter (\<lambda>q. rq_name q = n) objs))"
  by (induction objs) auto

text \<open>A gathered spec has a map of its own, or shares the map of the informer's quota of that name.\<close>

definition ownOrShared :: "addr \<Rightarrow> href resourceQuota list \<Rightarrow> href rqNameAndSpec \<Rightarrow> bool" where
  "ownOrShared m objs x \<longleftrightarrow> (\<forall>a. spec_hard (ns_spec x) = Some a \<longrightarrow>
     m \<le> a \<or> (\<exists>q \<in> set objs. rq_name q = ns_name x \<and> spec_hard (rq_spec q) = Some a))"

lemma gatherBlocking_correct:
  assumes "gatherBlocking orig objs names h = (xs, h')"
    and "wfHeap h" and "\<forall>q \<in> set objs. liveRQ h q" and "\<forall>x \<in> set orig. liveNameSpec h x"
  shows "heapExt h h' \<and> wfHeap h' \<and> (\<forall>x \<in> set xs. liveNameSpec h' x \<and> ownOrShared (hp_next h) objs x)
    \<and> map (valNameSpec h') xs = gatherSpec (map (valNameSpec h) orig) (map (valRQ h) objs) names"
  using assms
proof (induction names arbitrary: xs h h')
  case Nil
  then show ?case by (simp add: gatherSpec_def)
next
  case (Cons n names)
  obtain o' h1 where o': "getRQNameAndSpecIfExist orig n h = (o', h1)" by fastforce
  obtain ys h2 where ys: "gatherBlocking orig objs names h1 = (ys, h2)" by fastforce
  note O = getRQNameAndSpecIfExist_correct [OF o']
  have wf1: "wfHeap h1" using wfHeap_getRQ [OF Cons.prems(2), of orig n] o' by simp
  have fr: "\<forall>q \<in> set objs. liveRQ h1 q" "\<forall>x \<in> set orig. liveNameSpec h1 x"
      "map (valRQ h1) objs = map (valRQ h) objs" "map (valNameSpec h1) orig = map (valNameSpec h) orig"
    using O(1) Cons.prems(3,4) by (auto intro: heapExt_liveRQ heapExt_liveNameSpec heapExt_valRQ heapExt_valNameSpec)
  note IH = Cons.IH [OF ys wf1 fr(1,2)]
  have e: "heapExt h h2" using O(1) IH by (blast intro: heapExt_trans)
  have le: "hp_next h \<le> hp_next h1" using O(1) by (simp add: heapExt_def)
  then have own: "ownOrShared (hp_next h1) objs x \<Longrightarrow> ownOrShared (hp_next h) objs x" for x
    by (fastforce simp: ownOrShared_def)
  have tailval: "map (valNameSpec h2) ys = gatherSpec (map (valNameSpec h) orig) (map (valRQ h) objs) names"
    using IH fr(3,4) by simp
  show ?case
  proof (cases o')
    case (Some x)
    have xs: "xs = x # ys" "h' = h2" using Cons.prems(1) o' Some ys by auto
    have f: "find (\<lambda>x. ns_name x = n) (map (valNameSpec h) orig) = Some (valNameSpec h1 x)"
      using O(2) Some by (simp add: find_map_name)
    have x: "liveNameSpec h2 x" "valNameSpec h2 x = valNameSpec h1 x" "ownOrShared (hp_next h) objs x"
      using O(3,4) Some IH by (auto simp: ownOrShared_def intro: heapExt_liveNameSpec heapExt_valNameSpec)
    show ?thesis using e IH x own f tailval by (auto simp: xs gatherSpec_def)
  next
    case None
    have xs: "xs = map toNameSpec (filter (\<lambda>q. rq_name q = n) objs) @ ys" "h' = h2"
      using Cons.prems(1) o' None ys by (auto simp: matchingRQs_filter)
    have f: "find (\<lambda>x. ns_name x = n) (map (valNameSpec h) orig) = None"
      using O(2) None by (simp add: find_map_name)
    have live2: "\<forall>q \<in> set objs. liveRQ h2 q" "map (valRQ h2) objs = map (valRQ h) objs"
      using e Cons.prems(3) by (auto intro: heapExt_liveRQ heapExt_valRQ)
    have sh: "\<forall>x \<in> set (map toNameSpec (filter (\<lambda>q. rq_name q = n) objs)).
        liveNameSpec h2 x \<and> ownOrShared (hp_next h) objs x"
      using live2(1) by (auto simp: toNameSpec_def liveNameSpec_def liveRQ_def ownOrShared_def)
    have "map (valNameSpec h2) (map toNameSpec (filter (\<lambda>q. rq_name q = n) objs)) =
        map toNameSpec (filter (\<lambda>q. rq_name q = n) (map (valRQ h) objs))"
      unfolding live2(2) [symmetric] filter_name_mapRQ ..
    then show ?thesis using e IH sh own f tailval by (auto simp: xs gatherSpec_def)
  qed
qed

lemma gatherSpec_names:
  assumes "distinct (map rq_name objs)"
  shows "map ns_name (gatherSpec orig objs names) =
     filter (\<lambda>n. n \<in> ns_name ` set orig \<or> n \<in> rq_name ` set objs) names"
proof -
  have one: "map ns_name (map toNameSpec (filter (\<lambda>q. rq_name q = n) objs)) = (if n \<in> rq_name ` set objs then [n] else [])" for n
  proof (cases "n \<in> rq_name ` set objs")
    case True
    then obtain q where "q \<in> set objs" "rq_name q = n" by blast
    with filter_unique [OF assms, of q] show ?thesis by (auto simp: toNameSpec_def)
  next
    case False
    then have "filter (\<lambda>q. rq_name q = n) objs = []" by (auto simp: filter_empty_conv)
    with False show ?thesis by simp
  qed
  have step: "map ns_name (gatherSpec orig objs (n # ns)) =
      (if n \<in> ns_name ` set orig \<or> n \<in> rq_name ` set objs then [n] else []) @ map ns_name (gatherSpec orig objs ns)" for n ns
  proof (cases "find (\<lambda>x. ns_name x = n) orig")
    case None
    then have "n \<notin> ns_name ` set orig" by (auto simp: find_None_all)
    with None one [of n] show ?thesis by (simp add: gatherSpec_def)
  next
    case (Some x)
    then have "ns_name x = n" "n \<in> ns_name ` set orig" by (auto dest: find_in_set)
    with Some show ?thesis by (simp add: gatherSpec_def)
  qed
  show ?thesis
  proof (induction names)
    case Nil
    then show ?case by (simp add: gatherSpec_def)
  next
    case (Cons n ns)
    then show ?case unfolding step by simp
  qed
qed

subsection \<open>What the informer shows\<close>

definition hardAt :: "'s world \<Rightarrow> string \<Rightarrow> (string \<Rightarrow> int option) option" where
  "hardAt w key = map_option (\<lambda>q. amounts (deref (w_heap w) (spec_hard (rq_spec q))))
     (find (\<lambda>q. rqKey q = key) (w_rqs w))"

definition wireAmounts :: "wire \<Rightarrow> string \<Rightarrow> int option" where
  "wireAmounts r = amounts (case r of None \<Rightarrow> [] | Some m \<Rightarrow> m)"

definition addAmounts :: "(string \<Rightarrow> int option) \<Rightarrow> (string \<Rightarrow> int option) \<Rightarrow> string \<Rightarrow> int option" where
  "addAmounts f d k = map_option (\<lambda>q. q + (case d k of None \<Rightarrow> 0 | Some x \<Rightarrow> x)) (f k)"

lemma wireAmounts_valMap: "wireAmounts (valMap h r) = amounts (deref h r)"
  by (simp add: wireAmounts_def deref_valMap)

lemma amounts_addHard_fun: "amounts (addHard m rl) = addAmounts (amounts m) (amounts rl)"
  by (rule ext) (simp add: amounts_addHard addAmounts_def)

lemma addAmounts_empty: "addAmounts (amounts []) d = amounts []"
  by (rule ext) (simp add: addAmounts_def amounts_def)

abbreviation specAmounts :: "heap \<Rightarrow> href rqNameAndSpec \<Rightarrow> string \<Rightarrow> int option" where
  "specAmounts h x \<equiv> amounts (deref h (spec_hard (ns_spec x)))"

lemma hardAt_assignHard:
  "hardAt (assignHard key r w) k =
     (if k = key then map_option (\<lambda>_. amounts (deref (w_heap w) r)) (hardAt w key) else hardAt w k)"
  unfolding hardAt_def find_assignHard by (cases "find (\<lambda>q. rqKey q = k) (w_rqs w)") auto

lemma hardAt_doWrite: "doWrite c f w = (e, w') \<Longrightarrow> hardAt w' k = hardAt w k"
  by (simp add: hardAt_def doWrite_frame)

lemma rqGetByKey_hardAt:
  "rqGetByKey en key w = Inr (Some q) \<Longrightarrow> hardAt w key = Some (amounts (deref (w_heap w) (spec_hard (rq_spec q))))"
  by (drule rqGetByKey_find) (simp add: hardAt_def)

subsection \<open>Restoring\<close>

lemma restoreOne_effect:
  assumes res: "restoreOne A en ns x w = (r, w')" and wf: "wfHeap (w_heap w)"
    and ok: "e_rqByKeyErr en (metaKey ns (ns_name x)) = None"
  shows "hardAt w' k =
     (if k = metaKey ns (ns_name x) then map_option (\<lambda>_. specAmounts (w_heap w) x) (hardAt w k) else hardAt w k)"
  using res
proof (cases rule: restoreOneE)
  case (failed e)
  with ok show ?thesis by (simp add: rqGetByKey_def)
next
  case absent
  then have "hardAt w (metaKey ns (ns_name x)) = None"
    by (auto simp: hardAt_def dest: rqGetByKey_find)
  with absent show ?thesis by simp
next
  case (same q)
  then show ?thesis
    using rqGetByKey_hardAt [OF same(1)] areResourceMapsEqual_amounts [OF wfHeap_deref [OF wf] wfHeap_deref [OF wf]]
    by auto
next
  case (send q)
  then show ?thesis by (simp add: hardAt_doWrite [OF send(3)] hardAt_assignHard)
qed

text \<open>
  A restore whose update failed has already changed the informer's object: the retry finds
  the quota "already restored" and sends nothing.
\<close>

lemma restoreOne_retry:
  assumes res: "restoreOne A en ns x w = (Some e, w')"
    and ok: "e_rqByKeyErr en (metaKey ns (ns_name x)) = None" and wf: "wfHeap (w_heap w)"
  shows "restoreOne A' en ns x w' = (None, w')"
  using res
proof (cases rule: restoreOneE)
  case (failed e')
  with ok show ?thesis by (simp add: rqGetByKey_def)
next
  case (send q)
  let ?key = "metaKey ns (ns_name x)"
  have "find (\<lambda>q. rqKey q = ?key) (w_rqs w) = Some q"
    using rqGetByKey_find [OF send(1)] by simp
  then have "find (\<lambda>q. rqKey q = ?key) (w_rqs w') = Some (setHard (spec_hard (ns_spec x)) q)"
    by (simp add: doWrite_frame [OF send(3)] find_assignHard)
  moreover have "w_heap w' = w_heap w" by (simp add: doWrite_frame [OF send(3)])
  ultimately show ?thesis
    using ok areResourceMapsEqual_refl [OF wfHeap_deref [OF wf]]
    by (simp add: restoreOne_def Let_def rqGetByKey_def)
qed auto

lemma restoreLoop_effect:
  assumes "runLoop (restoreOne A en ns) xs w = (None, w')" and "wfHeap (w_heap w)"
    and "distinct (map ns_name xs)" and "\<forall>x \<in> set xs. e_rqByKeyErr en (metaKey ns (ns_name x)) = None"
  shows "hardAt w' k =
     (case find (\<lambda>x. metaKey ns (ns_name x) = k) xs of
        None \<Rightarrow> hardAt w k
      | Some x \<Rightarrow> map_option (\<lambda>_. specAmounts (w_heap w) x) (hardAt w k))"
  using assms
proof (induction xs arbitrary: w)
  case Nil
  then show ?case by simp
next
  case (Cons x xs)
  obtain r w1 where r: "restoreOne A en ns x w = (r, w1)" by fastforce
  with Cons.prems(1) have rest: "r = None" "runLoop (restoreOne A en ns) xs w1 = (None, w')"
    by (auto split: option.splits)
  have h1: "w_heap w1 = w_heap w" using restoreOne_heap [of w A en ns x] r by (simp add: sameHeap_def)
  have IH: "hardAt w' k = (case find (\<lambda>x. metaKey ns (ns_name x) = k) xs of
        None \<Rightarrow> hardAt w1 k
      | Some x \<Rightarrow> map_option (\<lambda>_. specAmounts (w_heap w) x) (hardAt w1 k))"
    using Cons.IH [OF rest(2)] Cons.prems(2-4) by (simp add: h1 split: option.splits)
  have eff: "hardAt w1 k = (if k = metaKey ns (ns_name x)
      then map_option (\<lambda>_. specAmounts (w_heap w) x) (hardAt w k) else hardAt w k)"
    using restoreOne_effect [OF r Cons.prems(2)] Cons.prems(4) by simp
  show ?case
  proof (cases "k = metaKey ns (ns_name x)")
    case True
    then have "find (\<lambda>y. metaKey ns (ns_name y) = k) xs = None"
      using Cons.prems(3) by (auto simp: find_None_all image_iff)
    with IH eff True show ?thesis by simp
  next
    case False
    with IH eff show ?thesis by (simp split: option.splits)
  qed
qed

text \<open>Every update a restore sends carries the saved limits of the quota it names.\<close>

definition updatesCarry :: "(string \<Rightarrow> (string \<Rightarrow> int option) \<Rightarrow> bool) \<Rightarrow> (apiCall \<times> goerror option) list \<Rightarrow> bool" where
  "updatesCarry P l \<longleftrightarrow> (\<forall>q e. (UpdateRQ q, e) \<in> set l \<longrightarrow> P (rqKey q) (wireAmounts (spec_hard (rq_spec q))))"

lemma updatesCarry_Nil [simp]: "updatesCarry P []"
  by (simp add: updatesCarry_def)

lemma updatesCarry_append: "updatesCarry P (l @ l') \<longleftrightarrow> updatesCarry P l \<and> updatesCarry P l'"
  by (auto simp: updatesCarry_def)

definition savedLimits :: "string \<Rightarrow> heap \<Rightarrow> href rqNameAndSpec set \<Rightarrow> string \<Rightarrow> (string \<Rightarrow> int option) \<Rightarrow> bool" where
  "savedLimits ns h X k f \<longleftrightarrow> (\<exists>x \<in> X. k = metaKey ns (ns_name x) \<and> f = specAmounts h x)"

definition restoreSends :: "string \<Rightarrow> heap \<Rightarrow> href rqNameAndSpec set \<Rightarrow> 's world \<Rightarrow> 's world \<Rightarrow> bool" where
  "restoreSends ns h X w w' \<longleftrightarrow>
     (w_heap w = h \<longrightarrow> w_heap w' = h \<and> (\<exists>l. w_log w' = w_log w @ l \<and> updatesCarry (savedLimits ns h X) l))"

lemma restoreSends_refl: "restoreSends ns h X w w"
  by (simp add: restoreSends_def)

lemma restoreSends_trans: "restoreSends ns h X u v \<Longrightarrow> restoreSends ns h X v w \<Longrightarrow> restoreSends ns h X u w"
  unfolding restoreSends_def by (metis append.assoc updatesCarry_append)

lemma restoreOne_sends:
  assumes "x \<in> X"
  shows "restoreSends ns h X w (snd (restoreOne A en ns x w))"
proof -
  obtain r w' where res: "restoreOne A en ns x w = (r, w')" by fastforce
  from res have "restoreSends ns h X w w'"
  proof (cases rule: restoreOneE)
    case (send q)
    let ?q = "valRQ (w_heap w) (setHard (spec_hard (ns_spec x)) q)"
    have "rqKey q = metaKey ns (ns_name x)" using find_in_set [OF rqGetByKey_find [OF send(1)]] by simp
    then have "updatesCarry (savedLimits ns (w_heap w) X) [(UpdateRQ ?q, r)]"
      using assms by (auto simp: updatesCarry_def savedLimits_def wireAmounts_valMap)
    then show ?thesis
      by (auto simp: restoreSends_def doWrite_frame [OF send(3)])
  qed (simp_all add: restoreSends_refl)
  with res show ?thesis by simp
qed

interpretation restoreSend: loop_contract "restoreOne A en ns" "restoreSends ns h X" "\<lambda>x. x \<in> X" for A en ns h X
  by unfold_locales (auto intro: restoreSends_refl restoreSends_trans restoreOne_sends)

lemma restoreLoop_sends:
  assumes "runLoop (restoreOne A en ns) xs w = (r, w')"
  shows "\<exists>l. w_log w' = w_log w @ l \<and> updatesCarry (savedLimits ns (w_heap w) (set xs)) l"
  using restoreSend.runLoop_rel [of xs "set xs" ns "w_heap w" w A en] assms
  by (auto simp: restoreSends_def)

subsection \<open>Enlarging\<close>

text \<open>
  No two quotas of the informer share their limits, and the added list is not one of them
  (each object was decoded on its own).
\<close>

definition sepRQs :: "'s world \<Rightarrow> href \<Rightarrow> bool" where
  "sepRQs w toAdd \<longleftrightarrow>
     (\<forall>q \<in> set (w_rqs w). \<forall>a. spec_hard (rq_spec q) = Some a \<longrightarrow>
        toAdd \<noteq> Some a \<and> (\<forall>q' \<in> set (w_rqs w). spec_hard (rq_spec q') = Some a \<longrightarrow> rqKey q' = rqKey q))"

text \<open>A saved spec shares its map with the informer's quota of its own name, if with any.\<close>

definition sepSpec :: "'s world \<Rightarrow> string \<Rightarrow> href rqNameAndSpec \<Rightarrow> bool" where
  "sepSpec w ns x \<longleftrightarrow> (\<forall>q \<in> set (w_rqs w). \<forall>a. spec_hard (rq_spec q) = Some a \<longrightarrow>
     spec_hard (ns_spec x) = Some a \<longrightarrow> rqKey q = metaKey ns (ns_name x))"

lemma assignHard_own:
  assumes "find (\<lambda>q. rqKey q = key) (w_rqs w) = Some q" and "distinct (map rqKey (w_rqs w))"
  shows "w_rqs (assignHard key (spec_hard (rq_spec q)) w) = w_rqs w"
proof -
  have "q' = q" if "q' \<in> set (w_rqs w)" "rqKey q' = key" for q'
    using find_in_set [OF assms(1)] assms(2) that by (auto simp: distinct_map inj_on_def)
  then show ?thesis by (auto simp: assignHard_def setHard_def intro!: map_idI)
qed

lemma enlargeOne_send:
  assumes res: "enlargeOne A en toAdd ns x w = (r, w')" and wf: "wfHeap (w_heap w)"
    and dist: "distinct (map rqKey (w_rqs w))"
    and send: "w' \<noteq> w"
  obtains q where "find (\<lambda>q. rqKey q = metaKey ns (ns_name x)) (w_rqs w) = Some q"
    "amounts (deref (w_heap w) (spec_hard (rq_spec q))) = specAmounts (w_heap w) x"
    "w_rqs w' = w_rqs w"
    "w_heap w' = (case spec_hard (rq_spec q) of None \<Rightarrow> w_heap w
       | Some a \<Rightarrow> (w_heap w)\<lparr>hp_maps := (hp_maps (w_heap w))(a := addHard (hp_maps (w_heap w) a) (deref (w_heap w) toAdd))\<rparr>)"
    "w_log w' = w_log w @ [(UpdateRQ (valRQ (w_heap w') q), r)]"
  using res
proof (cases rule: enlargeOneE)
  case (send q newRQ h1)
  have f: "find (\<lambda>q. rqKey q = metaKey ns (ns_name x)) (w_rqs w) = Some q"
    using rqGetByKey_find [OF send(1)] .
  have own: "setHard (spec_hard (rq_spec q)) q = q" by (simp add: setHard_def)
  have h1: "h1 = (case spec_hard (rq_spec q) of None \<Rightarrow> w_heap w
       | Some a \<Rightarrow> (w_heap w)\<lparr>hp_maps := (hp_maps (w_heap w))(a := addHard (hp_maps (w_heap w) a) (deref (w_heap w) toAdd))\<rparr>)"
    using addResourcesToRQ_heap [of "w_heap w" q toAdd] send(3) wf by (simp add: wfHeap_deref)
  have amt: "amounts (deref (w_heap w) (spec_hard (rq_spec q))) = specAmounts (w_heap w) x"
    using send(2) areResourceMapsEqual_amounts [OF wfHeap_deref [OF wf] wfHeap_deref [OF wf]] by simp
  have rqs: "w_rqs w' = w_rqs w"
    using doWrite_frame(2) [OF send(4)] assignHard_own [of _ "w\<lparr>w_heap := h1\<rparr>" q] f dist by simp
  show ?thesis
    using that [OF f amt rqs] doWrite_frame [OF send(4)] h1 own by simp
qed (use send in simp_all)

text \<open>What enlarging promises about a quota: its saved limits, plus the additional resources.\<close>

definition enlargedLimits ::
  "string \<Rightarrow> 's world \<Rightarrow> href \<Rightarrow> href rqNameAndSpec set \<Rightarrow> string \<Rightarrow> (string \<Rightarrow> int option) \<Rightarrow> bool" where
  "enlargedLimits ns w toAdd X k f \<longleftrightarrow>
     (\<exists>x \<in> X. k = metaKey ns (ns_name x) \<and> hardAt w k = Some (specAmounts (w_heap w) x)
        \<and> f = addAmounts (specAmounts (w_heap w) x) (amounts (deref (w_heap w) toAdd)))"

definition enlargeReady :: "string \<Rightarrow> 's world \<Rightarrow> href \<Rightarrow> href rqNameAndSpec list \<Rightarrow> bool" where
  "enlargeReady ns w toAdd xs \<longleftrightarrow> wfHeap (w_heap w) \<and> distinct (map rqKey (w_rqs w)) \<and> sepRQs w toAdd
     \<and> (\<forall>x \<in> set xs. sepSpec w ns x) \<and> distinct (map ns_name xs)"

lemma enlargeOne_effect:
  assumes res: "enlargeOne A en toAdd ns x w = (r, w')" and ready: "enlargeReady ns w toAdd (x # xs)"
  obtains (idle) "w' = w"
  | (sent) q where "w_rqs w' = w_rqs w" "w_log w' = w_log w @ [(UpdateRQ q, r)]" "enlargeReady ns w' toAdd xs"
      "deref (w_heap w') toAdd = deref (w_heap w) toAdd"
      "\<forall>y \<in> set xs. specAmounts (w_heap w') y = specAmounts (w_heap w) y"
      "enlargedLimits ns w toAdd {x} (rqKey q) (wireAmounts (spec_hard (rq_spec q)))"
      "hardAt w' = (hardAt w)(rqKey q := Some (wireAmounts (spec_hard (rq_spec q))))"
      "rqKey q = metaKey ns (ns_name x)"
proof (cases "w' = w")
  case True
  then show thesis by (rule idle)
next
  case False
  let ?k = "metaKey ns (ns_name x)" and ?d = "amounts (deref (w_heap w) toAdd)"
  have wf: "wfHeap (w_heap w)" and dist: "distinct (map rqKey (w_rqs w))" and sep: "sepRQs w toAdd"
    using ready by (simp_all add: enlargeReady_def)
  obtain q where q:
    "find (\<lambda>q. rqKey q = ?k) (w_rqs w) = Some q"
    "amounts (deref (w_heap w) (spec_hard (rq_spec q))) = specAmounts (w_heap w) x"
    "w_rqs w' = w_rqs w"
    "w_heap w' = (case spec_hard (rq_spec q) of None \<Rightarrow> w_heap w
       | Some a \<Rightarrow> (w_heap w)\<lparr>hp_maps := (hp_maps (w_heap w))(a := addHard (hp_maps (w_heap w) a) (deref (w_heap w) toAdd))\<rparr>)"
    "w_log w' = w_log w @ [(UpdateRQ (valRQ (w_heap w') q), r)]"
    by (rule enlargeOne_send [OF res wf dist False])
  have inq: "q \<in> set (w_rqs w)" "rqKey q = ?k" using find_in_set [OF q(1)] by simp_all
  have new: "amounts (deref (w_heap w') (spec_hard (rq_spec q))) = addAmounts (specAmounts (w_heap w) x) ?d"
    using q(2,4) by (cases "spec_hard (rq_spec q)") (auto simp: amounts_addHard_fun addAmounts_empty simp flip: q(2))
  have other: "deref (w_heap w') r = deref (w_heap w) r" if "r = None \<or> r \<noteq> spec_hard (rq_spec q)" for r
    using q(4) that by (cases r; cases "spec_hard (rq_spec q)") auto
  have d: "deref (w_heap w') toAdd = deref (w_heap w) toAdd"
    using sep inq(1) by (intro other) (auto simp: sepRQs_def)
  have ys: "\<forall>y \<in> set xs. specAmounts (w_heap w') y = specAmounts (w_heap w) y"
  proof
    fix y assume y: "y \<in> set xs"
    then have "ns_name y \<noteq> ns_name x" "sepSpec w ns y"
      using ready by (auto simp: enlargeReady_def image_iff)
    then have "spec_hard (ns_spec y) = None \<or> spec_hard (ns_spec y) \<noteq> spec_hard (rq_spec q)"
      using inq by (cases "spec_hard (ns_spec y)") (auto simp: sepSpec_def)
    then show "specAmounts (w_heap w') y = specAmounts (w_heap w) y" by (simp add: other)
  qed
  have wf': "wfHeap (w_heap w')"
    using wf q(4) by (auto simp: wfHeap_def split: option.splits)
  have ready': "enlargeReady ns w' toAdd xs"
  proof -
    have "sepRQs w' toAdd = sepRQs w toAdd" "\<And>y. sepSpec w' ns y = sepSpec w ns y"
      by (simp_all only: sepRQs_def sepSpec_def q(3))
    with ready wf' q(3) show ?thesis by (simp add: enlargeReady_def)
  qed
  have h: "hardAt w' = (hardAt w)(?k := Some (addAmounts (specAmounts (w_heap w) x) ?d))"
  proof
    fix k
    show "hardAt w' k = ((hardAt w)(?k := Some (addAmounts (specAmounts (w_heap w) x) ?d))) k"
    proof (cases "k = ?k")
      case True
      then show ?thesis using q(1) by (simp add: hardAt_def q(3) new)
    next
      case False
      have "deref (w_heap w') (spec_hard (rq_spec p)) = deref (w_heap w) (spec_hard (rq_spec p))"
        if "find (\<lambda>q. rqKey q = k) (w_rqs w) = Some p" for p
      proof (rule other)
        have p: "p \<in> set (w_rqs w)" "rqKey p = k" using find_in_set [OF that] by simp_all
        have "spec_hard (rq_spec p) \<noteq> spec_hard (rq_spec q)" if "spec_hard (rq_spec p) = Some a" for a
        proof
          assume "spec_hard (rq_spec p) = spec_hard (rq_spec q)"
          with that sep inq(1) p(1) have "rqKey p = rqKey q" unfolding sepRQs_def by metis
          with False p(2) inq(2) show False by simp
        qed
        then show "spec_hard (rq_spec p) = None \<or> spec_hard (rq_spec p) \<noteq> spec_hard (rq_spec q)"
          by (cases "spec_hard (rq_spec p)") auto
      qed
      with False show ?thesis
        by (cases "find (\<lambda>q. rqKey q = k) (w_rqs w)") (simp_all add: hardAt_def q(3))
    qed
  qed
  have at: "hardAt w ?k = Some (specAmounts (w_heap w) x)"
    using q(1,2) by (simp add: hardAt_def)
  show thesis
    using q(3,5) ready' d ys h at inq(2) new
    by (intro sent [of "valRQ (w_heap w') q"]) (simp_all add: wireAmounts_valMap enlargedLimits_def)
qed

text \<open>
  The loop: it sends saved limits plus the additional resources and nothing else, and the
  informer's view of a quota either stays or makes exactly that step. The addition is never
  applied on top of itself.
\<close>

lemma enlargeLoop_effect:
  assumes "runLoop (enlargeOne A en toAdd ns) xs w = (r, w')" and "enlargeReady ns w toAdd xs"
  shows "w_rqs w' = w_rqs w
    \<and> (\<exists>l. w_log w' = w_log w @ l \<and> updatesCarry (enlargedLimits ns w toAdd (set xs)) l)
    \<and> (\<forall>k. hardAt w' k = hardAt w k \<or> (\<exists>f. hardAt w' k = Some f \<and> enlargedLimits ns w toAdd (set xs) k f))"
  using assms
proof (induction xs arbitrary: w)
  case Nil
  then show ?case by simp
next
  case (Cons x xs)
  obtain e w1 where e: "enlargeOne A en toAdd ns x w = (e, w1)" by fastforce
  have mono: "enlargedLimits ns w toAdd {x} k f \<Longrightarrow> enlargedLimits ns w toAdd (set (x # xs)) k f"
    "enlargedLimits ns w toAdd (set xs) k f \<Longrightarrow> enlargedLimits ns w toAdd (set (x # xs)) k f" for k f
    by (auto simp: enlargedLimits_def)
  have rest: "(e \<noteq> None \<and> w' = w1) \<or> runLoop (enlargeOne A en toAdd ns) xs w1 = (r, w')"
    using Cons.prems(1) e by (cases e) auto
  from e Cons.prems(2) show ?case
  proof (cases rule: enlargeOne_effect)
    case idle
    have "enlargeReady ns w toAdd xs" using Cons.prems(2) by (simp add: enlargeReady_def)
    with rest idle Cons.IH [of w] mono(2) show ?thesis
      by (auto simp: updatesCarry_def intro: exI [of _ "[]"]) blast+
  next
    case (sent q)
    have shift: "k \<noteq> rqKey q \<and> enlargedLimits ns w toAdd (set xs) k f"
      if lim: "enlargedLimits ns w1 toAdd (set xs) k f" for k f
    proof -
      from lim obtain y where y: "y \<in> set xs" "k = metaKey ns (ns_name y)"
        "hardAt w1 k = Some (specAmounts (w_heap w1) y)"
        "f = addAmounts (specAmounts (w_heap w1) y) (amounts (deref (w_heap w1) toAdd))"
        by (auto simp: enlargedLimits_def)
      have "ns_name y \<noteq> ns_name x" using y(1) Cons.prems(2) by (auto simp: enlargeReady_def image_iff)
      then have "k \<noteq> rqKey q" using y(2) sent(8) by simp
      with y sent(4,5,7) show ?thesis by (auto simp: enlargedLimits_def)
    qed
    have one: "updatesCarry (enlargedLimits ns w toAdd (set (x # xs))) [(UpdateRQ q, e)]"
      using mono(1) [OF sent(6)] by (simp add: updatesCarry_def)
    have step: "hardAt w1 k = hardAt w k \<or> (\<exists>f. hardAt w1 k = Some f \<and> enlargedLimits ns w toAdd (set (x # xs)) k f)" for k
      using mono(1) [OF sent(6)] by (simp add: sent(7))
    from rest show ?thesis
    proof
      assume "e \<noteq> None \<and> w' = w1"
      with one step sent(1,2) show ?thesis by auto
    next
      assume "runLoop (enlargeOne A en toAdd ns) xs w1 = (r, w')"
      from Cons.IH [OF this sent(3)] obtain l where l: "w_rqs w' = w_rqs w1" "w_log w' = w_log w1 @ l"
        "updatesCarry (enlargedLimits ns w1 toAdd (set xs)) l"
        "\<And>k. hardAt w' k = hardAt w1 k \<or> (\<exists>f. hardAt w' k = Some f \<and> enlargedLimits ns w1 toAdd (set xs) k f)"
        by blast
      have "updatesCarry (enlargedLimits ns w toAdd (set (x # xs))) l"
        using l(3) shift mono(2) by (auto simp: updatesCarry_def)
      moreover have "hardAt w' k = hardAt w k \<or> (\<exists>f. hardAt w' k = Some f \<and> enlargedLimits ns w toAdd (set (x # xs)) k f)" for k
        using l(4) [of k] step [of k] shift mono(2) by metis
      moreover have "w_log w' = w_log w @ ([(UpdateRQ q, e)] @ l)" using sent(2) l(2) by simp
      ultimately show ?thesis using one sent(1) l(1) by (metis updatesCarry_append)
    qed
  qed
qed

end
