(* ===== verification/ControllerTrace.thy ===== *)
theory ControllerTrace
  imports VmmrqController QuotaEffects
begin

text \<open>
  What a pass sends, in order. \<open>reconcile_trace\<close> cuts the log of \<open>reconcile\<close> into the calls
  of its phases, whatever the API server answers and wherever the pass ends; \<open>executeLocked_trace\<close>
  puts the part of the pass before it in front. The properties of the controller are read off
  these two.
\<close>

subsection \<open>Phases\<close>

definition lockReadCall :: "string \<Rightarrow> string \<Rightarrow> apiCall \<Rightarrow> bool" where
  "lockReadCall mtqNs ns c \<longleftrightarrow> c = FetchBundle \<or> c = GetVWC (lockName ns)
     \<or> (\<exists>v ca. c = UpdateVWC v \<and> vwc_webhooks v = [getLockingValidatingWebhook mtqNs ns ca])"

text \<open>What \<open>readLock\<close> answers, given the cache and the calls it made.\<close>

definition lockAnswer :: "lockState \<Rightarrow> string \<Rightarrow> (apiCall \<times> goerror option) list \<Rightarrow> bool \<Rightarrow> bool" where
  "lockAnswer st ns lk nsLocked =
     (case st of
        Locked \<Rightarrow> nsLocked \<and> lk = []
      | Unlocked \<Rightarrow> \<not> nsLocked \<and> lk = []
      | Unknown \<Rightarrow> nsLocked = ((GetVWC (lockName ns), None) \<in> set lk))"

lemma NamespaceLocked_cases:
  assumes "NamespaceLocked A ns m ca w = (r, w')"
  obtains (notFound) s where "r = Some (False, None)" "w_log w' = w_log w @ [(GetVWC (lockName ns), Some (NotFoundErr s))]"
  | (getErr) e where "r = Some (False, Some e)" "\<not> IsNotFound e" "w_log w' = w_log w @ [(GetVWC (lockName ns), Some e)]"
  | (panic) vw where "r = None" "isOurValidatingWebhookConfiguration ns m vw ca = None"
      "fst (api_getVWC A (lockName ns) (w_srv w)) = Inr vw" "w_log w' = w_log w @ [(GetVWC (lockName ns), None)]"
  | (ours) vw where "r = Some (True, None)" "isOurValidatingWebhookConfiguration ns m vw ca = Some True"
      "fst (api_getVWC A (lockName ns) (w_srv w)) = Inr vw" "w_log w' = w_log w @ [(GetVWC (lockName ns), None)]"
  | (updated) vw e where "r = Some (e = None, e)" "isOurValidatingWebhookConfiguration ns m vw ca = Some False"
      "fst (api_getVWC A (lockName ns) (w_srv w)) = Inr vw"
      "w_log w' = w_log w @ [(GetVWC (lockName ns), None),
         (UpdateVWC (vw\<lparr>vwc_webhooks := [getLockingValidatingWebhook m ns ca]\<rparr>), e)]"
proof -
  obtain g w1 where g: "doRead (GetVWC (lockName ns)) (api_getVWC A (lockName ns)) w = (g, w1)"
    by fastforce
  note G = doRead_frame [OF g]
  show thesis
  proof (cases g)
    case (Inl err)
    show thesis
    proof (cases err)
      case (NotFoundErr s)
      then show thesis using assms g G Inl notFound by (simp add: NamespaceLocked_def)
    next
      case (GoErr s)
      then show thesis using assms g G Inl getErr [of err] by (simp add: NamespaceLocked_def)
    qed
  next
    case (Inr vw)
    let ?vw = "vw\<lparr>vwc_webhooks := [getLockingValidatingWebhook m ns ca]\<rparr>"
    obtain u w2 where u: "doWrite (UpdateVWC ?vw) (api_updateVWC A ?vw) w1 = (u, w2)" by fastforce
    have got: "fst (api_getVWC A (lockName ns) (w_srv w)) = Inr vw" using G(6) Inr by simp
    consider "isOurValidatingWebhookConfiguration ns m vw ca = None"
      | "isOurValidatingWebhookConfiguration ns m vw ca = Some True"
      | "isOurValidatingWebhookConfiguration ns m vw ca = Some False" by (cases "isOurValidatingWebhookConfiguration ns m vw ca") auto
    then show thesis
    proof cases
      case 1
      then show thesis using assms g G Inr got panic by (simp add: NamespaceLocked_def)
    next
      case 2
      then show thesis using assms g G Inr got ours by (simp add: NamespaceLocked_def)
    next
      case 3
      then have "w' = w2" "r = Some (u = None, u)"
        using assms g G Inr u by (auto simp: NamespaceLocked_def Let_def split: option.splits)
      with 3 got updated show thesis using G doWrite_frame(5) [OF u] Inr by simp
    qed
  qed
qed

lemma readLock_trace:
  assumes "readLock A en ns w = (r, w')"
  obtains lk where "w_log w' = w_log w @ lk" "\<forall>(c, e) \<in> set lk. lockReadCall (e_mtqNs en) ns c"
    "w_heap w' = w_heap w" "w_rqs w' = w_rqs w" "w_nsc w' = w_nsc w"
    "\<And>nsLocked. r = Inr nsLocked \<Longrightarrow> lockAnswer (GetLockState (w_nsc w) ns) ns lk nsLocked"
proof (cases "GetLockState (w_nsc w) ns")
  case Unknown
  obtain ca w1 where ca: "doRead FetchBundle (api_bundleBytes A) w = (ca, w1)" by fastforce
  obtain q w2 where q: "NamespaceLocked A ns (e_mtqNs en) (bundleOr ca) w1 = (q, w2)" by fastforce
  note F = doRead_frame [OF ca] NamespaceLocked_frame [OF q]
  have w2: "w' = w2" using assms Unknown ca q by (auto simp: readLock_def split: option.splits)
  from q show thesis
    by (cases rule: NamespaceLocked_cases)
      (rule that [of "drop (length (w_log w)) (w_log w2)"],
        use F assms Unknown ca q w2 in \<open>auto simp: readLock_def lockReadCall_def lockAnswer_def split: option.splits\<close>)+
qed (use assms that [of "[]"] in \<open>auto simp: readLock_def lockAnswer_def\<close>)

lemma acquireLock_trace:
  assumes "acquireLock A en ns w = (r, w')"
  obtains (noBundle) e where "r = Inl (Returned (Some e) Immediate)" "w_log w' = w_log w @ [(FetchBundle, Some e)]"
      "w_nsc w' = w_nsc w" "w_heap w' = w_heap w" "w_rqs w' = w_rqs w"
  | (failed) ca e where "r = Inl (Returned (Some e) Immediate)"
      "w_log w' = w_log w @ [(FetchBundle, None), (CreateVWC (lockingVWC ns (e_mtqNs en) ca), Some e)]"
      "w_nsc w' = w_nsc w" "w_heap w' = w_heap w" "w_rqs w' = w_rqs w"
  | (locked) ca where "r = Inr ()"
      "w_log w' = w_log w @ [(FetchBundle, None), (CreateVWC (lockingVWC ns (e_mtqNs en) ca), None)]"
      "w_nsc w' = MarkLockStateLocked ns (w_nsc w)" "w_heap w' = w_heap w" "w_rqs w' = w_rqs w"
proof -
  obtain b w1 where b: "doRead FetchBundle (api_bundleBytes A) w = (b, w1)" by fastforce
  note B = doRead_frame [OF b]
  show thesis
  proof (cases b)
    case (Inl e)
    then show thesis using assms b B noBundle [of e]
      by (simp add: acquireLock_def bindOp_def tryVal_def)
  next
    case (Inr ca)
    obtain l w2 where l: "LockNamespace A ns (e_mtqNs en) ca w1 = (l, w2)" by fastforce
    note L = LockNamespace_frame [OF l]
    show thesis using assms b B Inr l L failed locked
      by (cases l) (auto simp: acquireLock_def bindOp_def tryVal_def tryErr_def markLocked_def)
  qed
qed

lemma releaseLock_trace:
  assumes "releaseLock A ns w = (r, w')"
  obtains e where "w_log w' = w_log w @ [(DeleteVWC (lockName ns), e)]"
    "r = (case e of None \<Rightarrow> Inr () | Some err \<Rightarrow> Inl (Returned (Some err) Immediate))"
    "w_nsc w' = (if e = None then MarkLockStateUnlocked ns (w_nsc w) else w_nsc w)"
    "w_heap w' = w_heap w" "w_rqs w' = w_rqs w"
proof -
  obtain e w1 where e: "UnlockNamespace A ns w = (e, w1)" by fastforce
  note F = UnlockNamespace_frame [OF e]
  show thesis using assms e F that [of e]
    by (cases e) (auto simp: releaseLock_def bindOp_def tryErr_def markUnlocked_def)
qed

lemma sendStatus_trace:
  assumes "sendStatus A vm w = (e, w')"
  shows "w_log w' = w_log w @ [(UpdateVmmrqStatus (valVmmrq (w_heap w) vm), e)]"
    "w_heap w' = w_heap w" "w_rqs w' = w_rqs w" "w_nsc w' = w_nsc w"
  using doWrite_frame [OF assms [unfolded sendStatus_def Let_def]] by auto

lemma publish_trace:
  assumes "publish A vm prev w = (r, w')"
  obtains (quiet) "r = Inr ()" "w' = w" "\<not> shouldUpdateVmmrq (w_heap w) vm prev"
  | (sent) e where "w_log w' = w_log w @ [(UpdateVmmrqStatus (valVmmrq (w_heap w) vm), e)]"
      "r = (case e of None \<Rightarrow> Inr () | Some err \<Rightarrow> Inl (Returned (Some err) Immediate))"
      "shouldUpdateVmmrq (w_heap w) vm prev"
      "w_heap w' = w_heap w" "w_rqs w' = w_rqs w" "w_nsc w' = w_nsc w"
proof (cases "shouldUpdateVmmrq (w_heap w) vm prev")
  case True
  obtain e w1 where e: "sendStatus A vm w = (e, w1)" by fastforce
  have "w' = w1 \<and> r = (case e of None \<Rightarrow> Inr () | Some err \<Rightarrow> Inl (Returned (Some err) Immediate))"
    using assms True e by (cases e) (simp_all add: publish_def whenOp_def tryErr_def)
  then show thesis using True sendStatus_trace [OF e] by (intro sent [of e]) simp_all
next
  case False
  then show thesis using assms quiet by (simp add: publish_def whenOp_def returnOp_def)
qed

text \<open>A write loop that reports no error has had no update refused.\<close>

lemma restoreOriginalRQs_trace:
  assumes "restoreOriginalRQs A en xs ns w = (r, w')"
  obtains l where "w_log w' = w_log w @ l" "onlyRQUpdates ns l" "updatesCarry (savedLimits ns (w_heap w) (set xs)) l"
    "w_heap w' = w_heap w" "w_nsc w' = w_nsc w" "map rqKey (w_rqs w') = map rqKey (w_rqs w)"
proof (cases "xs = []")
  case True
  with assms have "w' = w" by (simp add: restoreOriginalRQs_def)
  then show thesis by (intro that [of "[]"]) (simp_all add: onlyRQUpdates_def)
next
  case False
  with assms have run: "runLoop (restoreOne A en ns) xs w = (r, w')"
    by (simp add: restoreOriginalRQs_def)
  obtain l where l: "w_log w' = w_log w @ l" "updatesCarry (savedLimits ns (w_heap w) (set xs)) l"
    using restoreLoop_sends [OF run] by blast
  have "quotaRel ns w w'" "w_heap w' = w_heap w"
    using restoreOriginalRQs_rel [of ns w A en xs] restoreOriginalRQs_heap [of A en xs ns w] assms by simp_all
  with l show thesis by (intro that [of l]) (simp_all add: quotaRel_def)
qed

lemma addResourcesToRQs_trace:
  assumes "addResourcesToRQs A en vm ns w = (r, w')"
  obtains l where "w_log w' = w_log w @ l" "onlyRQUpdates ns l" "v_orig vm = [] \<longrightarrow> l = []"
    "w_nsc w' = w_nsc w" "map rqKey (w_rqs w') = map rqKey (w_rqs w)"
proof -
  obtain l where l: "w_log w' = w_log w @ l" "onlyRQUpdates ns l"
    using addResourcesToRQs_rel [of ns w A en vm] assms by (auto simp: quotaRel_def)
  have "v_orig vm = [] \<Longrightarrow> l = []" using assms l(1) by (simp add: addResourcesToRQs_def)
  moreover have "quotaRel ns w w'" using addResourcesToRQs_rel [of ns w A en vm] assms by simp
  ultimately show thesis using l by (intro that [of l]) (simp_all add: quotaRel_def)
qed

subsection \<open>reconcile\<close>

definition lockCreated :: "string \<Rightarrow> (apiCall \<times> goerror option) list \<Rightarrow> bool" where
  "lockCreated ns l \<longleftrightarrow> (\<exists>v. (CreateVWC v, None) \<in> set l \<and> vwc_name v = lockName ns)"

definition lockAcquireCall :: "string \<Rightarrow> string \<Rightarrow> apiCall \<Rightarrow> bool" where
  "lockAcquireCall mtqNs ns c \<longleftrightarrow> c = FetchBundle \<or> (\<exists>ca. c = CreateVWC (lockingVWC ns mtqNs ca))"

lemma vwc_name_lockingVWC [simp]: "vwc_name (lockingVWC ns m ca) = lockName ns"
  by (simp add: lockingVWC_def)

text \<open>
  The phases of \<open>reconcile\<close>: \<open>lk\<close> reads the lock, \<open>acq\<close> takes it, \<open>res\<close> restores, \<open>pub\<close>
  publishes the status, \<open>enl\<close> enlarges, \<open>rl\<close> releases the lock. A phase that was not reached
  made no call.
\<close>

definition reconcileTrace ::
  "'s api \<Rightarrow> env \<Rightarrow> string \<Rightarrow> href vmmrq \<Rightarrow> href vmmrq \<Rightarrow> 's world \<Rightarrow> 's world \<Rightarrow>
   (apiCall \<times> goerror option) list \<Rightarrow> bool \<Rightarrow> (apiCall \<times> goerror option) list \<Rightarrow> (apiCall \<times> goerror option) list \<Rightarrow>
   (apiCall \<times> goerror option) list \<Rightarrow> (apiCall \<times> goerror option) list \<Rightarrow> (apiCall \<times> goerror option) list \<Rightarrow> bool" where
  "reconcileTrace A en ns vm prev w w' lk nl acq res pub enl rl \<longleftrightarrow>
     w_log w' = w_log w @ lk @ acq @ res @ pub @ enl @ rl
   \<and> (\<forall>(c, e) \<in> set lk. lockReadCall (e_mtqNs en) ns c)
   \<and> (acq @ res @ pub @ enl @ rl \<noteq> [] \<longrightarrow> lockAnswer (GetLockState (w_nsc w) ns) ns lk nl)
   \<and> (\<forall>(c, e) \<in> set acq. lockAcquireCall (e_mtqNs en) ns c)
   \<and> (acq \<noteq> [] \<longrightarrow> shouldLockNS vm \<and> \<not> nl)
   \<and> (res @ pub @ enl @ rl \<noteq> [] \<longrightarrow> shouldLockNS vm \<longrightarrow> nl \<or> lockCreated ns acq)
   \<and> onlyRQUpdates ns res
   \<and> updatesCarry (savedLimits ns (w_heap w) (set (getRQListToRestore vm prev))) res
   \<and> (pub @ enl @ rl \<noteq> [] \<longrightarrow>
        (\<exists>w1 w2. restoreOriginalRQs A en (getRQListToRestore vm prev) ns w1 = (None, w2)
           \<and> w_heap w1 = w_heap w \<and> w_rqs w1 = w_rqs w \<and> w_log w2 = w_log w1 @ res))
   \<and> (pub = [] \<or> (\<exists>e. pub = [(UpdateVmmrqStatus (valVmmrq (w_heap w) vm), e)]))
   \<and> (enl @ rl \<noteq> [] \<longrightarrow> (if shouldUpdateVmmrq (w_heap w) vm prev
        then pub = [(UpdateVmmrqStatus (valVmmrq (w_heap w) vm), None)] else pub = []))
   \<and> onlyRQUpdates ns enl \<and> (enl \<noteq> [] \<longrightarrow> shouldLockNS vm)
   \<and> (rl = [] \<or> (\<exists>e. rl = [(DeleteVWC (lockName ns), e)] \<and> \<not> shouldLockNS vm \<and> nl))
   \<and> w_nsc w' = (if lockCreated ns acq then MarkLockStateLocked ns (w_nsc w)
                 else if (DeleteVWC (lockName ns), None) \<in> set rl then MarkLockStateUnlocked ns (w_nsc w)
                 else w_nsc w)"

lemma reconcileTraceD:
  assumes "reconcileTrace A en ns vm prev w w' lk nl acq res pub enl rl"
  shows "w_log w' = w_log w @ lk @ acq @ res @ pub @ enl @ rl"
    and "\<forall>(c, e) \<in> set lk. lockReadCall (e_mtqNs en) ns c"
    and "acq @ res @ pub @ enl @ rl \<noteq> [] \<longrightarrow> lockAnswer (GetLockState (w_nsc w) ns) ns lk nl"
    and "\<forall>(c, e) \<in> set acq. lockAcquireCall (e_mtqNs en) ns c"
    and "acq \<noteq> [] \<longrightarrow> shouldLockNS vm \<and> \<not> nl"
    and "res @ pub @ enl @ rl \<noteq> [] \<longrightarrow> shouldLockNS vm \<longrightarrow> nl \<or> lockCreated ns acq"
    and "onlyRQUpdates ns res"
    and "updatesCarry (savedLimits ns (w_heap w) (set (getRQListToRestore vm prev))) res"
    and "pub @ enl @ rl \<noteq> [] \<longrightarrow>
        (\<exists>w1 w2. restoreOriginalRQs A en (getRQListToRestore vm prev) ns w1 = (None, w2)
           \<and> w_heap w1 = w_heap w \<and> w_rqs w1 = w_rqs w \<and> w_log w2 = w_log w1 @ res)"
    and "pub = [] \<or> (\<exists>e. pub = [(UpdateVmmrqStatus (valVmmrq (w_heap w) vm), e)])"
    and "enl @ rl \<noteq> [] \<longrightarrow> (if shouldUpdateVmmrq (w_heap w) vm prev
        then pub = [(UpdateVmmrqStatus (valVmmrq (w_heap w) vm), None)] else pub = [])"
    and "onlyRQUpdates ns enl" and "enl \<noteq> [] \<longrightarrow> shouldLockNS vm"
    and "rl = [] \<or> (\<exists>e. rl = [(DeleteVWC (lockName ns), e)] \<and> \<not> shouldLockNS vm \<and> nl)"
    and "w_nsc w' = (if lockCreated ns acq then MarkLockStateLocked ns (w_nsc w)
                 else if (DeleteVWC (lockName ns), None) \<in> set rl then MarkLockStateUnlocked ns (w_nsc w)
                 else w_nsc w)"
proof -
  note T = assms [unfolded reconcileTrace_def]
  from T show "w_log w' = w_log w @ lk @ acq @ res @ pub @ enl @ rl" by (elim conjE)
qed (insert assms [unfolded reconcileTrace_def], (elim conjE, assumption)+)

lemma onlyRQUpdates_Nil [simp]: "onlyRQUpdates ns []"
  by (simp add: onlyRQUpdates_def)

lemma lockCreated_Nil [simp]: "\<not> lockCreated ns []"
  by (simp add: lockCreated_def)

lemma shouldLockNS_iff: "shouldLockNS vm \<longleftrightarrow> v_orig vm \<noteq> []"
  by (simp add: shouldLockNS_def)

lemma tryErrE:
  assumes "tryErr st f w = (r, w')"
  obtains (ok) "f w = (None, w')" "r = Inr ()"
  | (err) e where "f w = (Some e, w')" "r = Inl (Returned (Some e) st)"
  using assms by (auto simp: tryErr_def split: prod.splits option.splits)

lemma acquirePhase_trace:
  assumes "whenOp b (acquireLock A en ns) w = (r, w')"
  obtains acq where "w_log w' = w_log w @ acq" "\<forall>(c, e) \<in> set acq. lockAcquireCall (e_mtqNs en) ns c"
    "acq \<noteq> [] \<longrightarrow> b" "r = Inr () \<longrightarrow> b \<longrightarrow> lockCreated ns acq" "w_heap w' = w_heap w" "w_rqs w' = w_rqs w"
    "w_nsc w' = (if lockCreated ns acq then MarkLockStateLocked ns (w_nsc w) else w_nsc w)"
proof (cases b)
  case True
  with assms have "acquireLock A en ns w = (r, w')" by (simp add: whenOp_def)
  then show thesis
    by (cases rule: acquireLock_trace)
      (use True in \<open>auto intro!: that simp: lockAcquireCall_def lockCreated_def\<close>)
next
  case False
  with assms have "w' = w" by (simp add: whenOp_def returnOp_def)
  with False show thesis by (intro that [of "[]"]) simp_all
qed

lemma reconcile_trace:
  assumes run: "reconcile A en ns vm prev w = (r, w')"
  obtains lk nl acq res pub enl rl where "reconcileTrace A en ns vm prev w w' lk nl acq res pub enl rl"
  using run unfolding reconcile_def
proof (cases rule: bindOpE)
  case (early out)
  from early(1) show thesis
    by (cases rule: readLock_trace) (rule that [of _ False "[]" "[]" "[]" "[]" "[]"], simp add: reconcileTrace_def)
next
  case (go nl w1)
  from go(1) obtain lk where lk: "w_log w1 = w_log w @ lk" "\<forall>(c, e) \<in> set lk. lockReadCall (e_mtqNs en) ns c"
    "w_heap w1 = w_heap w" "w_rqs w1 = w_rqs w" "w_nsc w1 = w_nsc w"
    "lockAnswer (GetLockState (w_nsc w) ns) ns lk nl" by (metis readLock_trace)
  from go(2) show thesis
  proof (cases rule: bindOpE)
    case (early out)
    from early(1) obtain acq where "w_log w' = w_log w1 @ acq"
      "\<forall>(c, e) \<in> set acq. lockAcquireCall (e_mtqNs en) ns c" "acq \<noteq> [] \<longrightarrow> shouldLockNS vm \<and> \<not> nl"
      "w_nsc w' = (if lockCreated ns acq then MarkLockStateLocked ns (w_nsc w1) else w_nsc w1)"
      by (metis acquirePhase_trace)
    with lk show thesis by (intro that [of lk nl acq "[]" "[]" "[]" "[]"]) (auto simp: reconcileTrace_def)
  next
    case (go u w2)
    from go(1) obtain acq where acq: "w_log w2 = w_log w1 @ acq"
      "\<forall>(c, e) \<in> set acq. lockAcquireCall (e_mtqNs en) ns c" "acq \<noteq> [] \<longrightarrow> shouldLockNS vm \<and> \<not> nl"
      "shouldLockNS vm \<longrightarrow> nl \<or> lockCreated ns acq" "w_heap w2 = w_heap w1" "w_rqs w2 = w_rqs w1"
      "w_nsc w2 = (if lockCreated ns acq then MarkLockStateLocked ns (w_nsc w1) else w_nsc w1)"
      by (cases rule: acquirePhase_trace) auto
    obtain e3 w3 where r3: "restoreOriginalRQs A en (getRQListToRestore vm prev) ns w2 = (e3, w3)" by fastforce
    from r3 obtain res where res: "w_log w3 = w_log w2 @ res" "onlyRQUpdates ns res"
      "updatesCarry (savedLimits ns (w_heap w2) (set (getRQListToRestore vm prev))) res"
      "w_heap w3 = w_heap w2" "w_nsc w3 = w_nsc w2" by (rule restoreOriginalRQs_trace)
    from go(2) show thesis
    proof (cases rule: bindOpE)
      case (early out)
      then have "w3 = w'" using r3 by (auto elim!: tryErrE)
      with lk acq res show thesis
        by (intro that [of lk nl acq res "[]" "[]" "[]"]) (auto simp: reconcileTrace_def)
    next
      case (go u' w3')
      then have w3: "w3' = w3" "e3 = None" using r3 by (auto elim!: tryErrE)
      have restored: "\<exists>w1 w2. restoreOriginalRQs A en (getRQListToRestore vm prev) ns w1 = (None, w2)
           \<and> w_heap w1 = w_heap w \<and> w_rqs w1 = w_rqs w \<and> w_log w2 = w_log w1 @ res"
        using r3 w3 res(1) acq(5,6) lk(3,4) by auto
      from go(2) [unfolded w3] show thesis
      proof (cases rule: bindOpE)
        case (early out)
        then obtain e where "w_log w' = w_log w3 @ [(UpdateVmmrqStatus (valVmmrq (w_heap w3) vm), e)]" "w_nsc w' = w_nsc w3"
          by (auto elim: publish_trace)
        with lk acq res restored show thesis
          by (intro that [of lk nl acq res "[(UpdateVmmrqStatus (valVmmrq (w_heap w) vm), e)]" "[]" "[]"])
            (simp add: reconcileTrace_def)
      next
        case (go u4 w4)
        define pub where "pub = (if shouldUpdateVmmrq (w_heap w) vm prev
            then [(UpdateVmmrqStatus (valVmmrq (w_heap w) vm), None :: goerror option)] else [])"
        have pub: "w_log w4 = w_log w3 @ pub" "w_nsc w4 = w_nsc w3" "w_heap w4 = w_heap w3"
          using go(1) lk(3) acq(5) res(4)
          by (auto elim!: publish_trace simp: pub_def split: option.splits)
        obtain e5 w5 where r5: "addResourcesToRQs A en vm ns w4 = (e5, w5)" by fastforce
        then obtain enl where enl: "w_log w5 = w_log w4 @ enl" "onlyRQUpdates ns enl" "v_orig vm = [] \<longrightarrow> enl = []"
          "w_nsc w5 = w_nsc w4" by (rule addResourcesToRQs_trace)
        note facts = lk acq res restored pub enl(1,2,4)
        have enl_lock: "enl \<noteq> [] \<longrightarrow> shouldLockNS vm" using enl(3) by (auto simp: shouldLockNS_iff)
        have pub_if: "pub = [] \<or> (\<exists>e. pub = [(UpdateVmmrqStatus (valVmmrq (w_heap w) vm), e)])"
          "if shouldUpdateVmmrq (w_heap w) vm prev
           then pub = [(UpdateVmmrqStatus (valVmmrq (w_heap w) vm), None)] else pub = []"
          by (simp_all add: pub_def)
        from go(2) show thesis
        proof (cases rule: bindOpE)
          case (early out)
          then have "w5 = w'" using r5 by (auto elim!: tryErrE)
          with facts enl_lock pub_if show thesis
            by (intro that [of lk nl acq res pub enl "[]"]) (simp add: reconcileTrace_def)
        next
          case (go u5 w5')
          then have w5: "w5' = w5" using r5 by (auto elim!: tryErrE)
          have "\<exists>rl. w_log w' = w_log w5 @ rl \<and> (rl = [] \<or> (\<exists>e. rl = [(DeleteVWC (lockName ns), e)] \<and> \<not> shouldLockNS vm \<and> nl))
             \<and> w_nsc w' = (if (DeleteVWC (lockName ns), None) \<in> set rl then MarkLockStateUnlocked ns (w_nsc w5) else w_nsc w5)"
            using go(2) by (auto simp: w5 whenOp_def returnOp_def elim!: releaseLock_trace split: if_splits)
          then obtain rl where rl: "w_log w' = w_log w5 @ rl"
            "rl = [] \<or> (\<exists>e. rl = [(DeleteVWC (lockName ns), e)] \<and> \<not> shouldLockNS vm \<and> nl)"
            "w_nsc w' = (if (DeleteVWC (lockName ns), None) \<in> set rl then MarkLockStateUnlocked ns (w_nsc w5) else w_nsc w5)"
            by blast
          have nocreate: "rl \<noteq> [] \<Longrightarrow> acq = []" using rl(2) acq(3) by auto
          show thesis using facts enl_lock pub_if rl nocreate
            by (intro that [of lk nl acq res pub enl rl]) (auto simp: reconcileTrace_def)
        qed
      qed
    qed
  qed
qed

end
