(* ===== verification/PassFront.thy ===== *)
theory PassFront
  imports ControllerTrace
begin

text \<open>
  The part of a pass before \<open>reconcile\<close>: reading the VMMRQ, carrying a changed spec over to the
  status, deciding what blocks the migration and collecting the quota specs to save. It only
  allocates on the heap (\<open>heapExt\<close>), leaves the informer and the namespace cache alone, and
  the specs it collects are \<open>gatherSpec\<close> of the saved ones and of the informer's quotas.
\<close>

subsection \<open>Well-formed maps\<close>

text \<open>A Go map holds a key once, so a decoded list does.\<close>

definition wireOk :: "wire vmmrq \<Rightarrow> bool" where
  "wireOk v \<longleftrightarrow> (\<forall>m. Some m \<in> {v_specAdd v, v_add v} \<union> (\<lambda>x. spec_hard (ns_spec x)) ` set (v_orig v) \<longrightarrow> distinctKeys m)"

definition wireMap :: "wire \<Rightarrow> resourceList" where
  "wireMap r = (case r of None \<Rightarrow> [] | Some m \<Rightarrow> m)"

lemma deref_wireMap: "deref h r = wireMap (valMap h r)"
  by (simp add: wireMap_def deref_valMap)

lemma wfHeap_loadMap: "wfHeap h \<Longrightarrow> (\<And>m. r = Some m \<Longrightarrow> distinctKeys m) \<Longrightarrow> wfHeap (snd (loadMap r h))"
  by (cases r) (auto simp: wfHeap_def allocMap_def)

lemma wfHeap_travNameSpecs:
  assumes "\<And>x h. x \<in> (\<lambda>y. spec_hard (ns_spec y)) ` set xs \<Longrightarrow> wfHeap h \<Longrightarrow> wfHeap (snd (f x h))" and "wfHeap h"
  shows "wfHeap (snd (travNameSpecs f xs h))"
  using assms
proof (induction xs arbitrary: h)
  case (Cons x xs)
  obtain a h1 where a: "f (spec_hard (ns_spec x)) h = (a, h1)" by fastforce
  with Cons.prems(1) [of "spec_hard (ns_spec x)" h] Cons.prems(2) have "wfHeap h1" by simp
  with Cons.IH [of h1] Cons.prems(1) have "wfHeap (snd (travNameSpecs f xs h1))" by simp
  then show ?case by (simp add: travNameSpec_def a case_prod_beta)
qed simp

lemma wfHeap_travVmmrq:
  assumes step: "\<And>x h. x \<in> {v_specAdd v, v_add v} \<union> (\<lambda>y. spec_hard (ns_spec y)) ` set (v_orig v) \<Longrightarrow>
      wfHeap h \<Longrightarrow> wfHeap (snd (f x h))"
    and "wfHeap h"
  shows "wfHeap (snd (travVmmrq f v h))"
proof -
  obtain a h1 where a: "f (v_specAdd v) h = (a, h1)" by fastforce
  obtain b h2 where b: "f (v_add v) h1 = (b, h2)" by fastforce
  have "wfHeap h1" using step [of "v_specAdd v" h] assms(2) a by simp
  then have "wfHeap h2" using step [of "v_add v" h1] b by simp
  then have "wfHeap (snd (travNameSpecs f (v_orig v) h2))"
    using step by (intro wfHeap_travNameSpecs) auto
  then show ?thesis by (simp add: travVmmrq_def a b case_prod_beta)
qed

lemma wfHeap_loadVmmrq: "wfHeap h \<Longrightarrow> wireOk v \<Longrightarrow> wfHeap (snd (loadVmmrq v h))"
  unfolding loadVmmrq_def wireOk_def by (rule wfHeap_travVmmrq) (auto intro!: wfHeap_loadMap)

lemma wfHeap_deepCopyVmmrq: "wfHeap h \<Longrightarrow> wfHeap (snd (deepCopyVmmrq v h))"
  unfolding deepCopyVmmrq_def by (rule wfHeap_travVmmrq) (auto intro: wfHeap_copyMap)

subsection \<open>What the front part leaves alone\<close>

definition frontRel :: "'s world \<Rightarrow> 's world \<Rightarrow> bool" where
  "frontRel w w' \<longleftrightarrow> w_rqs w' = w_rqs w \<and> w_nsc w' = w_nsc w \<and> heapExt (w_heap w) (w_heap w')
     \<and> (wfHeap (w_heap w) \<longrightarrow> wfHeap (w_heap w'))"

lemma frontRel_refl [simp]: "frontRel w w"
  by (simp add: frontRel_def)

lemma frontRel_trans: "frontRel u v \<Longrightarrow> frontRel v w \<Longrightarrow> frontRel u w"
  by (auto simp: frontRel_def intro: heapExt_trans)

definition liveWorld :: "'s world \<Rightarrow> bool" where
  "liveWorld w \<longleftrightarrow> wfHeap (w_heap w) \<and> (\<forall>q \<in> set (w_rqs w). liveRQ (w_heap w) q)"

lemma frontRel_live: "frontRel w w' \<Longrightarrow> liveWorld w \<Longrightarrow> liveWorld w'"
  by (auto simp: frontRel_def liveWorld_def intro: heapExt_liveRQ)

text \<open>The VMMRQ after \<open>makeMigs\<close> and the carried-over spec.\<close>

definition syncedV :: "wire vmmrq \<Rightarrow> wire vmmrq" where
  "syncedV v =
     (if areResourceMapsEqual (wireMap (v_specAdd v)) (wireMap (v_add v)) then makeMigs v
      else (makeMigs v)\<lparr>v_add := v_specAdd v\<rparr>)"

lemma makeMigs_simps [simp]:
  "v_orig (makeMigs v) = v_orig v" "v_add (makeMigs v) = v_add v" "v_specAdd (makeMigs v) = v_specAdd v"
  "v_name (makeMigs v) = v_name v" "v_ns (makeMigs v) = v_ns v" "v_rv (makeMigs v) = v_rv v"
  "v_migs (makeMigs v) \<noteq> None"
  by (simp_all add: makeMigs_def split: option.split)

lemma makeMigs_map: "makeMigs (mapVmmrq f v) = mapVmmrq f (makeMigs v)"
  by (simp add: makeMigs_def mapVmmrq_def split: option.split)

lemma syncedV_simps [simp]: "v_orig (syncedV v) = v_orig v" "v_migs (syncedV v) = v_migs (makeMigs v)"
  "v_ns (syncedV v) = v_ns v"
  by (simp_all add: syncedV_def)

lemma liveVmmrq_makeMigs [simp]: "liveVmmrq h (makeMigs v) = liveVmmrq h v"
  by (simp add: liveVmmrq_def)

lemma readVmmrq_trace:
  assumes "readVmmrq A ns w = (r, w')"
  obtains (err) e where "r = Inl (Returned (Some e) BackOff)" "w_log w' = w_log w @ [(ListVmmrqs ns, Some e)]" "frontRel w w'"
  | (count) items where "r = Inl (Returned (Some (countErr ns)) Forget)" "length items \<noteq> 1"
      "fst (api_listVmmrqs A ns (w_srv w)) = Inr items" "w_log w' = w_log w @ [(ListVmmrqs ns, None)]" "frontRel w w'"
  | (one) v vm where "r = Inr vm" "fst (api_listVmmrqs A ns (w_srv w)) = Inr [v]"
      "w_log w' = w_log w @ [(ListVmmrqs ns, None)]" "liveVmmrq (w_heap w') vm" "valVmmrq (w_heap w') vm = v"
      "\<forall>a. v_specAdd vm = Some a \<longrightarrow> hp_next (w_heap w) \<le> a" "\<forall>a. v_add vm = Some a \<longrightarrow> hp_next (w_heap w) \<le> a"
      "wireOk v \<longrightarrow> frontRel w w'"
proof -
  obtain g w1 where g: "doRead (ListVmmrqs ns) (api_listVmmrqs A ns) w = (g, w1)" by fastforce
  note G = doRead_frame [OF g]
  show thesis
  proof (cases g)
    case (Inl e)
    then show thesis using assms g G err [of e]
      by (simp add: readVmmrq_def bindOp_def tryVal_def frontRel_def)
  next
    case (Inr items)
    show thesis
    proof (cases "length items = 1")
      case False
      then show thesis using assms g G Inr count [of items]
        by (simp add: readVmmrq_def bindOp_def tryVal_def frontRel_def)
    next
      case True
      then obtain v where v: "items = [v]" by (auto simp: length_Suc_conv)
      obtain vm h where vm: "loadVmmrq v (w_heap w1) = (vm, h)" by fastforce
      note L = loadVmmrq_correct [OF vm]
      have w': "w' = w1\<lparr>w_heap := h\<rparr>" "r = Inr vm"
        using assms g Inr v vm by (simp_all add: readVmmrq_def bindOp_def tryVal_def)
      have "wireOk v \<longrightarrow> frontRel w w'"
        using L G wfHeap_loadVmmrq [of "w_heap w1" v] vm by (simp add: frontRel_def w')
      then show thesis using L G Inr v by (intro one [of vm v]) (simp_all add: w')
    qed
  qed
qed

lemma syncAdditional_trace:
  assumes "syncAdditional A (makeMigs vm0) w = (r, w')" and "liveVmmrq (w_heap w) vm0"
  shows "frontRel w w' \<and> w_heap w' = w_heap w
    \<and> (\<exists>l. w_log w' = w_log w @ l \<and> (l = [] \<or> (\<exists>e. l = [(UpdateVmmrqStatus (syncedV (valVmmrq (w_heap w) vm0)), e)])))
    \<and> (\<forall>vm. r = Inr vm \<longrightarrow> liveVmmrq (w_heap w') vm \<and> valVmmrq (w_heap w') vm = syncedV (valVmmrq (w_heap w) vm0)
          \<and> (v_add vm = v_add vm0 \<or> v_add vm = v_specAdd vm0)
          \<and> (w_log w' = w_log w \<or> w_log w' = w_log w @ [(UpdateVmmrqStatus (syncedV (valVmmrq (w_heap w) vm0)), None)]))
    \<and> (\<forall>out. r = Inl out \<longrightarrow> (\<exists>e. out = Returned (Some e) Immediate))"
proof (cases "areResourceMapsEqual (deref (w_heap w) (v_specAdd vm0)) (deref (w_heap w) (v_add vm0))")
  case True
  then have w': "w' = w" "r = Inr (makeMigs vm0)" using assms(1) by (simp_all add: syncAdditional_def)
  have "valVmmrq (w_heap w) (makeMigs vm0) = syncedV (valVmmrq (w_heap w) vm0)"
    using True by (simp add: syncedV_def deref_wireMap makeMigs_map)
  then show ?thesis using assms(2) by (simp add: w')
next
  case False
  let ?vm = "(makeMigs vm0)\<lparr>v_add := v_specAdd vm0\<rparr>"
  obtain e w1 where e: "sendStatus A ?vm w = (e, w1)" by fastforce
  note S = sendStatus_trace [OF e]
  have val: "valVmmrq (w_heap w) ?vm = syncedV (valVmmrq (w_heap w) vm0)"
    using False by (simp add: syncedV_def deref_wireMap makeMigs_map)
  have w': "w' = w1" "r = (case e of None \<Rightarrow> Inr ?vm | Some err \<Rightarrow> Inl (Returned (Some err) Immediate))"
    using assms(1) False e
    by (cases e; simp add: syncAdditional_def bindOp_def tryErr_def returnOp_def)+
  have "liveVmmrq (w_heap w) ?vm" using assms(2) by (simp add: liveVmmrq_def)
  then show ?thesis using S val by (auto simp: w' frontRel_def split: option.splits)
qed

lemma snapshot_trace:
  assumes "snapshot vm w = (r, w')" and "liveVmmrq (w_heap w) vm"
  obtains prev where "r = Inr prev" "frontRel w w'" "w_log w' = w_log w"
    "liveVmmrq (w_heap w') prev" "valVmmrq (w_heap w') prev = valVmmrq (w_heap w) vm"
proof -
  obtain prev h where p: "deepCopyVmmrq vm (w_heap w) = (prev, h)" by fastforce
  have w': "w' = w\<lparr>w_heap := h\<rparr>" "r = Inr prev" using assms(1) p by (simp_all add: snapshot_def)
  show thesis using deepCopyVmmrq_correct [OF p assms(2)] wfHeap_deepCopyVmmrq [of "w_heap w" vm] p
    by (intro that [of prev]) (simp_all add: w' frontRel_def)
qed

lemma tryPure_world: "tryPure st x w = (r, w') \<Longrightarrow> w' = w"
  by (auto simp: tryPure_def split: sum.splits)

lemma inspectMigration_world: "inspectMigration en ns mig w = (r, w') \<Longrightarrow> w' = w"
  by (auto simp: inspectMigration_def returnOp_def elim!: bindOpE dest!: tryPure_world split: option.splits)

lemma targetPodOp_world: "targetPodOp en ns v w = (r, w') \<Longrightarrow> w' = w"
  by (auto simp: targetPodOp_def returnOp_def elim!: bindOpE dest!: tryPure_world split: prod.splits option.splits)

subsection \<open>Deciding what blocks the migration\<close>

lemma getCurrBlockingRQInNS_world:
  assumes "getCurrBlockingRQInNS en vm m p toAdd w = (r, w')" and "liveWorld w"
    and "\<forall>x \<in> set (v_orig vm). liveNameSpec (w_heap w) x" and "liveRef (w_heap w) toAdd"
  shows "frontRel w w' \<and> w_log w' = w_log w"
proof -
  have keep: "w' = w \<or> (\<exists>objs lim names e h. rqByNamespace en (m_ns m) w = Inr objs
      \<and> scanQuotas en p lim (v_orig vm) toAdd objs [] (w_heap w) = ((names, e), h)
      \<and> w_heap w' = h \<and> w_rqs w' = w_rqs w \<and> w_nsc w' = w_nsc w \<and> w_log w' = w_log w)"
    using assms(1)
    by (auto simp: getCurrBlockingRQInNS_def split: sum.splits prod.splits option.splits) blast+
  then show ?thesis
  proof
    assume "\<exists>objs lim names e h. rqByNamespace en (m_ns m) w = Inr objs
      \<and> scanQuotas en p lim (v_orig vm) toAdd objs [] (w_heap w) = ((names, e), h)
      \<and> w_heap w' = h \<and> w_rqs w' = w_rqs w \<and> w_nsc w' = w_nsc w \<and> w_log w' = w_log w"
    then obtain objs lim names e h where objs: "rqByNamespace en (m_ns m) w = Inr objs"
      and s: "scanQuotas en p lim (v_orig vm) toAdd objs [] (w_heap w) = ((names, e), h)"
      and w': "w_heap w' = h" "w_rqs w' = w_rqs w" "w_nsc w' = w_nsc w" "w_log w' = w_log w" by blast
    have "\<forall>q \<in> set objs. liveRQ (w_heap w) q"
      using objs assms(2) by (auto simp: rqByNamespace_def liveWorld_def split: option.splits)
    with scanQuotas_correct [OF s _ this assms(3,4)] assms(2) w' show ?thesis
      by (simp add: frontRel_def liveWorld_def)
  qed simp
qed

text \<open>The migration table is all the decision changes.\<close>

definition onlyMigs :: "'m vmmrq \<Rightarrow> 'm vmmrq \<Rightarrow> bool" where
  "onlyMigs v v' \<longleftrightarrow> (\<exists>m. v' = v\<lparr>v_migs := m\<rparr>)"

lemma onlyMigs_delete [simp]: "onlyMigs v (deleteMig name v)"
  by (auto simp: onlyMigs_def deleteMig_def)

lemma onlyMigs_simps:
  assumes "onlyMigs v v'"
  shows "v_orig v' = v_orig v" "v_add v' = v_add v" "v_specAdd v' = v_specAdd v"
    "v_name v' = v_name v" "v_ns v' = v_ns v" "v_rv v' = v_rv v"
  using assms by (auto simp: onlyMigs_def)

text \<open>
  The table after the pass, and when the pass is due again: what \<open>decideBlocking\<close> computes
  from its inputs, the quotas that block the target pod among them.
\<close>

definition migsDecided :: "string \<Rightarrow> string list \<Rightarrow> 'm vmmrq \<Rightarrow> 'm vmmrq" where
  "migsDecided name rqs v = v\<lparr>v_migs := map_option (\<lambda>m. if rqs = [] then AList.delete name m else AList.update name rqs m) (v_migs v)\<rparr>"

lemma migsDecided_Nil: "migsDecided name [] v = deleteMig name v"
  by (simp add: migsDecided_def deleteMig_def)

lemma decideBlocking_trace:
  assumes run: "decideBlocking en ns name mig insp vm w = (r, w')"
    and live: "liveWorld w" "liveVmmrq (w_heap w) vm" and migs: "v_migs vm \<noteq> None"
  shows "frontRel w w' \<and> w_log w' = w_log w \<and> r \<noteq> Inl Panicked
    \<and> (\<forall>out. r = Inl out \<longrightarrow> (\<exists>e. out = Returned (Some e) Immediate))
    \<and> (\<forall>vm' st. r = Inr (vm', st) \<longrightarrow>
         (case insp of
            (False, _) \<Rightarrow> vm' = migsDecided name [] vm \<and> st = Forget
          | (True, True, _) \<Rightarrow> vm' = migsDecided name [] vm \<and> st = AddAfterFiveSeconds
          | (True, False, vo) \<Rightarrow>
              (\<exists>rqs. vm' = migsDecided name rqs vm \<and> (st = Immediate \<or> st = Forget \<and> (vo = None \<or> mig = None) \<and> rqs = []))))"
proof (cases "fst insp \<and> \<not> fst (snd insp) \<and> snd (snd insp) \<noteq> None \<and> mig \<noteq> None")
  case False
  then have "w' = w \<and> (case insp of
        (False, _) \<Rightarrow> r = Inr (deleteMig name vm, Forget)
      | (True, True, _) \<Rightarrow> r = Inr (deleteMig name vm, AddAfterFiveSeconds)
      | (True, False, vo) \<Rightarrow> r = Inr (deleteMig name vm, Forget) \<and> (vo = None \<or> mig = None))"
    using run by (auto simp: decideBlocking_def returnOp_def split: prod.splits bool.splits option.splits)
  then show ?thesis by (auto simp: migsDecided_Nil split: prod.splits bool.splits)
next
  case True
  then obtain v m where insp: "insp = (True, False, Some v)" "mig = Some m"
    by (cases insp) auto
  let ?rest = "\<lambda>currBlockingRQList. if length currBlockingRQList = 0 then returnOp (deleteMig name vm, Immediate)
          else bindOp (assignMig name currBlockingRQList vm) (\<lambda>vm. returnOp (vm, Immediate))"
  from run have run': "bindOp (targetPodOp en ns v) (\<lambda>targetPod.
      bindOp (tryVal Immediate (getCurrBlockingRQInNS en vm m targetPod (v_add vm))) ?rest) w = (r, w')"
    by (simp add: decideBlocking_def insp)
  then show ?thesis
  proof (cases rule: bindOpE)
    case (early out)
    have "w' = w" using early(1) by (rule targetPodOp_world)
    moreover have "\<exists>e. out = Returned (Some e) Immediate"
      using early(1)
      by (auto simp: targetPodOp_def tryPure_def returnOp_def elim!: bindOpE split: sum.splits prod.splits option.splits)
    ultimately show ?thesis using early(2) by auto
  next
    case (go p w1)
    have w1: "w1 = w" using go(1) by (rule targetPodOp_world)
    from go(2) [unfolded w1] show ?thesis
    proof (cases rule: bindOpE)
      case (early out)
      then obtain e where "getCurrBlockingRQInNS en vm m p (v_add vm) w = (Inl e, w')" "out = Returned (Some e) Immediate"
        by (auto simp: tryVal_def split: prod.splits sum.splits)
      then show ?thesis using getCurrBlockingRQInNS_world live early(2) by (fastforce simp: liveVmmrq_def)
    next
      case (go rqs w2)
      then have g: "getCurrBlockingRQInNS en vm m p (v_add vm) w = (Inr rqs, w2)"
        by (auto simp: tryVal_def split: prod.splits sum.splits)
      have fr: "frontRel w w2 \<and> w_log w2 = w_log w"
        using getCurrBlockingRQInNS_world [OF g] live by (simp add: liveVmmrq_def)
      obtain t where t: "v_migs vm = Some t" using migs by auto
      have "w' = w2 \<and> r = Inr (migsDecided name rqs vm, Immediate)"
        using go(2) t by (cases "rqs = []")
          (auto simp: returnOp_def assignMig_def bindOp_def migsDecided_def deleteMig_def)
      then show ?thesis using fr by (auto simp: insp)
    qed
  qed
qed

lemma onlyMigs_decided [simp]: "onlyMigs v (migsDecided name rqs v)"
  by (auto simp: onlyMigs_def migsDecided_def)

lemma liveVmmrq_onlyMigs: "onlyMigs v v' \<Longrightarrow> liveVmmrq h v' = liveVmmrq h v"
  by (auto simp: liveVmmrq_def onlyMigs_def)

subsection \<open>Collecting the specs to save\<close>

definition flatNames :: "'m vmmrq \<Rightarrow> string set" where
  "flatNames v = (\<Union>(_, s) \<in> set (case v_migs v of None \<Rightarrow> [] | Some m \<Rightarrow> m). set s)"

lemma adoptOriginals_trace:
  assumes run: "adoptOriginals en ns vm w = (r, w')"
    and live: "liveWorld w" "liveVmmrq (w_heap w) vm"
  obtains (err) e where "r = Inl (Returned (Some e) Immediate)" "w' = w"
  | (ok) objs xs names where "r = Inr (vm\<lparr>v_orig := xs\<rparr>)" "rqByNamespace en ns w = Inr objs"
      "names = flatStringToStringMapNoDups en (case v_migs vm of None \<Rightarrow> [] | Some m \<Rightarrow> m)"
      "frontRel w w'" "w_log w' = w_log w" "\<forall>x \<in> set xs. liveNameSpec (w_heap w') x \<and> ownOrShared (hp_next (w_heap w)) objs x"
      "map (valNameSpec (w_heap w')) xs =
         gatherSpec (map (valNameSpec (w_heap w)) (v_orig vm)) (map (valRQ (w_heap w)) objs) names"
proof -
  let ?names = "flatStringToStringMapNoDups en (case v_migs vm of None \<Rightarrow> [] | Some m \<Rightarrow> m)"
  show thesis
  proof (cases "rqByNamespace en ns w")
    case (Inl e)
    then show thesis using run err [of e]
      by (simp add: adoptOriginals_def bindOp_def tryVal_def getAllBlockingRQsInNS_def Let_def)
  next
    case (Inr objs)
    obtain xs h where g: "gatherBlocking (v_orig vm) objs ?names (w_heap w) = (xs, h)" by fastforce
    have w': "r = Inr (vm\<lparr>v_orig := xs\<rparr>)" "w' = w\<lparr>w_heap := h\<rparr>"
      using run Inr g by (simp_all add: adoptOriginals_def bindOp_def tryVal_def getAllBlockingRQsInNS_def Let_def returnOp_def)
    have "\<forall>q \<in> set objs. liveRQ (w_heap w) q"
      using Inr live(1) by (auto simp: rqByNamespace_def liveWorld_def split: option.splits)
    from gatherBlocking_correct [OF g _ this] live
    show thesis by (intro ok [OF w'(1) Inr refl])
        (simp_all add: w' frontRel_def liveWorld_def liveVmmrq_def)
  qed
qed

subsection \<open>Up to reconcile\<close>

definition listed :: "'s api \<Rightarrow> string \<Rightarrow> 's world \<Rightarrow> wire vmmrq \<Rightarrow> bool" where
  "listed A ns w v \<longleftrightarrow> fst (api_listVmmrqs A ns (w_srv w)) = Inr [v]"

definition frontLog :: "'s api \<Rightarrow> string \<Rightarrow> 's world \<Rightarrow> (apiCall \<times> goerror option) list \<Rightarrow> bool" where
  "frontLog A ns w pre \<longleftrightarrow>
     (\<forall>(c, e) \<in> set pre. c = ListVmmrqs ns \<or> (\<exists>v. listed A ns w v \<and> c = UpdateVmmrqStatus (syncedV v)))"

definition reconcileStart ::
  "'s api \<Rightarrow> env \<Rightarrow> string \<Rightarrow> string \<Rightarrow> 's world \<Rightarrow> wire vmmrq \<Rightarrow> (apiCall \<times> goerror option) list \<Rightarrow> href vmmrq \<Rightarrow>
   href vmmrq \<Rightarrow> 's world \<Rightarrow> href resourceQuota list \<Rightarrow> string list \<Rightarrow> bool" where
  "reconcileStart A en ns name w v pre vm prev w1 objs rqs \<longleftrightarrow>
     listed A ns w v
   \<and> (\<exists>sync. pre = (ListVmmrqs ns, None) # sync \<and> (sync = [] \<or> sync = [(UpdateVmmrqStatus (syncedV v), None)]))
   \<and> w_log w1 = w_log w @ pre \<and> frontRel w w1 \<and> liveVmmrq (w_heap w1) vm \<and> liveVmmrq (w_heap w1) prev
   \<and> valVmmrq (w_heap w1) prev = syncedV v
   \<and> rqByNamespace en ns w = Inr objs
   \<and> map (valNameSpec (w_heap w1)) (v_orig vm) =
       gatherSpec (v_orig v) (map (valRQ (w_heap w)) objs)
         (flatStringToStringMapNoDups en (case v_migs vm of None \<Rightarrow> [] | Some m \<Rightarrow> m))
   \<and> (\<forall>x \<in> set (v_orig vm). ownOrShared (hp_next (w_heap w)) objs x)
   \<and> (\<forall>a. v_add vm = Some a \<longrightarrow> hp_next (w_heap w) \<le> a)
   \<and> (valVmmrq (w_heap w1) vm)\<lparr>v_orig := []\<rparr> = (migsDecided name rqs (syncedV v))\<lparr>v_orig := []\<rparr>"

lemma valVmmrq_migsDecided: "valVmmrq h (migsDecided name rqs v) = migsDecided name rqs (valVmmrq h v)"
  by (simp add: mapVmmrq_def migsDecided_def)

lemma executeLocked_trace:
  assumes run: "executeLocked A en ns name mig w = (r, w')" and live: "liveWorld w"
    and ok: "\<forall>v. listed A ns w v \<longrightarrow> wireOk v"
  obtains (front) pre out where "r = Inl out" "out \<noteq> Panicked" "w_log w' = w_log w @ pre" "frontLog A ns w pre" "frontRel w w'"
  | (rec) v pre vm prev w1 objs rqs q st where "reconcileStart A en ns name w v pre vm prev w1 objs rqs"
      "reconcile A en ns vm prev w1 = (q, w')" "r = (case q of Inl out \<Rightarrow> Inl out | Inr _ \<Rightarrow> Inr st)"
  using run unfolding executeLocked_def
proof (cases rule: bindOpE)
  case (early out)
  from early(1) show thesis
    by (cases rule: readVmmrq_trace; intro front) (use early in \<open>auto simp: frontLog_def\<close>)
next
  case (go vm0 w0)
  from go(1) obtain v where v: "listed A ns w v" "w_log w0 = w_log w @ [(ListVmmrqs ns, None)]"
    "liveVmmrq (w_heap w0) vm0" "valVmmrq (w_heap w0) vm0 = v"
    "\<forall>a. v_specAdd vm0 = Some a \<longrightarrow> hp_next (w_heap w) \<le> a" "\<forall>a. v_add vm0 = Some a \<longrightarrow> hp_next (w_heap w) \<le> a"
    "frontRel w w0"
    using ok by (cases rule: readVmmrq_trace) (auto simp: listed_def)
  from go(2) show thesis
  proof (cases rule: bindOpE)
    case (early out)
    note S = syncAdditional_trace [OF early(1) v(3)]
    then obtain l where l: "w_log w' = w_log w0 @ l"
      "l = [] \<or> (\<exists>e. l = [(UpdateVmmrqStatus (syncedV v), e)])" using v(4) by auto
    have "frontLog A ns w ((ListVmmrqs ns, None) # l)" using l(2) v(1) by (auto simp: frontLog_def)
    then show thesis using S early v l frontRel_trans [OF v(7)]
      by (intro front [of out "(ListVmmrqs ns, None) # l"]) auto
  next
    case (go vm1 ws)
    note S = syncAdditional_trace [OF go(1) v(3)]
    then obtain sync where sync: "w_log ws = w_log w0 @ sync" "sync = [] \<or> sync = [(UpdateVmmrqStatus (syncedV v), None)]"
      using v(4) by auto
    have S': "liveVmmrq (w_heap ws) vm1" "valVmmrq (w_heap ws) vm1 = syncedV v" "frontRel w ws"
      "v_add vm1 = v_add vm0 \<or> v_add vm1 = v_specAdd vm0"
      using S v(4) frontRel_trans [OF v(7)] by auto
    let ?pre = "(ListVmmrqs ns, None) # sync"
    have pre: "w_log ws = w_log w @ ?pre" "frontLog A ns w ?pre" using sync v(1,2) by (auto simp: frontLog_def)
    from go(2) show thesis
    proof (cases rule: bindOpE)
      case (early out)
      then show thesis using snapshot_trace [OF early(1) S'(1)] by auto
    next
      case (go prev w3)
      from snapshot_trace [OF go(1) S'(1)]
      have P: "frontRel ws w3" "w_log w3 = w_log ws" "liveVmmrq (w_heap w3) prev"
        "valVmmrq (w_heap w3) prev = syncedV v" using S'(2) by (auto)
      have fr3: "frontRel w w3" using S'(3) P(1) by (rule frontRel_trans)
      have live3: "liveWorld w3" using frontRel_live [OF fr3 live] .
      have vm13: "liveVmmrq (w_heap w3) vm1" "valVmmrq (w_heap w3) vm1 = syncedV v"
        using P(1) S'(1,2) heapExt_liveVmmrq [of "w_heap ws" "w_heap w3" vm1] heapExt_valVmmrq [of "w_heap ws" "w_heap w3" vm1]
        by (simp_all add: frontRel_def)
      from go(2) show thesis
      proof (cases rule: bindOpE)
        case (early out)
        have "w' = w3" using early(1) by (rule inspectMigration_world)
        moreover have "out \<noteq> Panicked"
          using early(1)
          by (auto simp: inspectMigration_def returnOp_def tryPure_def elim!: bindOpE split: option.splits sum.splits)
        ultimately show thesis using early fr3 pre P(2) by (intro front [of out ?pre]) simp_all
      next
        case (go insp w4)
        have w4: "w4 = w3" using go(1) by (rule inspectMigration_world)
        have migs1: "v_migs vm1 \<noteq> None"
          using vm13(2) by (metis makeMigs_simps(7) mapVmmrq_simps(6) syncedV_simps(2))
        from go(2) [unfolded w4] show thesis
        proof (cases rule: bindOpE)
          case (early out)
          note D = decideBlocking_trace [OF early(1) live3 vm13(1) migs1]
          show thesis using D early fr3 pre P(2) frontRel_trans [OF fr3]
            by (intro front [of out ?pre]) auto
        next
          case (go dec w5)
          obtain vm2 st where dec: "dec = (vm2, st)" by fastforce
          note D = decideBlocking_trace [OF go(1) live3 vm13(1) migs1]
          obtain rqs where rqs: "vm2 = migsDecided name rqs vm1"
            using D by (auto simp: dec split: prod.splits bool.splits)
          have fr5: "frontRel w w5" "frontRel w3 w5" "w_log w5 = w_log ws"
            using D frontRel_trans [OF fr3] P(2) by auto
          have vm25: "liveVmmrq (w_heap w5) vm2" "valVmmrq (w_heap w5) vm2 = migsDecided name rqs (syncedV v)"
            "v_orig vm2 = v_orig vm1" "v_add vm2 = v_add vm1"
            using fr5(2) vm13 heapExt_liveVmmrq [of "w_heap w3" "w_heap w5" vm1] heapExt_valVmmrq [of "w_heap w3" "w_heap w5" vm1]
            by (simp_all add: frontRel_def rqs liveVmmrq_onlyMigs [OF onlyMigs_decided] valVmmrq_migsDecided
                onlyMigs_simps [OF onlyMigs_decided])
          have prev5: "liveVmmrq (w_heap w5) prev" "valVmmrq (w_heap w5) prev = syncedV v"
            using fr5(2) P heapExt_liveVmmrq [of "w_heap w3" "w_heap w5" prev] heapExt_valVmmrq [of "w_heap w3" "w_heap w5" prev]
            by (simp_all add: frontRel_def)
          have live5: "liveWorld w5" using frontRel_live [OF fr5(1) live] .
          from go(2) [unfolded dec, simplified] show thesis
          proof (cases rule: bindOpE)
            case (early out)
            from early(1) show thesis
              by (rule adoptOriginals_trace [OF _ live5 vm25(1)])
                (use early fr5 pre in \<open>auto intro!: front [of out ?pre]\<close>)
          next
            case (go vm w6)
            from go(1) obtain objs xs where A6: "vm = vm2\<lparr>v_orig := xs\<rparr>" "rqByNamespace en ns w5 = Inr objs"
              "frontRel w5 w6" "w_log w6 = w_log w5"
              "\<forall>x \<in> set xs. liveNameSpec (w_heap w6) x \<and> ownOrShared (hp_next (w_heap w5)) objs x"
              "map (valNameSpec (w_heap w6)) xs = gatherSpec (map (valNameSpec (w_heap w5)) (v_orig vm2)) (map (valRQ (w_heap w5)) objs)
                 (flatStringToStringMapNoDups en (case v_migs vm2 of None \<Rightarrow> [] | Some m \<Rightarrow> m))"
              by (rule adoptOriginals_trace [OF _ live5 vm25(1)]) auto
            have objs: "rqByNamespace en ns w = Inr objs" "\<forall>q \<in> set objs. liveRQ (w_heap w) q"
              using A6(2) fr5(1) live by (auto simp: rqByNamespace_def frontRel_def liveWorld_def split: option.splits)
            have vals: "map (valNameSpec (w_heap w5)) (v_orig vm2) = v_orig v"
              "map (valRQ (w_heap w5)) objs = map (valRQ (w_heap w)) objs"
              using vm25(2) fr5(1) objs(2)
              by (metis mapVmmrq_simps(7) onlyMigs_decided onlyMigs_simps(1) syncedV_simps(1),
                  auto simp: frontRel_def intro: heapExt_valRQ)
            have own: "ownOrShared (hp_next (w_heap w5)) objs x \<Longrightarrow> ownOrShared (hp_next (w_heap w)) objs x" for x
              using fr5(1) by (fastforce simp: ownOrShared_def frontRel_def heapExt_def)
            have e56: "heapExt (w_heap w5) (w_heap w6)" using A6(3) by (simp add: frontRel_def)
            have add: "\<forall>a. v_add vm = Some a \<longrightarrow> hp_next (w_heap w) \<le> a"
              using S'(4) v(5,6) vm25(4) A6(1) by auto
            have rest: "(valVmmrq (w_heap w6) vm)\<lparr>v_orig := []\<rparr> = (migsDecided name rqs (syncedV v))\<lparr>v_orig := []\<rparr>"
              using heapExt_valVmmrq [OF e56 vm25(1)] unfolding vm25(2) [symmetric]
              by (simp add: A6(1) mapVmmrq_def)
            have live6: "liveVmmrq (w_heap w6) vm" "liveVmmrq (w_heap w6) prev" "valVmmrq (w_heap w6) prev = syncedV v"
              using heapExt_liveVmmrq [OF e56] vm25(1) prev5 heapExt_valVmmrq [OF e56] A6(1,5)
              by (auto simp: liveVmmrq_def)
            have start: "reconcileStart A en ns name w v ?pre vm prev w6 objs rqs"
              unfolding reconcileStart_def
              using v(1) sync(2) pre(1) fr5 A6 frontRel_trans [OF fr5(1) A6(3)] live6 objs(1) vals own add rest by auto
            from go(2) show thesis
            proof (cases rule: bindOpE)
              case (early out)
              then show thesis using rec [OF start] by simp
            next
              case (go u w7)
              then show thesis using rec [OF start, of "Inr u" st] by (simp add: returnOp_def)
            qed
          qed
        qed
      qed
    qed
  qed
qed

end
