(* ===== verification/PassSafety.thy ===== *)
theory PassSafety
  imports PassFront
begin

text \<open>
  What holds of every pass, stated on the log of API calls it adds: quotas are raised only
  under the lock, the lock goes only when no spec is saved any more, a saved spec is never
  overwritten by an enlarged one and never dropped before it is restored, and nothing outside
  the namespace of the key is touched.
\<close>

subsection \<open>The lock along a log\<close>

text \<open>Is the locking webhook configuration of \<open>ns\<close> there after these calls, if it was (not) before?\<close>

fun lockPresent :: "string \<Rightarrow> bool \<Rightarrow> (apiCall \<times> goerror option) list \<Rightarrow> bool" where
  "lockPresent ns b [] = b"
| "lockPresent ns b ((CreateVWC v, None) # l) = lockPresent ns (b \<or> vwc_name v = lockName ns) l"
| "lockPresent ns b ((DeleteVWC n, None) # l) = lockPresent ns (b \<and> n \<noteq> lockName ns) l"
| "lockPresent ns b (_ # l) = lockPresent ns b l"

text \<open>A read of the configuration succeeds only when it is there (the API server's contract).\<close>

fun lockHonest :: "string \<Rightarrow> bool \<Rightarrow> (apiCall \<times> goerror option) list \<Rightarrow> bool" where
  "lockHonest ns b [] = True"
| "lockHonest ns b (ce # l) =
     ((ce = (GetVWC (lockName ns), None) \<longrightarrow> b) \<and> lockHonest ns (lockPresent ns b [ce]) l)"

text \<open>Every quota update is sent under the lock, or satisfies \<open>S\<close>.\<close>

fun guardedUpdates :: "string \<Rightarrow> bool \<Rightarrow> (string \<Rightarrow> (string \<Rightarrow> int option) \<Rightarrow> bool) \<Rightarrow> (apiCall \<times> goerror option) list \<Rightarrow> bool" where
  "guardedUpdates ns b S [] = True"
| "guardedUpdates ns b S ((c, e) # l) =
     ((case c of UpdateRQ q \<Rightarrow> b \<or> S (rqKey q) (wireAmounts (spec_hard (rq_spec q))) | _ \<Rightarrow> True)
      \<and> guardedUpdates ns (lockPresent ns b [(c, e)]) S l)"

lemma lockPresent_append: "lockPresent ns b (l @ l') = lockPresent ns (lockPresent ns b l) l'"
  by (induction ns b l rule: lockPresent.induct) auto

lemma lockHonest_append: "lockHonest ns b (l @ l') \<longleftrightarrow> lockHonest ns b l \<and> lockHonest ns (lockPresent ns b l) l'"
proof (induction l arbitrary: b)
  case (Cons ce l)
  have "lockPresent ns b (ce # l) = lockPresent ns (lockPresent ns b [ce]) l"
    using lockPresent_append [of ns b "[ce]" l] by simp
  with Cons show ?case by simp
qed simp

lemma guardedUpdates_append:
  "guardedUpdates ns b S (l @ l') \<longleftrightarrow> guardedUpdates ns b S l \<and> guardedUpdates ns (lockPresent ns b l) S l'"
proof (induction l arbitrary: b)
  case (Cons ce l)
  have "lockPresent ns b (ce # l) = lockPresent ns (lockPresent ns b [ce]) l"
    using lockPresent_append [of ns b "[ce]" l] by simp
  with Cons show ?case by (cases ce) simp
qed simp

text \<open>Calls that neither create nor delete a configuration, and calls that update no quota.\<close>

definition lockNeutral :: "apiCall \<Rightarrow> bool" where
  "lockNeutral c \<longleftrightarrow> (\<forall>v. c \<noteq> CreateVWC v) \<and> (\<forall>n. c \<noteq> DeleteVWC n)"

definition quotaNeutral :: "apiCall \<Rightarrow> bool" where
  "quotaNeutral c \<longleftrightarrow> (\<forall>q. c \<noteq> UpdateRQ q)"

lemma lockPresent_neutral: "\<forall>(c, e) \<in> set l. lockNeutral c \<Longrightarrow> lockPresent ns b l = b"
  by (induction ns b l rule: lockPresent.induct) (auto simp: lockNeutral_def)

lemma guardedUpdates_none: "\<forall>(c, e) \<in> set l. quotaNeutral c \<Longrightarrow> guardedUpdates ns b S l"
  by (induction l arbitrary: b) (auto simp: quotaNeutral_def split: apiCall.split)

lemma guardedUpdates_carry: "updatesCarry S l \<Longrightarrow> guardedUpdates ns b S l"
proof (induction l arbitrary: b)
  case (Cons ce l)
  then have "updatesCarry S l" by (auto simp: updatesCarry_def)
  moreover have "\<And>q e. ce = (UpdateRQ q, e) \<Longrightarrow> S (rqKey q) (wireAmounts (spec_hard (rq_spec q)))"
    using Cons.prems by (auto simp: updatesCarry_def)
  ultimately show ?case using Cons.IH by (cases ce) (simp split: apiCall.split)
qed simp

lemma guardedUpdates_locked:
  "\<forall>(c, e) \<in> set l. lockNeutral c \<Longrightarrow> guardedUpdates ns True S l"
proof (induction l)
  case (Cons ce l)
  then have "lockPresent ns True [ce] = True" by (intro lockPresent_neutral) auto
  with Cons show ?case by (cases ce) (auto split: apiCall.split)
qed simp

lemma lockPresent_created: "lockCreated ns l \<Longrightarrow> \<forall>(c, e) \<in> set l. \<forall>n. c \<noteq> DeleteVWC n \<Longrightarrow> lockPresent ns b l"
proof (induction l arbitrary: b)
  case Nil
  then show ?case by (simp add: lockCreated_def)
next
  case (Cons ce l)
  have mono: "\<forall>(c, e) \<in> set l. \<forall>n. c \<noteq> DeleteVWC n \<Longrightarrow> lockPresent ns True l" for l
    by (induction ns True l rule: lockPresent.induct) auto
  obtain c e where ce: "ce = (c, e)" by fastforce
  have app: "lockPresent ns b (ce # l) = lockPresent ns (lockPresent ns b [ce]) l"
    using lockPresent_append [of ns b "[ce]" l] by simp
  show ?case
  proof (cases "\<exists>v. ce = (CreateVWC v, None) \<and> vwc_name v = lockName ns")
    case True
    then have "lockPresent ns b [ce]" by auto
    with app mono Cons.prems(2) show ?thesis by simp
  next
    case False
    then have "lockCreated ns l" using Cons.prems(1) by (auto simp: lockCreated_def)
    with Cons app show ?thesis by simp
  qed
qed

lemma onlyRQUpdates_neutral: "onlyRQUpdates ns l \<Longrightarrow> \<forall>(c, e) \<in> set l. lockNeutral c"
  by (fastforce simp: onlyRQUpdates_def lockNeutral_def)

lemma lockRead_neutral: "lockReadCall m ns c \<Longrightarrow> lockNeutral c \<and> quotaNeutral c"
  by (auto simp: lockReadCall_def lockNeutral_def quotaNeutral_def)

subsection \<open>The log of a whole pass\<close>

definition sentBy :: "'s api \<Rightarrow> env \<Rightarrow> string \<Rightarrow> 's world \<Rightarrow> (apiCall \<times> goerror option) list" where
  "sentBy A en key w = logged w (snd (execute A en key w))"

definition listsOk :: "'s api \<Rightarrow> string \<Rightarrow> 's world \<Rightarrow> bool" where
  "listsOk A ns w \<longleftrightarrow> (\<forall>v. listed A ns w v \<longrightarrow> wireOk v)"

lemma execute_trace:
  assumes key: "parseKey key = Inr (ns, name)" and live: "liveWorld w" and ok: "listsOk A ns w"
  obtains (idle) e where "execute A en key w = (Returned (Some e) Forget, w)" "sentBy A en key w = []"
  | (front) out pre w' where "execute A en key w = (out, w')" "out \<noteq> Panicked" "sentBy A en key w = pre"
      "w_log w' = w_log w @ pre" "frontLog A ns w pre" "frontRel w w'"
  | (rec) out v pre vm prev w1 objs rqs q st w' lk nl acq res pub enl rl where "execute A en key w = (out, w')"
      "reconcileStart A en ns name w v pre vm prev w1 objs rqs"
      "reconcile A en ns vm prev w1 = (q, w')"
      "out = (case q of Inl o' \<Rightarrow> o' | Inr _ \<Rightarrow> Returned None st)"
      "reconcileTrace A en ns vm prev w1 w' lk nl acq res pub enl rl"
      "sentBy A en key w = pre @ lk @ acq @ res @ pub @ enl @ rl"
proof (cases "e_migByKey en key")
  case (Inl e)
  then show thesis by (intro idle [of e]) (simp_all add: execute_def sentBy_def)
next
  case (Inr mig)
  obtain r w' where r: "executeLocked A en ns name mig w = (r, w')" by fastforce
  have ex: "execute A en key w = (case r of Inl out \<Rightarrow> (out, w') | Inr st \<Rightarrow> (Returned None st, w'))"
    using Inr key r by (simp add: execute_def)
  have sent: "sentBy A en key w = logged w w'" using ex by (cases r) (simp_all add: sentBy_def)
  from r live ok [unfolded listsOk_def] show thesis
  proof (cases rule: executeLocked_trace)
    case (front pre out)
    then show thesis using ex sent by (intro that(2) [of out w' pre]) (simp_all add: logged_append)
  next
    case (rec v pre vm prev w1 objs rqs q st)
    obtain lk nl acq res pub enl rl where T: "reconcileTrace A en ns vm prev w1 w' lk nl acq res pub enl rl"
      using rec(2) by (rule reconcile_trace)
    have log: "sentBy A en key w = pre @ lk @ acq @ res @ pub @ enl @ rl"
      using sent T rec(1) by (simp add: logged_append reconcileTrace_def reconcileStart_def)
    have "execute A en key w = (case q of Inl o' \<Rightarrow> o' | Inr _ \<Rightarrow> Returned None st, w')"
      using ex rec(3) by (cases q) simp_all
    then show thesis using that(3) [OF _ rec(1,2) refl T log] by simp
  qed
qed

text \<open>What each call of a pass for a namespace may be.\<close>

definition concerns :: "string \<Rightarrow> string \<Rightarrow> apiCall \<Rightarrow> bool" where
  "concerns mtqNs ns c =
     (case c of
        ListVmmrqs n \<Rightarrow> n = ns
      | UpdateVmmrqStatus v \<Rightarrow> True
      | UpdateRQ q \<Rightarrow> \<exists>n. rqKey q = metaKey ns n
      | GetVWC n \<Rightarrow> n = lockName ns
      | CreateVWC v \<Rightarrow> \<exists>ca. v = lockingVWC ns mtqNs ca
      | UpdateVWC v \<Rightarrow> \<exists>ca. vwc_webhooks v = [getLockingValidatingWebhook mtqNs ns ca]
      | DeleteVWC n \<Rightarrow> n = lockName ns
      | FetchBundle \<Rightarrow> True)"


lemma lockReadCall_concerns: "lockReadCall m ns c \<Longrightarrow> concerns m ns c"
  by (auto simp: lockReadCall_def concerns_def)

lemma lockAcquireCall_concerns: "lockAcquireCall m ns c \<Longrightarrow> concerns m ns c"
  by (auto simp: lockAcquireCall_def concerns_def)

subsection \<open>Quotas move only under the lock\<close>

text \<open>The limits the listed VMMRQ saves for a quota.\<close>

definition savedBy :: "'s api \<Rightarrow> string \<Rightarrow> 's world \<Rightarrow> string \<Rightarrow> (string \<Rightarrow> int option) \<Rightarrow> bool" where
  "savedBy A ns w k f \<longleftrightarrow>
     (\<exists>v. listed A ns w v \<and> (\<exists>x \<in> set (v_orig v). k = metaKey ns (ns_name x) \<and> f = wireAmounts (spec_hard (ns_spec x))))"

lemma getRQListToRestore_sub: "set (getRQListToRestore vm prev) \<subseteq> set (v_orig prev)"
  by (auto simp: getRQListToRestore_filter)

lemma reconcileStart_prev:
  assumes "reconcileStart A en ns name w v pre vm prev w1 objs rqs"
  shows "listed A ns w v" "map (valNameSpec (w_heap w1)) (v_orig prev) = v_orig v"
    "w_nsc w1 = w_nsc w" "w_rqs w1 = w_rqs w" "heapExt (w_heap w) (w_heap w1)"
proof -
  have "valVmmrq (w_heap w1) prev = syncedV v" using assms by (simp add: reconcileStart_def)
  then show "map (valNameSpec (w_heap w1)) (v_orig prev) = v_orig v" by (metis mapVmmrq_simps(7) syncedV_simps(1))
qed (use assms in \<open>auto simp: reconcileStart_def frontRel_def\<close>)

lemma savedLimits_savedBy:
  assumes start: "reconcileStart A en ns name w v pre vm prev w1 objs rqs"
    and sl: "savedLimits ns (w_heap w1) (set (getRQListToRestore vm prev)) k f"
  shows "savedBy A ns w k f"
proof -
  from sl obtain x where x: "x \<in> set (v_orig prev)" "k = metaKey ns (ns_name x)" "f = specAmounts (w_heap w1) x"
    using getRQListToRestore_sub [of vm prev] by (auto simp: savedLimits_def)
  note P = reconcileStart_prev [OF start]
  from x(1) P(2) have "valNameSpec (w_heap w1) x \<in> set (v_orig v)" by (metis image_eqI list.set_map)
  with x P(1) show ?thesis
    by (auto simp: savedBy_def wireAmounts_valMap intro!: bexI [of _ "valNameSpec (w_heap w1) x"])
qed

lemma frontLog_neutral:
  "frontLog A ns w pre \<Longrightarrow> (\<forall>(c, e) \<in> set pre. lockNeutral c) \<and> (\<forall>(c, e) \<in> set pre. quotaNeutral c)"
  by (fastforce simp: frontLog_def lockNeutral_def quotaNeutral_def)

lemma reconcileStart_frontLog: "reconcileStart A en ns name w v pre vm prev w1 objs rqs \<Longrightarrow> frontLog A ns w pre"
  by (auto simp: reconcileStart_def frontLog_def)

lemma lockAnswer_present:
  assumes ans: "lockAnswer st ns lk nl" and lk: "\<forall>(c, e) \<in> set lk. lockReadCall m ns c"
    and hon: "lockHonest ns b lk" and tr: "st = Locked \<Longrightarrow> b" and nl: "nl"
  shows b
proof (cases st)
  case Unknown
  then have "(GetVWC (lockName ns), None) \<in> set lk" using ans nl by (simp add: lockAnswer_def)
  then obtain l1 l2 where l: "lk = l1 @ (GetVWC (lockName ns), None) # l2" by (meson split_list)
  have "lockPresent ns b l1 = b"
    using lk by (intro lockPresent_neutral) (auto simp: l dest: lockRead_neutral)
  then show ?thesis using hon by (simp add: l lockHonest_append)
qed (use ans nl tr in \<open>auto simp: lockAnswer_def\<close>)

lemma pass_guarded:
  assumes key: "parseKey key = Inr (ns, name)" and live: "liveWorld w" and ok: "listsOk A ns w"
    and hon: "lockHonest ns b (sentBy A en key w)" and tr: "GetLockState (w_nsc w) ns = Locked \<Longrightarrow> b"
  shows "guardedUpdates ns b (savedBy A ns w) (sentBy A en key w)"
  using key live ok
proof (cases rule: execute_trace [where A = A and en = en])
  case (idle e)
  then show ?thesis by simp
next
  case (front out pre w')
  then show ?thesis using frontLog_neutral [OF front(5)] guardedUpdates_none by blast
next
  case (rec out v pre vm prev w1 objs rqs q st w' lk nl acq res pub enl rl)
  note start = rec(2) and T = reconcileTraceD [OF rec(5)]
  have pre: "lockPresent ns b pre = b" "guardedUpdates ns b (savedBy A ns w) pre"
    using frontLog_neutral [OF reconcileStart_frontLog [OF start]] lockPresent_neutral guardedUpdates_none
    by blast+
  have "\<forall>(c, e) \<in> set lk. lockNeutral c" "\<forall>(c, e) \<in> set lk. quotaNeutral c"
    using T(2) lockRead_neutral by fastforce+
  then have lk: "lockPresent ns b lk = b" "guardedUpdates ns b (savedBy A ns w) lk"
    by (simp_all only: lockPresent_neutral guardedUpdates_none)
  have acq: "guardedUpdates ns b (savedBy A ns w) acq"
    using T(4) by (intro guardedUpdates_none) (auto simp: lockAcquireCall_def quotaNeutral_def)
  let ?b = "lockPresent ns b acq"
  have "updatesCarry (savedBy A ns w) res"
    using T(8) savedLimits_savedBy [OF start] by (auto simp: updatesCarry_def)
  then have res: "guardedUpdates ns ?b (savedBy A ns w) res" "lockPresent ns ?b res = ?b"
    using lockPresent_neutral [OF onlyRQUpdates_neutral [OF T(7)]] by (simp_all only: guardedUpdates_carry)
  have pub: "guardedUpdates ns ?b (savedBy A ns w) pub" "lockPresent ns ?b pub = ?b"
    using T(10) by (auto intro!: guardedUpdates_none lockPresent_neutral simp: lockNeutral_def quotaNeutral_def)
  have enl: "guardedUpdates ns ?b (savedBy A ns w) enl"
  proof (cases "enl = []")
    case False
    with T(6,13) have lock: "nl \<or> lockCreated ns acq" by simp
    have "?b"
    proof (cases "lockCreated ns acq")
      case True
      moreover have "\<forall>(c, e) \<in> set acq. \<forall>n. c \<noteq> DeleteVWC n"
        using T(4) by (auto simp: lockAcquireCall_def)
      ultimately show ?thesis by (rule lockPresent_created)
    next
      case f: False
      with lock T(5) have "acq = []" nl by auto
      have "lockHonest ns b lk" using hon rec(6) pre(1) by (simp add: lockHonest_append)
      moreover have "lockAnswer (GetLockState (w_nsc w1) ns) ns lk nl" using T(3) False by simp
      ultimately have b using T(2) \<open>nl\<close> tr reconcileStart_prev(3) [OF start]
        by (metis lockAnswer_present)
      with \<open>acq = []\<close> show ?thesis by simp
    qed
    then show ?thesis using onlyRQUpdates_neutral [OF T(12)] guardedUpdates_locked by simp
  qed simp
  have rl: "guardedUpdates ns b' (savedBy A ns w) rl" for b'
    using T(14) by (intro guardedUpdates_none) (auto simp: quotaNeutral_def)
  show ?thesis
    using pre lk acq res pub enl rl by (simp add: rec(6) guardedUpdates_append)
qed

subsection \<open>The cache stays truthful\<close>

definition lockedAfter :: "string \<Rightarrow> string set \<Rightarrow> (apiCall \<times> goerror option) list \<Rightarrow> string set" where
  "lockedAfter ns L l = (if lockPresent ns (ns \<in> L) l then insert ns L else L - {ns})"

lemma lockedAfter_same: "lockPresent ns (ns \<in> L) l = (ns \<in> L) \<Longrightarrow> lockedAfter ns L l = L"
  by (auto simp: lockedAfter_def)

lemma pass_truthful:
  assumes key: "parseKey key = Inr (ns, name)" and live: "liveWorld w" and ok: "listsOk A ns w"
    and tr: "nsc.truthful (w_nsc w) L"
  shows "nsc.truthful (w_nsc (snd (execute A en key w))) (lockedAfter ns L (sentBy A en key w))"
  using key live ok
proof (cases rule: execute_trace [where A = A and en = en])
  case (idle e)
  then show ?thesis using tr by (simp add: lockedAfter_same)
next
  case (front out pre w')
  have "lockPresent ns (ns \<in> L) pre = (ns \<in> L)"
    using frontLog_neutral [OF front(5)] lockPresent_neutral by blast
  then show ?thesis using front tr by (simp add: lockedAfter_same frontRel_def)
next
  case (rec out v pre vm prev w1 objs rqs q st w' lk nl acq res pub enl rl)
  note start = rec(2) and T = reconcileTraceD [OF rec(5)]
  let ?b = "ns \<in> L"
  have pre: "lockPresent ns ?b pre = ?b"
    using frontLog_neutral [OF reconcileStart_frontLog [OF start]] lockPresent_neutral by blast
  have "\<forall>(c, e) \<in> set lk. lockNeutral c" using T(2) lockRead_neutral by fastforce
  then have lk: "lockPresent ns ?b lk = ?b" by (rule lockPresent_neutral)
  have mid: "lockPresent ns c (res @ pub @ enl) = c" for c
    using onlyRQUpdates_neutral [OF T(7)] onlyRQUpdates_neutral [OF T(12)] T(10)
    by (intro lockPresent_neutral) (auto simp: lockNeutral_def)
  have sent: "lockPresent ns ?b (sentBy A en key w) = lockPresent ns (lockPresent ns ?b acq) rl"
    using pre lk mid by (simp add: rec(6) lockPresent_append)
  have nsc: "w_nsc w1 = w_nsc w" using reconcileStart_prev(3) [OF start] .
  have fin: "w_nsc (snd (execute A en key w)) = w_nsc w'" by (simp add: rec(1))
  show ?thesis
  proof (cases "lockCreated ns acq")
    case True
    then have "acq \<noteq> []" by auto
    with T(5,14) have "rl = []" by auto
    moreover have "lockPresent ns ?b acq"
      using True T(4) by (intro lockPresent_created) (auto simp: lockAcquireCall_def)
    ultimately have "lockedAfter ns L (sentBy A en key w) = insert ns L" using sent by (simp add: lockedAfter_def)
    moreover have "w_nsc w' = MarkLockStateLocked ns (w_nsc w)" using T(15) True nsc by simp
    ultimately show ?thesis using tr nsc.truthful_lock fin by simp
  next
    case False
    have acq: "lockPresent ns ?b acq = ?b"
    proof -
      have "\<forall>(c, e) \<in> set acq. c = FetchBundle \<or> (\<exists>ca x. (c, e) = (CreateVWC (lockingVWC ns (e_mtqNs en) ca), Some x))"
        using T(4) False by (fastforce simp: lockAcquireCall_def lockCreated_def)
      then show ?thesis by (induction ns ?b acq rule: lockPresent.induct) auto
    qed
    show ?thesis
    proof (cases "(DeleteVWC (lockName ns), None) \<in> set rl")
      case True
      with T(14) have "rl = [(DeleteVWC (lockName ns), None)]" by auto
      then have "lockedAfter ns L (sentBy A en key w) = L - {ns}" using sent acq by (simp add: lockedAfter_def)
      moreover have "w_nsc w' = MarkLockStateUnlocked ns (w_nsc w)" using T(15) True False nsc by simp
      ultimately show ?thesis using tr nsc.truthful_unlock fin by simp
    next
      case no: False
      with T(14) have "rl = [] \<or> (\<exists>x. rl = [(DeleteVWC (lockName ns), Some x)])" by (auto split: option.splits)
      then have "lockPresent ns ?b (sentBy A en key w) = ?b" using sent acq by auto
      then have "lockedAfter ns L (sentBy A en key w) = L" by (rule lockedAfter_same)
      moreover have "w_nsc w' = w_nsc w" using T(15) False no nsc by simp
      ultimately show ?thesis using tr fin by simp
    qed
  qed
qed

subsection \<open>Confinement\<close>

lemma pass_confined:
  assumes key: "parseKey key = Inr (ns, name)" and live: "liveWorld w" and ok: "listsOk A ns w"
  shows "\<forall>(c, e) \<in> set (sentBy A en key w). concerns (e_mtqNs en) ns c"
  using key live ok
proof (cases rule: execute_trace [where A = A and en = en])
  case (idle e)
  then show ?thesis by simp
next
  case (front out pre w')
  then show ?thesis by (fastforce simp: frontLog_def concerns_def)
next
  case (rec out v pre vm prev w1 objs rqs q st w' lk nl acq res pub enl rl)
  note T = reconcileTraceD [OF rec(5)]
  have "\<forall>(c, e) \<in> set pre. concerns (e_mtqNs en) ns c"
    using reconcileStart_frontLog [OF rec(2)] by (fastforce simp: frontLog_def concerns_def)
  moreover have "\<forall>(c, e) \<in> set lk. concerns (e_mtqNs en) ns c" "\<forall>(c, e) \<in> set acq. concerns (e_mtqNs en) ns c"
    using T(2,4) lockReadCall_concerns lockAcquireCall_concerns by blast+
  moreover have "\<forall>(c, e) \<in> set (res @ enl). concerns (e_mtqNs en) ns c"
    using T(7,12) by (fastforce simp: onlyRQUpdates_def concerns_def)
  moreover have "\<forall>(c, e) \<in> set (pub @ rl). concerns (e_mtqNs en) ns c"
    using T(10,14) by (auto simp: concerns_def)
  ultimately show ?thesis unfolding rec(6) by auto
qed

end
