(* ===== verification/PassStatus.thy ===== *)
theory PassStatus
  imports PassSafety
begin

text \<open>
  The saved specs: what a pass may publish as a quota's original spec, when it may drop one, and
  when it may give up the lock; how failures are reported.
\<close>

subsection \<open>Loops that succeed\<close>

definition allOk :: "(apiCall \<times> goerror option) list \<Rightarrow> bool" where
  "allOk l \<longleftrightarrow> (\<forall>(c, e) \<in> set l. e = None)"

text \<open>A log whose calls succeeded up to the last one, which is the error \<open>r\<close> if there is one.\<close>

definition endsWith :: "goerror option \<Rightarrow> (apiCall \<times> goerror option) list \<Rightarrow> bool" where
  "endsWith r l \<longleftrightarrow> allOk l \<or> (\<exists>l' c. l = l' @ [(c, r)] \<and> allOk l' \<and> r \<noteq> None)"

lemma allOk_simps [simp]: "allOk []" "allOk (ce # l) \<longleftrightarrow> snd ce = None \<and> allOk l" "allOk (l @ l') \<longleftrightarrow> allOk l \<and> allOk l'"
  by (auto simp: allOk_def)

lemma endsWith_append: "allOk l \<Longrightarrow> endsWith r l' \<Longrightarrow> endsWith r (l @ l')"
  unfolding endsWith_def by (metis allOk_simps(3) append.assoc)

definition loopLog :: "goerror option \<times> 's world \<Rightarrow> 's world \<Rightarrow> bool" where
  "loopLog rw w \<longleftrightarrow> (\<exists>l. w_log (snd rw) = w_log w @ l \<and> endsWith (fst rw) l)"

lemma runLoop_log:
  assumes "\<And>x w. loopLog (body x w) w"
  shows "loopLog (runLoop body xs w) w"
proof (induction xs arbitrary: w)
  case Nil
  then show ?case by (simp add: loopLog_def endsWith_def)
next
  case (Cons x xs)
  obtain r w1 where b: "body x w = (r, w1)" by fastforce
  with assms [of x w] obtain l where l: "w_log w1 = w_log w @ l" "endsWith r l" by (auto simp: loopLog_def)
  show ?case
  proof (cases r)
    case (Some e)
    with b l show ?thesis by (auto simp: loopLog_def)
  next
    case None
    with l(2) have "allOk l" by (auto simp: endsWith_def)
    moreover obtain r' w' where r: "runLoop body xs w1 = (r', w')" by fastforce
    moreover from Cons [of w1] r obtain l' where "w_log w' = w_log w1 @ l'" "endsWith r' l'" by (auto simp: loopLog_def)
    ultimately show ?thesis using b None l(1) endsWith_append [of l r']
      by (simp add: loopLog_def)
  qed
qed

lemma restoreOne_log: "loopLog (restoreOne A en ns x w) w"
proof -
  obtain r w' where res: "restoreOne A en ns x w = (r, w')" by fastforce
  then have "\<exists>l. w_log w' = w_log w @ l \<and> endsWith r l"
  proof (cases rule: restoreOneE)
    case (send q)
    then show ?thesis by (cases r) (auto simp: doWrite_frame [OF send(3)] endsWith_def)
  qed (auto simp: endsWith_def)
  with res show ?thesis by (simp add: loopLog_def)
qed

lemma enlargeOne_log: "loopLog (enlargeOne A en d ns x w) w"
proof -
  obtain r w' where res: "enlargeOne A en d ns x w = (r, w')" by fastforce
  then have "\<exists>l. w_log w' = w_log w @ l \<and> endsWith r l"
  proof (cases rule: enlargeOneE)
    case (send q newRQ h1)
    then show ?thesis by (cases r) (auto simp: doWrite_frame [OF send(4)] endsWith_def)
  qed (auto simp: endsWith_def)
  with res show ?thesis by (simp add: loopLog_def)
qed

lemma restoreOriginalRQs_log: "loopLog (restoreOriginalRQs A en xs ns w) w"
  using runLoop_log [of "restoreOne A en ns" xs w, OF restoreOne_log]
  by (cases "xs = []") (simp_all add: restoreOriginalRQs_def loopLog_def endsWith_def)

lemma addResourcesToRQs_log: "loopLog (addResourcesToRQs A en vm ns w) w"
  using runLoop_log [of "enlargeOne A en (v_add vm) ns" "v_orig vm" w, OF enlargeOne_log]
  by (simp add: addResourcesToRQs_def)

subsection \<open>Restored before it is dropped\<close>

text \<open>
  After a restore loop without error, every quota it was given is absent from the informer, or
  the informer already showed its saved limits, or an update with those limits succeeded.
\<close>

definition restoredBy :: "'s world \<Rightarrow> (apiCall \<times> goerror option) list \<Rightarrow> string \<Rightarrow> (string \<Rightarrow> int option) \<Rightarrow> bool" where
  "restoredBy w l k f \<longleftrightarrow> hardAt w k = None \<or> hardAt w k = Some f
     \<or> (\<exists>q. (UpdateRQ q, None) \<in> set l \<and> rqKey q = k \<and> wireAmounts (spec_hard (rq_spec q)) = f)"

lemma restoreOne_restored:
  assumes res: "restoreOne A en ns x w = (None, w')" and wf: "wfHeap (w_heap w)"
  shows "\<exists>l. w_log w' = w_log w @ l \<and> restoredBy w l (metaKey ns (ns_name x)) (specAmounts (w_heap w) x)
     \<and> w_heap w' = w_heap w \<and> (\<forall>k. k \<noteq> metaKey ns (ns_name x) \<longrightarrow> hardAt w' k = hardAt w k)"
  using res
proof (cases rule: restoreOneE)
  case (failed e)
  then show ?thesis by simp
next
  case absent
  then show ?thesis by (auto simp: restoredBy_def hardAt_def dest: rqGetByKey_find)
next
  case (same q)
  then show ?thesis
    using rqGetByKey_hardAt [OF same(1)] areResourceMapsEqual_amounts [OF wfHeap_deref [OF wf] wfHeap_deref [OF wf]]
    by (simp add: restoredBy_def)
next
  case (send q)
  have "rqKey q = metaKey ns (ns_name x)" using find_in_set [OF rqGetByKey_find [OF send(1)]] by simp
  then show ?thesis
    by (auto simp: doWrite_frame [OF send(3)] hardAt_doWrite [OF send(3)] hardAt_assignHard restoredBy_def wireAmounts_valMap)
qed

lemma restoreLoop_restored:
  assumes "runLoop (restoreOne A en ns) xs w = (None, w')" and "wfHeap (w_heap w)" and "distinct (map ns_name xs)"
  shows "\<exists>l. w_log w' = w_log w @ l \<and> (\<forall>x \<in> set xs. restoredBy w l (metaKey ns (ns_name x)) (specAmounts (w_heap w) x))"
  using assms
proof (induction xs arbitrary: w)
  case Nil
  then show ?case by simp
next
  case (Cons x xs)
  obtain r w1 where r: "restoreOne A en ns x w = (r, w1)" by fastforce
  with Cons.prems(1) have rest: "r = None" "runLoop (restoreOne A en ns) xs w1 = (None, w')"
    by (auto split: option.splits)
  from restoreOne_restored [OF r [unfolded rest(1)] Cons.prems(2)] obtain l where l: "w_log w1 = w_log w @ l"
    "restoredBy w l (metaKey ns (ns_name x)) (specAmounts (w_heap w) x)" "w_heap w1 = w_heap w"
    "\<forall>k. k \<noteq> metaKey ns (ns_name x) \<longrightarrow> hardAt w1 k = hardAt w k" by blast
  from Cons.IH [OF rest(2)] Cons.prems(2,3) l(3) obtain l' where l': "w_log w' = w_log w1 @ l'"
    "\<forall>y \<in> set xs. restoredBy w1 l' (metaKey ns (ns_name y)) (specAmounts (w_heap w1) y)" by auto
  have "restoredBy w (l @ l') (metaKey ns (ns_name y)) (specAmounts (w_heap w) y)" if "y \<in> set xs" for y
  proof -
    have "ns_name y \<noteq> ns_name x" using Cons.prems(3) that by (auto simp: image_iff)
    then show ?thesis using l' l(3,4) that by (auto simp: restoredBy_def)
  qed
  moreover have "restoredBy w (l @ l') (metaKey ns (ns_name x)) (specAmounts (w_heap w) x)"
    using l(2) by (auto simp: restoredBy_def)
  ultimately show ?case using l(1) l'(1) by auto
qed

subsection \<open>What a pass publishes\<close>

lemma hardAt_front: "reconcileStart A en ns name w v pre vm prev w1 objs rqs \<Longrightarrow> liveWorld w \<Longrightarrow> hardAt w1 k = hardAt w k"
proof -
  assume start: "reconcileStart A en ns name w v pre vm prev w1 objs rqs" and live: "liveWorld w"
  note P = reconcileStart_prev [OF start]
  show ?thesis
  proof (cases "find (\<lambda>q. rqKey q = k) (w_rqs w)")
    case (Some q)
    then have "liveRQ (w_heap w) q" using live find_in_set [OF Some] by (simp add: liveWorld_def)
    then show ?thesis using Some P by (simp add: hardAt_def heapExt_deref liveRQ_def)
  qed (simp add: hardAt_def P)
qed

text \<open>
  A spec the pass publishes for a quota: the one already saved for it, and otherwise what the
  informer holds for it, enlarged by nobody.
\<close>

definition publishedSpec :: "wire rqNameAndSpec list \<Rightarrow> wire resourceQuota list \<Rightarrow> wire rqNameAndSpec \<Rightarrow> bool" where
  "publishedSpec saved quotas x \<longleftrightarrow>
     find (\<lambda>y. ns_name y = ns_name x) saved = Some x
     \<or> (ns_name x \<notin> ns_name ` set saved \<and> x \<in> toNameSpec ` set quotas)"

lemma gatherSpec_published: "x \<in> set (gatherSpec saved quotas names) \<Longrightarrow> publishedSpec saved quotas x"
proof -
  assume "x \<in> set (gatherSpec saved quotas names)"
  then obtain n where n: "x \<in> set (case find (\<lambda>x. ns_name x = n) saved of Some x \<Rightarrow> [x]
      | None \<Rightarrow> map toNameSpec (filter (\<lambda>q. rq_name q = n) quotas))" by (auto simp: gatherSpec_def)
  show ?thesis
  proof (cases "find (\<lambda>x. ns_name x = n) saved")
    case None
    then have "n \<notin> ns_name ` set saved" by (auto simp: find_None_all)
    moreover have "ns_name x = n" "x \<in> toNameSpec ` set quotas" using n None by (auto simp: toNameSpec_def)
    ultimately show ?thesis by (simp add: publishedSpec_def)
  next
    case (Some y)
    then show ?thesis using n find_in_set [OF Some] by (auto simp: publishedSpec_def)
  qed
qed

definition quotasOf :: "env \<Rightarrow> string \<Rightarrow> 's world \<Rightarrow> wire resourceQuota list" where
  "quotasOf en ns w = (case rqByNamespace en ns w of Inl _ \<Rightarrow> [] | Inr objs \<Rightarrow> map (valRQ (w_heap w)) objs)"

text \<open>The two kinds of status update of a pass: the synchronised spec, and the outcome.\<close>

lemma pass_statusE:
  assumes key: "parseKey key = Inr (ns, name)" and live: "liveWorld w" and ok: "listsOk A ns w"
    and upd: "(UpdateVmmrqStatus v', e) \<in> set (sentBy A en key w)"
  obtains (sync) v where "listed A ns w v" "v' = syncedV v"
  | (outcome) v pre vm prev w1 objs rqs w' lk nl acq res pub enl rl
    where "listed A ns w v" "reconcileStart A en ns name w v pre vm prev w1 objs rqs"
      "reconcileTrace A en ns vm prev w1 w' lk nl acq res pub enl rl"
      "sentBy A en key w = pre @ lk @ acq @ res @ pub @ enl @ rl" "pub \<noteq> []"
      "v' = valVmmrq (w_heap w1) vm" "pub = [(UpdateVmmrqStatus v', e)]"
  using key live ok
proof (cases rule: execute_trace [where A = A and en = en])
  case (idle e')
  then show thesis using upd by simp
next
  case (front out pre w')
  then show thesis using upd sync by (auto simp: frontLog_def)
next
  case (rec out v pre vm prev w1 objs rqs q st w' lk nl acq res pub enl rl)
  note T = reconcileTraceD [OF rec(5)] and P = reconcileStart_prev [OF rec(2)]
  have no: "(UpdateVmmrqStatus v', e) \<notin> set lk" "(UpdateVmmrqStatus v', e) \<notin> set acq"
    "(UpdateVmmrqStatus v', e) \<notin> set (res @ enl)" "(UpdateVmmrqStatus v', e) \<notin> set rl"
    using T(2,4,7,12,14) by (auto simp: lockReadCall_def lockAcquireCall_def onlyRQUpdates_def)
  then consider "(UpdateVmmrqStatus v', e) \<in> set pre" | "(UpdateVmmrqStatus v', e) \<in> set pub"
    using upd unfolding rec(6) by auto
  then show thesis
  proof cases
    case 1
    then show thesis using reconcileStart_frontLog [OF rec(2)] sync by (fastforce simp: frontLog_def)
  next
    case 2
    with T(10) have "pub = [(UpdateVmmrqStatus v', e)]" "v' = valVmmrq (w_heap w1) vm" by auto
    then show thesis using outcome [OF P(1) rec(2,5,6)] by simp
  qed
qed

lemma pass_published:
  assumes key: "parseKey key = Inr (ns, name)" and live: "liveWorld w" and ok: "listsOk A ns w"
    and upd: "(UpdateVmmrqStatus v', e) \<in> set (sentBy A en key w)"
  shows "\<exists>v. listed A ns w v \<and> (v' = syncedV v \<or> (\<forall>x \<in> set (v_orig v'). publishedSpec (v_orig v) (quotasOf en ns w) x))"
  using key live ok upd
proof (cases rule: pass_statusE)
  case (outcome v pre vm prev w1 objs rqs w' lk nl acq res pub enl rl)
  then have "\<exists>names. v_orig v' = gatherSpec (v_orig v) (quotasOf en ns w) names"
    by (auto simp: reconcileStart_def quotasOf_def)
  then obtain names where "v_orig v' = gatherSpec (v_orig v) (quotasOf en ns w) names" by blast
  then have "\<forall>x \<in> set (v_orig v'). publishedSpec (v_orig v) (quotasOf en ns w) x"
    using gatherSpec_published by simp
  with outcome(1) show ?thesis by blast
qed auto

lemma pass_dropped:
  assumes key: "parseKey key = Inr (ns, name)" and live: "liveWorld w" and ok: "listsOk A ns w"
    and upd: "(UpdateVmmrqStatus v', e) \<in> set (sentBy A en key w)" and v: "listed A ns w v"
    and x: "x \<in> set (v_orig v)" "ns_name x \<notin> ns_name ` set (v_orig v')" and dist: "distinct (map ns_name (v_orig v))"
  shows "restoredBy w (sentBy A en key w) (metaKey ns (ns_name x)) (wireAmounts (spec_hard (ns_spec x)))"
  using key live ok upd
proof (cases rule: pass_statusE)
  case (sync u)
  then have "v_orig v' = v_orig v" using v by (simp add: listed_def)
  then show ?thesis using x by auto
next
  case (outcome u pre vm prev w1 objs rqs w' lk nl acq res pub enl rl)
  note T = reconcileTraceD [OF outcome(3)] and P = reconcileStart_prev [OF outcome(2)]
  have vals: "map (valNameSpec (w_heap w1)) (v_orig prev) = v_orig v" using P(1,2) v by (simp add: listed_def)
  have "x \<in> valNameSpec (w_heap w1) ` set (v_orig prev)" using x(1) unfolding vals [symmetric] by simp
  then obtain y where y: "y \<in> set (v_orig prev)" "x = valNameSpec (w_heap w1) y" by blast
  have names: "map ns_name (v_orig prev) = map ns_name (v_orig v)"
    unfolding vals [symmetric] by simp
  have "ns_name y \<notin> ns_name ` set (v_orig vm)" using x(2) y(2) outcome(6) by (auto simp: image_iff)
  then have yin: "y \<in> set (getRQListToRestore vm prev)" using y(1) by (simp add: getRQListToRestore_filter)
  obtain wa wb where r: "restoreOriginalRQs A en (getRQListToRestore vm prev) ns wa = (None, wb)"
    "w_heap wa = w_heap w1" "w_rqs wa = w_rqs w1" "w_log wb = w_log wa @ res" using T(9) outcome(5) by auto
  have run: "runLoop (restoreOne A en ns) (getRQListToRestore vm prev) wa = (None, wb)"
    using r(1) yin by (cases "getRQListToRestore vm prev = []") (simp_all add: restoreOriginalRQs_def)
  have "distinct (map ns_name (getRQListToRestore vm prev))"
    using dist names by (simp add: getRQListToRestore_filter distinct_map_filter)
  moreover have "wfHeap (w_heap wa)"
    using outcome(2) live r(2) by (simp add: reconcileStart_def frontRel_def liveWorld_def)
  ultimately obtain l where l: "w_log wb = w_log wa @ l"
    "restoredBy wa l (metaKey ns (ns_name y)) (specAmounts (w_heap wa) y)"
    using restoreLoop_restored [OF run] yin by blast
  have "l = res" using l(1) r(4) by simp
  moreover have "hardAt wa k = hardAt w k" for k
    using hardAt_front [OF outcome(2) live, of k] by (simp add: hardAt_def r(2,3))
  ultimately show ?thesis using l(2) r(2) y(2) by (auto simp: restoredBy_def outcome(4) wireAmounts_valMap)
qed

subsection \<open>The lock is given up last\<close>

lemma restore_allOk:
  assumes "restoreOriginalRQs A en xs ns w = (None, w')" and "w_log w' = w_log w @ l"
  shows "allOk l"
  using restoreOriginalRQs_log [of A en xs ns w] assms by (auto simp: loopLog_def endsWith_def)

lemma not_shouldUpdate_orig:
  assumes "\<not> shouldUpdateVmmrq h vm prev" and "v_orig vm = []"
  shows "v_orig prev = []"
  using assms by (simp add: shouldUpdateVmmrq_def)

lemma pass_unlocks_last:
  assumes key: "parseKey key = Inr (ns, name)" and live: "liveWorld w" and ok: "listsOk A ns w"
    and del: "(DeleteVWC n, e) \<in> set (sentBy A en key w)"
  shows "\<exists>v l. listed A ns w v \<and> sentBy A en key w = l @ [(DeleteVWC (lockName ns), e)]
     \<and> (v_orig v = [] \<or> (\<exists>v'. (UpdateVmmrqStatus v', None) \<in> set l \<and> v_orig v' = []))
     \<and> (\<forall>q x. (UpdateRQ q, x) \<in> set l \<longrightarrow> x = None)"
  using key live ok
proof (cases rule: execute_trace [where A = A and en = en])
  case (idle e')
  then show ?thesis using del by simp
next
  case (front out pre w')
  then show ?thesis using del by (auto simp: frontLog_def)
next
  case (rec out v pre vm prev w1 objs rqs q st w' lk nl acq res pub enl rl)
  note T = reconcileTraceD [OF rec(5)] and P = reconcileStart_prev [OF rec(2)]
  have pre: "\<forall>(c, e) \<in> set pre. lockNeutral c \<and> quotaNeutral c"
    using frontLog_neutral [OF reconcileStart_frontLog [OF rec(2)]] by blast
  have lk: "\<forall>(c, e) \<in> set lk. lockNeutral c \<and> quotaNeutral c" using T(2) lockRead_neutral by fast
  have acq: "\<forall>(c, e) \<in> set acq. (\<forall>n. c \<noteq> DeleteVWC n) \<and> quotaNeutral c"
    using T(4) by (auto simp: lockAcquireCall_def quotaNeutral_def)
  have pub: "\<forall>(c, e) \<in> set pub. lockNeutral c \<and> quotaNeutral c"
    using T(10) by (auto simp: lockNeutral_def quotaNeutral_def)
  have "(DeleteVWC n, e) \<in> set rl"
    using del pre lk acq pub T(7,12) unfolding rec(6)
    by (auto simp: lockNeutral_def onlyRQUpdates_def)
  with T(14) have rl: "rl = [(DeleteVWC (lockName ns), e)]" "\<not> shouldLockNS vm" by auto
  have enl: "enl = []" using T(13) rl(2) by blast
  have orig: "v_orig vm = []" using rl(2) by (simp add: shouldLockNS_iff)
  obtain wa wb where "restoreOriginalRQs A en (getRQListToRestore vm prev) ns wa = (None, wb)"
    "w_log wb = w_log wa @ res" using T(9) rl(1) by auto
  then have res: "allOk res" by (rule restore_allOk)
  have "v_orig v = [] \<or> (\<exists>v'. (UpdateVmmrqStatus v', None) \<in> set pub \<and> v_orig v' = [])"
  proof (cases "shouldUpdateVmmrq (w_heap w1) vm prev")
    case True
    with T(11) rl(1) orig show ?thesis by auto
  next
    case False
    then have "v_orig prev = []" using orig by (rule not_shouldUpdate_orig)
    with P(2) show ?thesis by simp
  qed
  moreover have "sentBy A en key w = (pre @ lk @ acq @ res @ pub) @ [(DeleteVWC (lockName ns), e)]"
    using rec(6) enl rl(1) by simp
  moreover have "\<forall>q x. (UpdateRQ q, x) \<in> set (pre @ lk @ acq @ res @ pub) \<longrightarrow> x = None"
    using pre lk acq pub res by (auto simp: quotaNeutral_def allOk_def)
  ultimately show ?thesis using P(1) by auto
qed

subsection \<open>Failures\<close>

text \<open>
  The calls a pass can afford to see fail: reading the lock, where "not found" is an answer
  and a missing bundle is noticed later. Every other failing call ends the pass.
\<close>

definition toleratedCall :: "apiCall \<Rightarrow> bool" where
  "toleratedCall c \<longleftrightarrow> c = FetchBundle \<or> (\<exists>n. c = GetVWC n)"

definition strictOk :: "(apiCall \<times> goerror option) list \<Rightarrow> bool" where
  "strictOk l \<longleftrightarrow> (\<forall>(c, e) \<in> set l. e = None \<or> toleratedCall c)"

definition okSince :: "'s world \<Rightarrow> 's world \<Rightarrow> bool" where
  "okSince w0 w \<longleftrightarrow> (\<exists>l. w_log w = w_log w0 @ l \<and> strictOk l)"

text \<open>An early end either follows no failed call, or reports the last call's error.\<close>

definition reported :: "'s world \<Rightarrow> outcome \<Rightarrow> 's world \<Rightarrow> bool" where
  "reported w0 out w \<longleftrightarrow> okSince w0 w
     \<or> (\<exists>l c err st. w_log w = w_log w0 @ l @ [(c, Some err)] \<and> strictOk l \<and> out = Returned (Some err) st
          \<and> st = (case c of ListVmmrqs _ \<Rightarrow> BackOff | _ \<Rightarrow> Immediate))"

lemma okSince_refl [simp]: "okSince w w"
  by (simp add: okSince_def strictOk_def)

lemma okSince_step: "okSince w0 w \<Longrightarrow> w_log w' = w_log w @ l \<Longrightarrow> strictOk l \<Longrightarrow> okSince w0 w'"
  by (auto simp: okSince_def strictOk_def)

lemma allOk_strict: "allOk l \<Longrightarrow> strictOk l"
  by (auto simp: allOk_def strictOk_def)

abbreviation reports :: "'s world \<Rightarrow> ('s, 'a) op \<Rightarrow> bool" where
  "reports w0 m \<equiv> triple (okSince w0) m (\<lambda>_. okSince w0) (reported w0)"

lemma reports_silent:
  assumes "\<And>w r w'. m w = (r, w') \<Longrightarrow> w_log w' = w_log w"
  shows "reports w0 m"
  using assms by (intro tripleI) (auto simp: reported_def okSince_def)

lemma reports_one:
  assumes "okSince w0 w" and "w_log w' = w_log w @ [(c, r)]" and "toleratedCall c \<or> r = None"
  shows "okSince w0 w'"
  using okSince_step [OF assms(1,2)] assms(3) by (auto simp: strictOk_def)

lemma reported_last:
  assumes "okSince w0 w" and "w_log w' = w_log w @ [(c, Some err)]"
    and "st = (case c of ListVmmrqs _ \<Rightarrow> BackOff | _ \<Rightarrow> Immediate)"
  shows "reported w0 (Returned (Some err) st) w'"
  using assms by (auto simp: reported_def okSince_def)

lemma reported_immediate:
  assumes "okSince w0 w" and "w_log w' = w_log w @ [(c, Some err)]" and "\<And>n. c \<noteq> ListVmmrqs n"
  shows "reported w0 (Returned (Some err) Immediate) w'"
  using assms by (intro reported_last [of w0 w w' c]) (auto split: apiCall.split)

lemma reports_bind: "reports w0 m \<Longrightarrow> (\<And>a. reports w0 (k a)) \<Longrightarrow> reports w0 (bindOp m k)"
  by (rule triple_bind)

lemma reported_loop:
  assumes "okSince w0 w" and "loopLog (Some err, w') w" and "\<forall>c e. (c, e) \<in> set (logged w w') \<longrightarrow> (\<exists>q. c = UpdateRQ q)"
  shows "reported w0 (Returned (Some err) Immediate) w'"
proof -
  obtain l where l: "w_log w' = w_log w @ l" "endsWith (Some err) l" using assms(2) by (auto simp: loopLog_def)
  from l(2) show ?thesis unfolding endsWith_def
  proof
    assume "allOk l"
    then show ?thesis using okSince_step [OF assms(1) l(1)] by (simp add: reported_def allOk_strict)
  next
    assume "\<exists>l' c. l = l' @ [(c, Some err)] \<and> allOk l' \<and> Some err \<noteq> None"
    then obtain l' c where c: "l = l' @ [(c, Some err)]" "allOk l'" by blast
    obtain l0 where l0: "w_log w = w_log w0 @ l0" "strictOk l0" using assms(1) by (auto simp: okSince_def)
    obtain q where "c = UpdateRQ q" using assms(3) c l(1) by (auto simp: logged_append)
    then show ?thesis
      using l(1) c l0 allOk_strict [OF c(2)]
      by (auto simp: reported_def strictOk_def intro!: exI [of _ "l0 @ l'"])
  qed
qed

lemma reports_loop:
  assumes "\<And>w. loopLog (f w) w" and "\<And>w. quotaRel ns w (snd (f w))"
  shows "reports w0 (tryErr Immediate f)"
proof (rule triple_tryErr)
  fix w r w' assume w: "okSince w0 w" "f w = (Some r, w')"
  have "\<forall>c e. (c, e) \<in> set (logged w w') \<longrightarrow> (\<exists>q. c = UpdateRQ q)"
    using assms(2) [of w] w(2) by (fastforce simp: quotaRel_def onlyRQUpdates_def logged_append)
  then show "reported w0 (Returned (Some r) Immediate) w'"
    using reported_loop w assms(1) [of w] by simp
next
  fix w w' assume w: "okSince w0 w" "f w = (None, w')"
  then show "okSince w0 w'"
    using assms(1) [of w] by (auto simp: loopLog_def endsWith_def intro: okSince_step [OF _ _ allOk_strict])
qed

lemma reports_publish: "reports w0 (publish A vm prev)"
proof (rule tripleI)
  fix w out w' assume "okSince w0 w" "publish A vm prev w = (Inl out, w')"
  then show "reported w0 out w'"
    by (auto elim!: publish_trace split: option.splits intro: reported_immediate)
next
  fix w a w' assume "okSince w0 w" "publish A vm prev w = (Inr a, w')"
  then show "okSince w0 w'"
    by (auto elim!: publish_trace split: option.splits intro: reports_one)
qed

lemma reports_release: "reports w0 (whenOp b (releaseLock A ns))"
proof (rule tripleI)
  fix w out w' assume "okSince w0 w" "whenOp b (releaseLock A ns) w = (Inl out, w')"
  then show "reported w0 out w'"
    by (auto simp: whenOp_def returnOp_def elim!: releaseLock_trace split: if_splits option.splits intro: reported_immediate)
next
  fix w a w' assume "okSince w0 w" "whenOp b (releaseLock A ns) w = (Inr a, w')"
  then show "okSince w0 w'"
    by (auto simp: whenOp_def returnOp_def elim!: releaseLock_trace split: if_splits option.splits intro: reports_one)
qed

lemma reports_acquire: "reports w0 (whenOp b (acquireLock A en ns))"
proof (rule tripleI)
  fix w out w' assume w: "okSince w0 w" "whenOp b (acquireLock A en ns) w = (Inl out, w')"
  then have "acquireLock A en ns w = (Inl out, w')" by (auto simp: whenOp_def returnOp_def split: if_splits)
  then show "reported w0 out w'"
  proof (cases rule: acquireLock_trace)
    case (noBundle e)
    then show ?thesis using reported_last [OF w(1), of w' FetchBundle e] by simp
  next
    case (failed ca e)
    obtain l where "w_log w = w_log w0 @ l" "strictOk l" using w(1) by (auto simp: okSince_def)
    with failed show ?thesis
      by (auto simp: reported_def strictOk_def intro!: exI [of _ "l @ [(FetchBundle, None)]"])
  qed simp
next
  fix w a w' assume w: "okSince w0 w" "whenOp b (acquireLock A en ns) w = (Inr a, w')"
  then show "okSince w0 w'"
    by (auto simp: whenOp_def returnOp_def strictOk_def elim!: acquireLock_trace split: if_splits intro: okSince_step)
qed

lemma reported_okSince: "okSince w0 w \<Longrightarrow> reported w0 out w"
  by (simp add: reported_def)

lemma reports_readLock: "reports w0 (readLock A en ns)"
proof -
  have main: "(\<forall>out. r = Inl out \<longrightarrow> reported w0 out w') \<and> (\<forall>a. r = Inr a \<longrightarrow> okSince w0 w')"
    if w: "okSince w0 w" and run: "readLock A en ns w = (r, w')" for w r w'
  proof (cases "GetLockState (w_nsc w) ns")
    case Unknown
    obtain ca w1 where ca: "doRead FetchBundle (api_bundleBytes A) w = (ca, w1)" by fastforce
    have w1: "okSince w0 w1" using doRead_frame(5) [OF ca] w by (auto intro: reports_one simp: toleratedCall_def)
    obtain q w2 where q: "NamespaceLocked A ns (e_mtqNs en) (bundleOr ca) w1 = (q, w2)" by fastforce
    have w2: "w' = w2" "r = (case q of None \<Rightarrow> Inl Panicked | Some (b, Some err) \<Rightarrow> Inl (Returned (Some err) Immediate)
        | Some (b, None) \<Rightarrow> Inr b)"
      using run Unknown ca q by (auto simp: readLock_def split: option.splits)
    from q show ?thesis
    proof (cases rule: NamespaceLocked_cases)
      case (updated vw e)
      let ?c = "UpdateVWC (vw\<lparr>vwc_webhooks := [getLockingValidatingWebhook (e_mtqNs en) ns (bundleOr ca)]\<rparr>)"
      define wg where "wg = w1\<lparr>w_log := w_log w1 @ [(GetVWC (lockName ns), None)]\<rparr>"
      have wg: "w_log wg = w_log w1 @ [(GetVWC (lockName ns), None)]" "w_log w2 = w_log wg @ [(?c, e)]"
        using updated(4) by (simp_all add: wg_def)
      have "okSince w0 wg" using w1 wg(1) by (auto intro: reports_one)
      then show ?thesis using wg(2) w2 updated(1)
        by (cases e) (auto intro: reports_one reported_immediate)
    qed (use w1 w2 in \<open>auto intro!: reported_okSince intro: reports_one simp: toleratedCall_def\<close>)
  qed (use w run in \<open>auto simp: readLock_def\<close>)
  then show ?thesis by (intro tripleI) blast+
qed

lemma reports_reconcile: "reports w0 (reconcile A en ns vm prev)"
  unfolding reconcile_def
  by (intro reports_bind reports_readLock reports_acquire reports_publish reports_release
      reports_loop [where ns = ns] restoreOriginalRQs_log addResourcesToRQs_log
      restoreOriginalRQs_rel addResourcesToRQs_rel)

lemma reports_read: "reports w0 (readVmmrq A ns)"
proof (rule tripleI)
  fix w out w' assume "okSince w0 w" "readVmmrq A ns w = (Inl out, w')"
  then show "reported w0 out w'"
    by (auto elim!: readVmmrq_trace intro: reported_last reported_okSince reports_one)
next
  fix w a w' assume "okSince w0 w" "readVmmrq A ns w = (Inr a, w')"
  then show "okSince w0 w'" by (auto elim!: readVmmrq_trace intro: reports_one)
qed

lemma reports_send: "reports w0 (tryErr Immediate (sendStatus A vm))"
  by (rule triple_tryErr) (auto dest!: sendStatus_trace(1) intro: reported_immediate reports_one)

lemma reports_sync: "reports w0 (syncAdditional A vm)"
proof -
  have b: "reports w0 (bindOp (tryErr Immediate (sendStatus A v)) (\<lambda>_. returnOp v))" for v
    by (intro reports_bind reports_send triple_return)
  show ?thesis
    by (rule tripleI) (auto simp: syncAdditional_def Let_def split: if_splits dest: tripleD [OF b])
qed

lemma reports_tryPure: "reports w0 (tryPure st r)"
  by (rule triple_tryPure) (auto intro: reported_okSince)

lemma reports_return: "reports w0 (returnOp a)"
  by (rule triple_return)

lemma reports_inspect: "reports w0 (inspectMigration en ns mig)"
  by (rule reports_silent) (auto dest: inspectMigration_world)

lemma reports_targetPod: "reports w0 (targetPodOp en ns v)"
  by (rule reports_silent) (auto dest: targetPodOp_world)

lemma reports_blocking: "reports w0 (tryVal st (getCurrBlockingRQInNS en vm m p d))"
  by (rule reports_silent)
    (auto simp: tryVal_def getCurrBlockingRQInNS_def split: prod.splits sum.splits option.splits)

lemma reports_assign: "reports w0 (assignMig name rqs v)"
  by (rule reports_silent) (auto simp: assignMig_def split: option.splits)

lemma reports_decide: "reports w0 (decideBlocking en ns name mig insp vm)"
  unfolding decideBlocking_def
  by (auto split: prod.splits bool.splits option.splits
      intro!: reports_bind reports_targetPod reports_blocking reports_assign reports_return)

lemma reports_executeLocked: "reports w0 (executeLocked A en ns name mig)"
proof -
  have snap: "reports w0 (snapshot vm)" for vm
    by (rule reports_silent) (auto simp: snapshot_def split: prod.splits)
  have adopt: "reports w0 (adoptOriginals en ns vm)" for vm
    by (rule reports_silent)
      (auto simp: adoptOriginals_def bindOp_def tryVal_def returnOp_def getAllBlockingRQsInNS_def Let_def
         split: prod.splits sum.splits)
  show ?thesis
    unfolding executeLocked_def
    by (intro reports_bind reports_read reports_sync snap reports_inspect)
      (auto split: prod.splits intro!: reports_bind reports_decide adopt reports_reconcile reports_return)
qed

lemma execute_reported: "reported w (fst (execute A en key w)) (snd (execute A en key w))"
proof -
  have idle: "reported w out w" for out by (rule reported_okSince) simp
  show ?thesis
  proof (cases "e_migByKey en key")
    case (Inr mig)
    show ?thesis
    proof (cases "parseKey key")
      case (Inr k)
      obtain ns name where k: "k = (ns, name)" by fastforce
      obtain r w' where r: "executeLocked A en ns name mig w = (r, w')" by fastforce
      have "case r of Inl out \<Rightarrow> reported w out w' | Inr _ \<Rightarrow> okSince w w'"
        using tripleD [OF reports_executeLocked [of w A en ns name mig] okSince_refl] r by (cases r) auto
      then show ?thesis using \<open>e_migByKey en key = Inr mig\<close> Inr k r
        by (cases r) (auto simp: execute_def intro: reported_okSince)
    qed (use Inr idle in \<open>simp add: execute_def\<close>)
  qed (use idle in \<open>simp add: execute_def\<close>)
qed

lemma pass_reports_failure:
  assumes "(c, Some err) \<in> set (sentBy A en key w)" and "\<not> toleratedCall c"
  shows "fst (execute A en key w) = Returned (Some err) (case c of ListVmmrqs _ \<Rightarrow> BackOff | _ \<Rightarrow> Immediate)
     \<and> last (sentBy A en key w) = (c, Some err)"
  using execute_reported [of w A en key] unfolding reported_def
proof
  assume "okSince w (snd (execute A en key w))"
  then show ?thesis using assms by (auto simp: okSince_def sentBy_def logged_append strictOk_def)
next
  assume "\<exists>l c err st. w_log (snd (execute A en key w)) = w_log w @ l @ [(c, Some err)] \<and> strictOk l
    \<and> fst (execute A en key w) = Returned (Some err) st \<and> st = (case c of ListVmmrqs _ \<Rightarrow> BackOff | _ \<Rightarrow> Immediate)"
  then obtain l c' err' where l: "sentBy A en key w = l @ [(c', Some err')]" "strictOk l"
    "fst (execute A en key w) = Returned (Some err') (case c' of ListVmmrqs _ \<Rightarrow> BackOff | _ \<Rightarrow> Immediate)"
    by (auto simp: sentBy_def logged_append)
  have "(c, Some err) \<notin> set l" using assms(2) l(2) by (auto simp: strictOk_def)
  with assms(1) l show ?thesis by auto
qed

subsection \<open>No panic\<close>

definition serverDefaults :: "'s api \<Rightarrow> bool" where
  "serverDefaults A \<longleftrightarrow> (\<forall>n s vw wh. fst (api_getVWC A n s) = Inr vw \<longrightarrow> wh \<in> set (vwc_webhooks vw) \<longrightarrow> defaulted wh)"

lemma readLock_no_panic:
  assumes "serverDefaults A"
  shows "fst (readLock A en ns w) \<noteq> Inl Panicked"
proof (cases "GetLockState (w_nsc w) ns")
  case Unknown
  obtain ca w1 where ca: "doRead FetchBundle (api_bundleBytes A) w = (ca, w1)" by fastforce
  obtain q w2 where q: "NamespaceLocked A ns (e_mtqNs en) (bundleOr ca) w1 = (q, w2)" by fastforce
  have "q \<noteq> None"
    using q
  proof (cases rule: NamespaceLocked_cases)
    case (panic vw)
    then have "\<forall>wh \<in> set (vwc_webhooks vw). defaulted wh" using assms by (auto simp: serverDefaults_def)
    from isOur_no_panic [OF this, of ns "e_mtqNs en" "bundleOr ca"] panic(2) show ?thesis by simp
  qed auto
  then show ?thesis using Unknown ca q by (auto simp: readLock_def split: prod.splits option.splits)
qed (simp_all add: readLock_def)

lemma reconcile_no_panic:
  assumes "serverDefaults A"
  shows "fst (reconcile A en ns vm prev w) \<noteq> Inl Panicked"
proof
  assume "fst (reconcile A en ns vm prev w) = Inl Panicked"
  then obtain w' where "reconcile A en ns vm prev w = (Inl Panicked, w')" by (metis prod.collapse)
  then show False unfolding reconcile_def
    using readLock_no_panic [OF assms, of en ns w]
    by (auto elim!: bindOpE tryErrE releaseLock_trace acquireLock_trace publish_trace
        simp: whenOp_def returnOp_def split: if_splits option.splits)
qed

lemma pass_no_panic:
  assumes "parseKey key = Inr (ns, name)" and "liveWorld w" and "listsOk A ns w" and "serverDefaults A"
  shows "fst (execute A en key w) \<noteq> Panicked"
  using assms(1-3)
proof (cases rule: execute_trace [where A = A and en = en])
  case (rec out v pre vm prev w1 objs rqs q st w' lk nl acq res pub enl rl)
  have "q \<noteq> Inl Panicked" using reconcile_no_panic [OF assms(4), of en ns vm prev w1] rec(3) by simp
  then show ?thesis using rec(1,4) by (cases q) auto
qed auto

end
