(* ===== verification/Scenario.thy ===== *)
theory Scenario
  imports PassStatus
begin

text \<open>
  Two concrete passes on which the theorems about all passes are instantiated. In the first, the
  migration \<open>ns1/m1\<close> is blocked by the quota \<open>rq1\<close> and the pass locks the namespace and raises
  the quota from 2 to 3 CPUs; in the second, the migration is gone and the pass restores the
  quota and unlocks. The server of the scenario accepts every write.
\<close>

definition cpu :: "int \<Rightarrow> resourceList" where
  "cpu n = [(''requests.cpu'', \<lparr>q_amount = n, q_format = DecimalSI, q_s = []\<rparr>)]"

definition plainSpec :: "'m \<Rightarrow> 'm rqSpec" where
  "plainSpec m = \<lparr>spec_hard = m, spec_scopes = [], spec_scopeSelector = None\<rparr>"

definition scApi :: "wire vmmrq \<Rightarrow> unit api" where
  "scApi v =
     \<lparr>api_listVmmrqs = (\<lambda>ns s. (Inr [v], s)),
      api_updateVmmrqStatus = (\<lambda>v s. (None, s)),
      api_updateRQ = (\<lambda>q s. (None, s)),
      api_getVWC = (\<lambda>n s. (Inl (NotFoundErr ''not found''), s)),
      api_createVWC = (\<lambda>c s. (None, s)),
      api_updateVWC = (\<lambda>c s. (None, s)),
      api_deleteVWC = (\<lambda>n s. (None, s)),
      api_bundleBytes = (\<lambda>s. (Inr [1], s))\<rparr>"

definition scMigration :: migration where
  "scMigration = \<lparr>m_name = ''m1'', m_ns = ''ns1'', m_uid = ''u1'', m_vmiName = ''vm1'',
     m_phase = MigrationPending, m_conds = Some [RejectedByResourceQuota]\<rparr>"

definition scVmi :: vmi where
  "scVmi = \<lparr>vmi_name = ''vm1'', vmi_ns = ''ns1'', vmi_uid = ''u2'', vmi_node = ''node1''\<rparr>"

definition scPod :: pod where
  "scPod = \<lparr>pod_name = ''virt-launcher'', pod_ns = [], pod_labels = [], pod_spec = []\<rparr>"

definition scCheck :: "wire resourceQuota \<Rightarrow> goerror option" where
  "scCheck q = (case spec_hard (rq_spec q) of
     None \<Rightarrow> None
   | Some m \<Rightarrow> (case amounts m ''requests.cpu'' of
       Some n \<Rightarrow> (if n < 3 then Some (GoErr ''exceeded quota: rq1'') else None)
     | None \<Rightarrow> None))"

definition scEnv :: "migration option \<Rightarrow> env" where
  "scEnv mig =
     \<lparr>e_mtqNs = ''mtq'',
      e_migByKey = (\<lambda>k. Inr mig),
      e_migByNs = (\<lambda>ns. Inr (case mig of None \<Rightarrow> [] | Some m \<Rightarrow> [m])),
      e_migList = (case mig of None \<Rightarrow> [] | Some m \<Rightarrow> [m]),
      e_vmiByKey = (\<lambda>k. Inr (Some scVmi)),
      e_podByNs = (\<lambda>ns. Inr []),
      e_lrByNs = (\<lambda>ns. Inr []),
      e_rqByNsErr = (\<lambda>ns. None),
      e_rqByKeyErr = (\<lambda>k. None),
      e_selectorErr = (\<lambda>l. None),
      e_renderLaunchManifest = (\<lambda>v. Inr scPod),
      e_convertToCore = Inr,
      e_podMutateLimit = (\<lambda>lr p. Inr p),
      e_convertFromCore = Inr,
      e_usage = (\<lambda>p. Inr [''requests.cpu'']),
      e_checkRequest = (\<lambda>q p lim. scCheck q),
      e_parallelMigrationsPerCluster = 5,
      e_parallelOutboundMigrationsPerNode = 2,
      e_rangeKeys = (\<lambda>ks. ks)\<rparr>"

definition scQuota :: "href resourceQuota" where
  "scQuota = \<lparr>rq_name = ''rq1'', rq_ns = ''ns1'', rq_rv = ''7'', rq_spec = plainSpec (Some 0),
     rq_stHard = None, rq_stUsed = None\<rparr>"

definition scHeap :: "int \<Rightarrow> heap" where
  "scHeap n = \<lparr>hp_maps = (\<lambda>_. [])(0 := cpu n), hp_next = 1\<rparr>"

definition scWorld :: "int \<Rightarrow> nsCache \<Rightarrow> unit world" where
  "scWorld n c = \<lparr>w_heap = scHeap n, w_rqs = [scQuota], w_nsc = c, w_srv = (), w_log = [], w_events = []\<rparr>"

definition scVmmrq :: "(string \<times> string list) list option \<Rightarrow> wire rqNameAndSpec list \<Rightarrow> wire vmmrq" where
  "scVmmrq migs orig = \<lparr>v_name = ''v'', v_ns = ''ns1'', v_rv = ''3'', v_specAdd = Some (cpu 1), v_add = Some (cpu 1),
     v_migs = migs, v_orig = orig\<rparr>"

definition scSaved :: "wire rqNameAndSpec" where
  "scSaved = \<lparr>ns_name = ''rq1'', ns_spec = plainSpec (Some (cpu 2))\<rparr>"

definition apiA :: "unit api" where "apiA = scApi (scVmmrq None [])"
definition envA :: env where "envA = scEnv (Some scMigration)"
definition worldA :: "unit world" where "worldA = scWorld 2 NewNamespaceCache"

definition apiB :: "unit api" where "apiB = scApi (scVmmrq (Some [(''m1'', [''rq1''])]) [scSaved])"
definition envB :: env where "envB = scEnv None"
definition worldB :: "unit world" where "worldB = scWorld 3 (MarkLockStateLocked ''ns1'' NewNamespaceCache)"

definition keyA :: string where "keyA = ''ns1/m1''"

definition updatedTo :: "int \<Rightarrow> wire resourceQuota" where
  "updatedTo n = \<lparr>rq_name = ''rq1'', rq_ns = ''ns1'', rq_rv = ''7'', rq_spec = plainSpec (Some (cpu n)),
     rq_stHard = None, rq_stUsed = None\<rparr>"

lemmas sc_defs = scApi_def scEnv_def scWorld_def scHeap_def scQuota_def scVmmrq_def scSaved_def plainSpec_def
  apiA_def envA_def worldA_def apiB_def envB_def worldB_def

lemma sc_parse: "parseKey keyA = Inr (''ns1'', ''m1'')"
  by code_simp

lemma sc_listed [simp]: "listed (scApi v) ns w u \<longleftrightarrow> u = v"
  by (auto simp: listed_def scApi_def)

lemma sc_live: "liveWorld (scWorld n c)"
  by (auto simp: liveWorld_def wfHeap_def scWorld_def scHeap_def cpu_def scQuota_def liveRQ_def plainSpec_def)

lemma sc_liveAB [simp]: "liveWorld worldA" "liveWorld worldB"
  by (simp_all add: worldA_def worldB_def sc_live)

lemma sc_listsOk [simp]: "listsOk apiA ns w" "listsOk apiB ns w"
  by (auto simp: listsOk_def apiA_def apiB_def wireOk_def scVmmrq_def scSaved_def plainSpec_def cpu_def)

lemma sc_sentA: "sentBy apiA envA keyA worldA =
  [(ListVmmrqs ''ns1'', None), (FetchBundle, None), (GetVWC (lockName ''ns1''), Some (NotFoundErr ''not found'')),
   (FetchBundle, None), (CreateVWC (lockingVWC ''ns1'' ''mtq'' [1]), None),
   (UpdateVmmrqStatus (scVmmrq (Some [(''m1'', [''rq1''])]) [scSaved]), None),
   (UpdateRQ (updatedTo 3), None)]"
  by code_simp

lemma sc_sentB: "sentBy apiB envB keyA worldB =
  [(ListVmmrqs ''ns1'', None), (UpdateRQ (updatedTo 2), None), (UpdateVmmrqStatus (scVmmrq (Some []) []), None),
   (DeleteVWC (lockName ''ns1''), None)]"
  by code_simp

end
