(* ===== verification/QuotaTheorems.thy ===== *)
theory QuotaTheorems
  imports Scenario
begin

text \<open>
  The properties of the quota operations and of the helpers around them, each instantiated on
  the scenario.
\<close>

subsection \<open>Which quotas block a migration\<close>

text \<open>C12: the quotas found to block a migration are exactly those of its namespace that, taken with
  the limits they had before the controller raised them, reject the target pod for an exceeded
  quota and accept it once the additional resources are added; and none at all when some quota
  of the namespace would still be exceeded with them. The copies made on the way leave every
  object of the informer as it was.\<close>

theorem blocking_quotas_exact:
  assumes "getCurrBlockingRQInNS en vm m p toAdd w = (Inr names, w')"
    and "rqByNamespace en (m_ns m) w = Inr objs" and "getCurrLauncherLimitedResource en p = Inr lim"
    and "liveWorld w" and "\<forall>x \<in> set (v_orig vm). liveNameSpec (w_heap w) x" and "liveRef (w_heap w) toAdd"
  shows "names = blockingSpec en p lim (map (valNameSpec (w_heap w)) (v_orig vm)) (deref (w_heap w) toAdd)
           (map (valRQ (w_heap w)) objs)
     \<and> w_rqs w' = w_rqs w \<and> map (valRQ (w_heap w')) (w_rqs w') = map (valRQ (w_heap w)) (w_rqs w)"
proof -
  have "frontRel w w'" using getCurrBlockingRQInNS_world [OF assms(1,4-6)] by simp
  then have "w_rqs w' = w_rqs w" "map (valRQ (w_heap w')) (w_rqs w) = map (valRQ (w_heap w)) (w_rqs w)"
    using assms(4) by (auto simp: frontRel_def liveWorld_def intro: heapExt_valRQ)
  with getCurrBlockingRQInNS_correct [OF assms(1-3)] assms(4-6) show ?thesis
    by (simp add: liveWorld_def)
qed

definition scVm :: "href vmmrq" where
  "scVm = \<lparr>v_name = ''v'', v_ns = ''ns1'', v_rv = ''3'', v_specAdd = None, v_add = Some 1, v_migs = Some [], v_orig = []\<rparr>"

definition worldC :: "unit world" where
  "worldC = worldA\<lparr>w_heap := \<lparr>hp_maps = (\<lambda>_. [])(0 := cpu 2, 1 := cpu 1), hp_next = 2\<rparr>\<rparr>"

lemma worldC_live [simp]: "liveWorld worldC"
  by (auto simp: worldC_def liveWorld_def wfHeap_def cpu_def worldA_def scWorld_def scQuota_def liveRQ_def plainSpec_def)

theorem blocking_quotas_exact_witness:
  "\<exists>w'. getCurrBlockingRQInNS envA scVm scMigration scPod (Some 1) worldC = (Inr [''rq1''], w')
     \<and> [''rq1''] = blockingSpec envA scPod \<lparr>lim_resource = ''pods'', lim_matchContains = [''requests.cpu'']\<rparr> []
         (cpu 1) [updatedTo 2]"
proof -
  let ?lim = "\<lparr>lim_resource = ''pods'', lim_matchContains = [''requests.cpu'']\<rparr>"
  have "fst (getCurrBlockingRQInNS envA scVm scMigration scPod (Some 1) worldC) = Inr [''rq1'']" by code_simp
  then obtain w' where r: "getCurrBlockingRQInNS envA scVm scMigration scPod (Some 1) worldC = (Inr [''rq1''], w')"
    by (metis prod.collapse)
  have objs: "rqByNamespace envA (m_ns scMigration) worldC = Inr [scQuota]" by code_simp
  have lim: "getCurrLauncherLimitedResource envA scPod = Inr ?lim" by code_simp
  have vals: "map (valRQ (w_heap worldC)) [scQuota] = [updatedTo 2]" "deref (w_heap worldC) (Some 1) = cpu 1"
    by code_simp+
  have "liveRef (w_heap worldC) (Some 1)" by (simp add: worldC_def)
  from blocking_quotas_exact [OF r objs lim worldC_live _ this] r show ?thesis
    unfolding vals by (simp add: scVm_def)
qed

subsection \<open>Raising and restoring\<close>

text \<open>C10: raising the quotas of a VMMRQ sends, for each quota it updates, exactly the saved limits
  plus the additional resources, and changes the informer's view of a quota only from its saved
  limits to that sum: the addition is never applied to a quota that already has it, although the
  code adds in place into maps the saved specs share.\<close>

theorem raising_adds_once:
  assumes "addResourcesToRQs A en vm ns w = (r, w')" and "enlargeReady ns w (v_add vm) (v_orig vm)"
  shows "(\<exists>l. w_log w' = w_log w @ l \<and> updatesCarry (enlargedLimits ns w (v_add vm) (set (v_orig vm))) l)
    \<and> (\<forall>k. hardAt w' k = hardAt w k \<or> (\<exists>f. hardAt w' k = Some f \<and> enlargedLimits ns w (v_add vm) (set (v_orig vm)) k f))"
  using enlargeLoop_effect [OF assms(1) [unfolded addResourcesToRQs_def] assms(2)] by blast

definition scVm1 :: "href vmmrq" where
  "scVm1 = scVm\<lparr>v_orig := [\<lparr>ns_name = ''rq1'', ns_spec = plainSpec (Some 0)\<rparr>]\<rparr>"

lemma scVm1_ready: "enlargeReady ''ns1'' worldC (v_add scVm1) (v_orig scVm1)"
  by (auto simp: enlargeReady_def worldC_def worldA_def scWorld_def scQuota_def scVm1_def scVm_def wfHeap_def cpu_def
      sepRQs_def sepSpec_def plainSpec_def rqKey_def)

theorem raising_adds_once_witness:
  "\<exists>l. w_log (snd (addResourcesToRQs apiA envA scVm1 ''ns1'' worldC)) = [] @ l
     \<and> updatesCarry (enlargedLimits ''ns1'' worldC (Some 1) (set (v_orig scVm1))) l"
  using raising_adds_once [OF surjective_pairing scVm1_ready, of apiA envA]
  by (simp add: worldC_def worldA_def scWorld_def scVm1_def scVm_def)


definition scSpec :: "href rqNameAndSpec" where
  "scSpec = \<lparr>ns_name = ''rq1'', ns_spec = plainSpec (Some 1)\<rparr>"


text \<open>C39: a restore whose update the API server refuses is never retried: the informer's object was
  already changed in place, so the next pass takes the quota for restored and sends nothing.\<close>

theorem failed_restore_is_forgotten:
  assumes "restoreOne A en ns x w = (Some e, w')"
    and "e_rqByKeyErr en (metaKey ns (ns_name x)) = None" and "wfHeap (w_heap w)"
  shows "restoreOne A' en ns x w' = (None, w')"
  using assms by (rule restoreOne_retry)

definition apiFail :: "unit api" where
  "apiFail = apiB\<lparr>api_updateRQ := \<lambda>q s. (Some (GoErr ''conflict''), s)\<rparr>"

theorem failed_restore_is_forgotten_witness:
  "fst (restoreOne apiFail envA ''ns1'' scSpec worldC) = Some (GoErr ''conflict'')
   \<and> restoreOne apiA envA ''ns1'' scSpec (snd (restoreOne apiFail envA ''ns1'' scSpec worldC))
       = (None, snd (restoreOne apiFail envA ''ns1'' scSpec worldC))"
proof -
  have fail: "fst (restoreOne apiFail envA ''ns1'' scSpec worldC) = Some (GoErr ''conflict'')" by code_simp
  then have run: "restoreOne apiFail envA ''ns1'' scSpec worldC =
      (Some (GoErr ''conflict''), snd (restoreOne apiFail envA ''ns1'' scSpec worldC))"
    by (metis prod.collapse)
  have "restoreOne apiA envA ''ns1'' scSpec (snd (restoreOne apiFail envA ''ns1'' scSpec worldC))
       = (None, snd (restoreOne apiFail envA ''ns1'' scSpec worldC))"
    by (rule failed_restore_is_forgotten [OF run])
      (use worldC_live in \<open>simp_all add: envA_def scEnv_def liveWorld_def\<close>)
  with fail show ?thesis by simp
qed

subsection \<open>Collecting the specs to save\<close>

text \<open>The specs collected for a status are, for each blocking name in turn, the one the VMMRQ
  already saves under it, or else that of every quota of the namespace with that name; the
  informer's objects keep their content.\<close>

theorem collected_specs_exact:
  assumes "getAllBlockingRQsInNS en vm ns w = (Inr xs, w')" and "liveWorld w" and "liveVmmrq (w_heap w) vm"
  shows "map (valNameSpec (w_heap w')) xs = gatherSpec (map (valNameSpec (w_heap w)) (v_orig vm)) (quotasOf en ns w)
       (flatStringToStringMapNoDups en (case v_migs vm of None \<Rightarrow> [] | Some m \<Rightarrow> m))
     \<and> w_rqs w' = w_rqs w \<and> map (valRQ (w_heap w')) (w_rqs w) = map (valRQ (w_heap w)) (w_rqs w)"
proof -
  have run: "adoptOriginals en ns vm w = (Inr (vm\<lparr>v_orig := xs\<rparr>), w')"
    using assms(1) by (simp add: adoptOriginals_def bindOp_def tryVal_def returnOp_def)
  from run assms(2,3) show ?thesis
  proof (cases rule: adoptOriginals_trace)
    case (ok objs xs' names)
    from ok(1) have "vm\<lparr>v_orig := xs\<rparr> = vm\<lparr>v_orig := xs'\<rparr>" by simp
    then have "v_orig (vm\<lparr>v_orig := xs\<rparr>) = v_orig (vm\<lparr>v_orig := xs'\<rparr>)" by (rule arg_cong)
    then have "xs' = xs" by simp
    with ok assms(2) show ?thesis
      by (auto simp: quotasOf_def frontRel_def liveWorld_def intro: heapExt_valRQ)
  qed simp
qed

theorem collected_specs_exact_witness:
  "\<exists>xs w'. getAllBlockingRQsInNS envA (scVm\<lparr>v_migs := Some [(''m1'', [''rq1''])]\<rparr>) ''ns1'' worldC = (Inr xs, w')
     \<and> map (valNameSpec (w_heap w')) xs = [scSaved]"
proof -
  let ?vm = "scVm\<lparr>v_migs := Some [(''m1'', [''rq1''])]\<rparr>"
  have "fst (getAllBlockingRQsInNS envA ?vm ''ns1'' worldC) \<in> {Inr [\<lparr>ns_name = ''rq1'', ns_spec = plainSpec (Some 0)\<rparr>]}"
    by code_simp
  then obtain xs w' where run: "getAllBlockingRQsInNS envA ?vm ''ns1'' worldC = (Inr xs, w')"
    by (metis prod.collapse singletonD)
  have live: "liveVmmrq (w_heap worldC) ?vm" by (simp add: liveVmmrq_def scVm_def worldC_def)
  have "gatherSpec (map (valNameSpec (w_heap worldC)) (v_orig ?vm)) (quotasOf envA ''ns1'' worldC)
       (flatStringToStringMapNoDups envA (case v_migs ?vm of None \<Rightarrow> [] | Some m \<Rightarrow> m)) = [scSaved]"
    by code_simp
  with collected_specs_exact [OF run worldC_live live] run show ?thesis by auto
qed

subsection \<open>The helpers\<close>

text \<open>Adding resources to a quota adds to each resource the quota limits the amount the added list
  gives it, leaves the others, adds no resource, and touches no map but the quota's own.\<close>

theorem addition_is_pointwise:
  assumes "addResourcesToRQ rq rl h = (q', h')"
    and "distinctKeys (deref h (spec_hard (rq_spec rq)))" and "distinctKeys (deref h rl)"
  shows "amounts (deref h' (spec_hard (rq_spec q'))) =
       addAmounts (amounts (deref h (spec_hard (rq_spec rq)))) (amounts (deref h rl))
     \<and> (\<forall>c. spec_hard (rq_spec rq) \<noteq> Some c \<longrightarrow> hp_maps h' c = hp_maps h c)"
proof -
  have h': "h' = (case spec_hard (rq_spec rq) of None \<Rightarrow> h
      | Some a \<Rightarrow> h\<lparr>hp_maps := (hp_maps h)(a := addHard (hp_maps h a) (deref h rl))\<rparr>)"
    using addResourcesToRQ_heap [OF assms(2,3)] assms(1) by simp
  have "spec_hard (rq_spec q') = spec_hard (rq_spec rq)" using addResourcesToRQ_fields(1) [OF assms(1)] .
  then show ?thesis
    using h' by (cases "spec_hard (rq_spec rq)") (auto simp: amounts_addHard_fun addAmounts_empty)
qed

theorem addition_is_pointwise_witness:
  "amounts (deref (snd (addResourcesToRQ scQuota (Some 1) (w_heap worldC))) (Some 0)) = addAmounts (amounts (cpu 2)) (amounts (cpu 1))"
proof -
  have d: "deref (w_heap worldC) (Some 0) = cpu 2" "deref (w_heap worldC) (Some 1) = cpu 1"
    by (simp_all add: worldC_def)
  obtain q' h' where r: "addResourcesToRQ scQuota (Some 1) (w_heap worldC) = (q', h')" by fastforce
  have sh: "spec_hard (rq_spec scQuota) = Some 0" by (simp add: scQuota_def plainSpec_def)
  have sq: "spec_hard (rq_spec q') = Some 0" using addResourcesToRQ_fields(1) [OF r] sh by simp
  have "distinctKeys (cpu n)" for n by (simp add: cpu_def)
  then have "amounts (deref h' (Some 0)) = addAmounts (amounts (cpu 2)) (amounts (cpu 1))"
    using addition_is_pointwise [OF r] unfolding sh sq d by simp
  then show ?thesis unfolding r by simp
qed

text \<open>The comparison that decides whether a quota is already restored or already raised holds
  exactly when the two lists limit the same resources to the same amounts, in whatever order
  and format they are written.\<close>

theorem equal_iff_same_amounts:
  assumes "distinctKeys m1" and "distinctKeys m2"
  shows "areResourceMapsEqual m1 m2 \<longleftrightarrow> amounts m1 = amounts m2"
  using assms by (rule areResourceMapsEqual_amounts)

theorem equal_iff_same_amounts_witness: "areResourceMapsEqual (cpu 2) (cpu 2) \<longleftrightarrow> amounts (cpu 2) = amounts (cpu 2)"
  by (rule equal_iff_same_amounts) (simp_all add: cpu_def)

text \<open>A migration is taken for blocked exactly when it is pending, no target pod carries its labels,
  and its conditions say a quota rejected it.\<close>

theorem blocked_iff:
  "isBlockedMigration en v m = Inr True \<longleftrightarrow>
     m_phase m = MigrationPending \<and> listMatchingTargetPods en m v = Inr []
     \<and> RejectedByResourceQuota \<in> set (condsOf m)"
  by (rule isBlockedMigration_iff)

text \<open>The parallel-migration limit counts the unfinished migrations that run or already have a
  target pod, over the cluster and, of those, the ones whose VMI is on the node; it is reached
  exactly when either count is at its configured maximum.\<close>

theorem parallel_limit_counts:
  assumes "findRunningMigrations en = Inr rs"
  shows "reachedMaxParallelMigration en node = Inr
    (let slots = filter (\<lambda>m. \<not> IsFinal m \<and> occupies en m) (e_migList en) in
     e_parallelMigrationsPerCluster en \<le> length slots
     \<or> e_parallelOutboundMigrationsPerNode en \<le> length (filter (onNode en node) slots))"
  using assms by (rule reachedMaxParallelMigration_iff)

definition scBusy :: env where
  "scBusy = envA\<lparr>e_migList := [scMigration\<lparr>m_phase := MigrationRunning\<rparr>], e_parallelMigrationsPerCluster := 1\<rparr>"

theorem parallel_limit_counts_witness:
  "reachedMaxParallelMigration scBusy ''node1'' = Inr
    (let slots = filter (\<lambda>m. \<not> IsFinal m \<and> occupies scBusy m) (e_migList scBusy) in
     e_parallelMigrationsPerCluster scBusy \<le> length slots
     \<or> e_parallelOutboundMigrationsPerNode scBusy \<le> length (filter (onNode scBusy ''node1'') slots))"
proof -
  have "findRunningMigrations scBusy = Inr [scMigration\<lparr>m_phase := MigrationRunning\<rparr>]" by code_simp
  then show ?thesis by (rule parallel_limit_counts)
qed

text \<open>The limit range applied to the target pod has, for every resource, the largest default and
  the largest default request that the container items of the namespace's limit ranges give it,
  and names no other resource.\<close>

theorem limit_range_is_maximum:
  assumes "e_lrByNs en ns = Inr lrs"
    and "\<forall>i \<in> set (concat (map lr_limits lrs)). distinctKeys (lri_default i) \<and> distinctKeys (lri_defaultRequest i)"
  shows "\<exists>d r. getLimitRangeWithMaxDefaults en ns = Inr \<lparr>lr_limits = [\<lparr>lri_type = LimitTypeContainer,
            lri_default = d, lri_defaultRequest = r\<rparr>]\<rparr>
     \<and> amounts d = maxAmounts (map (\<lambda>i. amounts (lri_default i)) (containerItems lrs))
     \<and> amounts r = maxAmounts (map (\<lambda>i. amounts (lri_defaultRequest i)) (containerItems lrs))"
  using assms by (rule getLimitRangeWithMaxDefaults_max)

definition scItem :: "int \<Rightarrow> limitRangeItem" where
  "scItem n = \<lparr>lri_type = LimitTypeContainer, lri_default = cpu n, lri_defaultRequest = []\<rparr>"

definition scLimits :: env where
  "scLimits = envA\<lparr>e_lrByNs := \<lambda>ns. Inr [\<lparr>lr_limits = [scItem 2, scItem 5]\<rparr>]\<rparr>"

theorem limit_range_is_maximum_witness:
  "\<exists>d r. getLimitRangeWithMaxDefaults scLimits ''ns1'' = Inr \<lparr>lr_limits = [\<lparr>lri_type = LimitTypeContainer,
            lri_default = d, lri_defaultRequest = r\<rparr>]\<rparr> \<and> amounts d = amounts (cpu 5)"
proof -
  have "e_lrByNs scLimits ''ns1'' = Inr [\<lparr>lr_limits = [scItem 2, scItem 5]\<rparr>]" by (simp add: scLimits_def)
  moreover have "maxAmounts (map (\<lambda>i. amounts (lri_default i)) (containerItems [\<lparr>lr_limits = [scItem 2, scItem 5]\<rparr>])) = amounts (cpu 5)"
    by (rule ext) (simp add: containerItems_def scItem_def maxAmounts_def cpu_def amounts_def)
  ultimately show ?thesis
    using limit_range_is_maximum [of scLimits "''ns1''" "[\<lparr>lr_limits = [scItem 2, scItem 5]\<rparr>]"]
    by (auto simp: scItem_def cpu_def)
qed

subsection \<open>The work queue\<close>

lemma enqueueForConds_set: "set (enqueueForConds m cs) = (if RejectedByResourceQuota \<in> set cs then {QAdd (metaKey (m_ns m) (m_name m))} else {})"
  by (induction m cs rule: enqueueForConds.induct) auto

lemma enqueueRejected_set:
  "set (enqueueRejected ms) =
     (\<lambda>m. QAdd (metaKey (m_ns m) (m_name m))) ` {m \<in> set ms. RejectedByResourceQuota \<in> set (condsOf m)}"
  by (induction ms) (auto simp: enqueueForConds_set condsOf_def split: option.splits)

text \<open>C40: when a VMMRQ is added, exactly the migrations of its namespace that a quota rejected are
  queued, and one key of the namespace is queued even when there is none, so its status is
  always reconciled; each queued key parses back to the namespace and name it was made from.\<close>

theorem added_vmmrq_queues_rejected:
  assumes "e_migByNs en (v_ns v) = Inr ms" and "\<forall>m \<in> set ms. m_ns m = v_ns v \<and> CHR ''/'' \<notin> set (m_name m)"
    and "v_ns v \<noteq> []" and "CHR ''/'' \<notin> set (v_ns v)"
  shows "(let rejected = {m \<in> set ms. RejectedByResourceQuota \<in> set (condsOf m)} in
      (rejected \<noteq> {} \<longrightarrow> set (addVmmrq en v) = (\<lambda>m. QAdd (metaKey (m_ns m) (m_name m))) ` rejected)
      \<and> (rejected = {} \<longrightarrow> addVmmrq en v = [QAdd (fakeKey (v_ns v))])
      \<and> (\<forall>k. QAdd k \<in> set (addVmmrq en v) \<longrightarrow> (\<exists>name. parseKey k = Inr (v_ns v, name))))"
proof -
  let ?R = "{m \<in> set ms. RejectedByResourceQuota \<in> set (condsOf m)}"
  have ops: "set (enqueueRejected ms) = (\<lambda>m. QAdd (metaKey (m_ns m) (m_name m))) ` ?R" by (rule enqueueRejected_set)
  have add: "addVmmrq en v = (if enqueueRejected ms = [] then [QAdd (fakeKey (v_ns v))] else enqueueRejected ms)"
    using assms(1) by (simp add: addVmmrq_def migsOfNs_def Let_def)
  have "enqueueRejected ms = [] \<longleftrightarrow> set (enqueueRejected ms) = {}" by simp
  then have empty: "enqueueRejected ms = [] \<longleftrightarrow> ?R = {}" unfolding ops by (simp only: image_is_empty)
  have fake: "fakeKey (v_ns v) = metaKey (v_ns v) ''fake''" using assms(3) by (simp add: fakeKey_def metaKey_def)
  have pf: "parseKey (fakeKey (v_ns v)) = Inr (v_ns v, ''fake'')"
    unfolding fake by (rule parseKey_metaKey [OF assms(3,4)]) simp
  have pm: "parseKey (metaKey (m_ns m) (m_name m)) = Inr (v_ns v, m_name m)" if "m \<in> set ms" for m
    using parseKey_metaKey [OF assms(3,4)] assms(2) that by simp
  have parses: "\<exists>name. parseKey k = Inr (v_ns v, name)" if k: "QAdd k \<in> set (addVmmrq en v)" for k
  proof (cases "enqueueRejected ms = []")
    case True
    with k add pf show ?thesis by simp
  next
    case False
    with k add ops obtain m where "m \<in> set ms" "k = metaKey (m_ns m) (m_name m)" by auto
    with pm show ?thesis by blast
  qed
  show ?thesis
  proof (cases "?R = {}")
    case True
    then show ?thesis using add empty parses by (simp add: Let_def)
  next
    case False
    then have "set (addVmmrq en v) = (\<lambda>m. QAdd (metaKey (m_ns m) (m_name m))) ` ?R"
      using add empty ops by (simp only: if_False)
    then show ?thesis using False parses unfolding Let_def by blast
  qed
qed

theorem added_vmmrq_queues_rejected_witness:
  "set (addVmmrq envA (scVmmrq None [])) = {QAdd ''ns1/m1''}"
proof -
  have "e_migByNs envA (v_ns (scVmmrq None [])) = Inr [scMigration]" by (simp add: envA_def scEnv_def)
  moreover have "\<forall>m \<in> set [scMigration]. m_ns m = v_ns (scVmmrq None []) \<and> CHR ''/'' \<notin> set (m_name m)"
    by (simp add: scMigration_def scVmmrq_def)
  moreover have "v_ns (scVmmrq None []) \<noteq> []" "CHR ''/'' \<notin> set (v_ns (scVmmrq None []))" by (simp_all add: scVmmrq_def)
  ultimately have "(let rejected = {m \<in> set [scMigration]. RejectedByResourceQuota \<in> set (condsOf m)} in
      (rejected \<noteq> {} \<longrightarrow> set (addVmmrq envA (scVmmrq None [])) = (\<lambda>m. QAdd (metaKey (m_ns m) (m_name m))) ` rejected)
      \<and> (rejected = {} \<longrightarrow> addVmmrq envA (scVmmrq None []) = [QAdd (fakeKey (v_ns (scVmmrq None [])))])
      \<and> (\<forall>k. QAdd k \<in> set (addVmmrq envA (scVmmrq None [])) \<longrightarrow> (\<exists>name. parseKey k = Inr (v_ns (scVmmrq None []), name))))"
    by (rule added_vmmrq_queues_rejected)
  moreover have "{m \<in> set [scMigration]. RejectedByResourceQuota \<in> set (condsOf m)} = {scMigration}"
    by (auto simp: scMigration_def condsOf_def)
  ultimately have "set (addVmmrq envA (scVmmrq None [])) = (\<lambda>m. QAdd (metaKey (m_ns m) (m_name m))) ` {scMigration}"
    unfolding Let_def by blast
  then show ?thesis by (simp add: scMigration_def metaKey_def)
qed

end
