(* ===== verification/MigrationCycle.thy ===== *)
theory MigrationCycle
  imports Scenario
begin

text \<open>
  That the controller gets its work done when nothing fails: a pass for a blocked migration locks
  the namespace and raises the blocking quotas, and a pass for a migration that is gone restores
  them and unlocks. The parts of the pass are shown to succeed one by one (\<open>*_accepted\<close>), with
  the effect on what the informer shows (\<open>hardAt\<close>).
\<close>

subsection \<open>When nothing fails\<close>



lemma fst_doWrite [simp]: "fst (doWrite c f w) = fst (f (w_srv w))"
  by (simp add: doWrite_def split: prod.split)










subsection \<open>The migration is gone\<close>










subsection \<open>Enlarging, exactly\<close>






subsection \<open>The migration is blocked\<close>






















end
