(* ===== verification/KubeTypes.thy ===== *)
theory KubeTypes
  imports Prelude "HOL-Library.Word"
begin

text \<open>
  The Kubernetes objects the operator builds, with the fields its resource factories set, and the
  \<open>ResourceBuilder\<close> of the controller-lifecycle-operator-sdk
  (\<open>vendor/kubevirt.io/controller-lifecycle-operator-sdk/pkg/sdk/resources\<close>) it builds them
  with. A label map is an association list with distinct keys; an empty string stands for a
  field the sources leave at its zero value.
\<close>

type_synonym labels = "(string \<times> string) list"

record objectMeta =
  om_apiVersion :: string
  om_kind :: string
  om_name :: string
  om_namespace :: string
  om_labels :: labels

record policyRule =
  pr_apiGroups :: "string list"
  pr_resources :: "string list"
  pr_verbs :: "string list"

record subject =
  su_kind :: string
  su_name :: string
  su_namespace :: string

record role =
  ro_meta :: objectMeta
  ro_rules :: "policyRule list"

record roleBinding =
  rb_meta :: objectMeta
  rb_refKind :: string
  rb_refName :: string
  rb_refAPIGroup :: string
  rb_subjects :: "subject list"

subsection \<open>Pods\<close>

record containerPort =
  cp_name :: string
  cp_port :: int
  cp_protocol :: string

text \<open>The value, or the path of the pod field it is read from.\<close>

record envVar =
  env_name :: string
  env_value :: string
  env_fieldPath :: "string option"

record probe =
  pb_path :: string
  pb_port :: int
  pb_scheme :: string
  pb_initialDelaySeconds :: int
  pb_periodSeconds :: int
  pb_failureThreshold :: int
  pb_successThreshold :: int
  pb_timeoutSeconds :: int

record volumeMount =
  vm_name :: string
  vm_mountPath :: string
  vm_readOnly :: bool

record securityContext =
  sc_seccompProfile :: string
  sc_allowPrivilegeEscalation :: "bool option"
  sc_runAsNonRoot :: "bool option"
  sc_dropCapabilities :: "string list"

record container =
  co_name :: string
  co_image :: string
  co_imagePullPolicy :: string
  co_ports :: "containerPort list"
  co_terminationMessagePolicy :: string
  co_terminationMessagePath :: string
  co_args :: "string list"
  co_securityContext :: "securityContext option"
  co_env :: "envVar list"
  co_readinessProbe :: "probe option"
  co_requests :: "(string \<times> string) list"
  co_volumeMounts :: "volumeMount list"

text \<open>A volume backed by a secret: its name, the secret, the projected keys, the file mode.\<close>

record volume =
  vo_name :: string
  vo_secretName :: string
  vo_items :: "(string \<times> string) list"
  vo_defaultMode :: int

record toleration =
  to_key :: string
  to_operator :: string

text \<open>The affinity the factories build, or one given by the user, which they only pass on.\<close>

datatype affinity =
    RequiredPodAntiAffinity labels string
  | GivenAffinity string

record nodePlacement =
  np_nodeSelector :: labels
  np_tolerations :: "toleration list"
  np_affinity :: "affinity option"

record podSpec =
  ps_runAsNonRoot :: "bool option"
  ps_imagePullSecrets :: "string list"
  ps_nodeSelector :: labels
  ps_tolerations :: "toleration list"
  ps_affinity :: "affinity option"
  ps_serviceAccountName :: string
  ps_priorityClassName :: string
  ps_containers :: "container list"
  ps_volumes :: "volume list"

record deployment =
  dp_meta :: objectMeta
  dp_replicas :: int
  dp_selector :: labels
  dp_templateLabels :: labels
  dp_podSpec :: podSpec
  dp_maxUnavailable :: "int option"

record servicePort =
  sp_port :: int
  sp_targetPort :: int
  sp_protocol :: string

record service =
  sv_meta :: objectMeta
  sv_selector :: labels
  sv_type :: string
  sv_ports :: "servicePort list"

subsection \<open>Custom resource definitions\<close>

text \<open>A resource definition without its schema, which \<open>CrdSchema\<close> holds.\<close>

record crd =
  crd_meta :: objectMeta
  crd_group :: string
  crd_kind :: string
  crd_plural :: string
  crd_singular :: string
  crd_shortNames :: "string list"
  crd_scope :: string
  crd_version :: string
  crd_statusSubresource :: bool

datatype kobject =
    ServiceAccountObj objectMeta
  | RoleObj role
  | RoleBindingObj roleBinding
  | ClusterRoleObj role
  | ClusterRoleBindingObj roleBinding
  | DeploymentObj deployment
  | ServiceObj service
  | CRDObj crd
  | SecretObj objectMeta
  | ConfigMapObj objectMeta

fun metaOf :: "kobject \<Rightarrow> objectMeta" where
  "metaOf (ServiceAccountObj m) = m"
| "metaOf (RoleObj r) = ro_meta r"
| "metaOf (RoleBindingObj b) = rb_meta b"
| "metaOf (ClusterRoleObj r) = ro_meta r"
| "metaOf (ClusterRoleBindingObj b) = rb_meta b"
| "metaOf (DeploymentObj d) = dp_meta d"
| "metaOf (ServiceObj s) = sv_meta s"
| "metaOf (CRDObj c) = crd_meta c"
| "metaOf (SecretObj m) = m"
| "metaOf (ConfigMapObj m) = m"

fun mapMeta :: "(objectMeta \<Rightarrow> objectMeta) \<Rightarrow> kobject \<Rightarrow> kobject" where
  "mapMeta f (ServiceAccountObj m) = ServiceAccountObj (f m)"
| "mapMeta f (RoleObj r) = RoleObj (r\<lparr>ro_meta := f (ro_meta r)\<rparr>)"
| "mapMeta f (RoleBindingObj b) = RoleBindingObj (b\<lparr>rb_meta := f (rb_meta b)\<rparr>)"
| "mapMeta f (ClusterRoleObj r) = ClusterRoleObj (r\<lparr>ro_meta := f (ro_meta r)\<rparr>)"
| "mapMeta f (ClusterRoleBindingObj b) = ClusterRoleBindingObj (b\<lparr>rb_meta := f (rb_meta b)\<rparr>)"
| "mapMeta f (DeploymentObj d) = DeploymentObj (d\<lparr>dp_meta := f (dp_meta d)\<rparr>)"
| "mapMeta f (ServiceObj s) = ServiceObj (s\<lparr>sv_meta := f (sv_meta s)\<rparr>)"
| "mapMeta f (CRDObj c) = CRDObj (c\<lparr>crd_meta := f (crd_meta c)\<rparr>)"
| "mapMeta f (SecretObj m) = SecretObj (f m)"
| "mapMeta f (ConfigMapObj m) = ConfigMapObj (f m)"

lemma metaOf_mapMeta [simp]: "metaOf (mapMeta f k) = f (metaOf k)"
  by (cases k) simp_all

subsection \<open>Labels\<close>

text \<open>\<open>WithLabels\<close>: what is already in the first map wins.\<close>

fun WithLabels :: "labels \<Rightarrow> labels \<Rightarrow> labels" where
  "WithLabels ls [] = ls"
| "WithLabels ls ((k, v) # existing) =
     WithLabels (if map_of ls k = None then AList.update k v ls else ls) existing"

lemma map_of_WithLabels [simp]: "map_of (WithLabels ls existing) = map_of existing ++ map_of ls"
  by (induction ls existing rule: WithLabels.induct)
    (auto simp: update_conv map_add_def fun_eq_iff split: option.splits)

text \<open>A pod with the labels \<open>ls\<close> is selected.\<close>

definition selects :: "labels \<Rightarrow> labels \<Rightarrow> bool" where
  "selects sel ls \<longleftrightarrow> list_all (\<lambda>(k, v). map_of ls k = Some v) sel"

lemma selects_map_le: "distinct (map fst sel) \<Longrightarrow> selects sel ls \<longleftrightarrow> map_of sel \<subseteq>\<^sub>m map_of ls"
  by (auto simp: selects_def map_le_def list_all_iff dom_def dest: map_of_SomeD)

record resourceBuilder =
  commonLabels :: labels
  operatorLabels :: labels

definition WithCommonLabels :: "resourceBuilder \<Rightarrow> labels \<Rightarrow> labels" where
  "WithCommonLabels b ls = WithLabels ls (commonLabels b)"

definition WithOperatorLabels :: "resourceBuilder \<Rightarrow> labels \<Rightarrow> labels" where
  "WithOperatorLabels b ls = WithLabels ls (operatorLabels b)"

subsection \<open>rbac.go\<close>

definition rbacMeta :: "string \<Rightarrow> string \<Rightarrow> labels \<Rightarrow> objectMeta" where
  "rbacMeta kind name ls =
     \<lparr>om_apiVersion = ''rbac.authorization.k8s.io/v1'', om_kind = kind, om_name = name,
      om_namespace = [], om_labels = ls\<rparr>"

definition bindingOf :: "string \<Rightarrow> string \<Rightarrow> string \<Rightarrow> string \<Rightarrow> string \<Rightarrow> string \<Rightarrow> labels \<Rightarrow> roleBinding" where
  "bindingOf kind refKind name roleRef serviceAccount serviceAccountNamespace ls =
     \<lparr>rb_meta = rbacMeta kind name ls, rb_refKind = refKind, rb_refName = roleRef,
      rb_refAPIGroup = ''rbac.authorization.k8s.io'',
      rb_subjects = [\<lparr>su_kind = ''ServiceAccount'', su_name = serviceAccount, su_namespace = serviceAccountNamespace\<rparr>]\<rparr>"

definition rb_CreateRole :: "resourceBuilder \<Rightarrow> string \<Rightarrow> policyRule list \<Rightarrow> role" where
  "rb_CreateRole b name rules = \<lparr>ro_meta = rbacMeta ''Role'' name (WithCommonLabels b []), ro_rules = rules\<rparr>"

definition rb_CreateRoleBinding :: "resourceBuilder \<Rightarrow> string \<Rightarrow> string \<Rightarrow> string \<Rightarrow> string \<Rightarrow> roleBinding" where
  "rb_CreateRoleBinding b name roleRef serviceAccount serviceAccountNamespace =
     bindingOf ''RoleBinding'' ''Role'' name roleRef serviceAccount serviceAccountNamespace (WithCommonLabels b [])"

definition sdk_CreateClusterRole :: "string \<Rightarrow> policyRule list \<Rightarrow> labels \<Rightarrow> role" where
  "sdk_CreateClusterRole name rules ls = \<lparr>ro_meta = rbacMeta ''ClusterRole'' name ls, ro_rules = rules\<rparr>"

definition rb_CreateClusterRole :: "resourceBuilder \<Rightarrow> string \<Rightarrow> policyRule list \<Rightarrow> role" where
  "rb_CreateClusterRole b name rules = sdk_CreateClusterRole name rules (WithCommonLabels b [])"

definition rb_CreateOperatorClusterRole :: "resourceBuilder \<Rightarrow> string \<Rightarrow> policyRule list \<Rightarrow> role" where
  "rb_CreateOperatorClusterRole b name rules = sdk_CreateClusterRole name rules (WithOperatorLabels b [])"

definition rb_CreateClusterRoleBinding :: "resourceBuilder \<Rightarrow> string \<Rightarrow> string \<Rightarrow> string \<Rightarrow> string \<Rightarrow> roleBinding" where
  "rb_CreateClusterRoleBinding b name roleRef serviceAccount serviceAccountNamespace =
     bindingOf ''ClusterRoleBinding'' ''ClusterRole'' name roleRef serviceAccount serviceAccountNamespace (WithCommonLabels b [])"

definition rb_CreateOperatorClusterRoleBinding ::
  "resourceBuilder \<Rightarrow> string \<Rightarrow> string \<Rightarrow> string \<Rightarrow> string \<Rightarrow> roleBinding" where
  "rb_CreateOperatorClusterRoleBinding b name roleRef serviceAccount serviceAccountNamespace =
     bindingOf ''ClusterRoleBinding'' ''ClusterRole'' name roleRef serviceAccount serviceAccountNamespace (WithOperatorLabels b [])"

definition rb_CreateServiceAccount :: "resourceBuilder \<Rightarrow> string \<Rightarrow> objectMeta" where
  "rb_CreateServiceAccount b name =
     \<lparr>om_apiVersion = ''v1'', om_kind = ''ServiceAccount'', om_name = name, om_namespace = [],
      om_labels = WithCommonLabels b []\<rparr>"

definition rb_CreateOperatorServiceAccount :: "resourceBuilder \<Rightarrow> string \<Rightarrow> string \<Rightarrow> objectMeta" where
  "rb_CreateOperatorServiceAccount b name namespace =
     \<lparr>om_apiVersion = ''v1'', om_kind = ''ServiceAccount'', om_name = name, om_namespace = namespace,
      om_labels = WithOperatorLabels b []\<rparr>"

subsection \<open>resources.go\<close>

definition sdk_CreateDeployment ::
  "string \<Rightarrow> string \<Rightarrow> labels \<Rightarrow> labels \<Rightarrow> int \<Rightarrow> podSpec \<Rightarrow> string \<Rightarrow> nodePlacement option \<Rightarrow> deployment" where
  "sdk_CreateDeployment name namespace selectorMatchMap ls numReplicas spec serviceAccount infraNodePlacement =
     (let placed = (case infraNodePlacement of
            None \<Rightarrow> spec
          | Some np \<Rightarrow> spec\<lparr>ps_nodeSelector := np_nodeSelector np, ps_tolerations := np_tolerations np,
                          ps_affinity := np_affinity np\<rparr>)
      in \<lparr>dp_meta = \<lparr>om_apiVersion = ''apps/v1'', om_kind = ''Deployment'', om_name = name,
                     om_namespace = namespace, om_labels = ls\<rparr>,
          dp_replicas = numReplicas, dp_selector = selectorMatchMap, dp_templateLabels = ls,
          dp_podSpec = (if serviceAccount \<noteq> [] then placed\<lparr>ps_serviceAccountName := serviceAccount\<rparr> else placed),
          dp_maxUnavailable = None\<rparr>)"

definition rb_CreateDeployment ::
  "resourceBuilder \<Rightarrow> string \<Rightarrow> string \<Rightarrow> string \<Rightarrow> string \<Rightarrow> string \<Rightarrow> int \<Rightarrow> podSpec \<Rightarrow> nodePlacement option \<Rightarrow> deployment" where
  "rb_CreateDeployment b name namespace matchKey matchValue serviceAccount numReplicas spec infraNodePlacement =
     (let finalLabels = WithLabels [(matchKey, matchValue)] (commonLabels b)
      in sdk_CreateDeployment name namespace [(matchKey, matchValue)] finalLabels numReplicas spec serviceAccount infraNodePlacement)"

definition rb_CreateOperatorDeployment ::
  "resourceBuilder \<Rightarrow> string \<Rightarrow> string \<Rightarrow> string \<Rightarrow> string \<Rightarrow> string \<Rightarrow> int \<Rightarrow> podSpec \<Rightarrow> deployment" where
  "rb_CreateOperatorDeployment b name namespace matchKey matchValue serviceAccount numReplicas spec =
     (let ls = WithLabels [(matchKey, matchValue)] (operatorLabels b)
      in sdk_CreateDeployment name namespace ls ls numReplicas spec serviceAccount None)"

definition rb_CreateContainer :: "string \<Rightarrow> string \<Rightarrow> string \<Rightarrow> container" where
  "rb_CreateContainer name img pullPolicy =
     \<lparr>co_name = name, co_image = img, co_imagePullPolicy = pullPolicy, co_ports = [],
      co_terminationMessagePolicy = [], co_terminationMessagePath = [], co_args = [],
      co_securityContext = None, co_env = [], co_readinessProbe = None, co_requests = [], co_volumeMounts = []\<rparr>"

definition rb_CreateService :: "resourceBuilder \<Rightarrow> string \<Rightarrow> string \<Rightarrow> string \<Rightarrow> labels \<Rightarrow> service" where
  "rb_CreateService b name matchKey matchValue additionalLabels =
     \<lparr>sv_meta = \<lparr>om_apiVersion = ''v1'', om_kind = ''Service'', om_name = name, om_namespace = [],
         om_labels = WithLabels [(matchKey, matchValue)] (WithCommonLabels b additionalLabels)\<rparr>,
      sv_selector = [(matchKey, matchValue)], sv_type = [], sv_ports = []\<rparr>"

text \<open>\<open>ValidateGVKs\<close> panics on an object without kind or version.\<close>

definition hasGVK :: "kobject \<Rightarrow> bool" where
  "hasGVK k \<longleftrightarrow> om_apiVersion (metaOf k) \<noteq> [] \<and> om_kind (metaOf k) \<noteq> []"

definition ValidateGVKs :: "kobject list \<Rightarrow> unit option" where
  "ValidateGVKs objects = (if list_all hasGVK objects then Some () else None)"

subsection \<open>The interface of a resource factory\<close>

text \<open>
  The group tables map names to factory functions. A client of such a table relies on two
  things: no factory returns an object \<open>ValidateGVKs\<close> panics on, and every object is of a kind
  its namespace treatment is right for.
\<close>

locale resource_factory =
  fixes factory :: "'a \<Rightarrow> kobject list"
  assumes factory_gvk: "k \<in> set (factory args) \<Longrightarrow> hasGVK k"
begin

lemma factory_validates: "ValidateGVKs [k] = Some ()" if "k \<in> set (factory args)"
  using factory_gvk [OF that] by (simp add: ValidateGVKs_def)

lemma factory_validates_all: "ValidateGVKs (factory args) = Some ()"
  using factory_gvk by (simp add: ValidateGVKs_def list_all_iff)

end

subsection \<open>Authorization\<close>

text \<open>
  What Kubernetes' RBAC authorizer grants (documented behaviour): a rule allows a verb on a
  resource of an API group when it lists each of them, or the wildcard.
\<close>

definition entryMatches :: "string list \<Rightarrow> string \<Rightarrow> bool" where
  "entryMatches xs x \<longleftrightarrow> x \<in> set xs \<or> ''*'' \<in> set xs"

definition rulesAllow :: "policyRule list \<Rightarrow> string \<Rightarrow> string \<Rightarrow> string \<Rightarrow> bool" where
  "rulesAllow rules verb grp res \<longleftrightarrow>
     list_ex (\<lambda>r. entryMatches (pr_verbs r) verb \<and> entryMatches (pr_apiGroups r) grp \<and> entryMatches (pr_resources r) res) rules"

lemma rulesAllow_append [simp]: "rulesAllow (a @ b) v g r \<longleftrightarrow> rulesAllow a v g r \<or> rulesAllow b v g r"
  by (simp add: rulesAllow_def)

text \<open>Every request the second list allows by name is allowed by the first.\<close>

definition rulesCover :: "policyRule list \<Rightarrow> policyRule list \<Rightarrow> bool" where
  "rulesCover as bs \<longleftrightarrow>
     list_all (\<lambda>b. list_all (\<lambda>g. list_all (\<lambda>r. list_all (\<lambda>v. rulesAllow as v g r)
       (pr_verbs b)) (pr_resources b)) (pr_apiGroups b)) bs"

lemma rulesCover_append_left: "rulesCover as cs \<Longrightarrow> rulesCover (as @ bs) cs" "rulesCover bs cs \<Longrightarrow> rulesCover (as @ bs) cs"
  by (simp_all add: rulesCover_def list_all_iff)

lemma rulesCover_refl: "rulesCover as as"
  unfolding rulesCover_def rulesAllow_def entryMatches_def list_all_iff list_ex_iff by blast

definition noWildcard :: "policyRule list \<Rightarrow> bool" where
  "noWildcard rules \<longleftrightarrow> list_all (\<lambda>r. ''*'' \<notin> set (pr_verbs r) \<and> ''*'' \<notin> set (pr_apiGroups r) \<and> ''*'' \<notin> set (pr_resources r)) rules"

lemma rulesCoverD:
  assumes "rulesCover as bs" and "noWildcard bs" and "rulesAllow bs v g r"
  shows "rulesAllow as v g r"
  using assms by (fastforce simp: rulesCover_def noWildcard_def rulesAllow_def entryMatches_def list_all_iff list_ex_iff)

end
