(* ===== verification/ObjectStore.thy ===== *)
theory ObjectStore
  imports KubeTypes "HOL-Library.AList" "HOL-Library.Multiset"
begin

text \<open>
  The store behind an informer (\<open>client-go/tools/cache\<close>): \<open>threadSafeMap\<close> with its secondary indices
  (\<open>thread_safe_store.go\<close>) and the \<open>cache\<close> that computes keys (\<open>store.go\<close>). A Go map is an
  association list, a set of keys a list without repetition. A panic is \<open>None\<close>. What the listers
  rely on is the locale \<open>object_store\<close>, which the store is shown to satisfy.
\<close>

text \<open>What an index function is applied to: a stored object, or bare metadata.\<close>

datatype 'o indexable = Stored 'o | MetaOnly objectMeta

type_synonym 'o indexFunc = "'o indexable \<Rightarrow> string list result"
type_synonym keyIndex = "(string \<times> string list) list"

definition look :: "('k \<times> 'v list) list \<Rightarrow> 'k \<Rightarrow> 'v list" where
  "look m k = (case map_of m k of None \<Rightarrow> [] | Some v \<Rightarrow> v)"

record 'o storeIndex =
  ix_indexers :: "(string \<times> 'o indexFunc) list"
  ix_indices :: "(string \<times> keyIndex) list"

record 'o threadSafeMap =
  tm_items :: "(string \<times> 'o) list"
  tm_index :: "'o storeIndex"

definition addKeyToIndex :: "string \<Rightarrow> string \<Rightarrow> keyIndex \<Rightarrow> keyIndex" where
  "addKeyToIndex key indexValue index = AList.update indexValue (List.insert key (look index indexValue)) index"

definition deleteKeyFromIndex :: "string \<Rightarrow> string \<Rightarrow> keyIndex \<Rightarrow> keyIndex" where
  "deleteKeyFromIndex key indexValue index =
     (case map_of index indexValue of
        None \<Rightarrow> index
      | Some keys \<Rightarrow>
          let keys' = removeAll key keys
          in if keys' = [] then AList.delete indexValue index else AList.update indexValue keys' index)"

definition valuesFor :: "'o indexFunc \<Rightarrow> 'o option \<Rightarrow> string list result" where
  "valuesFor indexFunc obj = (case obj of None \<Rightarrow> Inr [] | Some x \<Rightarrow> indexFunc (Stored x))"

definition updateSingleIndex ::
  "'o option \<Rightarrow> 'o option \<Rightarrow> string \<Rightarrow> string \<Rightarrow> 'o storeIndex \<Rightarrow> 'o storeIndex option" where
  "updateSingleIndex oldObj newObj key name i =
     (case map_of (ix_indexers i) name of
        None \<Rightarrow> None
      | Some indexFunc \<Rightarrow>
          (case (valuesFor indexFunc oldObj, valuesFor indexFunc newObj) of
             (Inr oldIndexValues, Inr indexValues) \<Rightarrow>
               let index = look (ix_indices i) name in
               if length indexValues = 1 \<and> length oldIndexValues = 1 \<and> indexValues ! 0 = oldIndexValues ! 0
               then Some (i\<lparr>ix_indices := AList.update name index (ix_indices i)\<rparr>)
               else Some (i\<lparr>ix_indices := AList.update name
                      (fold (addKeyToIndex key) indexValues (fold (deleteKeyFromIndex key) oldIndexValues index)) (ix_indices i)\<rparr>)
           | _ \<Rightarrow> None))"

fun updateNamed :: "'o option \<Rightarrow> 'o option \<Rightarrow> string \<Rightarrow> string list \<Rightarrow> 'o storeIndex \<Rightarrow> 'o storeIndex option" where
  "updateNamed oldObj newObj key [] i = Some i"
| "updateNamed oldObj newObj key (name # names) i =
     (case updateSingleIndex oldObj newObj key name i of None \<Rightarrow> None | Some i' \<Rightarrow> updateNamed oldObj newObj key names i')"

definition updateIndices :: "'o option \<Rightarrow> 'o option \<Rightarrow> string \<Rightarrow> 'o storeIndex \<Rightarrow> 'o storeIndex option" where
  "updateIndices oldObj newObj key i = updateNamed oldObj newObj key (map fst (ix_indexers i)) i"

definition getKeysFromIndex :: "string \<Rightarrow> 'o indexable \<Rightarrow> 'o storeIndex \<Rightarrow> string list result" where
  "getKeysFromIndex indexName obj i =
     (case map_of (ix_indexers i) indexName of
        None \<Rightarrow> Inl (GoErr (''Index with name '' @ indexName @ '' does not exist''))
      | Some indexFunc \<Rightarrow>
          (case indexFunc obj of
             Inl err \<Rightarrow> Inl err
           | Inr indexedValues \<Rightarrow>
               let index = look (ix_indices i) indexName
               in Inr (if length indexedValues = 1 then look index (indexedValues ! 0)
                       else remdups (concat (map (look index) indexedValues)))))"

definition getKeysByIndex :: "string \<Rightarrow> string \<Rightarrow> 'o storeIndex \<Rightarrow> string list result" where
  "getKeysByIndex indexName indexedValue i =
     (case map_of (ix_indexers i) indexName of
        None \<Rightarrow> Inl (GoErr (''Index with name '' @ indexName @ '' does not exist''))
      | Some indexFunc \<Rightarrow> Inr (look (look (ix_indices i) indexName) indexedValue))"

definition NewThreadSafeStore :: "(string \<times> 'o indexFunc) list \<Rightarrow> (string \<times> keyIndex) list \<Rightarrow> 'o threadSafeMap" where
  "NewThreadSafeStore indexers indices = \<lparr>tm_items = [], tm_index = \<lparr>ix_indexers = indexers, ix_indices = indices\<rparr>\<rparr>"

definition tm_Update :: "string \<Rightarrow> 'o \<Rightarrow> 'o threadSafeMap \<Rightarrow> 'o threadSafeMap option" where
  "tm_Update key obj c =
     (let oldObject = map_of (tm_items c) key; items = AList.update key obj (tm_items c)
      in map_option (\<lambda>i. \<lparr>tm_items = items, tm_index = i\<rparr>) (updateIndices oldObject (Some obj) key (tm_index c)))"

definition tm_Add :: "string \<Rightarrow> 'o \<Rightarrow> 'o threadSafeMap \<Rightarrow> 'o threadSafeMap option" where
  "tm_Add key obj c = tm_Update key obj c"

definition tm_Delete :: "string \<Rightarrow> 'o threadSafeMap \<Rightarrow> 'o threadSafeMap option" where
  "tm_Delete key c =
     (case map_of (tm_items c) key of
        None \<Rightarrow> Some c
      | Some obj \<Rightarrow>
          map_option (\<lambda>i. \<lparr>tm_items = AList.delete key (tm_items c), tm_index = i\<rparr>)
            (updateIndices (Some obj) None key (tm_index c)))"

definition tm_Get :: "string \<Rightarrow> 'o threadSafeMap \<Rightarrow> 'o option" where
  "tm_Get key c = map_of (tm_items c) key"

definition tm_List :: "'o threadSafeMap \<Rightarrow> 'o list" where
  "tm_List c = map snd (tm_items c)"

fun indexAll :: "(string \<times> 'o) list \<Rightarrow> 'o storeIndex \<Rightarrow> 'o storeIndex option" where
  "indexAll [] i = Some i"
| "indexAll ((key, item) # rest) i =
     (case updateIndices None (Some item) key i of None \<Rightarrow> None | Some i' \<Rightarrow> indexAll rest i')"

definition tm_Replace :: "(string \<times> 'o) list \<Rightarrow> 'o threadSafeMap \<Rightarrow> 'o threadSafeMap option" where
  "tm_Replace items c =
     map_option (\<lambda>i. \<lparr>tm_items = items, tm_index = i\<rparr>) (indexAll items ((tm_index c)\<lparr>ix_indices := []\<rparr>))"

definition itemsAt :: "string list \<Rightarrow> 'o threadSafeMap \<Rightarrow> 'o list" where
  "itemsAt keys c = map (\<lambda>key. the (map_of (tm_items c) key)) keys"

definition tm_Index :: "string \<Rightarrow> 'o indexable \<Rightarrow> 'o threadSafeMap \<Rightarrow> 'o list result" where
  "tm_Index indexName obj c =
     (case getKeysFromIndex indexName obj (tm_index c) of Inl err \<Rightarrow> Inl err | Inr keys \<Rightarrow> Inr (itemsAt keys c))"

definition tm_ByIndex :: "string \<Rightarrow> string \<Rightarrow> 'o threadSafeMap \<Rightarrow> 'o list result" where
  "tm_ByIndex indexName indexedValue c =
     (case getKeysByIndex indexName indexedValue (tm_index c) of Inl err \<Rightarrow> Inl err | Inr keys \<Rightarrow> Inr (itemsAt keys c))"

subsection \<open>The cache\<close>

text \<open>
  \<open>meta\<close> is \<open>meta.Accessor\<close>, which knows every API object. A key is \<open>namespace/name\<close>, or the name
  of a cluster-wide object.
\<close>

definition MetaNamespaceKeyFunc :: "objectMeta \<Rightarrow> string" where
  "MetaNamespaceKeyFunc m = (if length (om_namespace m) > 0 then om_namespace m @ ''/'' @ om_name m else om_name m)"

definition MetaNamespaceIndexFunc :: "('o \<Rightarrow> objectMeta) \<Rightarrow> 'o indexFunc" where
  "MetaNamespaceIndexFunc meta obj = Inr [om_namespace (case obj of Stored x \<Rightarrow> meta x | MetaOnly m \<Rightarrow> m)]"

definition cache_Add :: "('o \<Rightarrow> objectMeta) \<Rightarrow> 'o \<Rightarrow> 'o threadSafeMap \<Rightarrow> 'o threadSafeMap option" where
  "cache_Add meta obj c = tm_Add (MetaNamespaceKeyFunc (meta obj)) obj c"

definition cache_Update :: "('o \<Rightarrow> objectMeta) \<Rightarrow> 'o \<Rightarrow> 'o threadSafeMap \<Rightarrow> 'o threadSafeMap option" where
  "cache_Update meta obj c = tm_Update (MetaNamespaceKeyFunc (meta obj)) obj c"

definition cache_Delete :: "('o \<Rightarrow> objectMeta) \<Rightarrow> 'o \<Rightarrow> 'o threadSafeMap \<Rightarrow> 'o threadSafeMap option" where
  "cache_Delete meta obj c = tm_Delete (MetaNamespaceKeyFunc (meta obj)) c"

definition cache_Replace :: "('o \<Rightarrow> objectMeta) \<Rightarrow> 'o list \<Rightarrow> 'o threadSafeMap \<Rightarrow> 'o threadSafeMap option" where
  "cache_Replace meta objs c =
     tm_Replace (fold (\<lambda>item items. AList.update (MetaNamespaceKeyFunc (meta item)) item items) objs []) c"

datatype 'o storeOp = StoreAdd 'o | StoreUpdate 'o | StoreDelete 'o | StoreReplace "'o list"

fun applyStoreOp :: "('o \<Rightarrow> objectMeta) \<Rightarrow> 'o storeOp \<Rightarrow> 'o threadSafeMap \<Rightarrow> 'o threadSafeMap option" where
  "applyStoreOp meta (StoreAdd obj) c = cache_Add meta obj c"
| "applyStoreOp meta (StoreUpdate obj) c = cache_Update meta obj c"
| "applyStoreOp meta (StoreDelete obj) c = cache_Delete meta obj c"
| "applyStoreOp meta (StoreReplace objs) c = cache_Replace meta objs c"

fun storeRun :: "('o \<Rightarrow> objectMeta) \<Rightarrow> 'o storeOp list \<Rightarrow> 'o threadSafeMap \<Rightarrow> 'o threadSafeMap option" where
  "storeRun meta [] c = Some c"
| "storeRun meta (op # ops) c = (case applyStoreOp meta op c of None \<Rightarrow> None | Some c' \<Rightarrow> storeRun meta ops c')"

text \<open>The abstract store: a map from keys to objects.\<close>

fun mapOp :: "('o \<Rightarrow> objectMeta) \<Rightarrow> 'o storeOp \<Rightarrow> (string \<Rightarrow> 'o option) \<Rightarrow> (string \<Rightarrow> 'o option)" where
  "mapOp meta (StoreAdd obj) m = m(MetaNamespaceKeyFunc (meta obj) \<mapsto> obj)"
| "mapOp meta (StoreUpdate obj) m = m(MetaNamespaceKeyFunc (meta obj) \<mapsto> obj)"
| "mapOp meta (StoreDelete obj) m = m(MetaNamespaceKeyFunc (meta obj) := None)"
| "mapOp meta (StoreReplace objs) m = fold (\<lambda>obj m. m(MetaNamespaceKeyFunc (meta obj) \<mapsto> obj)) objs Map.empty"

subsection \<open>Indices\<close>

lemma look_add: "look (addKeyToIndex key v index) v' = (if v' = v then List.insert key (look index v) else look index v')"
  by (simp add: addKeyToIndex_def look_def update_conv')

lemma look_delete: "look (deleteKeyFromIndex key v index) v' = (if v' = v then removeAll key (look index v) else look index v')"
  by (auto simp: deleteKeyFromIndex_def look_def Let_def update_conv' delete_conv' split: option.split)

lemma look_update: "look (AList.update name x m) n = (if n = name then x else look m n)"
  by (simp add: look_def update_conv')

lemma set_look_adds:
  "set (look (fold (addKeyToIndex key) vs index) v) = set (look index v) \<union> (if v \<in> set vs then {key} else {})"
  by (induction vs arbitrary: index) (auto simp: look_add)

lemma set_look_deletes:
  "set (look (fold (deleteKeyFromIndex key) vs index) v) = set (look index v) - (if v \<in> set vs then {key} else {})"
  by (induction vs arbitrary: index) (auto simp: look_delete)

lemma distinct_look_adds: "\<forall>v. distinct (look index v) \<Longrightarrow> distinct (look (fold (addKeyToIndex key) vs index) v)"
  by (induction vs arbitrary: index) (auto simp: look_add)

lemma distinct_look_deletes: "\<forall>v. distinct (look index v) \<Longrightarrow> distinct (look (fold (deleteKeyFromIndex key) vs index) v)"
  by (induction vs arbitrary: index) (auto simp: look_delete distinct_removeAll)

text \<open>An index answers with the keys whose objects have the value.\<close>

definition indexed :: "'o indexFunc \<Rightarrow> (string \<Rightarrow> 'o option) \<Rightarrow> string \<Rightarrow> string set" where
  "indexed f m v = {key. \<exists>obj vs. m key = Some obj \<and> f (Stored obj) = Inr vs \<and> v \<in> set vs}"

definition indexOk :: "'o indexFunc \<Rightarrow> (string \<Rightarrow> 'o option) \<Rightarrow> keyIndex \<Rightarrow> bool" where
  "indexOk f m index \<longleftrightarrow> (\<forall>v. distinct (look index v) \<and> set (look index v) = indexed f m v)"

definition totalIndex :: "'o indexFunc \<Rightarrow> bool" where
  "totalIndex f \<longleftrightarrow> (\<forall>obj. \<exists>vs. f (Stored obj) = Inr vs)"

lemma indexed_upd:
  assumes "valuesFor f (m key) = Inr olds" and "valuesFor f new = Inr news"
  shows "indexed f (m(key := new)) v = (indexed f m v - (if v \<in> set olds then {key} else {})) \<union> (if v \<in> set news then {key} else {})"
  using assms by (auto simp: indexed_def valuesFor_def split: option.splits)

lemma updateSingleIndex_ok:
  assumes "map_of (ix_indexers i) name = Some f" and "totalIndex f" and "indexOk f m (look (ix_indices i) name)"
  shows "\<exists>index. updateSingleIndex (m key) new key name i = Some (i\<lparr>ix_indices := AList.update name index (ix_indices i)\<rparr>) \<and>
    indexOk f (m(key := new)) index"
proof -
  obtain olds where olds: "valuesFor f (m key) = Inr olds"
    using assms(2) by (cases "m key") (auto simp: valuesFor_def totalIndex_def)
  obtain news where news: "valuesFor f new = Inr news"
    using assms(2) by (cases new) (auto simp: valuesFor_def totalIndex_def)
  let ?index = "look (ix_indices i) name"
  let ?index' = "fold (addKeyToIndex key) news (fold (deleteKeyFromIndex key) olds ?index)"
  note upd = indexed_upd [where m = m and key = key, OF olds news]
  show ?thesis
  proof (cases "length news = 1 \<and> length olds = 1 \<and> news ! 0 = olds ! 0")
    case True
    then have same: "news = olds" by (cases news; cases olds) auto
    have "key \<in> indexed f m v" if "v \<in> set olds" for v
      using olds that by (auto simp: indexed_def valuesFor_def split: option.splits)
    then have "indexed f (m(key := new)) v = indexed f m v" for v using upd [of v] same by auto
    then have "indexOk f (m(key := new)) ?index" using assms(3) by (simp add: indexOk_def)
    moreover have "updateSingleIndex (m key) new key name i = Some (i\<lparr>ix_indices := AList.update name ?index (ix_indices i)\<rparr>)"
      using True olds news assms(1) by (simp add: updateSingleIndex_def Let_def)
    ultimately show ?thesis by blast
  next
    case False
    have "indexOk f (m(key := new)) ?index'"
      using assms(3) upd
      by (simp add: indexOk_def set_look_adds set_look_deletes distinct_look_adds distinct_look_deletes)
    moreover have "updateSingleIndex (m key) new key name i = Some (i\<lparr>ix_indices := AList.update name ?index' (ix_indices i)\<rparr>)"
      using False olds news assms(1) by (auto simp: updateSingleIndex_def Let_def)
    ultimately show ?thesis by blast
  qed
qed

definition indicesOk :: "(string \<Rightarrow> 'o option) \<Rightarrow> 'o storeIndex \<Rightarrow> bool" where
  "indicesOk m i \<longleftrightarrow> distinct (map fst (ix_indexers i)) \<and>
     (\<forall>name f. map_of (ix_indexers i) name = Some f \<longrightarrow> totalIndex f \<and> indexOk f m (look (ix_indices i) name))"

lemma updateNamed_ok:
  assumes "distinct names" and "\<forall>name \<in> set names. \<exists>f. map_of (ix_indexers i) name = Some f \<and> totalIndex f \<and> indexOk f m (look (ix_indices i) name)"
  shows "\<exists>i'. updateNamed (m key) new key names i = Some i' \<and> ix_indexers i' = ix_indexers i \<and>
    (\<forall>name. name \<notin> set names \<longrightarrow> look (ix_indices i') name = look (ix_indices i) name) \<and>
    (\<forall>name f. name \<in> set names \<longrightarrow> map_of (ix_indexers i) name = Some f \<longrightarrow> indexOk f (m(key := new)) (look (ix_indices i') name))"
  using assms
proof (induction names arbitrary: i)
  case (Cons name names)
  then obtain f where f: "map_of (ix_indexers i) name = Some f" "totalIndex f" "indexOk f m (look (ix_indices i) name)" by auto
  obtain index where index: "updateSingleIndex (m key) new key name i = Some (i\<lparr>ix_indices := AList.update name index (ix_indices i)\<rparr>)"
    "indexOk f (m(key := new)) index" using updateSingleIndex_ok [OF f] by blast
  let ?i = "i\<lparr>ix_indices := AList.update name index (ix_indices i)\<rparr>"
  have "\<forall>n \<in> set names. \<exists>f. map_of (ix_indexers ?i) n = Some f \<and> totalIndex f \<and> indexOk f m (look (ix_indices ?i) n)"
    using Cons.prems by (auto simp: look_update)
  with Cons.prems(1) obtain i' where i': "updateNamed (m key) new key names ?i = Some i'" "ix_indexers i' = ix_indexers i"
    "\<forall>n. n \<notin> set names \<longrightarrow> look (ix_indices i') n = look (ix_indices ?i) n"
    "\<forall>n f. n \<in> set names \<longrightarrow> map_of (ix_indexers i) n = Some f \<longrightarrow> indexOk f (m(key := new)) (look (ix_indices i') n)"
    using Cons.IH [of ?i] by (auto simp del: fun_upd_apply)
  have "updateNamed (m key) new key (name # names) i = Some i'" using index(1) i'(1) by simp
  then show ?case using i' index(2) f(1) Cons.prems(1) by (intro exI [of _ i']) (auto simp: look_update simp del: fun_upd_apply)
qed simp

lemma updateIndices_ok:
  assumes "indicesOk m i"
  shows "\<exists>i'. updateIndices (m key) new key i = Some i' \<and> indicesOk (m(key := new)) i' \<and> ix_indexers i' = ix_indexers i"
proof -
  have "\<forall>name \<in> set (map fst (ix_indexers i)). \<exists>f. map_of (ix_indexers i) name = Some f \<and> totalIndex f \<and> indexOk f m (look (ix_indices i) name)"
    using assms by (auto simp: indicesOk_def)
  with assms obtain i' where "updateNamed (m key) new key (map fst (ix_indexers i)) i = Some i'" "ix_indexers i' = ix_indexers i"
    "\<forall>name f. name \<in> set (map fst (ix_indexers i)) \<longrightarrow> map_of (ix_indexers i) name = Some f \<longrightarrow> indexOk f (m(key := new)) (look (ix_indices i') name)"
    using updateNamed_ok [of "map fst (ix_indexers i)" i m key new] unfolding indicesOk_def by blast
  then show ?thesis
    using assms by (intro exI [of _ i']) (auto simp: updateIndices_def indicesOk_def dest: map_of_SomeD intro: image_eqI)
qed


lemma indexAll_ok:
  assumes "indicesOk m i" and "distinct (map fst items)" and "\<forall>key \<in> fst ` set items. m key = None"
  shows "\<exists>i'. indexAll items i = Some i' \<and> indicesOk (m ++ map_of items) i' \<and> ix_indexers i' = ix_indexers i"
  using assms
proof (induction items arbitrary: m i)
  case (Cons p items)
  obtain key item where p: "p = (key, item)" by fastforce
  have "m key = None" using Cons.prems(3) p by simp
  then obtain i1 where i1: "updateIndices None (Some item) key i = Some i1" "indicesOk (m(key \<mapsto> item)) i1" "ix_indexers i1 = ix_indexers i"
    using updateIndices_ok [OF Cons.prems(1), of key "Some item"] by auto
  have "\<forall>k \<in> fst ` set items. (m(key \<mapsto> item)) k = None" using Cons.prems(2,3) p by auto
  then obtain i' where i': "indexAll items i1 = Some i'" "indicesOk (m(key \<mapsto> item) ++ map_of items) i'" "ix_indexers i' = ix_indexers i1"
    using Cons.IH [OF i1(2)] Cons.prems(2) by (auto simp del: fun_upd_apply)
  have "map_of items key = None" using Cons.prems(2) p by (auto simp: map_of_eq_None_iff)
  then have "m(key \<mapsto> item) ++ map_of items = m ++ map_of (p # items)"
    using p by (auto simp: map_add_def fun_eq_iff split: option.split)
  then have "indicesOk (m ++ map_of (p # items)) i'" using i'(2) by (simp only:)
  moreover have "indexAll (p # items) i = Some i'" using i1(1) i'(1) p by simp
  moreover have "ix_indexers i' = ix_indexers i" using i1(3) i'(3) by (rule trans [rotated])
  ultimately show ?case by (intro exI [of _ i'] conjI)
qed auto

subsection \<open>The invariant of the store\<close>

definition keyed :: "('o \<Rightarrow> objectMeta) \<Rightarrow> (string \<Rightarrow> 'o option) \<Rightarrow> bool" where
  "keyed meta m \<longleftrightarrow> (\<forall>key obj. m key = Some obj \<longrightarrow> key = MetaNamespaceKeyFunc (meta obj))"

definition storeInv :: "('o \<Rightarrow> objectMeta) \<Rightarrow> 'o threadSafeMap \<Rightarrow> bool" where
  "storeInv meta c \<longleftrightarrow> distinct (map fst (tm_items c)) \<and> keyed meta (map_of (tm_items c)) \<and>
     indicesOk (map_of (tm_items c)) (tm_index c)"

lemma map_of_updates:
  "map_of (fold (\<lambda>item items. AList.update (f item) item items) objs items) = fold (\<lambda>obj m. m(f obj \<mapsto> obj)) objs (map_of items)"
  by (induction objs arbitrary: items) (simp_all add: update_conv')

lemma distinct_updates:
  "distinct (map fst items) \<Longrightarrow> distinct (map fst (fold (\<lambda>item items. AList.update (f item) item items) objs items))"
  by (induction objs arbitrary: items) (simp_all add: distinct_update)

lemma keyed_upd: "keyed meta m \<Longrightarrow> keyed meta (m(MetaNamespaceKeyFunc (meta obj) \<mapsto> obj))"
  by (auto simp: keyed_def)

lemma keyed_updates:
  "keyed meta m \<Longrightarrow> keyed meta (fold (\<lambda>obj m. m(MetaNamespaceKeyFunc (meta obj) \<mapsto> obj)) objs m)"
  by (induction objs arbitrary: m) (simp_all add: keyed_upd del: fun_upd_apply)

lemma indexOk_empty: "indexOk f Map.empty []"
  by (simp add: indexOk_def indexed_def look_def)

lemma indicesOk_empty: "indicesOk m i \<Longrightarrow> indicesOk Map.empty (i\<lparr>ix_indices := []\<rparr>)"
  by (simp add: indicesOk_def look_def indexOk_empty)

lemma update_refines:
  assumes "storeInv meta c"
  shows "\<exists>c'. tm_Update (MetaNamespaceKeyFunc (meta obj)) obj c = Some c' \<and> storeInv meta c' \<and>
    map_of (tm_items c') = (map_of (tm_items c))(MetaNamespaceKeyFunc (meta obj) \<mapsto> obj) \<and> ix_indexers (tm_index c') = ix_indexers (tm_index c)"
proof -
  let ?k = "MetaNamespaceKeyFunc (meta obj)"
  obtain i where i: "updateIndices (map_of (tm_items c) ?k) (Some obj) ?k (tm_index c) = Some i"
    "indicesOk ((map_of (tm_items c))(?k \<mapsto> obj)) i" "ix_indexers i = ix_indexers (tm_index c)"
    using assms updateIndices_ok [of "map_of (tm_items c)" "tm_index c" ?k "Some obj"] by (auto simp: storeInv_def)
  have "keyed meta ((map_of (tm_items c))(?k \<mapsto> obj))" using assms by (simp add: storeInv_def keyed_upd del: fun_upd_apply)
  with i assms show ?thesis
    by (intro exI [of _ "\<lparr>tm_items = AList.update ?k obj (tm_items c), tm_index = i\<rparr>"])
      (simp add: tm_Update_def storeInv_def update_conv' distinct_update)
qed

lemma delete_refines:
  assumes "storeInv meta c"
  shows "\<exists>c'. tm_Delete key c = Some c' \<and> storeInv meta c' \<and>
    map_of (tm_items c') = (map_of (tm_items c))(key := None) \<and> ix_indexers (tm_index c') = ix_indexers (tm_index c)"
proof (cases "map_of (tm_items c) key")
  case None
  then have "(map_of (tm_items c))(key := None) = map_of (tm_items c)" by auto
  with assms None show ?thesis by (simp add: tm_Delete_def)
next
  case (Some obj)
  obtain i where i: "updateIndices (Some obj) None key (tm_index c) = Some i"
    "indicesOk ((map_of (tm_items c))(key := None)) i" "ix_indexers i = ix_indexers (tm_index c)"
    using assms Some updateIndices_ok [of "map_of (tm_items c)" "tm_index c" key None] by (auto simp: storeInv_def)
  have "keyed meta ((map_of (tm_items c))(key := None))" using assms by (simp add: storeInv_def keyed_def)
  with i assms Some show ?thesis
    by (intro exI [of _ "\<lparr>tm_items = AList.delete key (tm_items c), tm_index = i\<rparr>"])
      (simp add: tm_Delete_def storeInv_def delete_conv' distinct_delete)
qed

lemma replace_refines:
  assumes "storeInv meta c"
  shows "\<exists>c'. cache_Replace meta objs c = Some c' \<and> storeInv meta c' \<and>
    map_of (tm_items c') = mapOp meta (StoreReplace objs) (map_of (tm_items c)) \<and> ix_indexers (tm_index c') = ix_indexers (tm_index c)"
proof -
  let ?items = "fold (\<lambda>item items. AList.update (MetaNamespaceKeyFunc (meta item)) item items) objs []"
  have items: "map_of ?items = fold (\<lambda>obj m. m(MetaNamespaceKeyFunc (meta obj) \<mapsto> obj)) objs Map.empty"
    using map_of_updates [of "\<lambda>item. MetaNamespaceKeyFunc (meta item)" objs "[]"] by simp
  have d: "distinct (map fst ?items)" by (simp add: distinct_updates)
  have "indicesOk Map.empty ((tm_index c)\<lparr>ix_indices := []\<rparr>)" using assms by (auto simp: storeInv_def intro: indicesOk_empty)
  then obtain i where "indexAll ?items ((tm_index c)\<lparr>ix_indices := []\<rparr>) = Some i" "indicesOk (map_of ?items) i"
    "ix_indexers i = ix_indexers (tm_index c)"
    using indexAll_ok [OF _ d] by (fastforce simp: map_add_def split: option.splits)
  moreover have "keyed meta (map_of ?items)" unfolding items by (rule keyed_updates) (simp add: keyed_def)
  ultimately show ?thesis using d items
    by (intro exI [of _ "\<lparr>tm_items = ?items, tm_index = i\<rparr>"]) (simp add: cache_Replace_def tm_Replace_def storeInv_def)
qed

lemma op_refines:
  assumes "storeInv meta c"
  shows "\<exists>c'. applyStoreOp meta op c = Some c' \<and> storeInv meta c' \<and> map_of (tm_items c') = mapOp meta op (map_of (tm_items c)) \<and>
    ix_indexers (tm_index c') = ix_indexers (tm_index c)"
  using update_refines [OF assms] delete_refines [OF assms] replace_refines [OF assms]
  by (cases op) (simp_all add: cache_Add_def cache_Update_def cache_Delete_def tm_Add_def)

lemma run_refines:
  assumes "storeInv meta c"
  shows "\<exists>c'. storeRun meta ops c = Some c' \<and> storeInv meta c' \<and>
    map_of (tm_items c') = fold (mapOp meta) ops (map_of (tm_items c)) \<and> ix_indexers (tm_index c') = ix_indexers (tm_index c)"
  using assms
proof (induction ops arbitrary: c)
  case (Cons op ops)
  from op_refines [OF Cons.prems, of op] obtain c1 where c1: "applyStoreOp meta op c = Some c1" "storeInv meta c1"
    "map_of (tm_items c1) = mapOp meta op (map_of (tm_items c))" "ix_indexers (tm_index c1) = ix_indexers (tm_index c)" by blast
  from Cons.IH [OF c1(2)] c1 show ?case by auto
qed simp

lemma storeInv_new:
  assumes "distinct (map fst indexers)" and "\<forall>(name, f) \<in> set indexers. totalIndex f"
  shows "storeInv meta (NewThreadSafeStore indexers [])"
  using assms
  by (auto simp: storeInv_def NewThreadSafeStore_def keyed_def indicesOk_def indexOk_def indexed_def look_def dest: map_of_SomeD)

subsection \<open>What an index answers\<close>

lemma mset_itemsAt:
  assumes "distinct (map fst items)" and "distinct keys" and "set keys = {k. \<exists>obj. map_of items k = Some obj \<and> P obj}"
  shows "mset (map (\<lambda>k. the (map_of items k)) keys) = mset (filter P (map snd items))"
proof -
  let ?ps = "filter (\<lambda>p. P (snd p)) items"
  have "set (map fst ?ps) = set keys" using assms(1,3) by (force simp: map_of_eq_Some_iff)
  moreover have "distinct (map fst ?ps)" using assms(1) by (simp add: distinct_map_filter)
  ultimately have "mset keys = mset (map fst ?ps)" using assms(2) by (metis set_eq_iff_mset_eq_distinct)
  then have "mset (map (\<lambda>k. the (map_of items k)) keys) = mset (map (\<lambda>k. the (map_of items k)) (map fst ?ps))"
    by (simp only: mset_map)
  also have "map (\<lambda>k. the (map_of items k)) (map fst ?ps) = map snd ?ps"
    using assms(1) by (auto simp: map_of_is_SomeI)
  also have "map snd ?ps = filter P (map snd items)" by (simp add: filter_map comp_def)
  finally show ?thesis .
qed

lemma byIndex_answer:
  assumes "storeInv meta c" and "map_of (ix_indexers (tm_index c)) name = Some f"
  shows "\<exists>objs. tm_ByIndex name v c = Inr objs \<and> mset objs = mset (filter (\<lambda>obj. \<exists>vs. f (Stored obj) = Inr vs \<and> v \<in> set vs) (tm_List c))"
proof -
  let ?keys = "look (look (ix_indices (tm_index c)) name) v"
  have "distinct ?keys" "set ?keys = indexed f (map_of (tm_items c)) v"
    using assms by (auto simp: storeInv_def indicesOk_def indexOk_def)
  then have "mset (itemsAt ?keys c) = mset (filter (\<lambda>obj. \<exists>vs. f (Stored obj) = Inr vs \<and> v \<in> set vs) (tm_List c))"
    using assms(1) unfolding itemsAt_def tm_List_def by (intro mset_itemsAt) (auto simp: storeInv_def indexed_def)
  then show ?thesis using assms(2) by (simp add: tm_ByIndex_def getKeysByIndex_def)
qed

end
