(* ===== verification/Utilities.thy ===== *)
theory Utilities
  imports KubeTypes
begin

text \<open>
  \<open>pkg/util\<close>: the namespace a pod runs in, the TLS configuration of the two servers and the
  lookup of KubeVirt's namespace (\<open>util.go\<close>), and the informers of the controller and of the
  servers as what they ask of the API server (\<open>informers.go\<close>). Go's tables of cipher suites,
  the file system and the certificate manager are arguments.
\<close>

subsection \<open>util.go\<close>

definition DefaultPort :: nat where "DefaultPort = 8443"
definition DefaultHost :: string where "DefaultHost = ''0.0.0.0''"
definition DefaultMtqNs :: string where "DefaultMtqNs = ''mtq''"

text \<open>\<open>strings.TrimSpace\<close> on ASCII text.\<close>

definition isSpace :: "char \<Rightarrow> bool" where
  "isSpace c \<longleftrightarrow> c \<in> {CHR 0x09, CHR 0x0A, CHR 0x0B, CHR 0x0C, CHR 0x0D, CHR '' ''}"

definition TrimSpace :: "string \<Rightarrow> string" where
  "TrimSpace s = rev (dropWhile isSpace (rev (dropWhile isSpace s)))"

definition serviceAccountNamespacePath :: string where
  "serviceAccountNamespacePath = ''/var/run/secrets/kubernetes.io/serviceaccount/namespace''"

definition getNamespace :: "(string \<Rightarrow> string result) \<Rightarrow> string \<Rightarrow> string" where
  "getNamespace readFile path =
     (case readFile path of
        Inr data \<Rightarrow> (let ns = TrimSpace data in if length ns > 0 then ns else ''mtq'')
      | Inl err \<Rightarrow> ''mtq'')"

definition GetNamespace :: "(string \<Rightarrow> string result) \<Rightarrow> string" where
  "GetNamespace readFile = getNamespace readFile serviceAccountNamespacePath"

definition VersionTLS10 :: string where "VersionTLS10 = ''VersionTLS10''"
definition VersionTLS11 :: string where "VersionTLS11 = ''VersionTLS11''"
definition VersionTLS12 :: string where "VersionTLS12 = ''VersionTLS12''"
definition VersionTLS13 :: string where "VersionTLS13 = ''VersionTLS13''"

definition TLSVersion :: "string \<Rightarrow> 16 word" where
  "TLSVersion version =
     (if version = VersionTLS10 then 0x0301
      else if version = VersionTLS11 then 0x0302
      else if version = VersionTLS12 then 0x0303
      else if version = VersionTLS13 then 0x0304
      else 0x0303)"

type_synonym suites = "(string \<times> 16 word) list"

text \<open>The later entry of a name wins, and the insecure suites come last.\<close>

definition CipherSuiteNameMap :: "suites \<Rightarrow> suites \<Rightarrow> string \<Rightarrow> 16 word option" where
  "CipherSuiteNameMap secure insecure = map_of (rev (secure @ insecure))"

fun CipherSuiteIds :: "(string \<Rightarrow> 16 word option) \<Rightarrow> string list \<Rightarrow> 16 word list" where
  "CipherSuiteIds idByName [] = []"
| "CipherSuiteIds idByName (name # names) =
     (case idByName name of
        None \<Rightarrow> CipherSuiteIds idByName names
      | Some suite \<Rightarrow> suite # CipherSuiteIds idByName names)"

datatype clientAuthType = NoClientCert | VerifyClientCertIfGiven

record 'c tlsConfig =
  tc_cipherSuites :: "16 word list"
  tc_minVersion :: "16 word"
  tc_certificates :: "'c list"
  tc_clientAuth :: clientAuthType

definition noSrvCertMessage :: string where
  "noSrvCertMessage = ''No server certificate, server is not yet ready to receive traffic''"

text \<open>
  The two callbacks \<open>SetupTLS\<close> installs, on what the certificate manager holds when a client
  says hello.
\<close>

definition GetCertificate :: "'c option \<Rightarrow> 'c result" where
  "GetCertificate current = (case current of None \<Rightarrow> Inl (GoErr noSrvCertMessage) | Some cert \<Rightarrow> Inr cert)"

definition GetConfigForClient :: "suites \<Rightarrow> suites \<Rightarrow> 'c option \<Rightarrow> 'c tlsConfig result" where
  "GetConfigForClient secure insecure current =
     (case current of
        None \<Rightarrow> Inl (GoErr noSrvCertMessage)
      | Some crt \<Rightarrow>
          Inr \<lparr>tc_cipherSuites = CipherSuiteIds (CipherSuiteNameMap secure insecure) [],
               tc_minVersion = TLSVersion VersionTLS12,
               tc_certificates = [crt],
               tc_clientAuth = VerifyClientCertIfGiven\<rparr>)"

text \<open>
  KubeVirt's namespace: \<open>synced\<close> says whether the cache came up, \<open>kvs\<close> are the namespaces of
  the KubeVirt objects in it; \<open>None\<close> is the exit of the process.
\<close>

definition GetKVNS :: "goerror option \<Rightarrow> bool \<Rightarrow> string list \<Rightarrow> string option" where
  "GetKVNS cliErr synced kvs =
     (if cliErr \<noteq> None then None
      else if \<not> synced then None
      else if length kvs \<noteq> 1 then None
      else Some (hd kvs))"

subsection \<open>informers.go\<close>

text \<open>An API group and version, as the REST client of the informer carries it.\<close>

record restClient =
  rc_group :: string
  rc_version :: string

record restRequest =
  rr_client :: restClient
  rr_namespace :: string
  rr_resource :: string
  rr_fieldSelector :: string
  rr_labelSelector :: string
  rr_watch :: bool

text \<open>The options of one call: the informer sets a resource version; the selectors are overwritten.\<close>

record listOptions =
  lo_fieldSelector :: string
  lo_labelSelector :: string
  lo_watch :: bool

record listWatch =
  lw_list :: "listOptions \<Rightarrow> restRequest"
  lw_watch :: "listOptions \<Rightarrow> restRequest"

definition requestOf :: "restClient \<Rightarrow> string \<Rightarrow> string \<Rightarrow> listOptions \<Rightarrow> restRequest" where
  "requestOf c resource namespace o1 =
     \<lparr>rr_client = c, rr_namespace = namespace, rr_resource = resource, rr_fieldSelector = lo_fieldSelector o1,
      rr_labelSelector = lo_labelSelector o1, rr_watch = lo_watch o1\<rparr>"

definition NewListWatchFromClient :: "restClient \<Rightarrow> string \<Rightarrow> string \<Rightarrow> string \<Rightarrow> string \<Rightarrow> listWatch" where
  "NewListWatchFromClient c resource namespace fieldSelector labelSelector =
     \<lparr>lw_list = \<lambda>options. requestOf c resource namespace
        (options\<lparr>lo_fieldSelector := fieldSelector, lo_labelSelector := labelSelector\<rparr>),
      lw_watch = \<lambda>options. requestOf c resource namespace
        (options\<lparr>lo_fieldSelector := fieldSelector, lo_labelSelector := labelSelector, lo_watch := True\<rparr>)\<rparr>"

text \<open>client-go's own \<open>NewListWatchFromClient\<close>, which leaves the label selector of the options alone.\<close>

definition cache_NewListWatchFromClient :: "restClient \<Rightarrow> string \<Rightarrow> string \<Rightarrow> string \<Rightarrow> listWatch" where
  "cache_NewListWatchFromClient c resource namespace fieldSelector =
     \<lparr>lw_list = \<lambda>options. requestOf c resource namespace (options\<lparr>lo_fieldSelector := fieldSelector\<rparr>),
      lw_watch = \<lambda>options. requestOf c resource namespace (options\<lparr>lo_fieldSelector := fieldSelector, lo_watch := True\<rparr>)\<rparr>"

text \<open>The element type, the resync period in seconds and whether there is a namespace index.\<close>

record informer =
  if_listWatch :: listWatch
  if_objType :: string
  if_resync :: nat
  if_nsIndex :: bool

definition NewSharedIndexInformer :: "listWatch \<Rightarrow> string \<Rightarrow> bool \<Rightarrow> informer" where
  "NewSharedIndexInformer lw t indexed = \<lparr>if_listWatch = lw, if_objType = t, if_resync = 3600, if_nsIndex = indexed\<rparr>"

definition coreV1 :: restClient where "coreV1 = \<lparr>rc_group = [], rc_version = ''v1''\<rparr>"
definition kubevirtV1 :: restClient where "kubevirtV1 = \<lparr>rc_group = ''kubevirt.io'', rc_version = ''v1''\<rparr>"
definition mtqV1alpha1 :: restClient where "mtqV1alpha1 = \<lparr>rc_group = ''mtq.kubevirt.io'', rc_version = ''v1alpha1''\<rparr>"
definition apiextensionsV1 :: restClient where
  "apiextensionsV1 = \<lparr>rc_group = ''apiextensions.k8s.io'', rc_version = ''v1''\<rparr>"

definition NamespaceAll :: string where "NamespaceAll = []"
definition everythingSelector :: string where "everythingSelector = []"
definition launcherLabel :: string where "launcherLabel = ''virt-launcher''"
definition kvAppLabel :: string where "kvAppLabel = ''kubevirt.io''"

text \<open>\<open>labels.Parse\<close> of the text built for the launcher pods, printed back.\<close>

definition launcherSelector :: string where
  "launcherSelector = kvAppLabel @ '' in ('' @ launcherLabel @ '')''"

definition GetMigrationInformer :: informer where
  "GetMigrationInformer = NewSharedIndexInformer
     (NewListWatchFromClient kubevirtV1 ''virtualmachineinstancemigrations'' NamespaceAll everythingSelector everythingSelector)
     ''VirtualMachineInstanceMigration'' True"

definition GetVirtualMachineMigrationResourceQuotaInformer :: informer where
  "GetVirtualMachineMigrationResourceQuotaInformer = NewSharedIndexInformer
     (NewListWatchFromClient mtqV1alpha1 ''virtualmachinemigrationresourcequotas'' NamespaceAll everythingSelector everythingSelector)
     ''VirtualMachineMigrationResourceQuota'' True"

definition GetLauncherPodInformer :: informer where
  "GetLauncherPodInformer = NewSharedIndexInformer
     (NewListWatchFromClient coreV1 ''pods'' NamespaceAll everythingSelector launcherSelector) ''Pod'' True"

definition GetSecretInformer :: "string \<Rightarrow> informer" where
  "GetSecretInformer ns = NewSharedIndexInformer
     (NewListWatchFromClient coreV1 ''secrets'' ns everythingSelector everythingSelector) ''Secret'' True"

definition GetVMIInformer :: informer where
  "GetVMIInformer = NewSharedIndexInformer
     (NewListWatchFromClient kubevirtV1 ''virtualmachineinstances'' NamespaceAll everythingSelector everythingSelector)
     ''VirtualMachineInstance'' True"

definition KubeVirtInformer :: informer where
  "KubeVirtInformer = NewSharedIndexInformer
     (NewListWatchFromClient kubevirtV1 ''kubevirts'' NamespaceAll everythingSelector everythingSelector) ''KubeVirt'' True"

definition CRDInformer :: informer where
  "CRDInformer = NewSharedIndexInformer
     (cache_NewListWatchFromClient apiextensionsV1 ''customresourcedefinitions'' NamespaceAll everythingSelector)
     ''CustomResourceDefinition'' False"

definition GetResourceQuotaInformer :: informer where
  "GetResourceQuotaInformer = NewSharedIndexInformer
     (NewListWatchFromClient coreV1 ''resourcequotas'' NamespaceAll everythingSelector everythingSelector) ''ResourceQuota'' True"

definition GetlimitRangeInformer :: informer where
  "GetlimitRangeInformer = NewSharedIndexInformer
     (NewListWatchFromClient coreV1 ''limitranges'' NamespaceAll everythingSelector everythingSelector) ''LimitRange'' True"

definition GetPersistentVolumeClaimInformer :: informer where
  "GetPersistentVolumeClaimInformer = NewSharedIndexInformer
     (cache_NewListWatchFromClient coreV1 ''persistentvolumeclaims'' NamespaceAll everythingSelector) ''PersistentVolumeClaim'' True"

definition GetNamespaceInformer :: informer where
  "GetNamespaceInformer = NewSharedIndexInformer
     (NewListWatchFromClient coreV1 ''namespaces'' NamespaceAll everythingSelector everythingSelector) ''Namespace'' True"

lemmas informers = GetMigrationInformer_def GetVirtualMachineMigrationResourceQuotaInformer_def GetLauncherPodInformer_def
  GetSecretInformer_def GetVMIInformer_def KubeVirtInformer_def CRDInformer_def GetResourceQuotaInformer_def
  GetlimitRangeInformer_def GetPersistentVolumeClaimInformer_def GetNamespaceInformer_def

lemmas informer_parts = NewSharedIndexInformer_def NewListWatchFromClient_def cache_NewListWatchFromClient_def
  requestOf_def coreV1_def kubevirtV1_def mtqV1alpha1_def apiextensionsV1_def NamespaceAll_def

text \<open>A role allows an informer when it allows its list and its watch request.\<close>

definition informerAllowed :: "policyRule list \<Rightarrow> informer \<Rightarrow> bool" where
  "informerAllowed rules i \<longleftrightarrow>
     (let r = lw_list (if_listWatch i) \<lparr>lo_fieldSelector = [], lo_labelSelector = [], lo_watch = False\<rparr>
      in rulesAllow rules ''list'' (rc_group (rr_client r)) (rr_resource r)
         \<and> rulesAllow rules ''watch'' (rc_group (rr_client r)) (rr_resource r))"

subsection \<open>Lemmas\<close>

lemma TrimSpace_idem: "TrimSpace (TrimSpace s) = TrimSpace s"
proof -
  have id: "dropWhile P xs = xs" if "xs = [] \<or> \<not> P (hd xs)" for xs :: "char list" and P
    using that by (cases xs) auto
  let ?t = "dropWhile isSpace s"
  have ends: "dropWhile isSpace (rev ?t) = [] \<or> \<not> isSpace (hd (dropWhile isSpace (rev ?t)))"
    using hd_dropWhile [of isSpace "rev ?t"] by blast
  have starts: "TrimSpace s = [] \<or> \<not> isSpace (hd (TrimSpace s))"
  proof (cases "TrimSpace s")
    case (Cons c cs)
    obtain us where us: "?t = TrimSpace s @ us"
      using takeWhile_dropWhile_id [of isSpace "rev ?t"] unfolding TrimSpace_def by (metis rev_append rev_rev_ident)
    then have "?t \<noteq> []" "hd ?t = c" using Cons by auto
    then show ?thesis using hd_dropWhile [of isSpace s] Cons by simp
  qed simp
  have "TrimSpace (TrimSpace s) = rev (dropWhile isSpace (rev (TrimSpace s)))"
    using starts id [of "TrimSpace s" isSpace] by (simp add: TrimSpace_def)
  also have "rev (TrimSpace s) = dropWhile isSpace (rev ?t)" by (simp add: TrimSpace_def)
  finally show ?thesis using ends id [of "dropWhile isSpace (rev ?t)" isSpace] by (simp add: TrimSpace_def)
qed

lemma CipherSuiteIds_eq: "CipherSuiteIds m names = List.map_filter m names"
  by (induction names) (auto simp: map_filter_simps split: option.splits)

end
