(* ===== verification/GoTime.thy ===== *)
theory GoTime
  imports Prelude "HOL-Library.Word"
begin

text \<open>
  \<open>time.Duration.String\<close> of the Go library, which the certificate manager writes into an
  annotation: \<open>48h0m0s\<close>, \<open>1.5s\<close>, \<open>250ms\<close>. The text identifies the duration
  (\<open>durationString_inj\<close>).
\<close>

subsection \<open>Decimal numbers\<close>

definition digit :: "nat \<Rightarrow> char" where
  "digit n = char_of (48 + n)"

definition isDigit :: "char \<Rightarrow> bool" where
  "isDigit c \<longleftrightarrow> 48 \<le> (of_char c :: nat) \<and> (of_char c :: nat) \<le> 57"

lemma of_char_digit: "n < 10 \<Longrightarrow> of_char (digit n) = 48 + n"
  by (simp add: digit_def)

lemma digit_inj: "m < 10 \<Longrightarrow> n < 10 \<Longrightarrow> digit m = digit n \<longleftrightarrow> m = n"
  by (metis add_left_cancel of_char_digit)

lemma isDigit_digit [simp]: "n < 10 \<Longrightarrow> isDigit (digit n)"
  by (simp add: isDigit_def of_char_digit)

fun fmtInt :: "nat \<Rightarrow> string" where
  "fmtInt n = (if n < 10 then [digit n] else fmtInt (n div 10) @ [digit (n mod 10)])"

declare fmtInt.simps [simp del]

lemma fmtInt_digits: "\<forall>c \<in> set (fmtInt n). isDigit c"
proof (induction n rule: fmtInt.induct)
  case (1 n)
  then show ?case by (cases "n < 10") (auto simp: fmtInt.simps [of n])
qed

lemma fmtInt_nonempty [simp]: "fmtInt n \<noteq> []" "[] \<noteq> fmtInt n"
  by (subst fmtInt.simps, simp)+

lemma fmtInt_inj: "fmtInt m = fmtInt n \<Longrightarrow> m = n"
proof (induction m arbitrary: n rule: fmtInt.induct)
  case (1 m)
  show ?case
  proof (cases "m < 10")
    case True
    with 1(2) show ?thesis
      by (cases "n < 10") (auto simp: fmtInt.simps [of m] fmtInt.simps [of n] digit_inj)
  next
    case False
    with 1(2) have "\<not> n < 10" by (auto simp: fmtInt.simps [of m] fmtInt.simps [of n])
    with False 1(2) have "fmtInt (m div 10) = fmtInt (n div 10)" "m mod 10 = n mod 10"
      by (simp_all add: fmtInt.simps [of m] fmtInt.simps [of n] digit_inj)
    with 1(1) [OF False] have "m div 10 = n div 10" "m mod 10 = n mod 10" by simp_all
    then show ?thesis by (metis div_mult_mod_eq)
  qed
qed

definition notDigit :: "string \<Rightarrow> bool" where
  "notDigit s \<longleftrightarrow> s = [] \<or> \<not> isDigit (hd s)"

lemma takeWhile_digits: "\<forall>c \<in> set ds. isDigit c \<Longrightarrow> notDigit s \<Longrightarrow> takeWhile isDigit (ds @ s) = ds \<and> dropWhile isDigit (ds @ s) = s"
  by (cases s) (auto simp: notDigit_def takeWhile_eq_all_conv dropWhile_append3)

lemma fmtInt_append_inj:
  assumes "fmtInt m @ s = fmtInt n @ t" and "notDigit s" and "notDigit t"
  shows "m = n \<and> s = t"
proof -
  have "fmtInt m = fmtInt n \<and> s = t"
    using takeWhile_digits [OF fmtInt_digits assms(2), of m] takeWhile_digits [OF fmtInt_digits assms(3), of n]
    unfolding assms(1) by metis
  then show ?thesis using fmtInt_inj by blast
qed

subsection \<open>Fractions\<close>

text \<open>The last \<open>prec\<close> digits of a number, and the fraction they make without trailing zeros.\<close>

fun lastDigits :: "nat \<Rightarrow> nat \<Rightarrow> string" where
  "lastDigits 0 v = []"
| "lastDigits (Suc prec) v = lastDigits prec (v div 10) @ [digit (v mod 10)]"

definition trimZeros :: "string \<Rightarrow> string" where
  "trimZeros ds = rev (dropWhile (\<lambda>c. c = digit 0) (rev ds))"

definition fmtFrac :: "nat \<Rightarrow> nat \<Rightarrow> string" where
  "fmtFrac v prec = (let ds = trimZeros (lastDigits prec v) in if ds = [] then [] else CHR ''.'' # ds)"

lemma lastDigits_digits: "\<forall>c \<in> set (lastDigits prec v). isDigit c"
  by (induction prec arbitrary: v) auto

lemma length_lastDigits [simp]: "length (lastDigits prec v) = prec"
  by (induction prec arbitrary: v) auto

lemma mod_ten_power: "v mod (10 * 10 ^ p) = 10 * (v div 10 mod 10 ^ p) + v mod (10::nat)"
  using mod_mult2_eq [of v 10 "10 ^ p"] by simp

lemma lastDigits_inj: "lastDigits prec v = lastDigits prec w \<Longrightarrow> v mod 10 ^ prec = w mod 10 ^ prec"
proof (induction prec arbitrary: v w)
  case (Suc prec)
  then have "v mod 10 = w mod 10" and "lastDigits prec (v div 10) = lastDigits prec (w div 10)"
    by (simp_all add: digit_inj)
  with Suc.IH have "v mod 10 = w mod 10 \<and> v div 10 mod 10 ^ prec = w div 10 mod 10 ^ prec" by blast
  then show ?case unfolding power_Suc mod_ten_power by simp
qed simp

lemma dropWhile_pad: "xs = replicate (length xs - length (dropWhile (\<lambda>c. c = z) xs)) z @ dropWhile (\<lambda>c. c = z) xs"
  by (induction xs) (auto simp: Suc_diff_le length_dropWhile_le)

lemma trimZeros_pad: "ds = trimZeros ds @ replicate (length ds - length (trimZeros ds)) (digit 0)"
  using arg_cong [OF dropWhile_pad [of "rev ds" "digit 0"], of rev]
  by (simp add: trimZeros_def rev_replicate)

lemma trimZeros_digits: "\<forall>c \<in> set ds. isDigit c \<Longrightarrow> \<forall>c \<in> set (trimZeros ds). isDigit c"
  by (auto simp: trimZeros_def dest: set_dropWhileD)

lemma trimZeros_inj:
  assumes "trimZeros a = trimZeros b" and "length a = length b"
  shows "a = b"
  using trimZeros_pad [of a] trimZeros_pad [of b] assms by metis

lemma fracDigits_inj:
  assumes "trimZeros (lastDigits prec v) = trimZeros (lastDigits prec w)"
  shows "v mod 10 ^ prec = w mod 10 ^ prec"
  by (rule lastDigits_inj [OF trimZeros_inj [OF assms]]) simp

lemma notDigit_fmtFrac: "\<not> isDigit c \<Longrightarrow> notDigit (fmtFrac v p @ c # r)"
  by (cases "trimZeros (lastDigits p v)") (simp_all add: fmtFrac_def notDigit_def isDigit_def)

lemma number_inj:
  assumes eq: "fmtInt a @ fmtFrac v p @ c # r = fmtInt b @ fmtFrac w q @ d # t"
    and c: "\<not> isDigit c" "c \<noteq> CHR ''.''" and d: "\<not> isDigit d" "d \<noteq> CHR ''.''"
  shows "a = b \<and> trimZeros (lastDigits p v) = trimZeros (lastDigits q w) \<and> c # r = d # t"
proof -
  have "notDigit (fmtFrac v p @ c # r)" "notDigit (fmtFrac w q @ d # t)"
    using notDigit_fmtFrac c(1) d(1) by blast+
  then have ab: "a = b" and rest: "fmtFrac v p @ c # r = fmtFrac w q @ d # t"
    using fmtInt_append_inj [OF eq] by blast+
  let ?x = "trimZeros (lastDigits p v)" and ?y = "trimZeros (lastDigits q w)"
  have "?x @ c # r = ?y @ d # t"
    using rest c(2) d(2) by (cases "?x = []"; cases "?y = []") (simp_all add: fmtFrac_def Let_def)
  moreover have "takeWhile isDigit (?x @ c # r) = ?x" "dropWhile isDigit (?x @ c # r) = c # r"
    using takeWhile_digits [OF trimZeros_digits [OF lastDigits_digits], of "c # r" p v] c by (simp_all add: notDigit_def)
  moreover have "takeWhile isDigit (?y @ d # t) = ?y" "dropWhile isDigit (?y @ d # t) = d # t"
    using takeWhile_digits [OF trimZeros_digits [OF lastDigits_digits], of "d # t" q w] d by (simp_all add: notDigit_def)
  ultimately show ?thesis using ab by metis
qed

subsection \<open>Durations\<close>

text \<open>The absolute value \<open>u\<close>, in the largest unit below a second, or in hours, minutes and seconds.\<close>

definition secsString :: "nat \<Rightarrow> string" where
  "secsString u = fmtInt (u div 10 ^ 9 mod 60) @ fmtFrac u 9 @ ''s''"

definition minsString :: "nat \<Rightarrow> string" where
  "minsString u = fmtInt (u div 10 ^ 9 div 60 mod 60) @ ''m'' @ secsString u"

definition unsignedString :: "nat \<Rightarrow> string" where
  "unsignedString u =
     (if u < 10 ^ 9 then
        if u = 0 then ''0s''
        else if u < 10 ^ 3 then fmtInt u @ ''ns''
        else if u < 10 ^ 6 then fmtInt (u div 10 ^ 3) @ fmtFrac u 3 @ [CHR 0xC2, CHR 0xB5, CHR ''s'']
        else fmtInt (u div 10 ^ 6) @ fmtFrac u 6 @ ''ms''
      else if u div 10 ^ 9 div 60 = 0 then secsString u
      else if u div 10 ^ 9 div 60 div 60 = 0 then minsString u
      else fmtInt (u div 10 ^ 9 div 60 div 60) @ ''h'' @ minsString u)"

definition durationString :: "64 word \<Rightarrow> string" where
  "durationString d = (if sint d < 0 then CHR ''-'' # unsignedString (nat (- sint d)) else unsignedString (nat (sint d)))"

text \<open>The leading number, the digits of its fraction, and the unit with what follows it.\<close>

definition leadOf :: "nat \<Rightarrow> nat \<times> nat \<times> char \<times> string" where
  "leadOf u =
     (if u < 10 ^ 9 then
        if u = 0 then (0, 0, CHR ''s'', [])
        else if u < 10 ^ 3 then (u, 0, CHR ''n'', ''s'')
        else if u < 10 ^ 6 then (u div 10 ^ 3, 3, CHR 0xC2, [CHR 0xB5, CHR ''s''])
        else (u div 10 ^ 6, 6, CHR ''m'', ''s'')
      else if u div 10 ^ 9 div 60 = 0 then (u div 10 ^ 9 mod 60, 9, CHR ''s'', [])
      else if u div 10 ^ 9 div 60 div 60 = 0 then (u div 10 ^ 9 div 60 mod 60, 0, CHR ''m'', secsString u)
      else (u div 10 ^ 9 div 60 div 60, 0, CHR ''h'', minsString u))"

lemma fmtFrac_0 [simp]: "fmtFrac v 0 = []"
  by (simp add: fmtFrac_def trimZeros_def)

lemma fmtInt_0 [simp]: "fmtInt 0 = ''0''"
  by code_simp

lemma unsignedString_lead:
  "unsignedString u = (case leadOf u of (a, p, c, r) \<Rightarrow> fmtInt a @ fmtFrac u p @ c # r)"
  by (simp add: unsignedString_def leadOf_def secsString_def minsString_def)

lemma leadOf_unit: "leadOf u = (a, p, c, r) \<Longrightarrow> \<not> isDigit c \<and> c \<noteq> CHR ''.''"
  by (auto simp: leadOf_def isDigit_def split: if_splits)

lemma units [simp]: "\<not> isDigit (CHR ''s'')" "\<not> isDigit (CHR ''m'')" "\<not> isDigit (CHR ''h'')" "\<not> isDigit (CHR ''-'')"
  by (simp_all add: isDigit_def)

lemma secsString_inj:
  assumes "secsString u = secsString v"
  shows "u div 10 ^ 9 mod 60 = v div 10 ^ 9 mod 60 \<and> u mod 10 ^ 9 = v mod 10 ^ 9"
  using number_inj [OF assms [unfolded secsString_def]] fracDigits_inj [of 9 u v] by simp

lemma minsString_inj:
  assumes "minsString u = minsString v"
  shows "u div 10 ^ 9 div 60 mod 60 = v div 10 ^ 9 div 60 mod 60 \<and> secsString u = secsString v"
proof -
  have "fmtInt (u div 10 ^ 9 div 60 mod 60) @ fmtFrac u 0 @ CHR ''m'' # secsString u =
      fmtInt (v div 10 ^ 9 div 60 mod 60) @ fmtFrac v 0 @ CHR ''m'' # secsString v"
    using assms by (simp add: minsString_def)
  from number_inj [OF this] show ?thesis by simp
qed

lemma fmtInt_Cons: "\<exists>c s. fmtInt n = c # s \<and> isDigit c"
  using fmtInt_digits [of n] by (cases "fmtInt n") auto

lemma secsString_not_unit: "secsString u \<noteq> ''s''"
  using fmtInt_Cons [of "u div 10 ^ 9 mod 60"] by (auto simp: secsString_def)

text \<open>Which of the seven forms the text of \<open>u\<close> has.\<close>

lemma leadOf_cases:
  assumes "leadOf u = (a, p, c, r)"
  obtains (zero) "u = 0" "a = 0" "c = CHR ''s''" "r = []"
  | (nano) "a = u" "c = CHR ''n''"
  | (micro) "u < 10 ^ 6" "a = u div 10 ^ 3" "p = 3" "c = CHR 0xC2"
  | (milli) "u < 10 ^ 9" "a = u div 10 ^ 6" "p = 6" "c = CHR ''m''" "r = ''s''"
  | (sec) "10 ^ 9 \<le> u" "a = u div 10 ^ 9" "p = 9" "c = CHR ''s''" "r = []"
  | (mins) "a = u div 10 ^ 9 div 60" "c = CHR ''m''" "r = secsString u"
  | (hours) "a = u div 10 ^ 9 div 60 div 60" "c = CHR ''h''" "r = minsString u"
proof -
  have "u div 10 ^ 9 mod 60 = u div 10 ^ 9" if "u div 10 ^ 9 div 60 = 0" using that by simp
  moreover have "u div 10 ^ 9 div 60 mod 60 = u div 10 ^ 9 div 60" if "u div 10 ^ 9 div 60 div 60 = 0"
    using that by simp
  ultimately show thesis
    using assms that unfolding leadOf_def by (auto split: if_splits)
qed

lemma split_nat: "u div k = v div k \<Longrightarrow> u mod k = v mod k \<Longrightarrow> u = (v::nat)"
  by (metis div_mult_mod_eq)

lemma split_secs:
  fixes u v :: nat
  assumes "u div 1000000000 div 60 = v div 1000000000 div 60"
    and "u div 1000000000 mod 60 = v div 1000000000 mod 60" and "u mod 1000000000 = v mod 1000000000"
  shows "u = v"
  using split_nat [OF split_nat [OF assms(1,2)] assms(3)] .

lemma split_mins:
  fixes u v :: nat
  assumes "u div 1000000000 div 60 div 60 = v div 1000000000 div 60 div 60"
    and "u div 1000000000 div 60 mod 60 = v div 1000000000 div 60 mod 60"
    and "u div 1000000000 mod 60 = v div 1000000000 mod 60" and "u mod 1000000000 = v mod 1000000000"
  shows "u = v"
  using split_secs [OF split_nat [OF assms(1,2)] assms(3,4)] .

lemma leadOf_inj:
  assumes u: "leadOf u = (a, p, c, r)" and v: "leadOf v = (a, q, c, r)"
    and frac: "trimZeros (lastDigits p u) = trimZeros (lastDigits q v)"
  shows "u = v"
  using u
proof (cases rule: leadOf_cases)
  case zero
  from v zero show ?thesis by (cases rule: leadOf_cases) auto
next
  case nano
  from v nano show ?thesis by (cases rule: leadOf_cases) auto
next
  case micro
  from v micro show ?thesis using frac fracDigits_inj [of 3 u v]
    by (cases rule: leadOf_cases) (auto intro: split_nat [of u "10 ^ 3"])
next
  case milli
  from v milli show ?thesis using frac fracDigits_inj [of 6 u v] secsString_not_unit [of v]
    by (cases rule: leadOf_cases) (auto intro: split_nat [of u "10 ^ 6"])
next
  case sec
  from v sec show ?thesis using frac fracDigits_inj [of 9 u v]
    by (cases rule: leadOf_cases) (auto intro: split_nat [of u "10 ^ 9"])
next
  case mins
  from v mins show ?thesis using secsString_inj [of u v] secsString_not_unit [of u]
    by (cases rule: leadOf_cases) (auto intro: split_secs)
next
  case hours
  from v hours show ?thesis using minsString_inj [of u v] secsString_inj [of u v]
    by (cases rule: leadOf_cases)
      (auto intro: split_mins)
qed

lemma unsignedString_inj:
  assumes "unsignedString u = unsignedString v"
  shows "u = v"
proof -
  obtain a p c r b q d t where l: "leadOf u = (a, p, c, r)" "leadOf v = (b, q, d, t)"
    by (metis prod_cases4)
  have "fmtInt a @ fmtFrac u p @ c # r = fmtInt b @ fmtFrac v q @ d # t"
    using assms l by (simp add: unsignedString_lead)
  then have "a = b \<and> trimZeros (lastDigits p u) = trimZeros (lastDigits q v) \<and> c # r = d # t"
    by (rule number_inj) (use leadOf_unit [OF l(1)] leadOf_unit [OF l(2)] in blast)+
  then show ?thesis using leadOf_inj l by simp
qed

lemma unsignedString_Cons: "\<exists>c s. unsignedString u = c # s \<and> isDigit c"
proof -
  obtain a p c r where "leadOf u = (a, p, c, r)" by (metis prod_cases4)
  then show ?thesis using fmtInt_Cons [of a] by (auto simp: unsignedString_lead)
qed

theorem durationString_inj: "durationString d = durationString e \<longleftrightarrow> d = e"
proof
  assume eq: "durationString d = durationString e"
  have "sint d < 0 \<longleftrightarrow> sint e < 0"
    using eq unsignedString_Cons [of "nat (sint d)"] unsignedString_Cons [of "nat (sint e)"]
    by (auto simp: durationString_def split: if_splits)
  with eq have "sint d = sint e"
    by (auto simp: durationString_def split: if_splits dest: unsignedString_inj)
  then show "d = e" by (rule signed_word_eqI)
qed simp

end
