(* ===== verification/RestRequest.thy ===== *)
theory RestRequest
  imports Utilities GoTime
begin

text \<open>
  From a client call to what the API server understands of it. The clients build their requests
  with client-go (\<open>vendor/k8s.io/client-go/rest/request.go\<close>, \<open>client.go\<close>, \<open>url_utils.go\<close>); the
  server reads verb, group, resource, namespace and name back from the method, the path and the
  query (\<open>vendor/k8s.io/apiserver/pkg/endpoints/request/requestinfo.go\<close>). Paths travel unchanged:
  escaping belongs to the transport. The builder's \<open>subpath\<close>, which no caller here sets, headers
  other than the content type, retries and throttling are left out.
\<close>

subsection \<open>path.Clean and path.Join\<close>

abbreviation slash :: char where "slash \<equiv> CHR ''/''"

fun cleanSegs :: "bool \<Rightarrow> string list \<Rightarrow> string list \<Rightarrow> string list" where
  "cleanSegs rooted acc [] = rev acc"
| "cleanSegs rooted acc (s # ss) =
     (if s = [] \<or> s = ''.'' then cleanSegs rooted acc ss
      else if s = ''..'' then
        (case acc of
           [] \<Rightarrow> cleanSegs rooted (if rooted then [] else [''..'']) ss
         | a # as \<Rightarrow> if a = ''..'' then cleanSegs rooted (''..'' # acc) ss else cleanSegs rooted as ss)
      else cleanSegs rooted (s # acc) ss)"

definition pathClean :: "string \<Rightarrow> string" where
  "pathClean p =
     (if p = [] then ''.''
      else let segs = cleanSegs (hd p = slash) [] (splitOn slash p)
           in if hd p = slash then slash # joinWith slash segs
              else if segs = [] then ''.'' else joinWith slash segs)"

definition pathJoin :: "string list \<Rightarrow> string" where
  "pathJoin elems =
     (let es = dropWhile (\<lambda>e. e = []) elems in if es = [] then [] else pathClean (joinWith slash es))"

text \<open>\<open>strings.Trim(s, "/")\<close> and \<open>strings.ToLower\<close> on ASCII text.\<close>

definition trimSlash :: "string \<Rightarrow> string" where
  "trimSlash s = rev (dropWhile (\<lambda>c. c = slash) (rev (dropWhile (\<lambda>c. c = slash) s)))"

definition toLower :: "char \<Rightarrow> char" where
  "toLower c = (if 65 \<le> (of_char c :: nat) \<and> (of_char c :: nat) \<le> 90 then char_of (of_char c + 32 :: nat) else c)"

definition ToLower :: "string \<Rightarrow> string" where
  "ToLower = map toLower"

subsection \<open>Path segments\<close>

definition NameMayNotBe :: "string list" where "NameMayNotBe = [''.'', ''..'']"
definition NameMayNotContain :: "string list" where "NameMayNotContain = [''/'', ''%'']"

text \<open>The complaints about a name; none means that it is valid. Their wording is shortened.\<close>

definition IsValidPathSegmentName :: "string \<Rightarrow> string list" where
  "IsValidPathSegmentName name =
     (if name \<in> set NameMayNotBe then [''may not be '' @ name]
      else map (\<lambda>s. ''may not contain '' @ s) (filter (strContains name) NameMayNotContain))"

subsection \<open>The request builder\<close>

text \<open>
  The client: the path of the server's base URL, the path of the API version, the timeout of the
  HTTP client. Query parameters are a list; a key may repeat.
\<close>

record restEndpoint =
  rest_base :: string
  rest_versionedAPIPath :: string
  rest_timeout :: "64 word"

type_synonym urlValues = "(string \<times> string) list"

record 'b restReq =
  rqst_verb :: string
  rqst_pathPrefix :: string
  rqst_namespace :: string
  rqst_namespaceSet :: bool
  rqst_resource :: string
  rqst_resourceName :: string
  rqst_subresource :: string
  rqst_params :: urlValues
  rqst_timeout :: "64 word"
  rqst_contentType :: string
  rqst_body :: "'b option"
  rqst_err :: "goerror option"

definition DefaultVersionedAPIPath :: "string \<Rightarrow> restClient \<Rightarrow> string" where
  "DefaultVersionedAPIPath apiPath gv =
     (let versioned = pathJoin [''/'', apiPath]
      in if length (rc_group gv) > 0 then pathJoin [versioned, rc_group gv, rc_version gv]
         else pathJoin [versioned, rc_version gv])"

definition NewRESTClient :: "string \<Rightarrow> string \<Rightarrow> 64 word \<Rightarrow> restEndpoint" where
  "NewRESTClient basePath versionedAPIPath timeout =
     \<lparr>rest_base = (if basePath \<noteq> [] \<and> last basePath = slash then basePath else basePath @ ''/''),
      rest_versionedAPIPath = versionedAPIPath, rest_timeout = timeout\<rparr>"

definition NewRequest :: "restEndpoint \<Rightarrow> string \<Rightarrow> 'b restReq" where
  "NewRequest c verb =
     \<lparr>rqst_verb = verb, rqst_pathPrefix = pathJoin [''/'', rest_base c, rest_versionedAPIPath c],
      rqst_namespace = [], rqst_namespaceSet = False, rqst_resource = [], rqst_resourceName = [],
      rqst_subresource = [], rqst_params = [], rqst_timeout = rest_timeout c, rqst_contentType = [],
      rqst_body = None, rqst_err = None\<rparr>"

definition rest_Get :: "restEndpoint \<Rightarrow> 'b restReq" where "rest_Get c = NewRequest c ''GET''"
definition rest_Post :: "restEndpoint \<Rightarrow> 'b restReq" where "rest_Post c = NewRequest c ''POST''"
definition rest_Put :: "restEndpoint \<Rightarrow> 'b restReq" where "rest_Put c = NewRequest c ''PUT''"
definition rest_Delete :: "restEndpoint \<Rightarrow> 'b restReq" where "rest_Delete c = NewRequest c ''DELETE''"
definition rest_Patch :: "restEndpoint \<Rightarrow> string \<Rightarrow> 'b restReq" where
  "rest_Patch c pt = (NewRequest c ''PATCH'')\<lparr>rqst_contentType := pt\<rparr>"

text \<open>Every step leaves a request alone once it has an error.\<close>

definition onRequest :: "('b restReq \<Rightarrow> 'b restReq) \<Rightarrow> 'b restReq \<Rightarrow> 'b restReq" where
  "onRequest f r = (if rqst_err r \<noteq> None then r else f r)"

definition failRequest :: "string \<Rightarrow> 'b restReq \<Rightarrow> 'b restReq" where
  "failRequest msg r = r\<lparr>rqst_err := Some (GoErr msg)\<rparr>"

definition req_Namespace :: "string \<Rightarrow> 'b restReq \<Rightarrow> 'b restReq" where
  "req_Namespace namespace = onRequest (\<lambda>r.
     if rqst_namespaceSet r then failRequest ''namespace already set'' r
     else if length (IsValidPathSegmentName namespace) \<noteq> 0 then failRequest ''invalid namespace'' r
     else r\<lparr>rqst_namespaceSet := True, rqst_namespace := namespace\<rparr>)"

definition req_Resource :: "string \<Rightarrow> 'b restReq \<Rightarrow> 'b restReq" where
  "req_Resource resource = onRequest (\<lambda>r.
     if length (rqst_resource r) \<noteq> 0 then failRequest ''resource already set'' r
     else if length (IsValidPathSegmentName resource) \<noteq> 0 then failRequest ''invalid resource'' r
     else r\<lparr>rqst_resource := resource\<rparr>)"

definition req_Name :: "string \<Rightarrow> 'b restReq \<Rightarrow> 'b restReq" where
  "req_Name resourceName = onRequest (\<lambda>r.
     if length resourceName = 0 then failRequest ''resource name may not be empty'' r
     else if length (rqst_resourceName r) \<noteq> 0 then failRequest ''resource name already set'' r
     else if length (IsValidPathSegmentName resourceName) \<noteq> 0 then failRequest ''invalid resource name'' r
     else r\<lparr>rqst_resourceName := resourceName\<rparr>)"

definition req_SubResource :: "string list \<Rightarrow> 'b restReq \<Rightarrow> 'b restReq" where
  "req_SubResource subresources = onRequest (\<lambda>r.
     let subresource = pathJoin subresources
     in if length (rqst_subresource r) \<noteq> 0 then failRequest ''subresource already set'' r
        else if list_ex (\<lambda>s. length (IsValidPathSegmentName s) \<noteq> 0) subresources then failRequest ''invalid subresource'' r
        else r\<lparr>rqst_subresource := subresource\<rparr>)"

text \<open>The parameters are those the codec made of the options.\<close>

definition req_VersionedParams :: "urlValues \<Rightarrow> 'b restReq \<Rightarrow> 'b restReq" where
  "req_VersionedParams params = onRequest (\<lambda>r. r\<lparr>rqst_params := rqst_params r @ params\<rparr>)"

definition req_Timeout :: "64 word \<Rightarrow> 'b restReq \<Rightarrow> 'b restReq" where
  "req_Timeout d = onRequest (\<lambda>r. r\<lparr>rqst_timeout := d\<rparr>)"

text \<open>An API object, which the client's JSON encoder writes, or raw bytes.\<close>

definition req_Object :: "'b \<Rightarrow> 'b restReq \<Rightarrow> 'b restReq" where
  "req_Object obj = onRequest (\<lambda>r. r\<lparr>rqst_body := Some obj, rqst_contentType := ''application/json''\<rparr>)"

definition req_Bytes :: "'b \<Rightarrow> 'b restReq \<Rightarrow> 'b restReq" where
  "req_Bytes data = onRequest (\<lambda>r. r\<lparr>rqst_body := Some data\<rparr>)"

subsection \<open>Sending\<close>

record 'b httpReq =
  hr_method :: string
  hr_path :: string
  hr_query :: urlValues
  hr_contentType :: string
  hr_body :: "'b option"

definition requestPath :: "'b restReq \<Rightarrow> string" where
  "requestPath r =
     (let p0 = rqst_pathPrefix r;
          p1 = (if rqst_namespaceSet r \<and> length (rqst_namespace r) > 0 then pathJoin [p0, ''namespaces'', rqst_namespace r] else p0);
          p2 = (if length (rqst_resource r) \<noteq> 0 then pathJoin [p1, ToLower (rqst_resource r)] else p1)
      in if length (rqst_resourceName r) \<noteq> 0 \<or> length (rqst_subresource r) \<noteq> 0
         then pathJoin [p2, rqst_resourceName r, rqst_subresource r, []] else p2)"

definition requestQuery :: "'b restReq \<Rightarrow> urlValues" where
  "requestQuery r =
     (if rqst_timeout r \<noteq> 0
      then filter (\<lambda>p. fst p \<noteq> ''timeout'') (rqst_params r) @ [(''timeout'', durationString (rqst_timeout r))]
      else rqst_params r)"

definition requestPreflightCheck :: "'b restReq \<Rightarrow> goerror option" where
  "requestPreflightCheck r =
     (if \<not> rqst_namespaceSet r then None
      else if length (rqst_namespace r) > 0 then None
      else if rqst_verb r = ''POST'' then Some (GoErr ''an empty namespace may not be set during creation'')
      else if rqst_verb r \<in> {''GET'', ''PUT'', ''DELETE''} \<and> length (rqst_resourceName r) > 0
        then Some (GoErr ''an empty namespace may not be set when a resource name is provided'')
      else None)"

definition newHTTPRequest :: "'b restReq \<Rightarrow> 'b httpReq" where
  "newHTTPRequest r =
     \<lparr>hr_method = rqst_verb r, hr_path = requestPath r, hr_query = requestQuery r,
      hr_contentType = rqst_contentType r, hr_body = rqst_body r\<rparr>"

text \<open>What \<open>Do\<close> and \<open>Watch\<close> send; \<open>Watch\<close> has no preflight check.\<close>

definition req_Do :: "'b restReq \<Rightarrow> 'b httpReq result" where
  "req_Do r =
     (case rqst_err r of
        Some err \<Rightarrow> Inl err
      | None \<Rightarrow> (case requestPreflightCheck r of Some err \<Rightarrow> Inl err | None \<Rightarrow> Inr (newHTTPRequest r)))"

definition req_Watch :: "'b restReq \<Rightarrow> 'b httpReq result" where
  "req_Watch r = (case rqst_err r of Some err \<Rightarrow> Inl err | None \<Rightarrow> Inr (newHTTPRequest r))"

end
