(* ===== verification/RequestInfo.thy ===== *)
theory RequestInfo
  imports RestRequest
begin

text \<open>
  What the API server makes of a request before it authorises it: \<open>NewRequestInfo\<close>
  (\<open>vendor/k8s.io/apiserver/pkg/endpoints/request/requestinfo.go\<close>), with the lemmas that carry
  the round trip: joined paths split into the segments they were made of, and the builder's
  request is parsed into what was put in (\<open>serverView_roundtrip\<close>).
\<close>

subsection \<open>NewRequestInfo\<close>

record requestInfo =
  ri_isResourceRequest :: bool
  ri_path :: string
  ri_verb :: string
  ri_apiPrefix :: string
  ri_apiGroup :: string
  ri_apiVersion :: string
  ri_namespace :: string
  ri_resource :: string
  ri_subresource :: string
  ri_name :: string
  ri_parts :: "string list"

definition specialVerbs :: "string list" where "specialVerbs = [''proxy'', ''watch'']"
definition specialVerbsNoSubresources :: "string list" where "specialVerbsNoSubresources = [''proxy'']"
definition namespaceSubresources :: "string list" where "namespaceSubresources = [''status'', ''finalize'']"

text \<open>The prefixes the API server is configured with.\<close>

definition apiPrefixes :: "string list" where "apiPrefixes = [''apis'', ''api'']"
definition grouplessAPIPrefixes :: "string list" where "grouplessAPIPrefixes = [''api'']"

definition splitPath :: "string \<Rightarrow> string list" where
  "splitPath path = (let path = trimSlash path in if path = [] then [] else splitOn slash path)"

definition valuesOf :: "string \<Rightarrow> urlValues \<Rightarrow> string list" where
  "valuesOf key query = map snd (filter (\<lambda>p. fst p = key) query)"

definition Convert_Slice_string_To_bool :: "string list \<Rightarrow> bool" where
  "Convert_Slice_string_To_bool values =
     (case values of [] \<Rightarrow> False | v # _ \<Rightarrow> \<not> (v = ''0'' \<or> ToLower v = ''false''))"

text \<open>
  The list options of a query. \<open>decodeSelector\<close> is the rest of the decoder: it fails when the
  query does not parse, or gives the name that the field selector pins \<open>metadata.name\<close> to.
\<close>

definition listOptionsOf :: "(urlValues \<Rightarrow> string option result) \<Rightarrow> urlValues \<Rightarrow> bool \<times> string option" where
  "listOptionsOf decodeSelector query =
     (case decodeSelector query of
        Inl err \<Rightarrow>
          ((case valuesOf ''watch'' query of
              [] \<Rightarrow> False
            | v # _ \<Rightarrow> (if ToLower v = ''false'' \<or> ToLower v = ''0'' then False else True)), None)
      | Inr name \<Rightarrow> (Convert_Slice_string_To_bool (valuesOf ''watch'' query), name))"

definition methodVerb :: "string \<Rightarrow> string" where
  "methodVerb method =
     (if method = ''POST'' then ''create''
      else if method = ''GET'' \<or> method = ''HEAD'' then ''get''
      else if method = ''PUT'' then ''update''
      else if method = ''PATCH'' then ''patch''
      else if method = ''DELETE'' then ''delete''
      else [])"

text \<open>From the parts on: the namespace, then resource, name and subresource, then the final verb.\<close>

definition resourceParts :: "string list \<Rightarrow> string list" where
  "resourceParts currentParts =
     (if hd currentParts = ''namespaces'' \<and> length currentParts > 2 \<and> currentParts ! 2 \<notin> set namespaceSubresources
      then drop 2 currentParts else currentParts)"

definition namespaceOf :: "string list \<Rightarrow> string" where
  "namespaceOf currentParts =
     (if hd currentParts = ''namespaces'' \<and> length currentParts > 1 then currentParts ! 1 else [])"

definition fillParts :: "string list \<Rightarrow> requestInfo \<Rightarrow> requestInfo" where
  "fillParts currentParts info =
     (let parts = resourceParts currentParts
      in info\<lparr>ri_namespace := namespaceOf currentParts, ri_parts := parts,
              ri_subresource := (if length parts \<ge> 3 \<and> ri_verb info \<notin> set specialVerbsNoSubresources then parts ! 2 else []),
              ri_name := (if length parts \<ge> 2 then parts ! 1 else []),
              ri_resource := (if length parts \<ge> 1 then parts ! 0 else [])\<rparr>)"

definition listVerbs :: "(urlValues \<Rightarrow> string option result) \<Rightarrow> urlValues \<Rightarrow> requestInfo \<Rightarrow> requestInfo" where
  "listVerbs decodeSelector query info =
     (if length (ri_name info) = 0 \<and> ri_verb info = ''get'' then
        (case listOptionsOf decodeSelector query of
           (watch, name) \<Rightarrow>
             info\<lparr>ri_verb := (if watch then ''watch'' else ''list''),
                  ri_name := (case name of
                     None \<Rightarrow> ri_name info
                   | Some n \<Rightarrow> (if length (IsValidPathSegmentName n) = 0 then n else ri_name info))\<rparr>)
      else info)"

definition collectionVerb :: "requestInfo \<Rightarrow> requestInfo" where
  "collectionVerb info =
     (if length (ri_name info) = 0 \<and> ri_verb info = ''delete'' then info\<lparr>ri_verb := ''deletecollection''\<rparr> else info)"

definition resourceInfo ::
  "(urlValues \<Rightarrow> string option result) \<Rightarrow> 'b httpReq \<Rightarrow> requestInfo \<Rightarrow> string list \<Rightarrow> requestInfo result" where
  "resourceInfo decodeSelector req info currentParts =
     (if hd currentParts \<in> set specialVerbs then
        (if length currentParts < 2 then Inl (GoErr ''unable to determine kind and namespace from url'')
         else Inr (collectionVerb (listVerbs decodeSelector (hr_query req)
                (fillParts (tl currentParts) (info\<lparr>ri_verb := hd currentParts\<rparr>)))))
      else Inr (collectionVerb (listVerbs decodeSelector (hr_query req)
                (fillParts currentParts (info\<lparr>ri_verb := methodVerb (hr_method req)\<rparr>)))))"

definition NewRequestInfo :: "(urlValues \<Rightarrow> string option result) \<Rightarrow> 'b httpReq \<Rightarrow> requestInfo result" where
  "NewRequestInfo decodeSelector req =
     (let info = \<lparr>ri_isResourceRequest = False, ri_path = hr_path req, ri_verb = ToLower (hr_method req),
                  ri_apiPrefix = [], ri_apiGroup = [], ri_apiVersion = [], ri_namespace = [], ri_resource = [],
                  ri_subresource = [], ri_name = [], ri_parts = []\<rparr>;
          currentParts = splitPath (hr_path req)
      in if length currentParts < 3 then Inr info
         else if hd currentParts \<notin> set apiPrefixes then Inr info
         else let info = info\<lparr>ri_apiPrefix := hd currentParts\<rparr>;
                  rest = tl currentParts
              in if ri_apiPrefix info \<notin> set grouplessAPIPrefixes then
                   (if length rest < 3 then Inr info
                    else resourceInfo decodeSelector req
                      (info\<lparr>ri_apiGroup := hd rest, ri_isResourceRequest := True, ri_apiVersion := hd (tl rest)\<rparr>) (tl (tl rest)))
                 else resourceInfo decodeSelector req
                      (info\<lparr>ri_isResourceRequest := True, ri_apiVersion := hd rest\<rparr>) (tl rest))"

subsection \<open>Joining and splitting\<close>

definition properSeg :: "string \<Rightarrow> bool" where
  "properSeg s \<longleftrightarrow> s \<noteq> [] \<and> s \<noteq> ''.'' \<and> s \<noteq> ''..'' \<and> slash \<notin> set s"

definition segments :: "string \<Rightarrow> string list" where
  "segments p = filter (\<lambda>s. s \<noteq> []) (splitOn slash p)"

definition dotFree :: "string \<Rightarrow> bool" where
  "dotFree p \<longleftrightarrow> ''.'' \<notin> set (splitOn slash p) \<and> ''..'' \<notin> set (splitOn slash p)"

text \<open>The path with the given segments.\<close>

definition absPath :: "string list \<Rightarrow> string" where
  "absPath ss = slash # joinWith slash ss"

lemma cleanSegs_dotFree:
  "''.'' \<notin> set ss \<Longrightarrow> ''..'' \<notin> set ss \<Longrightarrow> cleanSegs rooted acc ss = rev acc @ filter (\<lambda>s. s \<noteq> []) ss"
  by (induction ss arbitrary: acc) auto

lemma splitOn_sep: "splitOn c (a @ c # b) = splitOn c a @ splitOn c b"
proof (induction a)
  case (Cons x a)
  then show ?case by (cases "splitOn c a") (auto split: list.split)
qed simp

lemma splitOn_joinWith: "ps \<noteq> [] \<Longrightarrow> splitOn c (joinWith c ps) = concat (map (splitOn c) ps)"
  by (induction c ps rule: joinWith.induct) (auto simp: splitOn_sep)

lemma joinWith_hd: "joinWith c ((x # xs) # ps) = x # joinWith c (xs # ps)"
  by (cases ps) auto

lemma pathJoin_abs:
  assumes "\<forall>e \<in> set ((slash # p) # es). dotFree e"
  shows "pathJoin ((slash # p) # es) = absPath (segments p @ concat (map segments es))"
proof -
  have "splitOn slash (joinWith slash ((slash # p) # es)) = concat (map (splitOn slash) ((slash # p) # es))"
    by (rule splitOn_joinWith) simp
  moreover have "''.'' \<notin> set (concat (map (splitOn slash) ((slash # p) # es)))"
      "''..'' \<notin> set (concat (map (splitOn slash) ((slash # p) # es)))"
    using assms by (auto simp: dotFree_def)
  moreover have "joinWith slash ((slash # p) # es) \<noteq> []" "hd (joinWith slash ((slash # p) # es)) = slash"
    by (simp_all add: joinWith_hd)
  ultimately show ?thesis
    by (simp add: pathJoin_def pathClean_def cleanSegs_dotFree absPath_def segments_def filter_concat comp_def del: splitOn.simps)
      (simp add: segments_def [symmetric])
qed

lemma segments_proper [simp]: "properSeg s \<Longrightarrow> segments s = [s]"
  by (simp add: segments_def properSeg_def splitOn_none)

lemma segments_Nil [simp]: "segments [] = []"
  by (simp add: segments_def)

lemma segments_join: "\<forall>s \<in> set ss. properSeg s \<Longrightarrow> segments (joinWith slash ss) = ss"
proof (cases ss)
  case (Cons s ss')
  assume p: "\<forall>s \<in> set ss. properSeg s"
  then have "concat (map (splitOn slash) ss) = ss"
    by (induction ss) (auto simp: properSeg_def splitOn_none)
  moreover have "filter (\<lambda>s. s \<noteq> []) ss = ss" using p by (auto simp: properSeg_def filter_id_conv)
  ultimately show ?thesis using Cons by (simp add: segments_def splitOn_joinWith)
qed simp

lemma dotFree_proper [simp]: "properSeg s \<Longrightarrow> dotFree s"
  by (auto simp: dotFree_def properSeg_def splitOn_none)

lemma dotFree_Nil [simp]: "dotFree []"
  by (simp add: dotFree_def)

lemma dotFree_join: "\<forall>s \<in> set ss. properSeg s \<Longrightarrow> dotFree (joinWith slash ss)"
  by (cases ss) (auto simp: dotFree_def splitOn_joinWith properSeg_def splitOn_none)

lemma dotFree_slash [simp]: "dotFree (slash # p) \<longleftrightarrow> dotFree p"
  by (simp add: dotFree_def)

lemma dotFree_abs [simp]: "\<forall>s \<in> set ss. properSeg s \<Longrightarrow> dotFree (absPath ss)"
  by (simp add: absPath_def dotFree_join)

lemma pathJoin_absPath:
  assumes "\<forall>s \<in> set ss. properSeg s" and "\<forall>e \<in> set es. dotFree e"
  shows "pathJoin (absPath ss # es) = absPath (ss @ concat (map segments es))"
  using pathJoin_abs [of "joinWith slash ss" es] assms by (simp add: absPath_def dotFree_join segments_join)

lemma properSeg_ends: "properSeg p \<Longrightarrow> p \<noteq> [] \<and> hd p \<noteq> slash \<and> last p \<noteq> slash"
  unfolding properSeg_def by (metis hd_in_set last_in_set)

lemma joinWith_nonempty: "ps \<noteq> [] \<Longrightarrow> \<forall>s \<in> set ps. properSeg s \<Longrightarrow> joinWith slash ps \<noteq> []"
  by (cases ps; cases "tl ps") (auto simp: properSeg_def)

lemma trimSlash_join:
  assumes "\<forall>s \<in> set ss. properSeg s"
  shows "trimSlash (absPath ss) = joinWith slash ss"
proof -
  have ends: "joinWith slash ss = [] \<or> (hd (joinWith slash ss) \<noteq> slash \<and> last (joinWith slash ss) \<noteq> slash)"
    using assms
  proof (induction ss)
    case (Cons p ps)
    have p: "p \<noteq> []" "hd p \<noteq> slash" "last p \<noteq> slash"
      using properSeg_ends [of p] Cons.prems by simp_all
    show ?case
    proof (cases ps)
      case (Cons q qs)
      then have "joinWith slash ps \<noteq> []" using Cons.prems joinWith_nonempty [of ps] by simp
      then show ?thesis using Cons p Cons.IH Cons.prems by simp
    qed (use p in simp)
  qed simp
  have id: "dropWhile (\<lambda>c. c = slash) xs = xs" if "xs = [] \<or> hd xs \<noteq> slash" for xs :: string
    using that by (cases xs) auto
  show ?thesis using ends by (auto simp: trimSlash_def absPath_def id hd_rev)
qed

lemma splitPath_abs:
  assumes "\<forall>s \<in> set ss. properSeg s"
  shows "splitPath (absPath ss) = ss"
proof (cases ss)
  case Nil
  then show ?thesis by (simp add: splitPath_def trimSlash_def absPath_def)
next
  case (Cons s ss')
  have "joinWith slash ss \<noteq> []" using assms Cons joinWith_nonempty [of ss] by simp
  moreover have "concat (map (splitOn slash) ss) = ss"
    using assms by (induction ss) (auto simp: properSeg_def splitOn_none)
  ultimately have "joinWith slash ss \<noteq> []" "splitOn slash (joinWith slash ss) = ss"
    using Cons splitOn_joinWith [of ss slash] by simp_all
  then show ?thesis by (simp add: splitPath_def trimSlash_join [OF assms] Let_def)
qed

text \<open>A valid name that is not empty is a proper segment.\<close>

lemma valid_iff: "IsValidPathSegmentName s = [] \<longleftrightarrow> s \<noteq> ''.'' \<and> s \<noteq> ''..'' \<and> slash \<notin> set s \<and> CHR ''%'' \<notin> set s"
proof -
  have "strContains s [c] \<longleftrightarrow> c \<in> set s" for c
    by (simp add: strContains_iff) (metis append_Cons in_set_conv_decomp self_append_conv2)
  then show ?thesis by (auto simp: IsValidPathSegmentName_def NameMayNotBe_def NameMayNotContain_def)
qed

lemma valid_proper: "IsValidPathSegmentName s = [] \<Longrightarrow> s \<noteq> [] \<Longrightarrow> properSeg s"
  by (simp add: valid_iff properSeg_def)

lemma valid_dotFree [simp]: "IsValidPathSegmentName s = [] \<Longrightarrow> dotFree s"
  by (cases "s = []") (auto intro: dotFree_proper valid_proper)

lemma splitOn_parts_id: "\<forall>s \<in> set ss. slash \<notin> set s \<Longrightarrow> concat (map (splitOn slash) ss) = ss"
  by (induction ss) (auto simp: splitOn_none)

lemma segments_valid: "\<forall>s \<in> set ss. IsValidPathSegmentName s = [] \<Longrightarrow> concat (map segments ss) = filter (\<lambda>s. s \<noteq> []) ss"
proof (induction ss)
  case (Cons s ss)
  then show ?case by (cases "s = []") (simp_all add: valid_proper)
qed simp

lemma pathJoin_relative:
  assumes "\<forall>s \<in> set ss. IsValidPathSegmentName s = []"
  shows "pathJoin ss = joinWith slash (filter (\<lambda>s. s \<noteq> []) ss)"
proof -
  let ?es = "dropWhile (\<lambda>e. e = []) ss" and ?fs = "filter (\<lambda>s. s \<noteq> []) ss"
  have fs: "filter (\<lambda>s. s \<noteq> []) ?es = ?fs" by (induction ss) auto
  show ?thesis
  proof (cases ?es)
    case Nil
    then show ?thesis using fs by (simp add: pathJoin_def)
  next
    case (Cons e es)
    have sub: "set ?es \<subseteq> set ss" by (auto dest: set_dropWhileD)
    then have valid: "\<forall>s \<in> set ?es. IsValidPathSegmentName s = []" using assms by blast
    have e: "e \<noteq> []" using Cons hd_dropWhile [of "\<lambda>e. e = []" ss] by simp
    then obtain c e' where ce: "e = c # e'" "c \<noteq> slash" using valid Cons by (cases e) (auto simp: valid_iff)
    have split: "splitOn slash (joinWith slash ?es) = ?es"
      using splitOn_joinWith [of ?es slash] splitOn_parts_id [of ?es] valid Cons by (simp add: valid_iff)
    have "''.'' \<notin> set ?es" "''..'' \<notin> set ?es" using valid by (auto simp: valid_iff)
    then have "cleanSegs False [] ?es = ?fs" using fs by (simp add: cleanSegs_dotFree)
    moreover have "joinWith slash ?es \<noteq> []" "hd (joinWith slash ?es) \<noteq> slash"
      using Cons ce by (simp_all add: joinWith_hd)
    moreover have "?fs \<noteq> []" using Cons e fs by auto
    ultimately show ?thesis using Cons split by (simp add: pathJoin_def pathClean_def)
  qed
qed

lemma pathJoin_valid:
  assumes "\<forall>s \<in> set ss. IsValidPathSegmentName s = []"
  shows "segments (pathJoin ss) = filter (\<lambda>s. s \<noteq> []) ss \<and> dotFree (pathJoin ss)"
proof -
  have "\<forall>s \<in> set (filter (\<lambda>s. s \<noteq> []) ss). properSeg s" using assms by (auto intro: valid_proper)
  then show ?thesis using pathJoin_relative [OF assms] segments_join dotFree_join by simp
qed

subsection \<open>The server's view of a request\<close>

text \<open>What is authorised: verb, group, version, namespace, resource, subresource and name.\<close>

record apiTarget =
  at_verb :: string
  at_group :: string
  at_version :: string
  at_namespace :: string
  at_resource :: string
  at_subresource :: string
  at_name :: string

definition targetOf :: "requestInfo \<Rightarrow> apiTarget" where
  "targetOf info =
     \<lparr>at_verb = ri_verb info, at_group = ri_apiGroup info, at_version = ri_apiVersion info, at_namespace = ri_namespace info,
      at_resource = ri_resource info, at_subresource = ri_subresource info, at_name = ri_name info\<rparr>"

definition understood :: "(urlValues \<Rightarrow> string option result) \<Rightarrow> 'b httpReq \<Rightarrow> apiTarget result" where
  "understood decodeSelector req =
     (case NewRequestInfo decodeSelector req of
        Inl err \<Rightarrow> Inl err
      | Inr info \<Rightarrow> if ri_isResourceRequest info then Inr (targetOf info) else Inl (GoErr ''not a resource request''))"

text \<open>A resource whose name does not collide with the words the paths themselves use.\<close>

definition plainResource :: "string \<Rightarrow> bool" where
  "plainResource res \<longleftrightarrow> properSeg res \<and> ToLower res = res \<and>
     res \<notin> set (specialVerbs @ ''namespaces'' # namespaceSubresources)"

definition clientPrefix :: "restClient \<Rightarrow> string list" where
  "clientPrefix gv = (if rc_group gv = [] then [''api'', rc_version gv] else [''apis'', rc_group gv, rc_version gv])"

text \<open>The final verb and name of a request whose path names \<open>name\<close>.\<close>

definition verbAndName :: "(urlValues \<Rightarrow> string option result) \<Rightarrow> string \<Rightarrow> urlValues \<Rightarrow> string \<Rightarrow> string \<times> string" where
  "verbAndName decodeSelector method query name =
     (if name = [] \<and> methodVerb method = ''get'' then
        (case listOptionsOf decodeSelector query of
           (watch, pinned) \<Rightarrow>
             (if watch then ''watch'' else ''list'',
              case pinned of None \<Rightarrow> [] | Some n \<Rightarrow> if IsValidPathSegmentName n = [] then n else []))
      else if name = [] \<and> methodVerb method = ''delete'' then (''deletecollection'', [])
      else (methodVerb method, name))"

lemma methodVerb_not_proxy: "methodVerb m \<notin> set specialVerbsNoSubresources"
  by (simp add: methodVerb_def specialVerbsNoSubresources_def)

lemma targetOf_finished:
  assumes "ri_verb info = methodVerb method"
  shows "targetOf (collectionVerb (listVerbs D query info)) =
     (targetOf info)\<lparr>at_verb := fst (verbAndName D method query (ri_name info)),
       at_name := snd (verbAndName D method query (ri_name info))\<rparr>"
    and "ri_isResourceRequest (collectionVerb (listVerbs D query info)) = ri_isResourceRequest info"
  using assms by (auto simp: collectionVerb_def listVerbs_def verbAndName_def targetOf_def split: prod.split option.split)

lemma understood_resource:
  assumes path: "splitPath (hr_path req) = clientPrefix gv @ (if ns = [] then [] else [''namespaces'', ns]) @ res # rest"
    and res: "plainResource res \<or> res = ''namespaces'' \<and> ns = [] \<and> rest = []"
  shows "understood D req = Inr
     \<lparr>at_verb = fst (verbAndName D (hr_method req) (hr_query req) (if rest = [] then [] else hd rest)),
      at_group = rc_group gv, at_version = rc_version gv, at_namespace = ns, at_resource = res,
      at_subresource = (if length rest \<ge> 2 then rest ! 1 else []),
      at_name = snd (verbAndName D (hr_method req) (hr_query req) (if rest = [] then [] else hd rest))\<rparr>"
proof -
  let ?parts = "(if ns = [] then [] else [''namespaces'', ns]) @ res # rest"
  have parts: "resourceParts ?parts = res # rest" "namespaceOf ?parts = ns"
    using res by (auto simp: resourceParts_def namespaceOf_def plainResource_def)
  have hd: "hd ?parts \<notin> set specialVerbs" using res by (auto simp: specialVerbs_def plainResource_def)
  have filled: "fillParts ?parts (info\<lparr>ri_verb := methodVerb (hr_method req)\<rparr>) = info\<lparr>ri_verb := methodVerb (hr_method req),
      ri_namespace := ns, ri_resource := res, ri_subresource := (if length rest \<ge> 2 then rest ! 1 else []),
      ri_name := (if rest = [] then [] else hd rest), ri_parts := res # rest\<rparr>" for info
    unfolding fillParts_def parts Let_def using methodVerb_not_proxy [of "hr_method req"]
    by (cases rest) (auto simp: numeral_2_eq_2 numeral_3_eq_3)
  have out: "resourceInfo D req info ?parts = Inr (finished info) \<and> ri_isResourceRequest (finished info) = ri_isResourceRequest info \<and>
     targetOf (finished info) =
     \<lparr>at_verb = fst (verbAndName D (hr_method req) (hr_query req) (if rest = [] then [] else hd rest)),
      at_group = ri_apiGroup info, at_version = ri_apiVersion info, at_namespace = ns, at_resource = res,
      at_subresource = (if length rest \<ge> 2 then rest ! 1 else []),
      at_name = snd (verbAndName D (hr_method req) (hr_query req) (if rest = [] then [] else hd rest))\<rparr>"
    if "finished = (\<lambda>info. collectionVerb (listVerbs D (hr_query req) (fillParts ?parts (info\<lparr>ri_verb := methodVerb (hr_method req)\<rparr>))))"
    for info finished
  proof -
    let ?I = "fillParts ?parts (info\<lparr>ri_verb := methodVerb (hr_method req)\<rparr>)"
    have "ri_verb ?I = methodVerb (hr_method req)" by (simp add: filled)
    note fin = targetOf_finished [OF this, of D "hr_query req"]
    have "resourceInfo D req info ?parts = Inr (finished info)" using hd by (simp add: resourceInfo_def that)
    moreover have "ri_isResourceRequest (finished info) = ri_isResourceRequest info" by (simp only: that fin(2)) (simp add: filled)
    moreover have "targetOf (finished info) = (targetOf ?I)\<lparr>at_verb := fst (verbAndName D (hr_method req) (hr_query req) (ri_name ?I)),
        at_name := snd (verbAndName D (hr_method req) (hr_query req) (ri_name ?I))\<rparr>"
      by (simp only: that fin(1))
    ultimately show ?thesis by (simp add: filled targetOf_def)
  qed
  have fin: "understood D req = Inr
     \<lparr>at_verb = fst (verbAndName D (hr_method req) (hr_query req) (if rest = [] then [] else hd rest)),
      at_group = ri_apiGroup info, at_version = ri_apiVersion info, at_namespace = ns, at_resource = res,
      at_subresource = (if length rest \<ge> 2 then rest ! 1 else []),
      at_name = snd (verbAndName D (hr_method req) (hr_query req) (if rest = [] then [] else hd rest))\<rparr>"
    if "NewRequestInfo D req = resourceInfo D req info ?parts" and "ri_isResourceRequest info" for info
    using out [OF refl, of info] that by (simp only: understood_def sum.case if_True)
  show ?thesis
  proof (cases "rc_group gv = []")
    case True
    have "NewRequestInfo D req = resourceInfo D req
        \<lparr>ri_isResourceRequest = True, ri_path = hr_path req, ri_verb = ToLower (hr_method req),
         ri_apiPrefix = ''api'', ri_apiGroup = [], ri_apiVersion = rc_version gv, ri_namespace = [], ri_resource = [],
         ri_subresource = [], ri_name = [], ri_parts = []\<rparr> ?parts"
      using True by (simp add: NewRequestInfo_def path clientPrefix_def apiPrefixes_def grouplessAPIPrefixes_def Let_def)
    from fin [OF this] show ?thesis using True by simp
  next
    case False
    have "NewRequestInfo D req = resourceInfo D req
        \<lparr>ri_isResourceRequest = True, ri_path = hr_path req, ri_verb = ToLower (hr_method req),
         ri_apiPrefix = ''apis'', ri_apiGroup = rc_group gv, ri_apiVersion = rc_version gv, ri_namespace = [], ri_resource = [],
         ri_subresource = [], ri_name = [], ri_parts = []\<rparr> ?parts"
      using False by (simp add: NewRequestInfo_def path clientPrefix_def apiPrefixes_def grouplessAPIPrefixes_def Let_def)
    from fin [OF this] show ?thesis by simp
  qed
qed

end
