(* ===== verification/OperatorUtils.thy ===== *)
theory OperatorUtils
  imports KubeTypes
begin

text \<open>
  \<open>pkg/mtq-operator/resources/utils/common.go\<close>: the names and labels every resource carries,
  the container and deployment templates, the label operations, and the choice of the active
  MTQ custom resource.
\<close>

subsection \<open>Names and labels\<close>

definition MTQLabel :: string where "MTQLabel = ''mtq.kubevirt.io''"
definition MTQPriorityClass :: string where "MTQPriorityClass = ''kubevirt-cluster-critical''"
definition AppKubernetesManagedByLabel :: string where "AppKubernetesManagedByLabel = ''app.kubernetes.io/managed-by''"
definition AppKubernetesComponentLabel :: string where "AppKubernetesComponentLabel = ''app.kubernetes.io/component''"
definition PrometheusLabelKey :: string where "PrometheusLabelKey = ''prometheus.mtq.kubevirt.io''"
definition PrometheusLabelValue :: string where "PrometheusLabelValue = ''true''"
definition AppKubernetesPartOfLabel :: string where "AppKubernetesPartOfLabel = ''app.kubernetes.io/part-of''"
definition AppKubernetesVersionLabel :: string where "AppKubernetesVersionLabel = ''app.kubernetes.io/version''"
definition utilsControllerPodName :: string where "utilsControllerPodName = ''mtq-controller''"
definition ControllerServiceAccountName :: string where "ControllerServiceAccountName = utilsControllerPodName"
definition InstallerPartOfLabel :: string where "InstallerPartOfLabel = ''INSTALLER_PART_OF_LABEL''"
definition InstallerVersionLabel :: string where "InstallerVersionLabel = ''INSTALLER_VERSION_LABEL''"
definition TlsLabel :: string where "TlsLabel = ''TLS''"
definition ConfigMapName :: string where "ConfigMapName = ''mtq-config''"

lemmas names = MTQLabel_def MTQPriorityClass_def AppKubernetesManagedByLabel_def AppKubernetesComponentLabel_def
  PrometheusLabelKey_def PrometheusLabelValue_def AppKubernetesPartOfLabel_def AppKubernetesVersionLabel_def
  utilsControllerPodName_def ControllerServiceAccountName_def InstallerPartOfLabel_def InstallerVersionLabel_def
  TlsLabel_def ConfigMapName_def

definition mtqCommonLabels :: labels where
  "mtqCommonLabels =
     [(MTQLabel, []), (AppKubernetesManagedByLabel, ''mtq-operator''), (AppKubernetesComponentLabel, ''multi-tenant'')]"

definition mtqOperatorLabels :: labels where
  "mtqOperatorLabels = [(''operator.mtq.kubevirt.io'', [])]"

definition ResourceBuilder :: resourceBuilder where
  "ResourceBuilder = \<lparr>commonLabels = mtqCommonLabels, operatorLabels = mtqOperatorLabels\<rparr>"

subsection \<open>Containers and deployments\<close>

definition CreateContainer :: "string \<Rightarrow> string \<Rightarrow> string \<Rightarrow> string \<Rightarrow> container" where
  "CreateContainer name img verbosity pullPolicy =
     (rb_CreateContainer name img pullPolicy)
       \<lparr>co_terminationMessagePolicy := ''File'',
        co_terminationMessagePath := ''/dev/termination-log'',
        co_args := [''-v='' @ verbosity],
        co_securityContext := Some \<lparr>sc_seccompProfile = ''RuntimeDefault'', sc_allowPrivilegeEscalation = Some False,
           sc_runAsNonRoot = Some True, sc_dropCapabilities = []\<rparr>\<rparr>"

definition basePodSpec :: "string list \<Rightarrow> podSpec" where
  "basePodSpec imagePullSecrets =
     \<lparr>ps_runAsNonRoot = Some True, ps_imagePullSecrets = imagePullSecrets, ps_nodeSelector = [],
      ps_tolerations = [], ps_affinity = None, ps_serviceAccountName = [], ps_priorityClassName = [],
      ps_containers = [], ps_volumes = []\<rparr>"

definition CreateDeployment ::
  "string \<Rightarrow> string \<Rightarrow> string \<Rightarrow> string \<Rightarrow> string list \<Rightarrow> int \<Rightarrow> nodePlacement option \<Rightarrow> deployment" where
  "CreateDeployment name matchKey matchValue serviceAccountName imagePullSecrets replicas infraNodePlacement =
     rb_CreateDeployment ResourceBuilder name [] matchKey matchValue serviceAccountName replicas
       (basePodSpec imagePullSecrets) infraNodePlacement"

text \<open>
  \<open>MergeLabels\<close> ranges over a Go map, whose order is unspecified; with distinct keys the result
  does not depend on it (\<open>map_of_MergeLabels\<close>).
\<close>

fun MergeLabels :: "labels \<Rightarrow> labels \<Rightarrow> labels" where
  "MergeLabels [] dest = dest"
| "MergeLabels ((k, v) # src) dest = MergeLabels src (AList.update k v dest)"

lemma map_of_MergeLabels: "distinct (map fst src) \<Longrightarrow> map_of (MergeLabels src dest) = map_of dest ++ map_of src"
proof (induction src dest rule: MergeLabels.induct)
  case (2 k v src dest)
  then have "map_of src k = None" by (simp add: map_of_eq_None_iff)
  with 2 show ?case by (auto simp: update_conv map_add_def fun_eq_iff split: option.splits)
qed simp

lemma distinct_MergeLabels [simp]: "distinct (map fst dest) \<Longrightarrow> distinct (map fst (MergeLabels src dest))"
  by (induction src dest rule: MergeLabels.induct) (simp_all add: distinct_update)

definition CreateOperatorDeployment ::
  "string \<Rightarrow> string \<Rightarrow> string \<Rightarrow> string \<Rightarrow> string \<Rightarrow> string list \<Rightarrow> int \<Rightarrow> deployment" where
  "CreateOperatorDeployment name namespace matchKey matchValue serviceAccount imagePullSecrets numReplicas =
     (let spec = (basePodSpec imagePullSecrets)
            \<lparr>ps_nodeSelector := [(''kubernetes.io/os'', ''linux'')],
             ps_tolerations := [\<lparr>to_key = ''CriticalAddonsOnly'', to_operator = ''Exists''\<rparr>]\<rparr>;
          deployment = rb_CreateOperatorDeployment ResourceBuilder name namespace matchKey matchValue serviceAccount numReplicas spec;
          ls = MergeLabels (dp_templateLabels deployment) [(PrometheusLabelKey, PrometheusLabelValue)]
      in deployment\<lparr>dp_meta := (dp_meta deployment)\<lparr>om_labels := ls\<rparr>, dp_templateLabels := ls\<rparr>)"

subsection \<open>The MTQ custom resource\<close>

record certConfig =
  cc_duration :: "64 word option"
  cc_renewBefore :: "64 word option"

record mtqCertConfig =
  mc_ca :: "certConfig option"
  mc_server :: "certConfig option"

record mtqSpec =
  ms_imagePullPolicy :: string
  ms_infra :: nodePlacement
  ms_certConfig :: "mtqCertConfig option"
  ms_priorityClass :: "string option"

record mtq =
  mtq_name :: string
  mtq_uid :: string
  mtq_labels :: labels
  mtq_deleted :: bool
  mtq_spec :: mtqSpec
  mtq_phase :: string

definition PhaseError :: string where "PhaseError = ''Error''"

text \<open>The CRs listed, or the error of \<open>List\<close>.\<close>

definition GetActiveMTQ :: "mtq list result \<Rightarrow> mtq option result" where
  "GetActiveMTQ listed =
     (case listed of
        Inl err \<Rightarrow> Inl err
      | Inr crs \<Rightarrow>
          (let activeResources = filter (\<lambda>cr. mtq_phase cr \<noteq> PhaseError) crs in
           if length activeResources = 0 then Inr None
           else if length activeResources > 1 then Inl (GoErr ''number of active MTQ CRs > 1'')
           else Inr (Some (activeResources ! 0))))"

lemma GetActiveMTQ_Some:
  "GetActiveMTQ (Inr crs) = Inr (Some cr) \<longleftrightarrow> filter (\<lambda>c. mtq_phase c \<noteq> PhaseError) crs = [cr]"
  by (cases "filter (\<lambda>c. mtq_phase c \<noteq> PhaseError) crs") (auto simp: GetActiveMTQ_def Let_def)

fun installerLabels :: "labels \<Rightarrow> labels" where
  "installerLabels [] = []"
| "installerLabels ((k, v) # ls) =
     (if k = AppKubernetesPartOfLabel \<or> k = AppKubernetesVersionLabel then (k, v) # installerLabels ls
      else installerLabels ls)"

definition GetRecommendedInstallerLabelsFromCr :: "mtq \<Rightarrow> labels" where
  "GetRecommendedInstallerLabelsFromCr cr = installerLabels (mtq_labels cr)"

definition SetRecommendedLabels :: "objectMeta \<Rightarrow> labels \<Rightarrow> string \<Rightarrow> objectMeta" where
  "SetRecommendedLabels obj installer controllerName =
     (let staticLabels = [(AppKubernetesManagedByLabel, controllerName), (AppKubernetesComponentLabel, ''multi-tenant'')];
          mergedLabels = MergeLabels staticLabels (om_labels obj)
      in obj\<lparr>om_labels := MergeLabels installer mergedLabels\<rparr>)"

lemma set_installerLabels: "set (installerLabels ls) = {(k, v) \<in> set ls. k \<in> {AppKubernetesPartOfLabel, AppKubernetesVersionLabel}}"
  by (induction ls rule: installerLabels.induct) auto

lemma distinct_installerLabels: "distinct (map fst ls) \<Longrightarrow> distinct (map fst (installerLabels ls))"
  by (induction ls rule: installerLabels.induct) (auto simp: set_installerLabels image_iff)

lemma map_of_installerLabels:
  "map_of (installerLabels ls) k =
     (if k \<in> {AppKubernetesPartOfLabel, AppKubernetesVersionLabel} then map_of ls k else None)"
  by (induction ls rule: installerLabels.induct) auto

end
