(* ===== verification/TypedClients.thy ===== *)
theory TypedClients
  imports RequestInfo OperatorUtils ApiTypes
begin

text \<open>
  The generated clients of the two resources, \<open>typed/core/v1alpha1/mtq.go\<close> and
  \<open>virtualmachinemigrationresourcequota.go\<close> under \<open>pkg/generated/clientset/versioned\<close>: every
  method as the HTTP request it sends, or the error with which it is refused before it is sent.
  A reply is the server's; the controller's model takes it from the API parameter. The theorems
  state which calls are sent (\<open>typed_calls_refused\<close>) and that the server reads back what the caller
  meant (\<open>typed_calls_understood\<close>).
\<close>

subsection \<open>Options\<close>

text \<open>
  The options structs and their query parameters: \<open>queryparams.Convert\<close> follows the JSON tags, all
  of them \<open>omitempty\<close>; a pointer that is set is written even when it points to a zero value.
\<close>

record listOpts = listOptions +
  lo_allowWatchBookmarks :: bool
  lo_resourceVersion :: string
  lo_resourceVersionMatch :: string
  lo_timeoutSeconds :: "64 word option"
  lo_limit :: "64 word"
  lo_continue :: string
  lo_sendInitialEvents :: "bool option"

record getOptions =
  go_resourceVersion :: string

text \<open>\<open>CreateOptions\<close> and \<open>UpdateOptions\<close> have the same fields.\<close>

record writeOptions =
  wo_dryRun :: "string list"
  wo_fieldManager :: string
  wo_fieldValidation :: string

record patchOptions = writeOptions +
  po_force :: "bool option"

definition boolText :: "bool \<Rightarrow> string" where
  "boolText b = (if b then ''true'' else ''false'')"

definition int64Text :: "64 word \<Rightarrow> string" where
  "int64Text n = (if sint n < 0 then CHR ''-'' # fmtInt (nat (- sint n)) else fmtInt (nat (sint n)))"

definition stringParam :: "string \<Rightarrow> string \<Rightarrow> urlValues" where
  "stringParam tag v = (if v = [] then [] else [(tag, v)])"

definition boolParam :: "string \<Rightarrow> bool \<Rightarrow> urlValues" where
  "boolParam tag b = (if b then [(tag, boolText b)] else [])"

definition pointerParam :: "('a \<Rightarrow> string) \<Rightarrow> string \<Rightarrow> 'a option \<Rightarrow> urlValues" where
  "pointerParam text tag p = (case p of None \<Rightarrow> [] | Some v \<Rightarrow> [(tag, text v)])"

definition encodeListOptions :: "listOpts \<Rightarrow> urlValues" where
  "encodeListOptions o1 =
     stringParam ''labelSelector'' (lo_labelSelector o1) @ stringParam ''fieldSelector'' (lo_fieldSelector o1) @
     boolParam ''watch'' (lo_watch o1) @ boolParam ''allowWatchBookmarks'' (lo_allowWatchBookmarks o1) @
     stringParam ''resourceVersion'' (lo_resourceVersion o1) @
     stringParam ''resourceVersionMatch'' (lo_resourceVersionMatch o1) @
     pointerParam int64Text ''timeoutSeconds'' (lo_timeoutSeconds o1) @
     (if lo_limit o1 = 0 then [] else [(''limit'', int64Text (lo_limit o1))]) @
     stringParam ''continue'' (lo_continue o1) @
     pointerParam boolText ''sendInitialEvents'' (lo_sendInitialEvents o1)"

definition encodeGetOptions :: "getOptions \<Rightarrow> urlValues" where
  "encodeGetOptions o1 = stringParam ''resourceVersion'' (go_resourceVersion o1)"

definition encodeWriteOptions :: "'a writeOptions_scheme \<Rightarrow> urlValues" where
  "encodeWriteOptions o1 =
     concat (map (stringParam ''dryRun'') (wo_dryRun o1)) @ stringParam ''fieldManager'' (wo_fieldManager o1) @
     stringParam ''fieldValidation'' (wo_fieldValidation o1)"

definition encodePatchOptions :: "patchOptions \<Rightarrow> urlValues" where
  "encodePatchOptions o1 = encodeWriteOptions o1 @ pointerParam boolText ''force'' (po_force o1)"

text \<open>\<open>time.Duration(*opts.TimeoutSeconds) * time.Second\<close>, in 64 bits.\<close>

definition listTimeout :: "listOpts \<Rightarrow> 64 word" where
  "listTimeout opts = (case lo_timeoutSeconds opts of None \<Rightarrow> 0 | Some t \<Rightarrow> t * 1000000000)"

subsection \<open>The clients\<close>

text \<open>A body: an object, the delete options, or the bytes of a patch.\<close>

datatype 'd clientBody = VmmrqBody "wire vmmrq" | MtqBody mtq | DeleteBody 'd | PatchBody string

text \<open>The steps of a request in the order of the calls.\<close>

definition build :: "'b restReq \<Rightarrow> ('b restReq \<Rightarrow> 'b restReq) list \<Rightarrow> 'b restReq" where
  "build r steps = fold (\<lambda>f. f) steps r"

record vmmrqClient =
  vc_client :: restEndpoint
  vc_ns :: string

definition newVirtualMachineMigrationResourceQuotas :: "restEndpoint \<Rightarrow> string \<Rightarrow> vmmrqClient" where
  "newVirtualMachineMigrationResourceQuotas c namespace = \<lparr>vc_client = c, vc_ns = namespace\<rparr>"

definition vmmrqResource :: string where "vmmrqResource = ''virtualmachinemigrationresourcequotas''"
definition mtqResource :: string where "mtqResource = ''mtqs''"

definition vmmrqs_Get :: "vmmrqClient \<Rightarrow> string \<Rightarrow> getOptions \<Rightarrow> 'd clientBody httpReq result" where
  "vmmrqs_Get c name options = req_Do (build (rest_Get (vc_client c))
     [req_Namespace (vc_ns c), req_Resource vmmrqResource, req_Name name,
      req_VersionedParams (encodeGetOptions options)])"

definition vmmrqs_List :: "vmmrqClient \<Rightarrow> listOpts \<Rightarrow> 'd clientBody httpReq result" where
  "vmmrqs_List c opts = req_Do (build (rest_Get (vc_client c))
     [req_Namespace (vc_ns c), req_Resource vmmrqResource, req_VersionedParams (encodeListOptions opts),
      req_Timeout (listTimeout opts)])"

definition vmmrqs_Watch :: "vmmrqClient \<Rightarrow> listOpts \<Rightarrow> 'd clientBody httpReq result" where
  "vmmrqs_Watch c opts =
     (let timeout = listTimeout opts; opts = opts\<lparr>lo_watch := True\<rparr>
      in req_Watch (build (rest_Get (vc_client c))
        [req_Namespace (vc_ns c), req_Resource vmmrqResource, req_VersionedParams (encodeListOptions opts),
         req_Timeout timeout]))"

definition vmmrqs_Create :: "vmmrqClient \<Rightarrow> wire vmmrq \<Rightarrow> writeOptions \<Rightarrow> 'd clientBody httpReq result" where
  "vmmrqs_Create c v opts = req_Do (build (rest_Post (vc_client c))
     [req_Namespace (vc_ns c), req_Resource vmmrqResource, req_VersionedParams (encodeWriteOptions opts),
      req_Object (VmmrqBody v)])"

definition vmmrqs_Update :: "vmmrqClient \<Rightarrow> wire vmmrq \<Rightarrow> writeOptions \<Rightarrow> 'd clientBody httpReq result" where
  "vmmrqs_Update c v opts = req_Do (build (rest_Put (vc_client c))
     [req_Namespace (vc_ns c), req_Resource vmmrqResource, req_Name (v_name v),
      req_VersionedParams (encodeWriteOptions opts), req_Object (VmmrqBody v)])"

definition vmmrqs_UpdateStatus :: "vmmrqClient \<Rightarrow> wire vmmrq \<Rightarrow> writeOptions \<Rightarrow> 'd clientBody httpReq result" where
  "vmmrqs_UpdateStatus c v opts = req_Do (build (rest_Put (vc_client c))
     [req_Namespace (vc_ns c), req_Resource vmmrqResource, req_Name (v_name v), req_SubResource [''status''],
      req_VersionedParams (encodeWriteOptions opts), req_Object (VmmrqBody v)])"

definition vmmrqs_Delete :: "vmmrqClient \<Rightarrow> string \<Rightarrow> 'd \<Rightarrow> 'd clientBody httpReq result" where
  "vmmrqs_Delete c name opts = req_Do (build (rest_Delete (vc_client c))
     [req_Namespace (vc_ns c), req_Resource vmmrqResource, req_Name name, req_Object (DeleteBody opts)])"

definition vmmrqs_DeleteCollection :: "vmmrqClient \<Rightarrow> 'd \<Rightarrow> listOpts \<Rightarrow> 'd clientBody httpReq result" where
  "vmmrqs_DeleteCollection c opts listOpts = req_Do (build (rest_Delete (vc_client c))
     [req_Namespace (vc_ns c), req_Resource vmmrqResource, req_VersionedParams (encodeListOptions listOpts),
      req_Timeout (listTimeout listOpts), req_Object (DeleteBody opts)])"

definition vmmrqs_Patch ::
  "vmmrqClient \<Rightarrow> string \<Rightarrow> string \<Rightarrow> string \<Rightarrow> patchOptions \<Rightarrow> string list \<Rightarrow> 'd clientBody httpReq result" where
  "vmmrqs_Patch c name pt data opts subresources = req_Do (build (rest_Patch (vc_client c) pt)
     [req_Namespace (vc_ns c), req_Resource vmmrqResource, req_Name name, req_SubResource subresources,
      req_VersionedParams (encodePatchOptions opts), req_Bytes (PatchBody data)])"

text \<open>The MTQ belongs to no namespace: the same requests without \<open>Namespace\<close>.\<close>

definition mTQs_Get :: "restEndpoint \<Rightarrow> string \<Rightarrow> getOptions \<Rightarrow> 'd clientBody httpReq result" where
  "mTQs_Get c name options = req_Do (build (rest_Get c)
     [req_Resource mtqResource, req_Name name, req_VersionedParams (encodeGetOptions options)])"

definition mTQs_List :: "restEndpoint \<Rightarrow> listOpts \<Rightarrow> 'd clientBody httpReq result" where
  "mTQs_List c opts = req_Do (build (rest_Get c)
     [req_Resource mtqResource, req_VersionedParams (encodeListOptions opts), req_Timeout (listTimeout opts)])"

definition mTQs_Watch :: "restEndpoint \<Rightarrow> listOpts \<Rightarrow> 'd clientBody httpReq result" where
  "mTQs_Watch c opts =
     (let timeout = listTimeout opts; opts = opts\<lparr>lo_watch := True\<rparr>
      in req_Watch (build (rest_Get c)
        [req_Resource mtqResource, req_VersionedParams (encodeListOptions opts), req_Timeout timeout]))"

definition mTQs_Create :: "restEndpoint \<Rightarrow> mtq \<Rightarrow> writeOptions \<Rightarrow> 'd clientBody httpReq result" where
  "mTQs_Create c m opts = req_Do (build (rest_Post c)
     [req_Resource mtqResource, req_VersionedParams (encodeWriteOptions opts), req_Object (MtqBody m)])"

definition mTQs_Update :: "restEndpoint \<Rightarrow> mtq \<Rightarrow> writeOptions \<Rightarrow> 'd clientBody httpReq result" where
  "mTQs_Update c m opts = req_Do (build (rest_Put c)
     [req_Resource mtqResource, req_Name (mtq_name m), req_VersionedParams (encodeWriteOptions opts),
      req_Object (MtqBody m)])"

definition mTQs_UpdateStatus :: "restEndpoint \<Rightarrow> mtq \<Rightarrow> writeOptions \<Rightarrow> 'd clientBody httpReq result" where
  "mTQs_UpdateStatus c m opts = req_Do (build (rest_Put c)
     [req_Resource mtqResource, req_Name (mtq_name m), req_SubResource [''status''],
      req_VersionedParams (encodeWriteOptions opts), req_Object (MtqBody m)])"

definition mTQs_Delete :: "restEndpoint \<Rightarrow> string \<Rightarrow> 'd \<Rightarrow> 'd clientBody httpReq result" where
  "mTQs_Delete c name opts = req_Do (build (rest_Delete c)
     [req_Resource mtqResource, req_Name name, req_Object (DeleteBody opts)])"

definition mTQs_DeleteCollection :: "restEndpoint \<Rightarrow> 'd \<Rightarrow> listOpts \<Rightarrow> 'd clientBody httpReq result" where
  "mTQs_DeleteCollection c opts listOpts = req_Do (build (rest_Delete c)
     [req_Resource mtqResource, req_VersionedParams (encodeListOptions listOpts), req_Timeout (listTimeout listOpts),
      req_Object (DeleteBody opts)])"

definition mTQs_Patch ::
  "restEndpoint \<Rightarrow> string \<Rightarrow> string \<Rightarrow> string \<Rightarrow> patchOptions \<Rightarrow> string list \<Rightarrow> 'd clientBody httpReq result" where
  "mTQs_Patch c name pt data opts subresources = req_Do (build (rest_Patch c pt)
     [req_Resource mtqResource, req_Name name, req_SubResource subresources,
      req_VersionedParams (encodePatchOptions opts), req_Bytes (PatchBody data)])"

lemmas vmmrq_methods = vmmrqs_Get_def vmmrqs_List_def vmmrqs_Watch_def vmmrqs_Create_def vmmrqs_Update_def
  vmmrqs_UpdateStatus_def vmmrqs_Delete_def vmmrqs_DeleteCollection_def vmmrqs_Patch_def

lemmas mtq_methods = mTQs_Get_def mTQs_List_def mTQs_Watch_def mTQs_Create_def mTQs_Update_def
  mTQs_UpdateStatus_def mTQs_Delete_def mTQs_DeleteCollection_def mTQs_Patch_def

subsection \<open>Making the clients\<close>

text \<open>
  The parts of \<open>rest.Config\<close> that are read: the path of the host URL, the API to talk to, the user
  agent and the rate limit (\<open>qps\<close> in thousandths). \<open>httpClientFor\<close> makes an HTTP client of a
  configuration and yields its timeout, \<open>parseHost\<close> parses the host; both are client-go's.
\<close>

record 'l restConfig =
  cfg_host :: string
  cfg_groupVersion :: "restClient option"
  cfg_apiPath :: string
  cfg_userAgent :: string
  cfg_rateLimiter :: "'l option"
  cfg_qps :: int
  cfg_burst :: int

definition setConfigDefaults :: "string \<Rightarrow> 'l restConfig \<Rightarrow> 'l restConfig" where
  "setConfigDefaults defaultUserAgent config =
     (let config = config\<lparr>cfg_groupVersion := Some mtqV1alpha1, cfg_apiPath := ''/apis''\<rparr>
      in if cfg_userAgent config = [] then config\<lparr>cfg_userAgent := defaultUserAgent\<rparr> else config)"

definition RESTClientForConfigAndClient ::
  "(string \<Rightarrow> string result) \<Rightarrow> 'l restConfig \<Rightarrow> 64 word \<Rightarrow> restEndpoint result" where
  "RESTClientForConfigAndClient parseHost config timeout =
     (case cfg_groupVersion config of
        None \<Rightarrow> Inl (GoErr ''GroupVersion is required when initializing a RESTClient'')
      | Some gv \<Rightarrow>
          (case parseHost (cfg_host config) of
             Inl err \<Rightarrow> Inl err
           | Inr basePath \<Rightarrow> Inr (NewRESTClient basePath (DefaultVersionedAPIPath (cfg_apiPath config) gv) timeout)))"

definition core_NewForConfigAndClient ::
  "string \<Rightarrow> (string \<Rightarrow> string result) \<Rightarrow> 'l restConfig \<Rightarrow> 64 word \<Rightarrow> restEndpoint result" where
  "core_NewForConfigAndClient defaultUserAgent parseHost c h =
     RESTClientForConfigAndClient parseHost (setConfigDefaults defaultUserAgent c) h"

definition core_NewForConfig ::
  "string \<Rightarrow> (string \<Rightarrow> string result) \<Rightarrow> ('l restConfig \<Rightarrow> 64 word result) \<Rightarrow> 'l restConfig \<Rightarrow> restEndpoint result" where
  "core_NewForConfig defaultUserAgent parseHost httpClientFor c =
     (let config = setConfigDefaults defaultUserAgent c
      in case httpClientFor config of
           Inl err \<Rightarrow> Inl err
         | Inr httpClient \<Rightarrow> core_NewForConfigAndClient defaultUserAgent parseHost config httpClient)"

text \<open>The client set adds a rate limiter shared with its discovery client, which \<open>discoveryErr\<close> may refuse.\<close>

definition clientset_NewForConfigAndClient ::
  "string \<Rightarrow> (string \<Rightarrow> string result) \<Rightarrow> (int \<Rightarrow> int \<Rightarrow> 'l) \<Rightarrow> ('l restConfig \<Rightarrow> goerror option) \<Rightarrow>
   'l restConfig \<Rightarrow> 64 word \<Rightarrow> restEndpoint result" where
  "clientset_NewForConfigAndClient defaultUserAgent parseHost newLimiter discoveryErr c h =
     (if cfg_rateLimiter c = None \<and> cfg_qps c > 0 \<and> cfg_burst c \<le> 0
      then Inl (GoErr ''burst is required to be greater than 0 when RateLimiter is not set and QPS is set to greater than 0'')
      else let c' = (if cfg_rateLimiter c = None \<and> cfg_qps c > 0
                     then c\<lparr>cfg_rateLimiter := Some (newLimiter (cfg_qps c) (cfg_burst c))\<rparr> else c)
           in case core_NewForConfigAndClient defaultUserAgent parseHost c' h of
                Inl err \<Rightarrow> Inl err
              | Inr client \<Rightarrow> (case discoveryErr c' of Some err \<Rightarrow> Inl err | None \<Rightarrow> Inr client))"

definition clientset_NewForConfig ::
  "string \<Rightarrow> (string \<Rightarrow> string result) \<Rightarrow> ('l restConfig \<Rightarrow> 64 word result) \<Rightarrow> (int \<Rightarrow> int \<Rightarrow> 'l) \<Rightarrow>
   ('l restConfig \<Rightarrow> goerror option) \<Rightarrow> 'l restConfig \<Rightarrow> restEndpoint result" where
  "clientset_NewForConfig defaultUserAgent parseHost httpClientFor newLimiter discoveryErr c =
     (let c' = (if cfg_userAgent c = [] then c\<lparr>cfg_userAgent := defaultUserAgent\<rparr> else c)
      in case httpClientFor c' of
           Inl err \<Rightarrow> Inl err
         | Inr httpClient \<Rightarrow>
             clientset_NewForConfigAndClient defaultUserAgent parseHost newLimiter discoveryErr c' httpClient)"

text \<open>\<open>None\<close> is the panic.\<close>

definition core_NewForConfigOrDie ::
  "string \<Rightarrow> (string \<Rightarrow> string result) \<Rightarrow> ('l restConfig \<Rightarrow> 64 word result) \<Rightarrow> 'l restConfig \<Rightarrow> restEndpoint option" where
  "core_NewForConfigOrDie defaultUserAgent parseHost httpClientFor c =
     (case core_NewForConfig defaultUserAgent parseHost httpClientFor c of Inl err \<Rightarrow> None | Inr client \<Rightarrow> Some client)"

definition clientset_NewForConfigOrDie ::
  "string \<Rightarrow> (string \<Rightarrow> string result) \<Rightarrow> ('l restConfig \<Rightarrow> 64 word result) \<Rightarrow> (int \<Rightarrow> int \<Rightarrow> 'l) \<Rightarrow>
   ('l restConfig \<Rightarrow> goerror option) \<Rightarrow> 'l restConfig \<Rightarrow> restEndpoint option" where
  "clientset_NewForConfigOrDie defaultUserAgent parseHost httpClientFor newLimiter discoveryErr c =
     (case clientset_NewForConfig defaultUserAgent parseHost httpClientFor newLimiter discoveryErr c of
        Inl err \<Rightarrow> None | Inr client \<Rightarrow> Some client)"

subsection \<open>Calls\<close>

datatype ('o, 'd) typedCall =
    GetCall string getOptions
  | ListCall listOpts
  | WatchCall listOpts
  | CreateCall 'o writeOptions
  | UpdateCall 'o writeOptions
  | UpdateStatusCall 'o writeOptions
  | DeleteCall string 'd
  | DeleteCollectionCall 'd listOpts
  | PatchCall string string string patchOptions "string list"

fun vmmrqs_send :: "vmmrqClient \<Rightarrow> (wire vmmrq, 'd) typedCall \<Rightarrow> 'd clientBody httpReq result" where
  "vmmrqs_send c (GetCall name opts) = vmmrqs_Get c name opts"
| "vmmrqs_send c (ListCall opts) = vmmrqs_List c opts"
| "vmmrqs_send c (WatchCall opts) = vmmrqs_Watch c opts"
| "vmmrqs_send c (CreateCall v opts) = vmmrqs_Create c v opts"
| "vmmrqs_send c (UpdateCall v opts) = vmmrqs_Update c v opts"
| "vmmrqs_send c (UpdateStatusCall v opts) = vmmrqs_UpdateStatus c v opts"
| "vmmrqs_send c (DeleteCall name opts) = vmmrqs_Delete c name opts"
| "vmmrqs_send c (DeleteCollectionCall opts listOpts) = vmmrqs_DeleteCollection c opts listOpts"
| "vmmrqs_send c (PatchCall name pt data opts subs) = vmmrqs_Patch c name pt data opts subs"

fun mTQs_send :: "restEndpoint \<Rightarrow> (mtq, 'd) typedCall \<Rightarrow> 'd clientBody httpReq result" where
  "mTQs_send c (GetCall name opts) = mTQs_Get c name opts"
| "mTQs_send c (ListCall opts) = mTQs_List c opts"
| "mTQs_send c (WatchCall opts) = mTQs_Watch c opts"
| "mTQs_send c (CreateCall m opts) = mTQs_Create c m opts"
| "mTQs_send c (UpdateCall m opts) = mTQs_Update c m opts"
| "mTQs_send c (UpdateStatusCall m opts) = mTQs_UpdateStatus c m opts"
| "mTQs_send c (DeleteCall name opts) = mTQs_Delete c name opts"
| "mTQs_send c (DeleteCollectionCall opts listOpts) = mTQs_DeleteCollection c opts listOpts"
| "mTQs_send c (PatchCall name pt data opts subs) = mTQs_Patch c name pt data opts subs"

text \<open>What a call means: verb, name and subresources. A list or watch may pin a name by its selector.\<close>

fun callVerb :: "('o, 'd) typedCall \<Rightarrow> string" where
  "callVerb (GetCall name opts) = ''get''"
| "callVerb (ListCall opts) = (if lo_watch opts then ''watch'' else ''list'')"
| "callVerb (WatchCall opts) = ''watch''"
| "callVerb (CreateCall v opts) = ''create''"
| "callVerb (UpdateCall v opts) = ''update''"
| "callVerb (UpdateStatusCall v opts) = ''update''"
| "callVerb (DeleteCall name opts) = ''delete''"
| "callVerb (DeleteCollectionCall opts listOpts) = ''deletecollection''"
| "callVerb (PatchCall name pt data opts subs) = ''patch''"

fun callName :: "('o \<Rightarrow> string) \<Rightarrow> ('o, 'd) typedCall \<Rightarrow> string option" where
  "callName nm (GetCall name opts) = Some name"
| "callName nm (UpdateCall v opts) = Some (nm v)"
| "callName nm (UpdateStatusCall v opts) = Some (nm v)"
| "callName nm (DeleteCall name opts) = Some name"
| "callName nm (PatchCall name pt data opts subs) = Some name"
| "callName nm _ = None"

fun callSubs :: "('o, 'd) typedCall \<Rightarrow> string list" where
  "callSubs (UpdateStatusCall v opts) = [''status'']"
| "callSubs (PatchCall name pt data opts subs) = filter (\<lambda>s. s \<noteq> []) subs"
| "callSubs _ = []"

fun isCreate :: "('o, 'd) typedCall \<Rightarrow> bool" where
  "isCreate (CreateCall v opts) = True"
| "isCreate _ = False"

fun isPatch :: "('o, 'd) typedCall \<Rightarrow> bool" where
  "isPatch (PatchCall name pt data opts subs) = True"
| "isPatch _ = False"

fun isListing :: "('o, 'd) typedCall \<Rightarrow> bool" where
  "isListing (ListCall opts) = True"
| "isListing (WatchCall opts) = True"
| "isListing _ = False"

text \<open>Valid names; a namespace where one is needed, which is not checked for a patch.\<close>

definition namesOk :: "('o \<Rightarrow> string) \<Rightarrow> ('o, 'd) typedCall \<Rightarrow> bool" where
  "namesOk nm call \<longleftrightarrow>
     (case callName nm call of None \<Rightarrow> True | Some n \<Rightarrow> n \<noteq> [] \<and> IsValidPathSegmentName n = []) \<and>
     list_all (\<lambda>s. IsValidPathSegmentName s = []) (callSubs call)"

definition namespaceOk :: "('o \<Rightarrow> string) \<Rightarrow> string \<Rightarrow> ('o, 'd) typedCall \<Rightarrow> bool" where
  "namespaceOk nm ns call \<longleftrightarrow>
     IsValidPathSegmentName ns = [] \<and>
     (ns = [] \<longrightarrow> \<not> isCreate call \<and> (callName nm call = None \<or> isPatch call))"

definition callTarget ::
  "string \<Rightarrow> string \<Rightarrow> string option \<Rightarrow> ('o \<Rightarrow> string) \<Rightarrow> ('o, 'd) typedCall \<Rightarrow> apiTarget" where
  "callTarget ns res pinned nm call =
     \<lparr>at_verb = callVerb call, at_group = ''mtq.kubevirt.io'', at_version = ''v1alpha1'', at_namespace = ns,
      at_resource = res, at_subresource = (case callSubs call of [] \<Rightarrow> [] | s # _ \<Rightarrow> s),
      at_name = (case callName nm call of
          Some n \<Rightarrow> n
        | None \<Rightarrow> (case pinned of
              Some n \<Rightarrow> if isListing call \<and> IsValidPathSegmentName n = [] then n else []
            | None \<Rightarrow> []))\<rparr>"

end
