(* ===== verification/ClientRoutes.thy ===== *)
theory ClientRoutes
  imports TypedClients
begin

text \<open>
  All methods of the generated clients in one form, \<open>routed\<close>: an optional namespace, the resource, an
  optional name and subresources, then steps that do not touch the route. From it: which calls are
  refused (\<open>callRequest_refused\<close>), and what the server understands of the others
  (\<open>callRequest_understood\<close>).
\<close>

subsection \<open>Building a request\<close>

text \<open>What routes a request, and the steps of all the methods in one form.\<close>

definition route :: "'b restReq \<Rightarrow> _" where
  "route r = (rqst_verb r, rqst_pathPrefix r, rqst_namespaceSet r, rqst_namespace r, rqst_resource r,
     rqst_resourceName r, rqst_subresource r, rqst_err r)"

definition harmless :: "('b restReq \<Rightarrow> 'b restReq) \<Rightarrow> bool" where
  "harmless f \<longleftrightarrow> (\<forall>r. route (f r) = route r)"

definition optStep :: "('a \<Rightarrow> 'b restReq \<Rightarrow> 'b restReq) \<Rightarrow> 'a option \<Rightarrow> ('b restReq \<Rightarrow> 'b restReq) list" where
  "optStep f x = (case x of None \<Rightarrow> [] | Some v \<Rightarrow> [f v])"

definition routed ::
  "'b restReq \<Rightarrow> string option \<Rightarrow> string \<Rightarrow> string option \<Rightarrow> string list option \<Rightarrow> ('b restReq \<Rightarrow> 'b restReq) list \<Rightarrow> 'b restReq" where
  "routed r0 ns res name subs others =
     build r0 (optStep req_Namespace ns @ req_Resource res # optStep req_Name name @ optStep req_SubResource subs @ others)"

lemma build_simps [simp]:
  "build r [] = r"
  "build r (f # fs) = build (f r) fs"
  "build r (fs @ gs) = build (build r fs) gs"
  by (simp_all add: build_def)

lemma optStep_simps [simp]: "optStep f None = []" "optStep f (Some x) = [f x]"
  by (simp_all add: optStep_def)

lemma harmless_steps:
  "harmless (req_VersionedParams ps)" "harmless (req_Timeout d)" "harmless (req_Object b)" "harmless (req_Bytes b)"
  by (simp_all add: harmless_def route_def onRequest_def req_VersionedParams_def req_Timeout_def req_Object_def req_Bytes_def)

lemma route_build: "list_all harmless fs \<Longrightarrow> route (build r fs) = route r"
  by (induction fs arbitrary: r) (auto simp: harmless_def)

definition namesFit :: "string option \<Rightarrow> string option \<Rightarrow> string list option \<Rightarrow> bool" where
  "namesFit ns name subs \<longleftrightarrow>
     (\<forall>n. ns = Some n \<longrightarrow> IsValidPathSegmentName n = []) \<and>
     (\<forall>n. name = Some n \<longrightarrow> n \<noteq> [] \<and> IsValidPathSegmentName n = []) \<and>
     (\<forall>ss. subs = Some ss \<longrightarrow> list_all (\<lambda>s. IsValidPathSegmentName s = []) ss)"

definition textOf :: "string option \<Rightarrow> string" where
  "textOf x = (case x of None \<Rightarrow> [] | Some s \<Rightarrow> s)"

lemmas request_steps = req_Namespace_def req_Resource_def req_Name_def req_SubResource_def onRequest_def failRequest_def

lemma plainResource_valid: "plainResource res \<Longrightarrow> CHR ''%'' \<notin> set res \<Longrightarrow> IsValidPathSegmentName res = []"
  by (auto simp: plainResource_def properSeg_def valid_iff)

lemma err_step:
  "rqst_err r \<noteq> None \<Longrightarrow> rqst_err (req_Namespace n r) \<noteq> None"
  "rqst_err r \<noteq> None \<Longrightarrow> rqst_err (req_Resource n r) \<noteq> None"
  "rqst_err r \<noteq> None \<Longrightarrow> rqst_err (req_Name n r) \<noteq> None"
  "rqst_err r \<noteq> None \<Longrightarrow> rqst_err (req_SubResource ss r) \<noteq> None"
  by (simp_all add: request_steps)

lemma err_optStep: "rqst_err r \<noteq> None \<Longrightarrow> (\<And>x r. rqst_err r \<noteq> None \<Longrightarrow> rqst_err (f x r) \<noteq> None) \<Longrightarrow> rqst_err (build r (optStep f x)) \<noteq> None"
  by (cases x) simp_all

definition fresh :: "'b restReq \<Rightarrow> bool" where
  "fresh r \<longleftrightarrow> \<not> rqst_namespaceSet r \<and> rqst_namespace r = [] \<and> rqst_resource r = [] \<and> rqst_resourceName r = []
     \<and> rqst_subresource r = [] \<and> rqst_err r = None"

lemma route_routed:
  assumes "fresh r0" and "list_all harmless others" and "IsValidPathSegmentName res = []"
  shows "if namesFit ns name subs
     then route (routed r0 ns res name subs others) =
       (rqst_verb r0, rqst_pathPrefix r0, ns \<noteq> None, textOf ns, res, textOf name,
        case subs of None \<Rightarrow> [] | Some ss \<Rightarrow> pathJoin ss, None)
     else rqst_err (routed r0 ns res name subs others) \<noteq> None"
proof -
  define r1 where "r1 = build r0 (optStep req_Namespace ns)"
  define r2 where "r2 = req_Resource res r1"
  define r3 where "r3 = build r2 (optStep req_Name name)"
  define r4 where "r4 = build r3 (optStep req_SubResource subs)"
  let ?r = "routed r0 ns res name subs others"
  have r: "route ?r = route r4"
    unfolding routed_def r4_def r3_def r2_def r1_def by (simp add: route_build [OF assms(2)])
  then have err: "rqst_err ?r = rqst_err r4" by (simp add: route_def)
  have e4: "rqst_err r3 \<noteq> None \<Longrightarrow> rqst_err r4 \<noteq> None" unfolding r4_def by (erule err_optStep) (erule err_step)
  have e3: "rqst_err r2 \<noteq> None \<Longrightarrow> rqst_err r3 \<noteq> None" unfolding r3_def by (erule err_optStep) (erule err_step)
  have e2: "rqst_err r1 \<noteq> None \<Longrightarrow> rqst_err r2 \<noteq> None" unfolding r2_def by (erule err_step)
  have s1: "if \<forall>n. ns = Some n \<longrightarrow> IsValidPathSegmentName n = []
      then route r1 = (rqst_verb r0, rqst_pathPrefix r0, ns \<noteq> None, textOf ns, [], [], [], None) else rqst_err r1 \<noteq> None"
    using assms(1) by (cases ns) (simp_all add: r1_def fresh_def route_def textOf_def request_steps)
  show ?thesis
  proof (cases "\<forall>n. ns = Some n \<longrightarrow> IsValidPathSegmentName n = []")
    case False
    then show ?thesis using s1 e2 e3 e4 err by (auto simp: namesFit_def)
  next
    case ns: True
    then have r1: "route r1 = (rqst_verb r0, rqst_pathPrefix r0, ns \<noteq> None, textOf ns, [], [], [], None)" using s1 by simp
    then have r2: "route r2 = (rqst_verb r0, rqst_pathPrefix r0, ns \<noteq> None, textOf ns, res, [], [], None)"
      using assms(3) by (simp add: r2_def route_def request_steps)
    show ?thesis
    proof (cases "\<forall>n. name = Some n \<longrightarrow> n \<noteq> [] \<and> IsValidPathSegmentName n = []")
      case False
      then have "rqst_err r3 \<noteq> None" using r2 by (auto simp: r3_def route_def request_steps)
      then show ?thesis using e4 err False by (auto simp: namesFit_def)
    next
      case name: True
      then have r3: "route r3 = (rqst_verb r0, rqst_pathPrefix r0, ns \<noteq> None, textOf ns, res, textOf name, [], None)"
        using r2 by (cases name) (simp_all add: r3_def route_def request_steps textOf_def)
      show ?thesis
      proof (cases subs)
        case None
        then show ?thesis using r r3 ns name by (simp add: r4_def namesFit_def)
      next
        case (Some ss)
        then show ?thesis
          using r r3 ns name err
          by (simp add: r4_def namesFit_def route_def request_steps Let_def list_ex_iff list_all_iff)
      qed
    qed
  qed
qed

subsection \<open>Sending a routed request\<close>

definition preflightFits :: "string \<Rightarrow> string option \<Rightarrow> string option \<Rightarrow> bool" where
  "preflightFits verb ns name \<longleftrightarrow>
     \<not> (ns = Some [] \<and> (verb = ''POST'' \<or> verb \<in> {''GET'', ''PUT'', ''DELETE''} \<and> name \<noteq> None))"

definition segmentsOf :: "string list \<Rightarrow> string option \<Rightarrow> string \<Rightarrow> string option \<Rightarrow> string list option \<Rightarrow> string list" where
  "segmentsOf prefix ns res name subs =
     prefix @ (if textOf ns = [] then [] else [''namespaces'', textOf ns]) @
     res # (case name of None \<Rightarrow> [] | Some n \<Rightarrow> [n]) @
     (case subs of None \<Rightarrow> [] | Some ss \<Rightarrow> filter (\<lambda>s. s \<noteq> []) ss)"

lemma properSeg_words: "properSeg ''namespaces''"
  by (simp add: properSeg_def)

lemma pathJoin_rest:
  assumes "\<forall>s \<in> set ss. properSeg s"
  shows "dotFree a \<Longrightarrow> dotFree b \<Longrightarrow> pathJoin [absPath ss, a, b, []] = absPath (ss @ segments a @ segments b)"
    and "dotFree a \<Longrightarrow> pathJoin [absPath ss, a] = absPath (ss @ segments a)"
    and "dotFree a \<Longrightarrow> dotFree b \<Longrightarrow> pathJoin [absPath ss, a, b] = absPath (ss @ segments a @ segments b)"
  using pathJoin_absPath [OF assms, of "[a, b, []]"] pathJoin_absPath [OF assms, of "[a]"]
    pathJoin_absPath [OF assms, of "[a, b]"] by simp_all

lemma requestPath_routed:
  assumes route: "route r = (verb, absPath prefix, ns \<noteq> None, textOf ns, res, textOf name,
        case subs of None \<Rightarrow> [] | Some ss \<Rightarrow> pathJoin ss, None)"
    and prefix: "\<forall>s \<in> set prefix. properSeg s" and fit: "namesFit ns name subs" and res: "properSeg res" "ToLower res = res"
  shows "requestPath r = absPath (segmentsOf prefix ns res name subs)"
    and "\<forall>s \<in> set (segmentsOf prefix ns res name subs). properSeg s"
proof -
  let ?n = "if textOf ns = [] then [] else [''namespaces'', textOf ns]"
  let ?sub = "case subs of None \<Rightarrow> [] | Some ss \<Rightarrow> pathJoin ss"
  let ?name = "case name of None \<Rightarrow> [] | Some n \<Rightarrow> [n]"
  let ?subs = "case subs of None \<Rightarrow> [] | Some ss \<Rightarrow> filter (\<lambda>s. s \<noteq> []) ss"
  have ns: "textOf ns \<noteq> [] \<Longrightarrow> properSeg (textOf ns)" using fit by (auto simp: namesFit_def textOf_def intro: valid_proper split: option.splits)
  have name: "dotFree (textOf name)" "segments (textOf name) = ?name" "\<forall>s \<in> set ?name. properSeg s"
    using fit by (auto simp: namesFit_def textOf_def valid_proper split: option.splits)
  have sub: "dotFree ?sub" "segments ?sub = ?subs" "\<forall>s \<in> set ?subs. properSeg s"
    using fit pathJoin_valid by (auto simp: namesFit_def list_all_iff intro: valid_proper split: option.splits)
  have p1: "\<forall>s \<in> set (prefix @ ?n). properSeg s" using prefix ns properSeg_words by auto
  then have p2: "\<forall>s \<in> set (prefix @ ?n @ [res]). properSeg s" using res by auto
  have "(if ns \<noteq> None \<and> length (textOf ns) > 0 then pathJoin [absPath prefix, ''namespaces'', textOf ns] else absPath prefix)
      = absPath (prefix @ ?n)"
    using pathJoin_rest(3) [OF prefix] ns properSeg_words by (auto simp: textOf_def)
  then have a: "pathJoin [(if ns \<noteq> None \<and> length (textOf ns) > 0 then pathJoin [absPath prefix, ''namespaces'', textOf ns] else absPath prefix), ToLower res]
      = absPath (prefix @ ?n @ [res])"
    using pathJoin_rest(2) [OF p1, of res] res by simp
  have b: "pathJoin [absPath (prefix @ ?n @ [res]), textOf name, ?sub, []] = absPath (prefix @ ?n @ [res] @ ?name @ ?subs)"
    using pathJoin_rest(1) [OF p2 name(1) sub(1)] name(2) sub(2) by simp
  have c: "?name = [] \<and> ?subs = []" if "textOf name = []" "?sub = []"
    using name(2) sub(2) that by simp
  have len: "length res \<noteq> 0" using res(1) by (simp add: properSeg_def)
  have "requestPath r = (if length (textOf name) \<noteq> 0 \<or> length ?sub \<noteq> 0
      then pathJoin [absPath (prefix @ ?n @ [res]), textOf name, ?sub, []] else absPath (prefix @ ?n @ [res]))"
    using route a len unfolding requestPath_def Let_def by (simp only: route_def prod.inject if_True simp_thms)
  also have "\<dots> = absPath (prefix @ ?n @ [res] @ ?name @ ?subs)" using b c by auto
  finally show "requestPath r = absPath (segmentsOf prefix ns res name subs)" by (simp add: segmentsOf_def)
  show "\<forall>s \<in> set (segmentsOf prefix ns res name subs). properSeg s"
    using p2 name(3) sub(3) by (auto simp: segmentsOf_def)
qed


lemma routed_others: "routed r0 ns res name subs others = build (routed r0 ns res name subs []) others"
  by (simp add: routed_def)

text \<open>A client whose requests begin with the path of its API group.\<close>

definition servesGroup :: "restEndpoint \<Rightarrow> restClient \<Rightarrow> bool" where
  "servesGroup c gv \<longleftrightarrow>
     pathJoin [''/'', rest_base c, rest_versionedAPIPath c] = absPath (clientPrefix gv) \<and> list_all properSeg (clientPrefix gv)"

lemma fresh_NewRequest [simp]:
  "fresh (rest_Get c)" "fresh (rest_Post c)" "fresh (rest_Put c)" "fresh (rest_Delete c)" "fresh (rest_Patch c pt)"
  by (simp_all add: fresh_def rest_Get_def rest_Post_def rest_Put_def rest_Delete_def rest_Patch_def NewRequest_def)

lemma verb_NewRequest [simp]:
  "rqst_verb (rest_Get c) = ''GET''" "rqst_verb (rest_Post c) = ''POST''" "rqst_verb (rest_Put c) = ''PUT''"
  "rqst_verb (rest_Delete c) = ''DELETE''" "rqst_verb (rest_Patch c pt) = ''PATCH''"
  by (simp_all add: rest_Get_def rest_Post_def rest_Put_def rest_Delete_def rest_Patch_def NewRequest_def)

definition startsAt :: "restEndpoint \<Rightarrow> 'b restReq \<Rightarrow> bool" where
  "startsAt c r \<longleftrightarrow> rqst_pathPrefix r = pathJoin [''/'', rest_base c, rest_versionedAPIPath c]"

lemma prefix_NewRequest [simp]:
  "startsAt c (rest_Get c)" "startsAt c (rest_Post c)" "startsAt c (rest_Put c)" "startsAt c (rest_Delete c)" "startsAt c (rest_Patch c pt)"
  by (simp_all add: startsAt_def rest_Get_def rest_Post_def rest_Put_def rest_Delete_def rest_Patch_def NewRequest_def)

definition firstOf :: "string list option \<Rightarrow> string" where
  "firstOf subs = (case subs of None \<Rightarrow> [] | Some ss \<Rightarrow> (case filter (\<lambda>s. s \<noteq> []) ss of [] \<Rightarrow> [] | s # _ \<Rightarrow> s))"

lemma routed_sent:
  assumes r0: "fresh r0" "startsAt c r0" "servesGroup c gv" and others: "list_all harmless others"
    and res: "plainResource res \<or> res = ''namespaces'' \<and> textOf ns = [] \<and> name = None" "IsValidPathSegmentName res = []" and order: "name = None \<longrightarrow> subs = None"
    and fit: "namesFit ns name subs"
  shows "rqst_err (routed r0 ns res name subs others) = None"
    and "requestPreflightCheck (routed r0 ns res name subs others) = None \<longleftrightarrow> preflightFits (rqst_verb r0) ns name"
    and "understood D (newHTTPRequest (routed r0 ns res name subs others)) = Inr
      (let q = requestQuery (routed r0 ns res name subs others); vn = verbAndName D (rqst_verb r0) q (textOf name)
       in \<lparr>at_verb = fst vn, at_group = rc_group gv, at_version = rc_version gv, at_namespace = textOf ns, at_resource = res,
           at_subresource = firstOf subs, at_name = snd vn\<rparr>)"
proof -
  let ?r = "routed r0 ns res name subs others"
  have route: "route ?r = (rqst_verb r0, absPath (clientPrefix gv), ns \<noteq> None, textOf ns, res, textOf name,
      case subs of None \<Rightarrow> [] | Some ss \<Rightarrow> pathJoin ss, None)"
    using route_routed [OF r0(1) others res(2), of ns name subs] fit r0(2,3) by (simp add: startsAt_def servesGroup_def)
  have prefix: "\<forall>s \<in> set (clientPrefix gv). properSeg s" using r0(3) by (simp add: servesGroup_def list_all_iff)
  have "properSeg ''namespaces'' \<and> ToLower ''namespaces'' = ''namespaces''" by code_simp
  then have low: "properSeg res" "ToLower res = res" using res(1) by (auto simp: plainResource_def)
  have path: "splitPath (requestPath ?r) = segmentsOf (clientPrefix gv) ns res name subs"
    using requestPath_routed [OF route prefix fit low] splitPath_abs by metis
  show "rqst_err ?r = None" using route by (simp add: route_def)
  show "requestPreflightCheck ?r = None \<longleftrightarrow> preflightFits (rqst_verb r0) ns name"
    using route fit by (auto simp: route_def requestPreflightCheck_def preflightFits_def textOf_def namesFit_def split: option.splits)
  let ?rest = "(case name of None \<Rightarrow> [] | Some n \<Rightarrow> [n]) @ (case subs of None \<Rightarrow> [] | Some ss \<Rightarrow> filter (\<lambda>s. s \<noteq> []) ss)"
  have head: "(if ?rest = [] then [] else hd ?rest) = textOf name" "(if length ?rest \<ge> 2 then ?rest ! 1 else []) = firstOf subs"
    using order by (cases name; auto simp: textOf_def firstOf_def split: option.splits list.splits)+
  have "splitPath (hr_path (newHTTPRequest ?r)) = clientPrefix gv @ (if textOf ns = [] then [] else [''namespaces'', textOf ns]) @ res # ?rest"
    using path by (simp add: newHTTPRequest_def segmentsOf_def)
  note understood_resource [OF this, of D]
  moreover have "plainResource res \<or> res = ''namespaces'' \<and> textOf ns = [] \<and> ?rest = []" using res(1) order by auto
  ultimately show "understood D (newHTTPRequest ?r) = Inr
      (let q = requestQuery ?r; vn = verbAndName D (rqst_verb r0) q (textOf name)
       in \<lparr>at_verb = fst vn, at_group = rc_group gv, at_version = rc_version gv, at_namespace = textOf ns, at_resource = res,
           at_subresource = firstOf subs, at_name = snd vn\<rparr>)"
    unfolding head using route by (simp add: newHTTPRequest_def route_def Let_def)
qed

lemma routed_refused:
  assumes "fresh r0" and "list_all harmless others" and "IsValidPathSegmentName res = []" and "\<not> namesFit ns name subs"
  shows "rqst_err (routed r0 ns res name subs others) \<noteq> None"
  using route_routed [OF assms(1,2,3), of ns name subs] assms(4) by simp

text \<open>The query of a listing: the server reads \<open>watch\<close> back.\<close>

lemma params_steps [simp]:
  "rqst_params (req_Namespace n r) = rqst_params r" "rqst_params (req_Resource n r) = rqst_params r"
  "rqst_params (req_Name n r) = rqst_params r" "rqst_params (req_SubResource ss r) = rqst_params r"
  by (simp_all add: request_steps Let_def)

lemma params_routed: "rqst_params (routed r0 ns res name subs []) = rqst_params r0"
  by (cases ns; cases name; cases subs) (simp_all add: routed_def)

lemma params_fresh [simp]: "rqst_params (rest_Get c) = []"
  by (simp add: rest_Get_def NewRequest_def)

lemma query_listing:
  fixes c :: restEndpoint
  assumes "rqst_err (routed (rest_Get c :: 'd clientBody restReq) ns res None None []) = None"
  shows "valuesOf ''watch'' (requestQuery (routed (rest_Get c :: 'd clientBody restReq) ns res None None
      [req_VersionedParams ps, req_Timeout d])) = valuesOf ''watch'' ps"
proof -
  let ?g = "rest_Get c :: 'd clientBody restReq"
  let ?s = "routed ?g ns res None None []"
  have "routed ?g ns res None None [req_VersionedParams ps, req_Timeout d] = req_Timeout d (req_VersionedParams ps ?s)"
    by (simp add: routed_others [of _ _ _ _ _ "[req_VersionedParams ps, req_Timeout d]"])
  moreover have "rqst_params (req_Timeout d (req_VersionedParams ps s)) = rqst_params s @ ps" if "rqst_err s = None"
    for s :: "'d clientBody restReq"
    using that by (simp add: onRequest_def req_VersionedParams_def req_Timeout_def)
  ultimately have "rqst_params (routed ?g ns res None None [req_VersionedParams ps, req_Timeout d]) = ps"
    using assms params_routed [of ?g ns res None None] by simp
  moreover have "filter (\<lambda>x. fst x \<noteq> ''timeout'' \<and> fst x = ''watch'') ps = filter (\<lambda>p. fst p = ''watch'') ps"
    by (rule filter_cong) auto
  ultimately show ?thesis by (simp add: requestQuery_def valuesOf_def)
qed

lemma watch_encoded: "valuesOf ''watch'' (encodeListOptions o1) = (if lo_watch o1 then [''true''] else [])"
  by (simp add: encodeListOptions_def valuesOf_def stringParam_def boolParam_def pointerParam_def boolText_def split: option.split)

definition pinnedName :: "(urlValues \<Rightarrow> string option result) \<Rightarrow> urlValues \<Rightarrow> string option" where
  "pinnedName D query = (case D query of Inl err \<Rightarrow> None | Inr n \<Rightarrow> n)"

lemma ToLower_true: "ToLower ''true'' = ''true''"
  by code_simp

lemma listOptionsOf_watch:
  "valuesOf ''watch'' query = (if w then [''true''] else []) \<Longrightarrow> listOptionsOf D query = (w, pinnedName D query)"
  by (auto simp: listOptionsOf_def pinnedName_def Convert_Slice_string_To_bool_def ToLower_true split: sum.split)

subsection \<open>Every call\<close>

lemma Do_routed:
  assumes "fresh r0" "startsAt c r0" "servesGroup c gv" and "list_all harmless others"
    and "plainResource res" "IsValidPathSegmentName res = []" and "name = None \<longrightarrow> subs = None"
  shows "(\<exists>e. req_Do (routed r0 ns res name subs others) = Inl e) \<longleftrightarrow>
      \<not> (namesFit ns name subs \<and> preflightFits (rqst_verb r0) ns name)"
    and "(\<exists>e. req_Watch (routed r0 ns res name subs others) = Inl e) \<longleftrightarrow> \<not> namesFit ns name subs"
    and "req_Do (routed r0 ns res name subs others) = Inr h \<or> req_Watch (routed r0 ns res name subs others) = Inr h \<Longrightarrow>
      rqst_err (routed r0 ns res name subs []) = None \<and> hr_query h = requestQuery (routed r0 ns res name subs others) \<and>
      understood D h = Inr
        (let vn = verbAndName D (rqst_verb r0) (hr_query h) (textOf name)
         in \<lparr>at_verb = fst vn, at_group = rc_group gv, at_version = rc_version gv, at_namespace = textOf ns, at_resource = res,
             at_subresource = firstOf subs, at_name = snd vn\<rparr>)"
proof -
  let ?r = "routed r0 ns res name subs others"
  note sent = routed_sent [OF assms(1-4) disjI1 [OF assms(5)] assms(6,7)] and refused = routed_refused [OF assms(1,4,6), of ns name subs]
  have bare: "namesFit ns name subs \<Longrightarrow> rqst_err (routed r0 ns res name subs []) = None"
    by (rule routed_sent(1) [OF assms(1,2,3) _ disjI1 [OF assms(5)] assms(6,7)]) simp
  show "(\<exists>e. req_Do ?r = Inl e) \<longleftrightarrow> \<not> (namesFit ns name subs \<and> preflightFits (rqst_verb r0) ns name)"
    using sent(1,2) [of ns] refused by (cases "namesFit ns name subs") (auto simp: req_Do_def split: option.splits)
  show "(\<exists>e. req_Watch ?r = Inl e) \<longleftrightarrow> \<not> namesFit ns name subs"
    using sent(1) [of ns] refused by (cases "namesFit ns name subs") (auto simp: req_Watch_def split: option.splits)
  assume "req_Do ?r = Inr h \<or> req_Watch ?r = Inr h"
  then have err: "rqst_err ?r = None" and h: "h = newHTTPRequest ?r"
    by (auto simp: req_Do_def req_Watch_def split: option.splits)
  then have fit: "namesFit ns name subs" using refused by blast
  show "rqst_err (routed r0 ns res name subs []) = None \<and> hr_query h = requestQuery ?r \<and> understood D h = Inr
        (let vn = verbAndName D (rqst_verb r0) (hr_query h) (textOf name)
         in \<lparr>at_verb = fst vn, at_group = rc_group gv, at_version = rc_version gv, at_namespace = textOf ns, at_resource = res,
             at_subresource = firstOf subs, at_name = snd vn\<rparr>)"
    using sent(3) [of ns, OF fit, of D] bare [OF fit] by (simp add: h newHTTPRequest_def Let_def)
qed

lemma resources_plain:
  "plainResource vmmrqResource" "IsValidPathSegmentName vmmrqResource = []"
  "plainResource mtqResource" "IsValidPathSegmentName mtqResource = []"
  by code_simp+

text \<open>The routing part of every call, for both clients.\<close>

fun callMethod :: "restEndpoint \<Rightarrow> ('o, 'd) typedCall \<Rightarrow> 'b restReq" where
  "callMethod c (CreateCall v opts) = rest_Post c"
| "callMethod c (UpdateCall v opts) = rest_Put c"
| "callMethod c (UpdateStatusCall v opts) = rest_Put c"
| "callMethod c (DeleteCall name opts) = rest_Delete c"
| "callMethod c (DeleteCollectionCall opts listOpts) = rest_Delete c"
| "callMethod c (PatchCall name pt data opts subs) = rest_Patch c pt"
| "callMethod c _ = rest_Get c"

fun callSubsGiven :: "('o, 'd) typedCall \<Rightarrow> string list option" where
  "callSubsGiven (UpdateStatusCall v opts) = Some [''status'']"
| "callSubsGiven (PatchCall name pt data opts subs) = Some subs"
| "callSubsGiven _ = None"

fun callOptions :: "('o \<Rightarrow> 'd clientBody) \<Rightarrow> ('o, 'd) typedCall \<Rightarrow> ('d clientBody restReq \<Rightarrow> 'd clientBody restReq) list" where
  "callOptions body (GetCall name opts) = [req_VersionedParams (encodeGetOptions opts)]"
| "callOptions body (ListCall opts) = [req_VersionedParams (encodeListOptions opts), req_Timeout (listTimeout opts)]"
| "callOptions body (WatchCall opts) =
     [req_VersionedParams (encodeListOptions (opts\<lparr>lo_watch := True\<rparr>)), req_Timeout (listTimeout opts)]"
| "callOptions body (CreateCall v opts) = [req_VersionedParams (encodeWriteOptions opts), req_Object (body v)]"
| "callOptions body (UpdateCall v opts) = [req_VersionedParams (encodeWriteOptions opts), req_Object (body v)]"
| "callOptions body (UpdateStatusCall v opts) = [req_VersionedParams (encodeWriteOptions opts), req_Object (body v)]"
| "callOptions body (DeleteCall name opts) = [req_Object (DeleteBody opts)]"
| "callOptions body (DeleteCollectionCall opts listOpts) =
     [req_VersionedParams (encodeListOptions listOpts), req_Timeout (listTimeout listOpts), req_Object (DeleteBody opts)]"
| "callOptions body (PatchCall name pt data opts subs) =
     [req_VersionedParams (encodePatchOptions opts), req_Bytes (PatchBody data)]"

definition callRequest ::
  "restEndpoint \<Rightarrow> string option \<Rightarrow> string \<Rightarrow> ('o \<Rightarrow> string) \<Rightarrow> ('o \<Rightarrow> 'd clientBody) \<Rightarrow> ('o, 'd) typedCall \<Rightarrow> 'd clientBody httpReq result" where
  "callRequest c ns res nm body call =
     (let r = routed (callMethod c call) ns res (callName nm call) (callSubsGiven call) (callOptions body call)
      in case call of WatchCall opts \<Rightarrow> req_Watch r | _ \<Rightarrow> req_Do r)"

lemma vmmrqs_send_eq:
  "vmmrqs_send (newVirtualMachineMigrationResourceQuotas c ns) call = callRequest c (Some ns) vmmrqResource v_name VmmrqBody call"
  by (cases call) (simp_all add: vmmrq_methods callRequest_def routed_def Let_def newVirtualMachineMigrationResourceQuotas_def)

lemma mTQs_send_eq: "mTQs_send c call = callRequest c None mtqResource mtq_name MtqBody call"
  by (cases call) (simp_all add: mtq_methods callRequest_def routed_def Let_def)

lemma call_parts:
  "fresh (callMethod c call)" "startsAt c (callMethod c call)" "list_all harmless (callOptions body call)"
  "callName nm call = None \<longrightarrow> callSubsGiven call = None"
  by (cases call; simp add: harmless_steps)+

lemma namesFit_call:
  "namesFit ns (callName nm call) (callSubsGiven call) \<longleftrightarrow>
     namesOk nm call \<and> (\<forall>n. ns = Some n \<longrightarrow> IsValidPathSegmentName n = [])"
  by (cases call) (auto simp: namesFit_def namesOk_def valid_iff list_all_iff)

lemma firstOf_call: "firstOf (callSubsGiven call) = (case callSubs call of [] \<Rightarrow> [] | s # _ \<Rightarrow> s)"
  by (cases call) (simp_all add: firstOf_def)

lemma preflight_call:
  "preflightFits (rqst_verb (callMethod c call)) ns (callName nm call) \<longleftrightarrow>
     (ns = Some [] \<longrightarrow> \<not> isCreate call \<and> (callName nm call = None \<or> isPatch call))"
  by (cases call) (auto simp: preflightFits_def)

lemma callRequest_refused:
  assumes "servesGroup c gv" and "plainResource res" and "IsValidPathSegmentName res = []"
  shows "(\<exists>e. callRequest c ns res nm body call = Inl e) \<longleftrightarrow>
    \<not> (namesOk nm call \<and> (\<forall>n. ns = Some n \<longrightarrow> namespaceOk nm n call))"
proof -
  note R = Do_routed(1,2) [OF call_parts(1,2) [of c call] assms(1) call_parts(3) [of body call] assms(2,3) call_parts(4) [of nm call], of ns]
  show ?thesis
  proof (cases "\<exists>opts. call = WatchCall opts")
    case True
    then show ?thesis using R(2) by (auto simp: callRequest_def Let_def namesFit_call namespaceOk_def)
  next
    case False
    then have "callRequest c ns res nm body call =
        req_Do (routed (callMethod c call) ns res (callName nm call) (callSubsGiven call) (callOptions body call))"
      by (cases call) (simp_all add: callRequest_def)
    then show ?thesis using R(1) unfolding namesFit_call preflight_call by (auto simp: namespaceOk_def)
  qed
qed

lemma callRequest_understood:
  fixes body :: "'o \<Rightarrow> 'd clientBody"
  assumes "servesGroup c mtqV1alpha1" and "plainResource res" and "IsValidPathSegmentName res = []"
    and sent: "callRequest c ns res nm body call = Inr req"
  shows "understood D req = Inr (callTarget (textOf ns) res (pinnedName D (hr_query req)) nm call)"
proof -
  let ?m = "callMethod c call :: 'd clientBody restReq"
  let ?r = "routed ?m ns res (callName nm call) (callSubsGiven call) (callOptions body call)"
  have "req_Do ?r = Inr req \<or> req_Watch ?r = Inr req"
    using sent by (cases call) (simp_all add: callRequest_def)
  note S = Do_routed(3) [OF call_parts(1,2) [of c call] assms(1) call_parts(3) [of body call] assms(2,3) call_parts(4) [of nm call] this, of D]
  then have err: "rqst_err (routed ?m ns res (callName nm call) (callSubsGiven call) []) = None"
    and query: "hr_query req = requestQuery ?r" by simp_all
  have group: "rc_group mtqV1alpha1 = ''mtq.kubevirt.io''" "rc_version mtqV1alpha1 = ''v1alpha1''" by (simp_all add: mtqV1alpha1_def)
  have names: "callName nm call = Some n \<Longrightarrow> n \<noteq> []" for n
    using sent callRequest_refused [OF assms(1,2,3), of ns nm body call] by (auto simp: namesOk_def)
  have listing: "listOptionsOf D (hr_query req) = (callVerb call = ''watch'', pinnedName D (hr_query req))" if "isListing call"
    using that err query by (cases call) (simp_all add: listOptionsOf_watch query_listing watch_encoded)
  have "verbAndName D (rqst_verb ?m) (hr_query req) (textOf (callName nm call)) =
      (callVerb call, at_name (callTarget (textOf ns) res (pinnedName D (hr_query req)) nm call))"
    using names listing by (cases call) (auto simp: verbAndName_def methodVerb_def textOf_def callTarget_def split: option.split)
  then show ?thesis using S firstOf_call [of call] by (simp add: Let_def callTarget_def group)
qed

lemma core_client:
  assumes "core_NewForConfig userAgent parseHost httpClientFor config = Inr c" and "parseHost (cfg_host config) = Inr []"
  shows "servesGroup c mtqV1alpha1"
proof -
  have "servesGroup (NewRESTClient [] (DefaultVersionedAPIPath ''/apis'' mtqV1alpha1) t) mtqV1alpha1" for t
  proof -
    have "pathJoin [''/'', ''/'', DefaultVersionedAPIPath ''/apis'' mtqV1alpha1] = absPath (clientPrefix mtqV1alpha1)"
      "list_all properSeg (clientPrefix mtqV1alpha1)"
      by code_simp+
    then show ?thesis by (simp add: servesGroup_def NewRESTClient_def)
  qed
  moreover have "cfg_host (setConfigDefaults userAgent x) = cfg_host x" "cfg_apiPath (setConfigDefaults userAgent x) = ''/apis''"
    "cfg_groupVersion (setConfigDefaults userAgent x) = Some mtqV1alpha1" for x :: "'a restConfig"
    by (simp_all add: setConfigDefaults_def Let_def)
  ultimately show ?thesis
    using assms by (auto simp: core_NewForConfig_def core_NewForConfigAndClient_def RESTClientForConfigAndClient_def Let_def
        split: sum.splits)
qed

end
