(* ===== verification/FakeClients.thy ===== *)
theory FakeClients
  imports TypedClients
begin

text \<open>
  The fake clients for unit tests (\<open>fake/fake_mtq.go\<close>, \<open>fake_virtualmachinemigrationresourcequota.go\<close>,
  \<open>fake_core_client.go\<close>) over client-go's \<open>testing\<close> package (\<open>actions.go\<close>, \<open>fake.go\<close>): a call becomes an
  action, which is recorded and handed to a chain of reactors. The selectors of a listing are parsed
  when the action is made; a selector that does not parse is a panic, here \<open>None\<close>.
\<close>

subsection \<open>Actions\<close>

record gvResource =
  gvr_group :: string
  gvr_version :: string
  gvr_resource :: string

text \<open>The parsed selectors; the parser of label and field selectors is an argument.\<close>

record 'l restrictions =
  tr_labels :: 'l
  tr_fields :: 'l
  tr_resourceVersion :: string

record ('o, 'l, 'd) testAction =
  ta_verb :: string
  ta_resource :: gvResource
  ta_subresource :: string
  ta_namespace :: string
  ta_name :: string
  ta_kind :: string
  ta_object :: "'o option"
  ta_restrictions :: "'l restrictions option"
  ta_deleteOptions :: "'d option"
  ta_patch :: "(string \<times> string) option"

definition emptyAction :: "string \<Rightarrow> gvResource \<Rightarrow> ('o, 'l, 'd) testAction" where
  "emptyAction verb resource =
     \<lparr>ta_verb = verb, ta_resource = resource, ta_subresource = [], ta_namespace = [], ta_name = [], ta_kind = [],
      ta_object = None, ta_restrictions = None, ta_deleteOptions = None, ta_patch = None\<rparr>"

definition ExtractFromListOptions :: "(string \<Rightarrow> 'l option) \<Rightarrow> listOpts \<Rightarrow> 'l restrictions option" where
  "ExtractFromListOptions parse opts =
     (case parse (lo_labelSelector opts) of
        None \<Rightarrow> None
      | Some labelSelector \<Rightarrow>
          (case parse (lo_fieldSelector opts) of
             None \<Rightarrow> None
           | Some fieldSelector \<Rightarrow>
               Some \<lparr>tr_labels = labelSelector, tr_fields = fieldSelector, tr_resourceVersion = lo_resourceVersion opts\<rparr>))"

definition NewRootGetAction :: "gvResource \<Rightarrow> string \<Rightarrow> ('o, 'l, 'd) testAction" where
  "NewRootGetAction resource name = (emptyAction ''get'' resource)\<lparr>ta_name := name\<rparr>"

definition NewGetAction :: "gvResource \<Rightarrow> string \<Rightarrow> string \<Rightarrow> ('o, 'l, 'd) testAction" where
  "NewGetAction resource namespace name = (emptyAction ''get'' resource)\<lparr>ta_namespace := namespace, ta_name := name\<rparr>"

definition NewRootListAction :: "(string \<Rightarrow> 'l option) \<Rightarrow> gvResource \<Rightarrow> string \<Rightarrow> listOpts \<Rightarrow> ('o, 'l, 'd) testAction option" where
  "NewRootListAction parse resource kind opts =
     map_option (\<lambda>r. (emptyAction ''list'' resource)\<lparr>ta_kind := kind, ta_restrictions := Some r\<rparr>) (ExtractFromListOptions parse opts)"

definition NewListAction ::
  "(string \<Rightarrow> 'l option) \<Rightarrow> gvResource \<Rightarrow> string \<Rightarrow> string \<Rightarrow> listOpts \<Rightarrow> ('o, 'l, 'd) testAction option" where
  "NewListAction parse resource kind namespace opts =
     map_option (\<lambda>r. (emptyAction ''list'' resource)\<lparr>ta_kind := kind, ta_namespace := namespace, ta_restrictions := Some r\<rparr>)
       (ExtractFromListOptions parse opts)"

definition NewRootCreateAction :: "gvResource \<Rightarrow> 'o \<Rightarrow> ('o, 'l, 'd) testAction" where
  "NewRootCreateAction resource object = (emptyAction ''create'' resource)\<lparr>ta_object := Some object\<rparr>"

definition NewCreateAction :: "gvResource \<Rightarrow> string \<Rightarrow> 'o \<Rightarrow> ('o, 'l, 'd) testAction" where
  "NewCreateAction resource namespace object =
     (emptyAction ''create'' resource)\<lparr>ta_namespace := namespace, ta_object := Some object\<rparr>"

definition NewRootUpdateAction :: "gvResource \<Rightarrow> 'o \<Rightarrow> ('o, 'l, 'd) testAction" where
  "NewRootUpdateAction resource object = (emptyAction ''update'' resource)\<lparr>ta_object := Some object\<rparr>"

definition NewUpdateAction :: "gvResource \<Rightarrow> string \<Rightarrow> 'o \<Rightarrow> ('o, 'l, 'd) testAction" where
  "NewUpdateAction resource namespace object =
     (emptyAction ''update'' resource)\<lparr>ta_namespace := namespace, ta_object := Some object\<rparr>"

definition NewRootUpdateSubresourceAction :: "gvResource \<Rightarrow> string \<Rightarrow> 'o \<Rightarrow> ('o, 'l, 'd) testAction" where
  "NewRootUpdateSubresourceAction resource subresource object =
     (emptyAction ''update'' resource)\<lparr>ta_subresource := subresource, ta_object := Some object\<rparr>"

definition NewUpdateSubresourceAction :: "gvResource \<Rightarrow> string \<Rightarrow> string \<Rightarrow> 'o \<Rightarrow> ('o, 'l, 'd) testAction" where
  "NewUpdateSubresourceAction resource subresource namespace object =
     (emptyAction ''update'' resource)\<lparr>ta_subresource := subresource, ta_namespace := namespace, ta_object := Some object\<rparr>"

definition NewRootDeleteActionWithOptions :: "gvResource \<Rightarrow> string \<Rightarrow> 'd \<Rightarrow> ('o, 'l, 'd) testAction" where
  "NewRootDeleteActionWithOptions resource name opts =
     (emptyAction ''delete'' resource)\<lparr>ta_name := name, ta_deleteOptions := Some opts\<rparr>"

definition NewDeleteActionWithOptions :: "gvResource \<Rightarrow> string \<Rightarrow> string \<Rightarrow> 'd \<Rightarrow> ('o, 'l, 'd) testAction" where
  "NewDeleteActionWithOptions resource namespace name opts =
     (emptyAction ''delete'' resource)\<lparr>ta_namespace := namespace, ta_name := name, ta_deleteOptions := Some opts\<rparr>"

definition NewRootDeleteCollectionAction :: "(string \<Rightarrow> 'l option) \<Rightarrow> gvResource \<Rightarrow> listOpts \<Rightarrow> ('o, 'l, 'd) testAction option" where
  "NewRootDeleteCollectionAction parse resource opts =
     map_option (\<lambda>r. (emptyAction ''delete-collection'' resource)\<lparr>ta_restrictions := Some r\<rparr>) (ExtractFromListOptions parse opts)"

definition NewDeleteCollectionAction ::
  "(string \<Rightarrow> 'l option) \<Rightarrow> gvResource \<Rightarrow> string \<Rightarrow> listOpts \<Rightarrow> ('o, 'l, 'd) testAction option" where
  "NewDeleteCollectionAction parse resource namespace opts =
     map_option (\<lambda>r. (emptyAction ''delete-collection'' resource)\<lparr>ta_namespace := namespace, ta_restrictions := Some r\<rparr>)
       (ExtractFromListOptions parse opts)"

definition NewRootWatchAction :: "(string \<Rightarrow> 'l option) \<Rightarrow> gvResource \<Rightarrow> listOpts \<Rightarrow> ('o, 'l, 'd) testAction option" where
  "NewRootWatchAction parse resource opts =
     map_option (\<lambda>r. (emptyAction ''watch'' resource)\<lparr>ta_restrictions := Some r\<rparr>) (ExtractFromListOptions parse opts)"

definition NewWatchAction ::
  "(string \<Rightarrow> 'l option) \<Rightarrow> gvResource \<Rightarrow> string \<Rightarrow> listOpts \<Rightarrow> ('o, 'l, 'd) testAction option" where
  "NewWatchAction parse resource namespace opts =
     map_option (\<lambda>r. (emptyAction ''watch'' resource)\<lparr>ta_namespace := namespace, ta_restrictions := Some r\<rparr>)
       (ExtractFromListOptions parse opts)"

definition NewRootPatchSubresourceAction ::
  "gvResource \<Rightarrow> string \<Rightarrow> string \<Rightarrow> string \<Rightarrow> string list \<Rightarrow> ('o, 'l, 'd) testAction" where
  "NewRootPatchSubresourceAction resource name pt patch subresources =
     (emptyAction ''patch'' resource)\<lparr>ta_subresource := pathJoin subresources, ta_name := name, ta_patch := Some (pt, patch)\<rparr>"

definition NewPatchSubresourceAction ::
  "gvResource \<Rightarrow> string \<Rightarrow> string \<Rightarrow> string \<Rightarrow> string \<Rightarrow> string list \<Rightarrow> ('o, 'l, 'd) testAction" where
  "NewPatchSubresourceAction resource namespace name pt patch subresources =
     (emptyAction ''patch'' resource)\<lparr>ta_subresource := pathJoin subresources, ta_namespace := namespace, ta_name := name,
        ta_patch := Some (pt, patch)\<rparr>"

subsection \<open>The chain of reactors\<close>

text \<open>
  A reactor leaves an action alone (\<open>None\<close>), or answers it with an object and an error. The
  answer to a watch is only an error or none.
\<close>

datatype 'o fakeObject = FakeOne 'o | FakeList string "'o list"

type_synonym 'o answer = "'o fakeObject option \<times> goerror option"

record ('o, 'l, 'd) fakeState =
  fk_actions :: "('o, 'l, 'd) testAction list"
  fk_reactionChain :: "(('o, 'l, 'd) testAction \<Rightarrow> 'o answer option) list"
  fk_watchReactionChain :: "(('o, 'l, 'd) testAction \<Rightarrow> goerror option option) list"

fun firstReaction :: "('a \<Rightarrow> 'b option) list \<Rightarrow> 'a \<Rightarrow> 'b \<Rightarrow> 'b" where
  "firstReaction [] action d = d"
| "firstReaction (r # rs) action d = (case r action of None \<Rightarrow> firstReaction rs action d | Some x \<Rightarrow> x)"

definition Invokes :: "('o, 'l, 'd) testAction \<Rightarrow> 'o fakeObject \<Rightarrow> ('o, 'l, 'd) fakeState \<Rightarrow> 'o answer \<times> ('o, 'l, 'd) fakeState" where
  "Invokes action defaultReturnObj f =
     (firstReaction (fk_reactionChain f) action (Some defaultReturnObj, None), f\<lparr>fk_actions := fk_actions f @ [action]\<rparr>)"

definition InvokesWatch :: "('o, 'l, 'd) testAction \<Rightarrow> ('o, 'l, 'd) fakeState \<Rightarrow> goerror option \<times> ('o, 'l, 'd) fakeState" where
  "InvokesWatch action f =
     (firstReaction (fk_watchReactionChain f) action (Some (GoErr ''unhandled watch'')), f\<lparr>fk_actions := fk_actions f @ [action]\<rparr>)"

text \<open>The type assertions on the answer: \<open>None\<close> is the panic on an object of the other type.\<close>

definition asObject :: "'o answer \<Rightarrow> ('o option \<times> goerror option) option" where
  "asObject a =
     (case fst a of
        None \<Rightarrow> Some (None, snd a)
      | Some (FakeOne x) \<Rightarrow> Some (Some x, snd a)
      | Some (FakeList m xs) \<Rightarrow> None)"

text \<open>A list keeps the items whose labels the label selector of the options matches.\<close>

definition asList :: "('l \<Rightarrow> 'o \<Rightarrow> bool) \<Rightarrow> 'l \<Rightarrow> 'o answer \<Rightarrow> ((string \<times> 'o list) option \<times> goerror option) option" where
  "asList matches label a =
     (case fst a of
        None \<Rightarrow> Some (None, snd a)
      | Some (FakeOne x) \<Rightarrow> None
      | Some (FakeList m xs) \<Rightarrow> Some (Some (m, filter (matches label) xs), snd a))"

subsection \<open>The fake clients\<close>

text \<open>
  The action each method hands to \<open>Invokes\<close> or \<open>InvokesWatch\<close>, then the two methods that look at
  the answer. \<open>ns\<close> is the namespace the client was made with.
\<close>

definition mtqsResource :: gvResource where
  "mtqsResource = \<lparr>gvr_group = ''mtq.kubevirt.io'', gvr_version = ''v1alpha1'', gvr_resource = ''mtqs''\<rparr>"

definition virtualmachinemigrationresourcequotasResource :: gvResource where
  "virtualmachinemigrationresourcequotasResource =
     \<lparr>gvr_group = ''mtq.kubevirt.io'', gvr_version = ''v1alpha1'', gvr_resource = ''virtualmachinemigrationresourcequotas''\<rparr>"

fun fakeVmmrqs_action :: "(string \<Rightarrow> 'l option) \<Rightarrow> string \<Rightarrow> ('o, 'd) typedCall \<Rightarrow> ('o, 'l, 'd) testAction option" where
  "fakeVmmrqs_action parse ns (GetCall name opts) =
     Some (NewGetAction virtualmachinemigrationresourcequotasResource ns name)"
| "fakeVmmrqs_action parse ns (ListCall opts) =
     NewListAction parse virtualmachinemigrationresourcequotasResource ''VirtualMachineMigrationResourceQuota'' ns opts"
| "fakeVmmrqs_action parse ns (WatchCall opts) =
     NewWatchAction parse virtualmachinemigrationresourcequotasResource ns opts"
| "fakeVmmrqs_action parse ns (CreateCall v opts) =
     Some (NewCreateAction virtualmachinemigrationresourcequotasResource ns v)"
| "fakeVmmrqs_action parse ns (UpdateCall v opts) =
     Some (NewUpdateAction virtualmachinemigrationresourcequotasResource ns v)"
| "fakeVmmrqs_action parse ns (UpdateStatusCall v opts) =
     Some (NewUpdateSubresourceAction virtualmachinemigrationresourcequotasResource ''status'' ns v)"
| "fakeVmmrqs_action parse ns (DeleteCall name opts) =
     Some (NewDeleteActionWithOptions virtualmachinemigrationresourcequotasResource ns name opts)"
| "fakeVmmrqs_action parse ns (DeleteCollectionCall opts listOpts) =
     NewDeleteCollectionAction parse virtualmachinemigrationresourcequotasResource ns listOpts"
| "fakeVmmrqs_action parse ns (PatchCall name pt data opts subresources) =
     Some (NewPatchSubresourceAction virtualmachinemigrationresourcequotasResource ns name pt data subresources)"

fun fakeMTQs_action :: "(string \<Rightarrow> 'l option) \<Rightarrow> ('o, 'd) typedCall \<Rightarrow> ('o, 'l, 'd) testAction option" where
  "fakeMTQs_action parse (GetCall name opts) = Some (NewRootGetAction mtqsResource name)"
| "fakeMTQs_action parse (ListCall opts) = NewRootListAction parse mtqsResource ''MTQ'' opts"
| "fakeMTQs_action parse (WatchCall opts) = NewRootWatchAction parse mtqsResource opts"
| "fakeMTQs_action parse (CreateCall m opts) = Some (NewRootCreateAction mtqsResource m)"
| "fakeMTQs_action parse (UpdateCall m opts) = Some (NewRootUpdateAction mtqsResource m)"
| "fakeMTQs_action parse (UpdateStatusCall m opts) = Some (NewRootUpdateSubresourceAction mtqsResource ''status'' m)"
| "fakeMTQs_action parse (DeleteCall name opts) = Some (NewRootDeleteActionWithOptions mtqsResource name opts)"
| "fakeMTQs_action parse (DeleteCollectionCall opts listOpts) = NewRootDeleteCollectionAction parse mtqsResource listOpts"
| "fakeMTQs_action parse (PatchCall name pt data opts subresources) =
     Some (NewRootPatchSubresourceAction mtqsResource name pt data subresources)"

definition fake_one ::
  "'o \<Rightarrow> ('o, 'l, 'd) testAction option \<Rightarrow> ('o, 'l, 'd) fakeState \<Rightarrow> (('o option \<times> goerror option) \<times> ('o, 'l, 'd) fakeState) option" where
  "fake_one defaultObj action f =
     (case action of
        None \<Rightarrow> None
      | Some a \<Rightarrow> (case Invokes a (FakeOne defaultObj) f of (answer, f') \<Rightarrow> map_option (\<lambda>r. (r, f')) (asObject answer)))"

definition fake_list ::
  "(string \<Rightarrow> 'l option) \<Rightarrow> ('l \<Rightarrow> 'o \<Rightarrow> bool) \<Rightarrow> ('o, 'l, 'd) testAction option \<Rightarrow> listOpts \<Rightarrow> ('o, 'l, 'd) fakeState \<Rightarrow>
   (((string \<times> 'o list) option \<times> goerror option) \<times> ('o, 'l, 'd) fakeState) option" where
  "fake_list parse matches action opts f =
     (case action of
        None \<Rightarrow> None
      | Some a \<Rightarrow>
          (case Invokes a (FakeList [] []) f of (answer, f') \<Rightarrow>
             (case ExtractFromListOptions parse opts of
                None \<Rightarrow> None
              | Some r \<Rightarrow> map_option (\<lambda>x. (x, f')) (asList matches (tr_labels r) answer))))"

lemmas action_constructors = emptyAction_def NewRootGetAction_def NewGetAction_def NewRootListAction_def NewListAction_def
  NewRootCreateAction_def NewCreateAction_def NewRootUpdateAction_def NewUpdateAction_def
  NewRootUpdateSubresourceAction_def NewUpdateSubresourceAction_def NewRootDeleteActionWithOptions_def
  NewDeleteActionWithOptions_def NewRootDeleteCollectionAction_def NewDeleteCollectionAction_def
  NewRootWatchAction_def NewWatchAction_def NewRootPatchSubresourceAction_def NewPatchSubresourceAction_def

end
