(* ===== verification/ClusterResources.thy ===== *)
theory ClusterResources
  imports OperatorUtils
begin

text \<open>
  \<open>pkg/mtq-operator/resources/cluster\<close>: the cluster roles and bindings of the controller and
  of the lock server, the VMMRQ resource definition, and the table of factories by group. The
  embedded YAML of \<open>crds_generated.go\<close> is given as the object its decoding yields; the schema
  in it is modelled in \<open>CrdSchema\<close>.
\<close>

subsection \<open>crds_generated.go\<close>

definition crdMeta :: "string \<Rightarrow> objectMeta" where
  "crdMeta name = \<lparr>om_apiVersion = ''apiextensions.k8s.io/v1'', om_kind = ''CustomResourceDefinition'',
     om_name = name, om_namespace = [], om_labels = []\<rparr>"

definition mtqCRD :: crd where
  "mtqCRD =
     \<lparr>crd_meta = crdMeta ''mtqs.mtq.kubevirt.io'', crd_group = ''mtq.kubevirt.io'', crd_kind = ''MTQ'',
      crd_plural = ''mtqs'', crd_singular = ''mtq'', crd_shortNames = [''mtq'', ''mtqs''],
      crd_scope = ''Cluster'', crd_version = ''v1alpha1'', crd_statusSubresource = True\<rparr>"

definition vmmrqCRD :: crd where
  "vmmrqCRD =
     \<lparr>crd_meta = crdMeta ''virtualmachinemigrationresourcequotas.mtq.kubevirt.io'', crd_group = ''mtq.kubevirt.io'',
      crd_kind = ''VirtualMachineMigrationResourceQuota'', crd_plural = ''virtualmachinemigrationresourcequotas'',
      crd_singular = ''virtualmachinemigrationresourcequota'', crd_shortNames = [''vmmrq'', ''vmmrqs''],
      crd_scope = ''Namespaced'', crd_version = ''v1alpha1'', crd_statusSubresource = True\<rparr>"

definition createVirtualMachineMigrationResourceQuotaCRD :: crd where
  "createVirtualMachineMigrationResourceQuotaCRD = vmmrqCRD"

subsection \<open>controller.go\<close>

definition clusterControllerServiceAccountName :: string where
  "clusterControllerServiceAccountName = utilsControllerPodName"

definition controllerClusterRoleName :: string where
  "controllerClusterRoleName = utilsControllerPodName"

definition rule :: "string list \<Rightarrow> string list \<Rightarrow> string list \<Rightarrow> policyRule" where
  "rule groups resources verbs = \<lparr>pr_apiGroups = groups, pr_resources = resources, pr_verbs = verbs\<rparr>"

definition getControllerClusterPolicyRules :: "policyRule list" where
  "getControllerClusterPolicyRules =
     [rule [''''] [''events''] [''create'', ''patch''],
      rule [''''] [''pods''] [''list'', ''watch''],
      rule [''''] [''persistentvolumeclaims''] [''list'', ''watch'', ''get''],
      rule [''''] [''namespaces''] [''get'', ''list'', ''watch''],
      rule [''apiextensions.k8s.io''] [''customresourcedefinitions''] [''list'', ''watch'', ''get''],
      rule [''''] [''resourcequotas''] [''list'', ''watch'', ''update''],
      rule [''''] [''limitranges''] [''list'', ''watch''],
      rule [''mtq.kubevirt.io''] [''virtualmachinemigrationresourcequotas''] [''get'', ''update'', ''watch'', ''list''],
      rule [''mtq.kubevirt.io''] [''virtualmachinemigrationresourcequotas/status''] [''update''],
      rule [''kubevirt.io''] [''kubevirts''] [''list'', ''watch''],
      rule [''kubevirt.io''] [''virtualmachineinstances'', ''virtualmachineinstancemigrations''] [''watch'', ''list''],
      rule [''admissionregistration.k8s.io''] [''validatingwebhookconfigurations''] [''create'', ''get'', ''delete'']]"

definition createControllerClusterRole :: role where
  "createControllerClusterRole = rb_CreateClusterRole ResourceBuilder controllerClusterRoleName getControllerClusterPolicyRules"

definition createControllerClusterRoleBinding :: "string \<Rightarrow> roleBinding" where
  "createControllerClusterRoleBinding namespace =
     rb_CreateClusterRoleBinding ResourceBuilder clusterControllerServiceAccountName controllerClusterRoleName
       clusterControllerServiceAccountName namespace"

record clusterFactoryArgs =
  cf_namespace :: string

definition createStaticControllerResources :: "clusterFactoryArgs \<Rightarrow> kobject list" where
  "createStaticControllerResources args =
     [ClusterRoleObj createControllerClusterRole,
      ClusterRoleBindingObj (createControllerClusterRoleBinding (cf_namespace args))]"

subsection \<open>mtqlock.go\<close>

definition clusterLockResourceName :: string where
  "clusterLockResourceName = ''mtq-lock''"

definition getMTQLockServerClusterPolicyRules :: "policyRule list" where
  "getMTQLockServerClusterPolicyRules = [rule [''kubevirt.io''] [''kubevirts''] [''list'', ''watch'']]"

definition createAPIServerClusterRoleBinding :: "string \<Rightarrow> roleBinding" where
  "createAPIServerClusterRoleBinding namespace =
     rb_CreateClusterRoleBinding ResourceBuilder clusterLockResourceName clusterLockResourceName clusterLockResourceName namespace"

definition createAPIServerClusterRole :: role where
  "createAPIServerClusterRole =
     rb_CreateClusterRole ResourceBuilder clusterLockResourceName getMTQLockServerClusterPolicyRules"

definition createStaticMTQLockResources :: "clusterFactoryArgs \<Rightarrow> kobject list" where
  "createStaticMTQLockResources args =
     [ClusterRoleObj createAPIServerClusterRole,
      ClusterRoleBindingObj (createAPIServerClusterRoleBinding (cf_namespace args))]"

subsection \<open>factory.go\<close>

definition createCRDResources :: "clusterFactoryArgs \<Rightarrow> kobject list" where
  "createCRDResources args = [CRDObj createVirtualMachineMigrationResourceQuotaCRD]"

definition GetClusterRolePolicyRules :: "policyRule list" where
  "GetClusterRolePolicyRules = getControllerClusterPolicyRules @ getMTQLockServerClusterPolicyRules"

type_synonym 'a factoryMap = "(string \<times> ('a \<Rightarrow> kobject list)) list"

definition staticFactoryFunctions :: "clusterFactoryArgs factoryMap" where
  "staticFactoryFunctions =
     [(''mtq-lock-rbac'', createStaticMTQLockResources),
      (''controller-rbac'', createStaticControllerResources),
      (''crd-resources'', createCRDResources)]"

definition groupErr :: "string \<Rightarrow> goerror" where
  "groupErr grp = GoErr (''group '' @ grp @ '' does not exist'')"

text \<open>The resources of a group or an error; \<open>None\<close> is the panic of \<open>ValidateGVKs\<close>.\<close>

definition createResourceGroup :: "'a factoryMap \<Rightarrow> string \<Rightarrow> 'a \<Rightarrow> kobject list result option" where
  "createResourceGroup funcMap grp args =
     (case map_of funcMap grp of
        None \<Rightarrow> Some (Inl (groupErr grp))
      | Some f \<Rightarrow> (let resources = f args in
          if list_all (\<lambda>r. ValidateGVKs [r] \<noteq> None) resources then Some (Inr resources) else None))"

text \<open>The groups in the order in which the \<open>range\<close> over the table happens to list them.\<close>

fun createAllResources :: "'a factoryMap \<Rightarrow> string list \<Rightarrow> 'a \<Rightarrow> kobject list result option" where
  "createAllResources funcMap [] args = Some (Inr [])"
| "createAllResources funcMap (grp # groups) args =
     (case createResourceGroup funcMap grp args of
        None \<Rightarrow> None
      | Some (Inl err) \<Rightarrow> Some (Inl err)
      | Some (Inr rs) \<Rightarrow>
          (case createAllResources funcMap groups args of
             None \<Rightarrow> None
           | Some (Inl err) \<Rightarrow> Some (Inl err)
           | Some (Inr rest) \<Rightarrow> Some (Inr (rs @ rest))))"

definition CreateAllStaticResources :: "string list \<Rightarrow> clusterFactoryArgs \<Rightarrow> kobject list result option" where
  "CreateAllStaticResources order args = createAllResources staticFactoryFunctions order args"

subsection \<open>What the factories return\<close>

lemmas cluster_factories = createStaticControllerResources_def createStaticMTQLockResources_def createCRDResources_def

lemmas meta_simps = rb_CreateClusterRole_def rb_CreateClusterRoleBinding_def sdk_CreateClusterRole_def bindingOf_def
  rbacMeta_def rb_CreateRole_def rb_CreateRoleBinding_def rb_CreateServiceAccount_def rb_CreateService_def
  rb_CreateOperatorClusterRole_def rb_CreateOperatorClusterRoleBinding_def rb_CreateOperatorServiceAccount_def
  crdMeta_def

lemmas cluster_objects = createControllerClusterRole_def createControllerClusterRoleBinding_def
  createAPIServerClusterRole_def createAPIServerClusterRoleBinding_def
  createVirtualMachineMigrationResourceQuotaCRD_def vmmrqCRD_def

interpretation controllerRbac: resource_factory createStaticControllerResources
  by unfold_locales (auto simp: cluster_factories cluster_objects meta_simps hasGVK_def)

interpretation lockRbac: resource_factory createStaticMTQLockResources
  by unfold_locales (auto simp: cluster_factories cluster_objects meta_simps hasGVK_def)

interpretation crdResources: resource_factory createCRDResources
  by unfold_locales (auto simp: cluster_factories cluster_objects meta_simps hasGVK_def)

text \<open>A table whose factories are all sound: no group panics, and only an unknown group fails.\<close>

definition soundMap :: "'a factoryMap \<Rightarrow> bool" where
  "soundMap funcMap \<longleftrightarrow> (\<forall>f \<in> set (map snd funcMap). resource_factory f)"

lemma createResourceGroup_sound:
  assumes "soundMap funcMap"
  shows "createResourceGroup funcMap grp args =
    Some (case map_of funcMap grp of None \<Rightarrow> Inl (groupErr grp) | Some f \<Rightarrow> Inr (f args))"
proof (cases "map_of funcMap grp")
  case (Some f)
  then have "(grp, f) \<in> set funcMap" by (rule map_of_SomeD)
  then have "resource_factory f" using assms by (force simp: soundMap_def)
  then have "list_all (\<lambda>r. ValidateGVKs [r] \<noteq> None) (f args)"
    by (simp add: list_all_iff resource_factory.factory_validates)
  then show ?thesis by (simp add: createResourceGroup_def Some Let_def)
qed (simp add: createResourceGroup_def)

lemma createAllResources_sound:
  assumes "soundMap funcMap" and "\<forall>g \<in> set groups. map_of funcMap g \<noteq> None"
  shows "createAllResources funcMap groups args = Some (Inr (concat (map (\<lambda>g. the (map_of funcMap g) args) groups)))"
  using assms(2) by (induction groups) (auto simp: createResourceGroup_sound [OF assms(1)])

lemma static_sound: "soundMap staticFactoryFunctions"
  by (simp add: soundMap_def staticFactoryFunctions_def controllerRbac.resource_factory_axioms
      lockRbac.resource_factory_axioms crdResources.resource_factory_axioms)

end
