(* ===== verification/NamespacedResources.thy ===== *)
theory NamespacedResources
  imports ClusterResources
begin

text \<open>
  \<open>pkg/mtq-operator/resources/namespaced\<close>: what the operator deploys into its own namespace,
  the controller (\<open>controller.go\<close>) and the lock server (\<open>mtqlock.go\<close>), and the table of
  factories by group (\<open>factory.go\<close>).
\<close>

definition SecretResourceName :: string where
  "SecretResourceName = ''mtq-lock-server-cert''"

record factoryArgs =
  fa_operatorVersion :: string
  fa_controllerImage :: string
  fa_deployClusterResources :: string
  fa_mtqLockServerImage :: string
  fa_verbosity :: string
  fa_pullPolicy :: string
  fa_imagePullSecrets :: "string list"
  fa_priorityClassName :: string
  fa_namespace :: string
  fa_infraNodePlacement :: "nodePlacement option"

text \<open>\<open>corev1.ConfigMapVolumeSourceDefaultMode\<close>, 0644 octal.\<close>

definition volumeDefaultMode :: int where
  "volumeDefaultMode = 420"

text \<open>\<open>fmt.Sprintf("metadata.labels['%s']", label)\<close>\<close>

definition labelFieldPath :: "string \<Rightarrow> string" where
  "labelFieldPath l = ''metadata.labels['' @ [CHR 0x27] @ l @ [CHR 0x27] @ '']''"

definition fieldEnv :: "string \<Rightarrow> string \<Rightarrow> envVar" where
  "fieldEnv name path = \<lparr>env_name = name, env_value = [], env_fieldPath = Some path\<rparr>"

definition valueEnv :: "string \<Rightarrow> string \<Rightarrow> envVar" where
  "valueEnv name v = \<lparr>env_name = name, env_value = v, env_fieldPath = None\<rparr>"

definition onlyPort :: "int \<Rightarrow> containerPort" where
  "onlyPort n = \<lparr>cp_name = [], cp_port = n, cp_protocol = ''TCP''\<rparr>"

subsection \<open>controller.go\<close>

definition controllerResourceName :: string where
  "controllerResourceName = utilsControllerPodName"

definition createControllerRoleBinding :: roleBinding where
  "createControllerRoleBinding =
     rb_CreateRoleBinding ResourceBuilder controllerResourceName controllerResourceName ControllerServiceAccountName []"

definition createControllerRole :: role where
  "createControllerRole = rb_CreateRole ResourceBuilder controllerResourceName
     [rule [''''] [''configmaps''] [''get'', ''list'', ''watch''],
      rule [''''] [''endpoints''] [''get'', ''list'', ''watch'', ''create'', ''update''],
      rule [''''] [''secrets''] [''get'', ''list'', ''watch''],
      rule [''coordination.k8s.io''] [''leases''] [''get'', ''list'', ''watch'', ''delete'', ''update'', ''create'', ''patch'']]"

definition createMTQControllerServiceAccount :: objectMeta where
  "createMTQControllerServiceAccount = rb_CreateServiceAccount ResourceBuilder controllerResourceName"

definition createMTQControllerPorts :: "containerPort list" where
  "createMTQControllerPorts = [onlyPort 8443]"

definition controllerContainer :: "string \<Rightarrow> string \<Rightarrow> string \<Rightarrow> container" where
  "controllerContainer img verbosity pullPolicy =
     (CreateContainer controllerResourceName img verbosity pullPolicy)
       \<lparr>co_ports := createMTQControllerPorts,
        co_env := [fieldEnv InstallerPartOfLabel (labelFieldPath AppKubernetesPartOfLabel),
                   fieldEnv InstallerVersionLabel (labelFieldPath AppKubernetesVersionLabel)],
        co_readinessProbe := Some
          \<lparr>pb_path = ''/leader'', pb_port = 8443, pb_scheme = ''HTTPS'', pb_initialDelaySeconds = 15,
           pb_periodSeconds = 0, pb_failureThreshold = 0, pb_successThreshold = 0, pb_timeoutSeconds = 10\<rparr>,
        co_requests := [(''cpu'', ''50m''), (''memory'', ''150Mi'')]\<rparr>"

definition withPriority :: "string \<Rightarrow> deployment \<Rightarrow> deployment" where
  "withPriority priorityClassName d =
     (if priorityClassName \<noteq> [] then d\<lparr>dp_podSpec := (dp_podSpec d)\<lparr>ps_priorityClassName := priorityClassName\<rparr>\<rparr> else d)"

definition createMTQControllerDeployment ::
  "string \<Rightarrow> string \<Rightarrow> string \<Rightarrow> string list \<Rightarrow> string \<Rightarrow> nodePlacement option \<Rightarrow> deployment" where
  "createMTQControllerDeployment img verbosity pullPolicy imagePullSecrets priorityClassName infraNodePlacement =
     (let d = withPriority priorityClassName
            (CreateDeployment controllerResourceName MTQLabel controllerResourceName controllerResourceName
               imagePullSecrets 2 infraNodePlacement)
      in d\<lparr>dp_maxUnavailable := Some 1,
           dp_podSpec := (dp_podSpec d)
             \<lparr>ps_containers := [controllerContainer img verbosity pullPolicy],
              ps_volumes := [\<lparr>vo_name = ''server-cert'', vo_secretName = SecretResourceName,
                 vo_items = [(''tls.crt'', ''tls.crt''), (''tls.key'', ''tls.key'')], vo_defaultMode = volumeDefaultMode\<rparr>],
              ps_affinity := Some (RequiredPodAntiAffinity [(MTQLabel, controllerResourceName)] ''kubernetes.io/hostname'')\<rparr>\<rparr>)"

definition createMTQControllerResources :: "factoryArgs \<Rightarrow> kobject list" where
  "createMTQControllerResources args =
     [ServiceAccountObj createMTQControllerServiceAccount,
      RoleBindingObj createControllerRoleBinding,
      RoleObj createControllerRole,
      DeploymentObj (createMTQControllerDeployment (fa_controllerImage args) (fa_verbosity args) (fa_pullPolicy args)
        (fa_imagePullSecrets args) (fa_priorityClassName args) (fa_infraNodePlacement args))]"

subsection \<open>mtqlock.go\<close>

definition mtqLockResourceName :: string where
  "mtqLockResourceName = ''mtq-lock''"

definition createMTQLockServiceAccount :: objectMeta where
  "createMTQLockServiceAccount = rb_CreateServiceAccount ResourceBuilder mtqLockResourceName"

definition createMTQLockService :: service where
  "createMTQLockService =
     (rb_CreateService ResourceBuilder ''mtq-lock'' MTQLabel mtqLockResourceName [])
       \<lparr>sv_type := ''NodePort'',
        sv_ports := [\<lparr>sp_port = 443, sp_targetPort = 8443, sp_protocol = ''TCP''\<rparr>]\<rparr>"

definition createMTQLockPorts :: "containerPort list" where
  "createMTQLockPorts = [onlyPort 8443]"

definition lockContainer :: "string \<Rightarrow> string \<Rightarrow> string \<Rightarrow> container" where
  "lockContainer img verbosity pullPolicy =
     (CreateContainer mtqLockResourceName img verbosity pullPolicy)
       \<lparr>co_ports := createMTQLockPorts,
        co_env := [fieldEnv InstallerPartOfLabel (labelFieldPath AppKubernetesPartOfLabel),
                   fieldEnv InstallerVersionLabel (labelFieldPath AppKubernetesVersionLabel),
                   valueEnv TlsLabel ''true''],
        co_readinessProbe := Some
          \<lparr>pb_path = ''/healthz'', pb_port = 8443, pb_scheme = ''HTTPS'', pb_initialDelaySeconds = 2,
           pb_periodSeconds = 5, pb_failureThreshold = 3, pb_successThreshold = 1, pb_timeoutSeconds = 1\<rparr>,
        co_requests := [(''cpu'', ''10m''), (''memory'', ''50Mi'')],
        co_volumeMounts := [\<lparr>vm_name = ''tls'', vm_mountPath = ''/etc/admission-webhook/tls'', vm_readOnly = True\<rparr>]\<rparr>"

definition createMTQLockDeployment ::
  "string \<Rightarrow> string \<Rightarrow> string list \<Rightarrow> string \<Rightarrow> string \<Rightarrow> nodePlacement option \<Rightarrow> deployment" where
  "createMTQLockDeployment img pullPolicy imagePullSecrets priorityClassName verbosity infraNodePlacement =
     (let d = withPriority priorityClassName
            (CreateDeployment mtqLockResourceName MTQLabel mtqLockResourceName mtqLockResourceName
               imagePullSecrets 2 infraNodePlacement)
      in d\<lparr>dp_maxUnavailable := Some 1,
           dp_podSpec := (dp_podSpec d)
             \<lparr>ps_containers := [lockContainer img verbosity pullPolicy],
              ps_volumes := [\<lparr>vo_name = ''tls'', vo_secretName = SecretResourceName, vo_items = [],
                 vo_defaultMode = volumeDefaultMode\<rparr>],
              ps_affinity := Some (RequiredPodAntiAffinity [(MTQLabel, mtqLockResourceName)] ''kubernetes.io/hostname'')\<rparr>\<rparr>)"

definition createMTQLockRoleBinding :: roleBinding where
  "createMTQLockRoleBinding =
     rb_CreateRoleBinding ResourceBuilder mtqLockResourceName mtqLockResourceName mtqLockResourceName []"

definition createMTQlockRole :: role where
  "createMTQlockRole = rb_CreateRole ResourceBuilder mtqLockResourceName
     [rule [''''] [''secrets''] [''get'', ''list'', ''watch'']]"

definition createMTQLockResources :: "factoryArgs \<Rightarrow> kobject list" where
  "createMTQLockResources args =
     [RoleObj createMTQlockRole,
      RoleBindingObj createMTQLockRoleBinding,
      ServiceAccountObj createMTQLockServiceAccount,
      ServiceObj createMTQLockService,
      DeploymentObj (createMTQLockDeployment (fa_mtqLockServerImage args) (fa_pullPolicy args) (fa_imagePullSecrets args)
        (fa_priorityClassName args) (fa_verbosity args) (fa_infraNodePlacement args))]"

subsection \<open>factory.go\<close>

definition factoryFunctions :: "factoryArgs factoryMap" where
  "factoryFunctions = [(''mtqlock'', createMTQLockResources), (''controller'', createMTQControllerResources)]"

definition assignNamspaceIfMissing :: "string \<Rightarrow> kobject \<Rightarrow> kobject" where
  "assignNamspaceIfMissing namespace =
     mapMeta (\<lambda>m. if om_namespace m = [] then m\<lparr>om_namespace := namespace\<rparr> else m)"

text \<open>The objects are validated and given the namespace one by one.\<close>

fun finishResources :: "string \<Rightarrow> kobject list \<Rightarrow> kobject list option" where
  "finishResources namespace [] = Some []"
| "finishResources namespace (k # ks) =
     (case ValidateGVKs [k] of
        None \<Rightarrow> None
      | Some _ \<Rightarrow> map_option ((#) (assignNamspaceIfMissing namespace k)) (finishResources namespace ks))"

definition CreateResourceGroup :: "string \<Rightarrow> factoryArgs \<Rightarrow> kobject list result option" where
  "CreateResourceGroup grp args =
     (case map_of factoryFunctions grp of
        None \<Rightarrow> Some (Inl (groupErr grp))
      | Some f \<Rightarrow> map_option Inr (finishResources (fa_namespace args) (f args)))"

fun CreateAllNamespaced :: "string list \<Rightarrow> factoryArgs \<Rightarrow> kobject list result option" where
  "CreateAllNamespaced [] args = Some (Inr [])"
| "CreateAllNamespaced (grp # groups) args =
     (case CreateResourceGroup grp args of
        None \<Rightarrow> None
      | Some (Inl err) \<Rightarrow> Some (Inl err)
      | Some (Inr rs) \<Rightarrow>
          (case CreateAllNamespaced groups args of
             None \<Rightarrow> None
           | Some (Inl err) \<Rightarrow> Some (Inl err)
           | Some (Inr rest) \<Rightarrow> Some (Inr (rs @ rest))))"

subsection \<open>What the factories return\<close>

lemmas namespaced_factories = createMTQControllerResources_def createMTQLockResources_def

lemmas namespaced_objects = createMTQControllerServiceAccount_def createControllerRoleBinding_def createControllerRole_def
  createMTQControllerDeployment_def createMTQlockRole_def createMTQLockRoleBinding_def createMTQLockServiceAccount_def
  createMTQLockService_def createMTQLockDeployment_def

lemma withPriority_simps [simp]:
  "dp_meta (withPriority p d) = dp_meta d" "dp_selector (withPriority p d) = dp_selector d"
  "dp_templateLabels (withPriority p d) = dp_templateLabels d"
  "ps_serviceAccountName (dp_podSpec (withPriority p d)) = ps_serviceAccountName (dp_podSpec d)"
  by (simp_all add: withPriority_def)

lemma CreateDeployment_simps [simp]:
  "dp_meta (CreateDeployment n k v sa s r i) = \<lparr>om_apiVersion = ''apps/v1'', om_kind = ''Deployment'', om_name = n,
     om_namespace = [], om_labels = WithLabels [(k, v)] mtqCommonLabels\<rparr>"
  "dp_selector (CreateDeployment n k v sa s r i) = [(k, v)]"
  "dp_templateLabels (CreateDeployment n k v sa s r i) = WithLabels [(k, v)] mtqCommonLabels"
  by (simp_all add: CreateDeployment_def rb_CreateDeployment_def sdk_CreateDeployment_def Let_def ResourceBuilder_def)

interpretation controllerFactory: resource_factory createMTQControllerResources
  by unfold_locales (auto simp: namespaced_factories namespaced_objects meta_simps hasGVK_def Let_def)

interpretation lockFactory: resource_factory createMTQLockResources
  by unfold_locales (auto simp: namespaced_factories namespaced_objects meta_simps hasGVK_def Let_def)

lemma finishResources_sound:
  "list_all hasGVK ks \<Longrightarrow> finishResources ns ks = Some (map (assignNamspaceIfMissing ns) ks)"
  by (induction ks) (simp_all add: ValidateGVKs_def)

lemma CreateResourceGroup_sound:
  "CreateResourceGroup grp args =
     Some (case map_of factoryFunctions grp of
        None \<Rightarrow> Inl (groupErr grp)
      | Some f \<Rightarrow> Inr (map (assignNamspaceIfMissing (fa_namespace args)) (f args)))"
proof (cases "map_of factoryFunctions grp")
  case (Some f)
  then have "resource_factory f"
    by (auto simp: factoryFunctions_def controllerFactory.resource_factory_axioms lockFactory.resource_factory_axioms
        split: if_splits)
  then have "list_all hasGVK (f args)" by (simp add: list_all_iff resource_factory.factory_gvk)
  then show ?thesis by (simp add: CreateResourceGroup_def Some finishResources_sound)
qed (simp add: CreateResourceGroup_def)

lemma CreateAllNamespaced_sound:
  assumes "\<forall>g \<in> set groups. map_of factoryFunctions g \<noteq> None"
  shows "CreateAllNamespaced groups args =
    Some (Inr (map (assignNamspaceIfMissing (fa_namespace args)) (concat (map (\<lambda>g. the (map_of factoryFunctions g) args) groups))))"
  using assms by (induction groups) (auto simp: CreateResourceGroup_sound)

end
