(* ===== verification/OperatorResources.thy ===== *)
theory OperatorResources
  imports NamespacedResources
begin

text \<open>
  \<open>pkg/mtq-operator/resources/operator\<close>: the operator's own permissions and deployment, the
  ClusterServiceVersion that installs it through OLM (\<open>operator.go\<close>), and the table of
  factories by group (\<open>factory.go\<close>).
\<close>

definition serviceAccountName :: string where "serviceAccountName = ''mtq-operator''"
definition roleName :: string where "roleName = ''mtq-operator''"
definition clusterRoleName :: string where "clusterRoleName = roleName @ ''-cluster''"

definition crudVerbs :: "string list" where
  "crudVerbs = [''create'', ''get'', ''list'', ''watch'', ''delete'', ''update'']"

subsection \<open>Permissions\<close>

definition operatorClusterRules :: "policyRule list" where
  "operatorClusterRules =
     [rule [''rbac.authorization.k8s.io''] [''clusterrolebindings'', ''clusterroles''] crudVerbs,
      rule [''apiextensions.k8s.io''] [''customresourcedefinitions'', ''customresourcedefinitions/status''] crudVerbs,
      rule [''mtq.kubevirt.io''] [''mtqs'', ''mtqs/finalizers''] [''get'', ''list'', ''watch'', ''delete'', ''update''],
      rule [''mtq.kubevirt.io''] [''mtqs/status''] [''get'', ''update'', ''patch''],
      rule [''scheduling.k8s.io''] [''priorityclasses''] [''get'', ''list'', ''watch'']]"

definition getClusterPolicyRules :: "policyRule list" where
  "getClusterPolicyRules = operatorClusterRules @ GetClusterRolePolicyRules"

definition createClusterRole :: role where
  "createClusterRole = rb_CreateOperatorClusterRole ResourceBuilder clusterRoleName getClusterPolicyRules"

definition createClusterRoleBinding :: "string \<Rightarrow> roleBinding" where
  "createClusterRoleBinding namespace =
     rb_CreateOperatorClusterRoleBinding ResourceBuilder serviceAccountName clusterRoleName serviceAccountName namespace"

record operatorFactoryArgs =
  of_namespacedArgs :: factoryArgs
  of_image :: string

definition createClusterRBAC :: "operatorFactoryArgs \<Rightarrow> kobject list" where
  "createClusterRBAC args =
     [ClusterRoleObj createClusterRole,
      ClusterRoleBindingObj (createClusterRoleBinding (fa_namespace (of_namespacedArgs args)))]"

definition getNamespacedPolicyRules :: "policyRule list" where
  "getNamespacedPolicyRules =
     [rule [''''] [''serviceaccounts'', ''configmaps'', ''events'', ''secrets'', ''services''] crudVerbs,
      rule [''''] [''pods'', ''services'', ''endpoints''] [''get'', ''list'', ''watch'', ''create'', ''update''],
      rule [''apps''] [''deployments'', ''deployments/finalizers''] crudVerbs,
      rule [''monitoring.coreos.com''] [''servicemonitors'', ''prometheusrules'']
        [''get'', ''list'', ''watch'', ''create'', ''delete'', ''update'', ''patch''],
      rule [''coordination.k8s.io''] [''leases''] [''get'', ''list'', ''watch'', ''delete'', ''update'', ''create'', ''patch''],
      rule [''rbac.authorization.k8s.io''] [''rolebindings'', ''roles''] crudVerbs]"

definition createServiceAccount :: "string \<Rightarrow> objectMeta" where
  "createServiceAccount namespace = rb_CreateOperatorServiceAccount ResourceBuilder serviceAccountName namespace"

definition createNamespacedRole :: "string \<Rightarrow> role" where
  "createNamespacedRole namespace =
     (let r = rb_CreateRole ResourceBuilder roleName getNamespacedPolicyRules
      in r\<lparr>ro_meta := (ro_meta r)\<lparr>om_namespace := namespace\<rparr>\<rparr>)"

definition createNamespacedRoleBinding :: "string \<Rightarrow> roleBinding" where
  "createNamespacedRoleBinding namespace =
     (let b = rb_CreateRoleBinding ResourceBuilder serviceAccountName roleName serviceAccountName namespace
      in b\<lparr>rb_meta := (rb_meta b)\<lparr>om_namespace := namespace\<rparr>\<rparr>)"

definition createNamespacedRBAC :: "operatorFactoryArgs \<Rightarrow> kobject list" where
  "createNamespacedRBAC args =
     (let ns = fa_namespace (of_namespacedArgs args)
      in [ServiceAccountObj (createServiceAccount ns), RoleObj (createNamespacedRole ns),
          RoleBindingObj (createNamespacedRoleBinding ns)])"

subsection \<open>The operator's deployment\<close>

definition createOperatorEnvVar ::
  "string \<Rightarrow> string \<Rightarrow> string \<Rightarrow> string \<Rightarrow> string \<Rightarrow> string \<Rightarrow> envVar list" where
  "createOperatorEnvVar operatorVersion deployClusterResources controllerImage webhookServerImage verbosity pullPolicy =
     [valueEnv ''DEPLOY_CLUSTER_RESOURCES'' deployClusterResources,
      valueEnv ''OPERATOR_VERSION'' operatorVersion,
      valueEnv ''CONTROLLER_IMAGE'' controllerImage,
      valueEnv ''MTQ_LOCK_SERVER_IMAGE'' webhookServerImage,
      valueEnv ''VERBOSITY'' verbosity,
      valueEnv ''PULL_POLICY'' pullPolicy,
      valueEnv ''MONITORING_NAMESPACE'' []]"

definition createPrometheusPorts :: "containerPort list" where
  "createPrometheusPorts = [\<lparr>cp_name = ''metrics'', cp_port = 8080, cp_protocol = ''TCP''\<rparr>]"

definition createOperatorDeployment ::
  "string \<Rightarrow> string \<Rightarrow> string \<Rightarrow> string \<Rightarrow> string \<Rightarrow> string \<Rightarrow> string \<Rightarrow> string \<Rightarrow> string list \<Rightarrow> deployment" where
  "createOperatorDeployment operatorVersion namespace deployClusterResources operatorImage controllerImage
       webhookServerImage verbosity pullPolicy imagePullSecrets =
     (let d = CreateOperatorDeployment ''mtq-operator'' namespace ''name'' ''mtq-operator'' serviceAccountName imagePullSecrets 1;
          c = CreateContainer ''mtq-operator'' operatorImage verbosity pullPolicy;
          container = c\<lparr>co_ports := createPrometheusPorts,
            co_securityContext := map_option (\<lambda>s. s\<lparr>sc_dropCapabilities := [''ALL'']\<rparr>) (co_securityContext c),
            co_requests := [(''cpu'', ''10m''), (''memory'', ''150Mi'')],
            co_env := createOperatorEnvVar operatorVersion deployClusterResources controllerImage webhookServerImage verbosity pullPolicy\<rparr>
      in d\<lparr>dp_podSpec := (dp_podSpec d)\<lparr>ps_containers := [container]\<rparr>\<rparr>)"

definition createDeployment :: "operatorFactoryArgs \<Rightarrow> kobject list" where
  "createDeployment args =
     (let na = of_namespacedArgs args
      in [DeploymentObj (createOperatorDeployment (fa_operatorVersion na) (fa_namespace na) (fa_deployClusterResources na)
            (of_image args) (fa_controllerImage na) (fa_mtqLockServerImage na) (fa_verbosity na) (fa_pullPolicy na)
            (fa_imagePullSecrets na))])"

definition createMTQListCRD :: crd where
  "createMTQListCRD = mtqCRD"

definition createCRD :: "operatorFactoryArgs \<Rightarrow> kobject list" where
  "createCRD args = [CRDObj createMTQListCRD]"

subsection \<open>factory.go\<close>

fun aggregateFactoryFunc :: "('a \<Rightarrow> kobject list) list \<Rightarrow> 'a \<Rightarrow> kobject list" where
  "aggregateFactoryFunc [] args = []"
| "aggregateFactoryFunc (f # funcs) args = f args @ aggregateFactoryFunc funcs args"

definition everything :: "operatorFactoryArgs \<Rightarrow> kobject list" where
  "everything = aggregateFactoryFunc [createCRD, createClusterRBAC, createNamespacedRBAC, createDeployment]"

definition operatorFactoryFunctions :: "operatorFactoryArgs factoryMap" where
  "operatorFactoryFunctions =
     [(''operator-cluster-rbac'', createClusterRBAC),
      (''operator-rbac'', createNamespacedRBAC),
      (''operator-deployment'', createDeployment),
      (''operator-crd'', createCRD),
      (''everything'', everything)]"

definition CreateOperatorResourceGroup :: "string \<Rightarrow> operatorFactoryArgs \<Rightarrow> kobject list result option" where
  "CreateOperatorResourceGroup grp args =
     (case map_of operatorFactoryFunctions grp of
        None \<Rightarrow> Some (Inl (groupErr grp))
      | Some f \<Rightarrow> (let resources = f args in
          if list_all (\<lambda>r. ValidateGVKs [r] \<noteq> None) resources then Some (Inr resources) else None))"

subsection \<open>The ClusterServiceVersion\<close>

record clusterServiceVersionData =
  cd_csvVersion :: string
  cd_replacesCsvVersion :: string
  cd_namespace :: string
  cd_imagePullPolicy :: string
  cd_imagePullSecrets :: "string list"
  cd_iconBase64 :: string
  cd_verbosity :: string
  cd_operatorVersion :: string
  cd_controllerImage :: string
  cd_webhookServerImage :: string
  cd_operatorImage :: string

record csvPermissions =
  cp_serviceAccountName :: string
  cp_rules :: "policyRule list"

text \<open>The part of a deployment the strategy carries, its \<open>Spec\<close>.\<close>

record deploymentSpec =
  ds_replicas :: int
  ds_selector :: labels
  ds_templateLabels :: labels
  ds_podSpec :: podSpec
  ds_maxUnavailable :: "int option"

definition specOf :: "deployment \<Rightarrow> deploymentSpec" where
  "specOf d = \<lparr>ds_replicas = dp_replicas d, ds_selector = dp_selector d, ds_templateLabels = dp_templateLabels d,
     ds_podSpec = dp_podSpec d, ds_maxUnavailable = dp_maxUnavailable d\<rparr>"

record csvDeployments =
  cv_name :: string
  cv_spec :: deploymentSpec

record csvStrategySpec =
  cs_permissions :: "csvPermissions list"
  cs_clusterPermissions :: "csvPermissions list"
  cs_deployments :: "csvDeployments list"

record descriptor =
  de_description :: string
  de_displayName :: string
  de_path :: string
  de_xDescriptors :: "string list"

record crdDescription =
  cr_name :: string
  cr_version :: string
  cr_kind :: string
  cr_displayName :: string
  cr_description :: string
  cr_resources :: "(string \<times> string \<times> string) list"
  cr_specDescriptors :: "descriptor list"
  cr_statusDescriptors :: "descriptor list"

record clusterServiceVersion =
  csv_apiVersion :: string
  csv_kind :: string
  csv_name :: string
  csv_namespace :: string
  csv_annotations :: labels
  csv_displayName :: string
  csv_description :: string
  csv_keywords :: "string list"
  csv_version :: string
  csv_maturity :: string
  csv_replaces :: string
  csv_maintainers :: "(string \<times> string) list"
  csv_provider :: string
  csv_links :: "(string \<times> string) list"
  csv_icons :: "(string \<times> string) list"
  csv_labels :: labels
  csv_selector :: labels
  csv_installModes :: "(string \<times> bool) list"
  csv_strategyName :: string
  csv_strategySpecRaw :: string
  csv_owned :: "crdDescription list"

definition csvStrategy :: "clusterServiceVersionData \<Rightarrow> csvStrategySpec" where
  "csvStrategy cdata =
     (let d0 = createOperatorDeployment (cd_operatorVersion cdata) (cd_namespace cdata) ''true'' (cd_operatorImage cdata)
            (cd_controllerImage cdata) (cd_webhookServerImage cdata) (cd_verbosity cdata) (cd_imagePullPolicy cdata)
            (cd_imagePullSecrets cdata);
          d = d0\<lparr>dp_podSpec := (dp_podSpec d0)\<lparr>ps_priorityClassName := MTQPriorityClass\<rparr>\<rparr>
      in \<lparr>cs_permissions = [\<lparr>cp_serviceAccountName = serviceAccountName, cp_rules = getNamespacedPolicyRules\<rparr>],
          cs_clusterPermissions = [\<lparr>cp_serviceAccountName = serviceAccountName, cp_rules = getClusterPolicyRules\<rparr>],
          cs_deployments = [\<lparr>cv_name = ''mtq-operator'', cv_spec = specOf d\<rparr>]\<rparr>)"

definition textDescriptor :: "string \<Rightarrow> string \<Rightarrow> string \<Rightarrow> descriptor" where
  "textDescriptor description displayName path =
     \<lparr>de_description = description, de_displayName = displayName, de_path = path,
      de_xDescriptors = [''urn:alm:descriptor:text'']\<rparr>"

definition csvSpecDescriptors :: "descriptor list" where
  "csvSpecDescriptors =
     [textDescriptor ''The ImageRegistry to use for the MTQ components.'' ''ImageRegistry'' ''imageRegistry'',
      textDescriptor ''The ImageTag to use for the MTQ components.'' ''ImageTag'' ''imageTag'',
      \<lparr>de_description = ''The ImagePullPolicy to use for the MTQ components.'', de_displayName = ''ImagePullPolicy'',
       de_path = ''imagePullPolicy'', de_xDescriptors = [''urn:alm:descriptor:io.kubernetes:imagePullPolicy'']\<rparr>]"

definition csvStatusDescriptors :: "descriptor list" where
  "csvStatusDescriptors =
     [\<lparr>de_description = ''The deployment phase.'', de_displayName = ''Phase'', de_path = ''phase'',
       de_xDescriptors = [''urn:alm:descriptor:io.kubernetes.phase'']\<rparr>,
      \<lparr>de_description = ''Explanation for the current status of the MTQ deployment.'', de_displayName = ''Conditions'',
       de_path = ''conditions'', de_xDescriptors = [''urn:alm:descriptor:io.kubernetes.conditions'']\<rparr>,
      textDescriptor ''The observed version of the MTQ deployment.'' ''Observed MTQ Version'' ''observedVersion'',
      textDescriptor ''The targeted version of the MTQ deployment.'' ''Target MTQ Version'' ''targetVersion'',
      textDescriptor ''The version of the MTQ Operator'' ''MTQ Operator Version'' ''operatorVersion'']"

definition csvOwnedCRD :: crdDescription where
  "csvOwnedCRD =
     \<lparr>cr_name = ''mtqs.mtq.kubevirt.io'', cr_version = ''v1alpha1'', cr_kind = ''MTQ'',
      cr_displayName = ''MTQ deployment'', cr_description = ''Represents a MTQ deployment'',
      cr_resources = [(''ConfigMap'', ''mtq-operator-leader-election-helper'', ''v1'')],
      cr_specDescriptors = csvSpecDescriptors, cr_statusDescriptors = csvStatusDescriptors\<rparr>"

definition csvOwnerLabels :: labels where
  "csvOwnerLabels = [(''alm-owner-mtq'', ''mtq-operator''), (''operated-by'', ''mtq-operator'')]"

text \<open>The example CR, a literal of several lines.\<close>

fun unlines :: "string list \<Rightarrow> string" where
  "unlines [] = []"
| "unlines [l] = l"
| "unlines (l # ls) = l @ CHR 0x0A # unlines ls"

definition almExamples :: string where
  \<open>almExamples = unlines
     [[],
      ''      ['',
      ''        {'',
      ''          "apiVersion":"mtq.kubevirt.io/v1alpha1",'',
      ''          "kind":"MTQ",'',
      ''          "metadata": {'',
      ''            "name":"mtq",'',
      ''            "namespace":"mtq"'',
      ''          },'',
      ''          "spec": {'',
      ''            "imagePullPolicy":"IfNotPresent"'',
      ''          }'',
      ''        }'',
      ''      ]'']\<close>

text \<open>
  \<open>marshal\<close> is \<open>json.Marshal\<close> of the strategy, \<open>semver\<close> the parser of version strings: an
  invalid version panics (\<open>None\<close>).
\<close>

definition createClusterServiceVersion ::
  "(csvStrategySpec \<Rightarrow> string result) \<Rightarrow> (string \<Rightarrow> string option) \<Rightarrow> clusterServiceVersionData \<Rightarrow>
     clusterServiceVersion result option" where
  "createClusterServiceVersion marshal semver cdata =
     (case marshal (csvStrategy cdata) of
        Inl err \<Rightarrow> Some (Inl err)
      | Inr strategySpecJSONBytes \<Rightarrow>
     (case semver (cd_csvVersion cdata) of
        None \<Rightarrow> None
      | Some ver \<Rightarrow> Some (Inr
         \<lparr>csv_apiVersion = ''operators.coreos.com/v1alpha1'', csv_kind = ''ClusterServiceVersion'',
          csv_name = ''mtqoperator.'' @ cd_csvVersion cdata, csv_namespace = cd_namespace cdata,
          csv_annotations = [(''capabilities'', ''Full Lifecycle''), (''categories'', ''Storage,Virtualization''),
            (''alm-examples'', almExamples), (''description'', ''Creates and maintains MTQ deployments'')],
          csv_displayName = ''MTQ'',
          csv_description = [CHR 0x0A] @ ''MTQ is a kubernetes extension that provides Multi Tenancy support to kubevirt''
            @ [CHR 0x0A, CHR 0x0A] @ ''_The MTQ Operator does not support updates yet._'' @ [CHR 0x0A],
          csv_keywords = [''MTQ'', ''Virtualization'', ''MultiTenancy''],
          csv_version = ver, csv_maturity = ''alpha'', csv_replaces = cd_replacesCsvVersion cdata,
          csv_maintainers = [(''KubeVirt project'', ''kubevirt-dev@googlegroups.com'')],
          csv_provider = ''KubeVirt/MTQ project'',
          csv_links = [(''MTQ'', ''https://github.com/kubevirt/managed-tenant-quota/blob/main/README.md''),
            (''Source Code'', ''https://github.com/kubevirt/managed-tenant-quota'')],
          csv_icons = [(cd_iconBase64 cdata, ''image/png'')],
          csv_labels = csvOwnerLabels, csv_selector = csvOwnerLabels,
          csv_installModes = [(''OwnNamespace'', True), (''SingleNamespace'', True), (''MultiNamespace'', True),
            (''AllNamespaces'', True)],
          csv_strategyName = ''deployment'', csv_strategySpecRaw = strategySpecJSONBytes,
          csv_owned = [csvOwnedCRD]\<rparr>)))"

definition NewMtqCrd :: crd where
  "NewMtqCrd = createMTQListCRD"

definition NewClusterServiceVersion ::
  "(csvStrategySpec \<Rightarrow> string result) \<Rightarrow> (string \<Rightarrow> string option) \<Rightarrow> clusterServiceVersionData \<Rightarrow>
     clusterServiceVersion result option" where
  "NewClusterServiceVersion marshal semver cdata = createClusterServiceVersion marshal semver cdata"

subsection \<open>What the factories return\<close>

lemmas operator_factories = createClusterRBAC_def createNamespacedRBAC_def createDeployment_def createCRD_def everything_def

lemmas operator_objects = createClusterRole_def createClusterRoleBinding_def createServiceAccount_def
  createNamespacedRole_def createNamespacedRoleBinding_def createOperatorDeployment_def CreateOperatorDeployment_def
  rb_CreateOperatorDeployment_def sdk_CreateDeployment_def createMTQListCRD_def mtqCRD_def

lemma operator_gvk:
  "\<forall>k \<in> set (createClusterRBAC args). hasGVK k" "\<forall>k \<in> set (createNamespacedRBAC args). hasGVK k"
  "\<forall>k \<in> set (createDeployment args). hasGVK k" "\<forall>k \<in> set (createCRD args). hasGVK k"
  by (simp_all add: operator_factories operator_objects meta_simps hasGVK_def Let_def)

interpretation operatorClusterRbac: resource_factory createClusterRBAC
  by unfold_locales (use operator_gvk in blast)

interpretation operatorRbac: resource_factory createNamespacedRBAC
  by unfold_locales (use operator_gvk in blast)

interpretation operatorDeployment: resource_factory createDeployment
  by unfold_locales (use operator_gvk in blast)

interpretation operatorCrd: resource_factory createCRD
  by unfold_locales (use operator_gvk in blast)

lemma aggregate_sound: "\<forall>f \<in> set fs. resource_factory f \<Longrightarrow> resource_factory (aggregateFactoryFunc fs)"
  by (induction fs) (fastforce simp: resource_factory_def)+

interpretation operatorEverything: resource_factory everything
  unfolding everything_def
  by (rule aggregate_sound) (simp add: operatorCrd.resource_factory_axioms operatorClusterRbac.resource_factory_axioms
      operatorRbac.resource_factory_axioms operatorDeployment.resource_factory_axioms)

lemma operator_sound: "soundMap operatorFactoryFunctions"
  by (simp add: soundMap_def operatorFactoryFunctions_def operatorCrd.resource_factory_axioms
      operatorClusterRbac.resource_factory_axioms operatorRbac.resource_factory_axioms
      operatorDeployment.resource_factory_axioms operatorEverything.resource_factory_axioms)

end
