(* ===== verification/CertFactory.thy ===== *)
theory CertFactory
  imports NamespacedResources WebhookConfig
begin

text \<open>
  \<open>pkg/mtq-operator/resources/cert/factory.go\<close>: which secrets and config maps hold the
  certificate authority and the serving certificate of the lock server, and how long they live.
  A \<open>time.Duration\<close> is a signed 64-bit count of nanoseconds, so its arithmetic wraps.
\<close>

type_synonym duration = "64 word"

definition Hour :: duration where
  "Hour = 3600000000000"

record certFactoryArgs =
  ca_namespace :: string
  ca_signerDuration :: "duration option"
  ca_signerRenewBefore :: "duration option"
  ca_targetDuration :: "duration option"
  ca_targetRenewBefore :: "duration option"

record certificateConfig =
  cc_lifetime :: duration
  cc_refresh :: duration

record certificateDefinition =
  cd_configurable :: bool
  cd_signerSecret :: "objectMeta option"
  cd_signerConfig :: certificateConfig
  cd_certBundleConfigmap :: "objectMeta option"
  cd_targetSecret :: "objectMeta option"
  cd_targetConfig :: certificateConfig
  cd_targetService :: "string option"
  cd_targetUser :: "string option"

text \<open>A secret and a config map are created without kind: only \<open>ObjectMeta\<close> is set.\<close>

definition plainMeta :: "string \<Rightarrow> objectMeta" where
  "plainMeta name = \<lparr>om_apiVersion = [], om_kind = [], om_name = name, om_namespace = [],
     om_labels = WithCommonLabels ResourceBuilder []\<rparr>"

definition createSecret :: "string \<Rightarrow> objectMeta" where
  "createSecret name = plainMeta name"

definition createConfigMap :: "string \<Rightarrow> objectMeta" where
  "createConfigMap name = plainMeta name"

definition createCertificateDefinitions :: "certificateDefinition list" where
  "createCertificateDefinitions =
     [\<lparr>cd_configurable = True,
       cd_signerSecret = Some (createSecret ''mtq-lock''),
       cd_signerConfig = \<lparr>cc_lifetime = 48 * Hour, cc_refresh = 24 * Hour\<rparr>,
       cd_certBundleConfigmap = Some (createConfigMap ''mtq-lock-signer-bundle''),
       cd_targetSecret = Some (createSecret SecretResourceName),
       cd_targetConfig = \<lparr>cc_lifetime = 24 * Hour, cc_refresh = 12 * Hour\<rparr>,
       cd_targetService = Some MTQLockServerServiceName,
       cd_targetUser = None\<rparr>]"

definition addNamespace :: "string \<Rightarrow> objectMeta \<Rightarrow> objectMeta" where
  "addNamespace namespace obj = (if om_namespace obj = [] then obj\<lparr>om_namespace := namespace\<rparr> else obj)"

text \<open>First the lifetime, then the time to refresh counted from the (new) lifetime.\<close>

definition overrideConfig :: "duration option \<Rightarrow> duration option \<Rightarrow> certificateConfig \<Rightarrow> certificateConfig" where
  "overrideConfig dur renewBefore c =
     (let c1 = (case dur of None \<Rightarrow> c | Some d \<Rightarrow> c\<lparr>cc_lifetime := d\<rparr>)
      in case renewBefore of None \<Rightarrow> c1 | Some b \<Rightarrow> c1\<lparr>cc_refresh := cc_lifetime c1 - b\<rparr>)"

definition adaptDefinition :: "certFactoryArgs \<Rightarrow> certificateDefinition \<Rightarrow> certificateDefinition" where
  "adaptDefinition args def0 =
     (let d = def0\<lparr>cd_signerSecret := map_option (addNamespace (ca_namespace args)) (cd_signerSecret def0),
                   cd_certBundleConfigmap := map_option (addNamespace (ca_namespace args)) (cd_certBundleConfigmap def0),
                   cd_targetSecret := map_option (addNamespace (ca_namespace args)) (cd_targetSecret def0)\<rparr>
      in if cd_configurable d
         then d\<lparr>cd_signerConfig := overrideConfig (ca_signerDuration args) (ca_signerRenewBefore args) (cd_signerConfig d),
                cd_targetConfig := overrideConfig (ca_targetDuration args) (ca_targetRenewBefore args) (cd_targetConfig d)\<rparr>
         else d)"

definition CreateCertificateDefinitions :: "certFactoryArgs \<Rightarrow> certificateDefinition list" where
  "CreateCertificateDefinitions args = map (adaptDefinition args) createCertificateDefinitions"

subsection \<open>Bounds\<close>

lemma sint_minus_exact:
  fixes a b :: duration
  assumes "0 \<le> sint b" and "sint b \<le> sint a"
  shows "sint (a - b) = sint a - sint b"
proof -
  have "- (2 ^ 63) \<le> sint a - sint b" "sint a - sint b < 2 ^ 63"
    using assms sint_range_size [of a] by (auto simp: word_size)
  then show ?thesis using signed_take_bit_int_eq_self [of 63 "sint a - sint b"]
    by (simp add: sint_word_ariths)
qed

text \<open>
  What a sensible configuration is: a certificate is refreshed within its lifetime. The defaults
  are, and a configuration that says how long before its end a certificate is renewed stays so.
\<close>

definition refreshedInTime :: "certificateConfig \<Rightarrow> bool" where
  "refreshedInTime c \<longleftrightarrow> 0 \<le> sint (cc_refresh c) \<and> sint (cc_refresh c) \<le> sint (cc_lifetime c)"

lemma overrideConfig_refresh:
  assumes "0 \<le> sint b" and "sint b \<le> sint (case dur of None \<Rightarrow> cc_lifetime c | Some d \<Rightarrow> d)"
  shows "sint (cc_refresh (overrideConfig dur (Some b) c)) =
      sint (cc_lifetime (overrideConfig dur (Some b) c)) - sint b"
    and "refreshedInTime (overrideConfig dur (Some b) c)"
  using assms by (auto simp: overrideConfig_def refreshedInTime_def sint_minus_exact split: option.splits)

lemma default_refreshedInTime:
  "d \<in> set createCertificateDefinitions \<Longrightarrow> refreshedInTime (cd_signerConfig d) \<and> refreshedInTime (cd_targetConfig d)"
  by (auto simp: createCertificateDefinitions_def refreshedInTime_def Hour_def)

end
