(* ===== verification/OperatorReconcile.thy ===== *)
theory OperatorReconcile
  imports OperatorResources CertFactory
begin

text \<open>
  The operator's reconciler, \<open>pkg/mtq-operator\<close>: what it reads and deploys
  (\<open>controller.go\<close>, \<open>cr-manager.go\<close>), the hooks it gives to the reconciler of the
  controller-lifecycle-operator-sdk (\<open>reconciler-hooks.go\<close>), its watch of the MTQ resource
  definition (\<open>cruft.go\<close>), and the part of the SDK's \<open>Reconcile\<close> that calls the hooks. The
  Kubernetes client is a record of functions on an unspecified server state; a panic is \<open>None\<close>.
\<close>

record ownerReference =
  ow_kind :: string
  ow_name :: string
  ow_uid :: string
  ow_controller :: bool

record configMap =
  cmap_meta :: objectMeta
  cmap_owners :: "ownerReference list"
  cmap_deleted :: bool

record 's operatorApi =
  oa_getMTQ :: "string \<Rightarrow> 's \<Rightarrow> mtq result"
  oa_listMTQs :: "'s \<Rightarrow> mtq list result"
  oa_getConfigMap :: "string \<Rightarrow> string \<Rightarrow> 's \<Rightarrow> configMap result"
  oa_createConfigMap :: "configMap \<Rightarrow> 's \<Rightarrow> goerror option \<times> 's"
  oa_getPriorityClass :: "string \<Rightarrow> 's \<Rightarrow> goerror option"
  oa_kindOf :: "mtq \<Rightarrow> string result"

record reconcileMTQ =
  re_namespace :: string
  re_namespacedArgs :: factoryArgs
  re_clusterArgs :: clusterFactoryArgs

subsection \<open>controller.go\<close>

definition controllerOf :: "ownerReference list \<Rightarrow> ownerReference option" where
  "controllerOf refs = find ow_controller refs"

text \<open>\<open>SetControllerReference\<close> on an object without owners.\<close>

definition withController :: "'s operatorApi \<Rightarrow> mtq \<Rightarrow> configMap \<Rightarrow> configMap result" where
  "withController A cr cm =
     (case oa_kindOf A cr of
        Inl err \<Rightarrow> Inl err
      | Inr kind \<Rightarrow>
          (if controllerOf (cmap_owners cm) \<noteq> None then Inl (GoErr ''already owned'')
           else Inr (cm\<lparr>cmap_owners := cmap_owners cm @
             [\<lparr>ow_kind = kind, ow_name = mtq_name cr, ow_uid = mtq_uid cr, ow_controller = True\<rparr>]\<rparr>)))"

definition operatorConfig :: "reconcileMTQ \<Rightarrow> mtq \<Rightarrow> configMap" where
  "operatorConfig r cr =
     \<lparr>cmap_meta = SetRecommendedLabels
        \<lparr>om_apiVersion = [], om_kind = [], om_name = ConfigMapName, om_namespace = re_namespace r,
         om_labels = [(''operator.mtq.kubevirt.io'', [])]\<rparr>
        (GetRecommendedInstallerLabelsFromCr cr) ''mtq-operator'',
      cmap_owners = [], cmap_deleted = False\<rparr>"

definition createOperatorConfig :: "'s operatorApi \<Rightarrow> reconcileMTQ \<Rightarrow> mtq \<Rightarrow> 's \<Rightarrow> goerror option \<times> 's" where
  "createOperatorConfig A r cr s =
     (case withController A cr (operatorConfig r cr) of
        Inl err \<Rightarrow> (Some err, s)
      | Inr cm \<Rightarrow> oa_createConfigMap A cm s)"

definition getConfigMap :: "'s operatorApi \<Rightarrow> reconcileMTQ \<Rightarrow> 's \<Rightarrow> configMap option result" where
  "getConfigMap A r s =
     (case oa_getConfigMap A ConfigMapName (re_namespace r) s of
        Inl err \<Rightarrow> (if IsNotFound err then Inr None else Inl err)
      | Inr cm \<Rightarrow> Inr (Some cm))"

definition certArgs :: "string \<Rightarrow> mtqCertConfig option \<Rightarrow> certFactoryArgs" where
  "certArgs namespace cfg =
     (let ca = Option.bind cfg mc_ca; server = Option.bind cfg mc_server
      in \<lparr>ca_namespace = namespace,
          ca_signerDuration = Option.bind ca cc_duration, ca_signerRenewBefore = Option.bind ca cc_renewBefore,
          ca_targetDuration = Option.bind server cc_duration, ca_targetRenewBefore = Option.bind server cc_renewBefore\<rparr>)"

definition getCertificateDefinitions :: "reconcileMTQ \<Rightarrow> mtq option \<Rightarrow> certificateDefinition list" where
  "getCertificateDefinitions r cr =
     CreateCertificateDefinitions (certArgs (re_namespace r) (Option.bind cr (\<lambda>m. ms_certConfig (mtq_spec m))))"

subsection \<open>cr-manager.go\<close>

text \<open>An error of \<open>getConfigMap\<close> counts as creating, with a nil error.\<close>

definition IsCreating :: "'s operatorApi \<Rightarrow> reconcileMTQ \<Rightarrow> 's \<Rightarrow> bool result" where
  "IsCreating A r s =
     (case getConfigMap A r s of
        Inl err \<Rightarrow> Inr True
      | Inr configMap \<Rightarrow> Inr (configMap = None))"

definition getNamespacedArgs :: "'s operatorApi \<Rightarrow> reconcileMTQ \<Rightarrow> mtq option \<Rightarrow> 's \<Rightarrow> factoryArgs" where
  "getNamespacedArgs A r cr s =
     (let result = re_namespacedArgs r in
      case cr of
        None \<Rightarrow> result
      | Some m \<Rightarrow>
          (let spec = mtq_spec m;
               a1 = (if ms_imagePullPolicy spec \<noteq> [] then result\<lparr>fa_pullPolicy := ms_imagePullPolicy spec\<rparr> else result);
               priority = (case ms_priorityClass spec of
                   Some p \<Rightarrow> (if p \<noteq> [] then p else MTQPriorityClass) | None \<Rightarrow> MTQPriorityClass);
               found = (oa_getPriorityClass A priority s = None)
           in a1\<lparr>fa_priorityClassName := (if found then priority else []),
                 fa_infraNodePlacement := Some (ms_infra spec)\<rparr>))"

text \<open>\<open>strings.ToLower\<close> on ASCII text, and \<open>sdk.DeployClusterResources\<close>.\<close>

definition toLowerChar :: "char \<Rightarrow> char" where
  "toLowerChar c = (if 65 \<le> (of_char c :: nat) \<and> (of_char c :: nat) \<le> 90 then char_of ((of_char c :: nat) + 32) else c)"

definition DeployClusterResources :: "string \<Rightarrow> bool" where
  "DeployClusterResources env \<longleftrightarrow> map toLowerChar env \<noteq> ''false''"

definition certObjects :: "certificateDefinition \<Rightarrow> kobject list" where
  "certObjects cert =
     (case cd_signerSecret cert of None \<Rightarrow> [] | Some m \<Rightarrow> [SecretObj m])
     @ (case cd_certBundleConfigmap cert of None \<Rightarrow> [] | Some m \<Rightarrow> [ConfigMapObj m])
     @ (case cd_targetSecret cert of None \<Rightarrow> [] | Some m \<Rightarrow> [SecretObj m])"

text \<open>
  \<open>env\<close> is the variable DEPLOY_CLUSTER_RESOURCES, the two orders those in which Go ranges over
  the factory tables. The status conditions set on the error paths are left out: the factories
  have no errors (\<open>GetAllResources_ok\<close>).
\<close>

definition GetAllResources ::
  "'s operatorApi \<Rightarrow> reconcileMTQ \<Rightarrow> string \<Rightarrow> string list \<Rightarrow> string list \<Rightarrow> mtq \<Rightarrow> 's \<Rightarrow> kobject list result option" where
  "GetAllResources A r env clusterOrder nsOrder cr s =
     (case (if DeployClusterResources env then CreateAllStaticResources clusterOrder (re_clusterArgs r) else Some (Inr [])) of
        None \<Rightarrow> None
      | Some (Inl err) \<Rightarrow> Some (Inl err)
      | Some (Inr crs) \<Rightarrow>
     (case CreateAllNamespaced nsOrder (getNamespacedArgs A r (Some cr) s) of
        None \<Rightarrow> None
      | Some (Inl err) \<Rightarrow> Some (Inl err)
      | Some (Inr nsrs) \<Rightarrow>
          Some (Inr (crs @ nsrs @ concat (map certObjects (getCertificateDefinitions r (Some cr)))))))"

subsection \<open>reconciler-hooks.go\<close>

text \<open>A \<open>reconcile.Result\<close>: the seconds after which the request is queued again, 0 for not.\<close>

type_synonym reconcileResult = nat

definition preCreate :: "'s operatorApi \<Rightarrow> reconcileMTQ \<Rightarrow> mtq \<Rightarrow> 's \<Rightarrow> goerror option \<times> 's" where
  "preCreate A r cr s = (case createOperatorConfig A r cr s of (Some err, s') \<Rightarrow> (Some err, s') | (None, s') \<Rightarrow> (None, s'))"

definition configMapOwnerDeleted :: "'s operatorApi \<Rightarrow> configMap \<Rightarrow> 's \<Rightarrow> bool result" where
  "configMapOwnerDeleted A cm s =
     (case controllerOf (cmap_owners cm) of
        None \<Rightarrow> Inr True
      | Some ownerRef \<Rightarrow>
          (if ow_kind ownerRef \<noteq> ''MTQ''
           then Inl (GoErr (''unexpected configmap owner kind '' @ CHR 0x22 # ow_kind ownerRef @ [CHR 0x22]))
           else (case oa_getMTQ A (ow_name ownerRef) s of
               Inl err \<Rightarrow> (if IsNotFound err then Inr True else Inl err)
             | Inr owner \<Rightarrow> Inr (\<not> (\<not> mtq_deleted owner \<and> mtq_uid owner = ow_uid ownerRef)))))"

definition IsControlledBy :: "configMap \<Rightarrow> mtq \<Rightarrow> bool" where
  "IsControlledBy cm cr = (case controllerOf (cmap_owners cm) of None \<Rightarrow> False | Some ref \<Rightarrow> ow_uid ref = mtq_uid cr)"

definition unwantedMessage :: string where
  "unwantedMessage = ''Reconciling to error state, unwanted MTQ object''"

text \<open>
  \<open>failCr\<close> is the SDK's \<open>ReconcileError\<close>, which moves the CR to the phase \<open>Error\<close>. The first
  component is \<open>None\<close> for \<open>nil, nil\<close>: go on. \<open>IsControlledBy\<close> dereferences the config map.
\<close>

definition checkSanity ::
  "'s operatorApi \<Rightarrow> reconcileMTQ \<Rightarrow> (mtq \<Rightarrow> string \<Rightarrow> 's \<Rightarrow> (reconcileResult \<times> goerror option) \<times> 's) \<Rightarrow> mtq \<Rightarrow> 's \<Rightarrow>
     (reconcileResult \<times> goerror option) option option \<times> 's" where
  "checkSanity A r failCr cr s =
     (case getConfigMap A r s of
        Inl err \<Rightarrow> (Some (Some (0, Some err)), s)
      | Inr None \<Rightarrow> (None, s)
      | Inr (Some configMap) \<Rightarrow>
          (if \<not> IsControlledBy configMap cr
           then (case configMapOwnerDeleted A configMap s of
               Inl err \<Rightarrow> (Some (Some (0, Some err)), s)
             | Inr ownerDeleted \<Rightarrow>
                 (if ownerDeleted \<or> cmap_deleted configMap then (Some (Some (1, None)), s)
                  else apfst (\<lambda>res. Some (Some res)) (failCr cr unwantedMessage s)))
           else (Some None, s)))"

definition syncCerts ::
  "(certificateDefinition list \<Rightarrow> 's \<Rightarrow> goerror option option \<times> 's) \<Rightarrow> reconcileMTQ \<Rightarrow> mtq \<Rightarrow> 's \<Rightarrow> goerror option option \<times> 's" where
  "syncCerts certSync r cr s =
     (if mtq_deleted cr then (Some None, s) else certSync (getCertificateDefinitions r (Some cr)) s)"

subsection \<open>cruft.go\<close>

text \<open>
  The requests an event for the definition \<open>name\<close> maps to. With no active CR, \<open>GetActiveMTQ\<close>
  returns a nil pointer without error, and reading its name panics.
\<close>

definition watchMTQCRD :: "string \<Rightarrow> mtq list result \<Rightarrow> string list option" where
  "watchMTQCRD name listed =
     (if name \<noteq> ''mtqs.mtq.kubevirt.io'' then Some []
      else (case GetActiveMTQ listed of
          Inl err \<Rightarrow> Some []
        | Inr None \<Rightarrow> None
        | Inr (Some cr) \<Rightarrow> Some [mtq_name cr]))"

subsection \<open>Reconcile\<close>

text \<open>What the SDK does to the custom resource and beyond the hooks.\<close>

record 's sdkOps =
  sd_watchDependants :: "mtq \<Rightarrow> 's \<Rightarrow> goerror option \<times> 's"
  sd_reconcileDelete :: "mtq \<Rightarrow> 's \<Rightarrow> (reconcileResult \<times> goerror option) \<times> 's"
  sd_reconcileError :: "mtq \<Rightarrow> string \<Rightarrow> 's \<Rightarrow> (reconcileResult \<times> goerror option) \<times> 's"
  sd_checkForOrphans :: "mtq \<Rightarrow> 's \<Rightarrow> bool result \<times> 's"
  sd_crInit :: "mtq \<Rightarrow> 's \<Rightarrow> goerror option \<times> 's"
  sd_reconcileUpdate :: "mtq \<Rightarrow> 's \<Rightarrow> (reconcileResult \<times> goerror option) \<times> 's"

definition illegalPhase :: string where
  "illegalPhase = ''Reconciling to error state, illegal phase''"

text \<open>From the sanity check on, and the branch for a CR that is being created.\<close>

definition sdkContinue ::
  "'s operatorApi \<Rightarrow> reconcileMTQ \<Rightarrow> 's sdkOps \<Rightarrow> mtq \<Rightarrow> 's \<Rightarrow> (reconcileResult \<times> goerror option) option \<times> 's" where
  "sdkContinue A r S cr s =
     (case checkSanity A r (sd_reconcileError S) cr s of
        (None, s') \<Rightarrow> (None, s')
      | (Some (Some res), s') \<Rightarrow> (Some res, s')
      | (Some None, s') \<Rightarrow> apfst Some (sd_reconcileUpdate S cr s'))"

definition sdkCreate ::
  "'s operatorApi \<Rightarrow> reconcileMTQ \<Rightarrow> 's sdkOps \<Rightarrow> mtq \<Rightarrow> 's \<Rightarrow> (reconcileResult \<times> goerror option) option \<times> 's" where
  "sdkCreate A r S cr s =
     (if mtq_phase cr \<noteq> [] then apfst Some (sd_reconcileError S cr illegalPhase s)
      else (case sd_checkForOrphans S cr s of
          (Inl err, s1) \<Rightarrow> (Some (0, Some err), s1)
        | (Inr True, s1) \<Rightarrow> (Some (1, None), s1)
        | (Inr False, s1) \<Rightarrow>
      (case preCreate A r cr s1 of
          (Some err, s2) \<Rightarrow> (Some (0, Some err), s2)
        | (None, s2) \<Rightarrow>
      (case sd_crInit S cr s2 of
          (Some err, s3) \<Rightarrow> (Some (0, Some err), s3)
        | (None, s3) \<Rightarrow> sdkContinue A r S cr s3))))"

definition sdkReconcile ::
  "'s operatorApi \<Rightarrow> reconcileMTQ \<Rightarrow> 's sdkOps \<Rightarrow> string \<Rightarrow> 's \<Rightarrow> (reconcileResult \<times> goerror option) option \<times> 's" where
  "sdkReconcile A r S name s =
     (case oa_getMTQ A name s of
        Inl err \<Rightarrow> (Some (0, if IsNotFound err then None else Some err), s)
      | Inr cr \<Rightarrow>
     (case sd_watchDependants S cr s of
        (Some err, s1) \<Rightarrow> (Some (0, Some err), s1)
      | (None, s1) \<Rightarrow>
          (if mtq_deleted cr then apfst Some (sd_reconcileDelete S cr s1)
           else (case IsCreating A r s1 of
               Inl err \<Rightarrow> (Some (0, Some err), s1)
             | Inr True \<Rightarrow> sdkCreate A r S cr s1
             | Inr False \<Rightarrow> sdkContinue A r S cr s1))))"

definition Reconcile ::
  "'s operatorApi \<Rightarrow> reconcileMTQ \<Rightarrow> 's sdkOps \<Rightarrow> string \<Rightarrow> 's \<Rightarrow> (reconcileResult \<times> goerror option) option \<times> 's" where
  "Reconcile A r S name s =
     (case oa_getMTQ A name s of
        Inl err \<Rightarrow> (Some (0, if IsNotFound err then None else Some err), s)
      | Inr cr \<Rightarrow> sdkReconcile A r S name s)"

end
