(* ===== verification/CertRotation.thy ===== *)
theory CertRotation
  imports CertFactory GoTime
begin

text \<open>
  \<open>pkg/mtq-operator/certrotation.go\<close>: the certificate manager. The Kubernetes API, the
  informers behind the listers and the rotation library of openshift (key generation, signing,
  the time checks) are a record of functions on an unspecified server state; what the manager
  asks of them, in which order, with which arguments, and what it makes of their failures is
  modelled. A panic (a nil pointer of a certificate definition) is \<open>None\<close>.
\<close>

record secret =
  se_ns :: string
  se_name :: string
  se_annotations :: "labels option"

text \<open>What \<open>EnsureSigningCertKeyPair\<close>, \<open>EnsureConfigMapCABundle\<close> and \<open>EnsureTargetCertKeyPair\<close> are called with.\<close>

record signingCASecret =
  rs_name :: string
  rs_namespace :: string
  rs_validity :: duration
  rs_refresh :: duration

datatype targetCreator = ServingRotation "string list" | ClientRotation string

record targetKeySecret =
  rt_name :: string
  rt_namespace :: string
  rt_validity :: duration
  rt_refresh :: duration
  rt_certCreator :: targetCreator

type_synonym certificate = "nat list"

record 's certApi =
  ca_listSecret :: "string \<Rightarrow> string \<Rightarrow> 's \<Rightarrow> secret result"
  ca_createSecret :: "secret \<Rightarrow> 's \<Rightarrow> secret result \<times> 's"
  ca_updateSecret :: "secret \<Rightarrow> 's \<Rightarrow> secret result \<times> 's"
  ca_ensureSigner :: "signingCASecret \<Rightarrow> 's \<Rightarrow> certificate result \<times> 's"
  ca_ensureBundle :: "string \<Rightarrow> string \<Rightarrow> certificate \<Rightarrow> 's \<Rightarrow> certificate list result \<times> 's"
  ca_ensureTarget :: "targetKeySecret \<Rightarrow> certificate \<Rightarrow> certificate list \<Rightarrow> 's \<Rightarrow> goerror option \<times> 's"
  ca_nowRFC3339 :: "'s \<Rightarrow> string"

datatype certCall =
    CreateSecret secret
  | UpdateSecret secret
  | EnsureSigner signingCASecret
  | EnsureBundle string string certificate
  | EnsureTarget targetKeySecret certificate "certificate list"

record 's certWorld =
  cw_srv :: 's
  cw_log :: "(certCall \<times> goerror option) list"

definition certCallOp ::
  "certCall \<Rightarrow> ('a \<Rightarrow> goerror option) \<Rightarrow> ('s \<Rightarrow> 'a \<times> 's) \<Rightarrow> 's certWorld \<Rightarrow> 'a \<times> 's certWorld" where
  "certCallOp c err f w =
     (case f (cw_srv w) of (r, s) \<Rightarrow> (r, w\<lparr>cw_srv := s, cw_log := cw_log w @ [(c, err r)]\<rparr>))"

subsection \<open>The manager\<close>

record certManager =
  cm_namespaces :: "string list"
  cm_listerMap :: "string list"

definition newCertManager :: "string \<Rightarrow> string list \<Rightarrow> certManager" where
  "newCertManager installNamespace additionalNamespaces =
     \<lparr>cm_namespaces = additionalNamespaces @ [installNamespace], cm_listerMap = []\<rparr>"

text \<open>
  \<open>Start\<close> registers the listers of one namespace after the other, as long as their caches sync.
\<close>

fun startNamespaces :: "(string \<Rightarrow> bool) \<Rightarrow> string list \<Rightarrow> string list \<Rightarrow> goerror option \<times> string list" where
  "startNamespaces synced [] listers = (None, listers)"
| "startNamespaces synced (ns # rest) listers =
     (if \<not> synced ns then (Some (GoErr ''could not sync informer cache''), listers)
      else startNamespaces synced rest (List.insert ns listers))"

definition cm_Start :: "(string \<Rightarrow> bool) \<Rightarrow> certManager \<Rightarrow> goerror option \<times> certManager" where
  "cm_Start synced cm =
     (case startNamespaces synced (cm_namespaces cm) (cm_listerMap cm) of (err, l) \<Rightarrow> (err, cm\<lparr>cm_listerMap := l\<rparr>))"

definition annCertConfig :: string where
  "annCertConfig = ''operator.mtq.kubevirt.io/certConfig''"

definition CertificateNotAfterAnnotation :: string where
  "CertificateNotAfterAnnotation = ''auth.openshift.io/certificate-not-after''"

text \<open>
  \<open>json.Marshal\<close> of the two durations; neither text is empty nor contains a character JSON
  escapes.
\<close>

definition quoted :: "string \<Rightarrow> string" where
  "quoted s = CHR 0x22 # s @ [CHR 0x22]"

definition serializedCertConfig :: "certificateConfig \<Rightarrow> string" where
  "serializedCertConfig c =
     ''{'' @ quoted ''lifetime'' @ '':'' @ quoted (durationString (cc_lifetime c)) @ '',''
       @ quoted ''refresh'' @ '':'' @ quoted (durationString (cc_refresh c)) @ ''}''"

definition newSecret :: "string \<Rightarrow> string \<Rightarrow> secret" where
  "newSecret namespace name = \<lparr>se_ns = namespace, se_name = name, se_annotations = None\<rparr>"

definition cm_createSecret :: "'s certApi \<Rightarrow> string \<Rightarrow> string \<Rightarrow> 's certWorld \<Rightarrow> secret result \<times> 's certWorld" where
  "cm_createSecret A namespace name =
     (let s = newSecret namespace name in certCallOp (CreateSecret s) errOf (ca_createSecret A s))"

text \<open>The annotations of the copy that is sent.\<close>

definition refreshedAnnotations :: "string \<Rightarrow> string \<Rightarrow> labels \<Rightarrow> labels" where
  "refreshedAnnotations now configString ann =
     AList.update annCertConfig configString
       (if map_of ann CertificateNotAfterAnnotation \<noteq> None
        then AList.update CertificateNotAfterAnnotation now ann else ann)"

definition annotationsOf :: "secret \<Rightarrow> labels" where
  "annotationsOf s = (case se_annotations s of None \<Rightarrow> [] | Some a \<Rightarrow> a)"

definition ensureCertConfig ::
  "'s certApi \<Rightarrow> secret \<Rightarrow> certificateConfig \<Rightarrow> 's certWorld \<Rightarrow> secret result \<times> 's certWorld" where
  "ensureCertConfig A secret certConfig w =
     (let configString = serializedCertConfig certConfig;
          currentConfig = (case map_of (annotationsOf secret) annCertConfig of None \<Rightarrow> [] | Some v \<Rightarrow> v)
      in if currentConfig = configString then (Inr secret, w)
         else let secretCpy = secret\<lparr>se_annotations :=
                    Some (refreshedAnnotations (ca_nowRFC3339 A (cw_srv w)) configString (annotationsOf secret))\<rparr>
              in certCallOp (UpdateSecret secretCpy) errOf (ca_updateSecret A secretCpy) w)"

definition noLister :: "string \<Rightarrow> goerror" where
  "noLister ns = GoErr (''no lister for namespace '' @ ns)"

text \<open>The secret from the lister, or a new one where it does not exist yet.\<close>

definition getOrCreate :: "'s certApi \<Rightarrow> string \<Rightarrow> string \<Rightarrow> 's certWorld \<Rightarrow> secret result \<times> 's certWorld" where
  "getOrCreate A ns name w =
     (case ca_listSecret A ns name (cw_srv w) of
        Inr s \<Rightarrow> (Inr s, w)
      | Inl err \<Rightarrow> (if \<not> IsNotFound err then (Inl err, w) else cm_createSecret A ns name w))"

definition ensureSigner ::
  "'s certApi \<Rightarrow> certManager \<Rightarrow> certificateDefinition \<Rightarrow> 's certWorld \<Rightarrow> certificate result option \<times> 's certWorld" where
  "ensureSigner A cm cd w =
     (case cd_signerSecret cd of
        None \<Rightarrow> (None, w)
      | Some signer \<Rightarrow>
          if om_namespace signer \<notin> set (cm_listerMap cm) then (Some (Inl (noLister (om_namespace signer))), w)
          else (case getOrCreate A (om_namespace signer) (om_name signer) w of
             (Inl err, w1) \<Rightarrow> (Some (Inl err), w1)
           | (Inr s, w1) \<Rightarrow>
          (case ensureCertConfig A s (cd_signerConfig cd) w1 of
             (Inl err, w2) \<Rightarrow> (Some (Inl err), w2)
           | (Inr secret, w2) \<Rightarrow>
               (let sr = \<lparr>rs_name = se_name secret, rs_namespace = se_ns secret,
                      rs_validity = cc_lifetime (cd_signerConfig cd), rs_refresh = cc_refresh (cd_signerConfig cd)\<rparr>
                in apfst Some (certCallOp (EnsureSigner sr) errOf (ca_ensureSigner A sr) w2)))))"

definition ensureCertBundle ::
  "'s certApi \<Rightarrow> certManager \<Rightarrow> objectMeta \<Rightarrow> certificate \<Rightarrow> 's certWorld \<Rightarrow> certificate list result \<times> 's certWorld" where
  "ensureCertBundle A cm configMap ca w =
     (if om_namespace configMap \<notin> set (cm_listerMap cm) then (Inl (noLister (om_namespace configMap)), w)
      else certCallOp (EnsureBundle (om_namespace configMap) (om_name configMap) ca) errOf
             (ca_ensureBundle A (om_namespace configMap) (om_name configMap) ca) w)"

definition servingHostnames :: "string \<Rightarrow> string \<Rightarrow> string list" where
  "servingHostnames service namespace =
     [service, service @ ''.'' @ namespace, service @ ''.'' @ namespace @ ''.svc'']"

definition targetCreatorOf :: "certificateDefinition \<Rightarrow> secret \<Rightarrow> targetCreator option" where
  "targetCreatorOf cd secret =
     (case cd_targetService cd of
        Some service \<Rightarrow> Some (ServingRotation (servingHostnames service (se_ns secret)))
      | None \<Rightarrow> map_option ClientRotation (cd_targetUser cd))"

definition ensureTarget ::
  "'s certApi \<Rightarrow> certManager \<Rightarrow> certificateDefinition \<Rightarrow> objectMeta \<Rightarrow> objectMeta \<Rightarrow> certificate \<Rightarrow> certificate list \<Rightarrow>
     's certWorld \<Rightarrow> goerror option option \<times> 's certWorld" where
  "ensureTarget A cm cd signer target ca bundle w =
     (if om_namespace signer \<notin> set (cm_listerMap cm) then (Some (Some (noLister (om_namespace signer))), w)
      else (case getOrCreate A (om_namespace target) (om_name target) w of
         (Inl err, w1) \<Rightarrow> (Some (Some err), w1)
       | (Inr s, w1) \<Rightarrow>
      (case ensureCertConfig A s (cd_targetConfig cd) w1 of
         (Inl err, w2) \<Rightarrow> (Some (Some err), w2)
       | (Inr secret, w2) \<Rightarrow>
      (case targetCreatorOf cd secret of
         None \<Rightarrow> (None, w2)
       | Some creator \<Rightarrow>
           (let tr = \<lparr>rt_name = se_name secret, rt_namespace = se_ns secret,
                  rt_validity = cc_lifetime (cd_targetConfig cd), rt_refresh = cc_refresh (cd_targetConfig cd),
                  rt_certCreator = creator\<rparr>
            in apfst Some (certCallOp (EnsureTarget tr ca bundle) id (ca_ensureTarget A tr ca bundle) w2))))))"

text \<open>One definition: \<open>continue\<close> where it has no bundle or no target.\<close>

definition syncOne ::
  "'s certApi \<Rightarrow> certManager \<Rightarrow> certificateDefinition \<Rightarrow> 's certWorld \<Rightarrow> goerror option option \<times> 's certWorld" where
  "syncOne A cm cd w =
     (case ensureSigner A cm cd w of
        (None, w1) \<Rightarrow> (None, w1)
      | (Some (Inl err), w1) \<Rightarrow> (Some (Some err), w1)
      | (Some (Inr ca), w1) \<Rightarrow>
     (case cd_certBundleConfigmap cd of
        None \<Rightarrow> (Some None, w1)
      | Some configMap \<Rightarrow>
     (case ensureCertBundle A cm configMap ca w1 of
        (Inl err, w2) \<Rightarrow> (Some (Some err), w2)
      | (Inr bundle, w2) \<Rightarrow>
     (case (cd_targetSecret cd, cd_signerSecret cd) of
        (Some target, Some signer) \<Rightarrow> ensureTarget A cm cd signer target ca bundle w2
      | _ \<Rightarrow> (Some None, w2)))))"

fun Sync ::
  "'s certApi \<Rightarrow> certManager \<Rightarrow> certificateDefinition list \<Rightarrow> 's certWorld \<Rightarrow> goerror option option \<times> 's certWorld" where
  "Sync A cm [] w = (Some None, w)"
| "Sync A cm (cd # certs) w =
     (case syncOne A cm cd w of
        (Some None, w1) \<Rightarrow> Sync A cm certs w1
      | (r, w1) \<Rightarrow> (r, w1))"

end
