(* ===== verification/OperatorSetup.thy ===== *)
theory OperatorSetup
  imports OperatorReconcile CertRotation Utilities
begin

text \<open>
  How the operator starts: the reconciler built from its environment (\<open>newReconciler\<close> and
  \<open>add\<close> of \<open>controller.go\<close>, with \<open>envconfig.Process\<close> of the vendored library on the fields
  of \<open>FactoryArgs\<close>), the small methods the SDK calls (\<open>cr-manager.go\<close>), the hooks
  (\<open>reconciler-hooks.go\<close>) and the manager's options (\<open>cmd/mtq-operator\<close>).
\<close>

subsection \<open>envconfig\<close>

definition isUpper :: "char \<Rightarrow> bool" where
  "isUpper c \<longleftrightarrow> 65 \<le> (of_char c :: nat) \<and> (of_char c :: nat) \<le> 90"

definition toUpperChar :: "char \<Rightarrow> char" where
  "toUpperChar c = (if 97 \<le> (of_char c :: nat) \<and> (of_char c :: nat) \<le> 122 then char_of ((of_char c :: nat) - 32) else c)"

text \<open>The matches of \<open>([^A-Z]+|[A-Z]+[^A-Z]+|[A-Z]+)\<close>: capitals and what follows up to the next capital.\<close>

function gatherWords :: "string \<Rightarrow> string list" where
  "gatherWords [] = []"
| "gatherWords (c # cs) =
     (let ups = takeWhile isUpper (c # cs); rest = dropWhile isUpper (c # cs)
      in (ups @ takeWhile (\<lambda>x. \<not> isUpper x) rest) # gatherWords (dropWhile (\<lambda>x. \<not> isUpper x) rest))"
  by pat_completeness auto
termination
proof (relation "measure length")
  fix c cs and ups rest :: string
  assume rest: "rest = dropWhile isUpper (c # cs)"
  have "length (dropWhile (\<lambda>x. \<not> isUpper x) rest) < length (c # cs)"
  proof (cases "isUpper c")
    case True
    then have "length rest \<le> length cs" using rest length_dropWhile_le by auto
    then show ?thesis using length_dropWhile_le [of "\<lambda>x. \<not> isUpper x" rest] by simp
  next
    case False
    then show ?thesis using rest length_dropWhile_le [of "\<lambda>x. \<not> isUpper x" cs] by simp
  qed
  then show "(dropWhile (\<lambda>x. \<not> isUpper x) rest, c # cs) \<in> measure length" by simp
qed simp

text \<open>\<open>([A-Z]+)([A-Z][^A-Z]+)\<close>: an acronym before a capitalised word is a word of its own.\<close>

definition splitAcronym :: "string \<Rightarrow> string list" where
  "splitAcronym w =
     (let ups = takeWhile isUpper w; lows = dropWhile isUpper w
      in if length ups \<ge> 2 \<and> lows \<noteq> [] then [butlast ups, last ups # lows] else [w])"

fun joinWords :: "string list \<Rightarrow> string" where
  "joinWords [] = []"
| "joinWords [w] = w"
| "joinWords (w # v # ws) = w @ ''_'' @ joinWords (v # ws)"

definition envKey :: "bool \<Rightarrow> string \<Rightarrow> string" where
  "envKey splitWords name =
     map toUpperChar (if splitWords then joinWords (concat (map splitAcronym (gatherWords name))) else name)"

text \<open>The string fields of \<open>FactoryArgs\<close> with the tag \<open>required\<close>, and whether their words are split.\<close>

definition requiredFields :: "(string \<times> bool) list" where
  "requiredFields =
     [(''OperatorVersion'', True), (''ControllerImage'', True), (''DeployClusterResources'', True),
      (''MTQLockServerImage'', True), (''Verbosity'', False), (''PullPolicy'', True)]"

fun missingKey :: "(string \<Rightarrow> string option) \<Rightarrow> (string \<times> bool) list \<Rightarrow> string option" where
  "missingKey env [] = None"
| "missingKey env ((name, splitWords) # fs) =
     (if env (envKey splitWords name) = None then Some (envKey splitWords name) else missingKey env fs)"

definition stringField :: "(string \<Rightarrow> string option) \<Rightarrow> bool \<Rightarrow> string \<Rightarrow> string" where
  "stringField env splitWords name = (case env (envKey splitWords name) of None \<Rightarrow> [] | Some v \<Rightarrow> v)"

text \<open>A list of structs: as many as there are comma-separated parts, none of them filled in.\<close>

definition structSlice :: "string option \<Rightarrow> string list" where
  "structSlice v =
     (case v of
        None \<Rightarrow> []
      | Some s \<Rightarrow> (if TrimSpace s = [] then [] else replicate (length (filter (\<lambda>c. c = CHR '','') s) + 1) []))"

text \<open>
  The fields in their order; \<open>decodePlacement\<close> is what the library makes of the nested
  \<open>InfraNodePlacement\<close>, the last of them.
\<close>

definition envProcess ::
  "(string \<Rightarrow> string option) \<Rightarrow> ((string \<Rightarrow> string option) \<Rightarrow> nodePlacement result) \<Rightarrow> factoryArgs result" where
  "envProcess env decodePlacement =
     (case missingKey env requiredFields of
        Some key \<Rightarrow> Inl (GoErr (''required key '' @ key @ '' missing value''))
      | None \<Rightarrow>
     (case decodePlacement env of
        Inl err \<Rightarrow> Inl err
      | Inr placement \<Rightarrow> Inr
         \<lparr>fa_operatorVersion = stringField env True ''OperatorVersion'',
          fa_controllerImage = stringField env True ''ControllerImage'',
          fa_deployClusterResources = stringField env True ''DeployClusterResources'',
          fa_mtqLockServerImage = stringField env True ''MTQLockServerImage'',
          fa_verbosity = stringField env False ''Verbosity'',
          fa_pullPolicy = stringField env True ''PullPolicy'',
          fa_imagePullSecrets = structSlice (env (envKey False ''ImagePullSecrets'')),
          fa_priorityClassName = stringField env False ''PriorityClassName'',
          fa_namespace = stringField env False ''Namespace'',
          fa_infraNodePlacement = Some placement\<rparr>))"

subsection \<open>controller.go\<close>

definition newReconciler ::
  "(string \<Rightarrow> string result) \<Rightarrow> (string \<Rightarrow> string option) \<Rightarrow> ((string \<Rightarrow> string option) \<Rightarrow> nodePlacement result) \<Rightarrow>
     goerror option \<Rightarrow> reconcileMTQ result" where
  "newReconciler readFile env decodePlacement clientErr =
     (let namespace = GetNamespace readFile;
          clusterArgs = \<lparr>cf_namespace = namespace\<rparr>
      in case envProcess env decodePlacement of
           Inl err \<Rightarrow> Inl err
         | Inr namespacedArgs \<Rightarrow>
             (case clientErr of
                Some err \<Rightarrow> Inl err
              | None \<Rightarrow> Inr \<lparr>re_namespace = namespace, re_namespacedArgs = namespacedArgs\<lparr>fa_namespace := namespace\<rparr>,
                             re_clusterArgs = clusterArgs\<rparr>))"

text \<open>\<open>add\<close>: the controller, the watch of the CR, then the certificate manager.\<close>

definition addReconciler ::
  "goerror option \<Rightarrow> goerror option \<Rightarrow> goerror option \<Rightarrow> reconcileMTQ \<Rightarrow> certManager result" where
  "addReconciler controllerErr watchErr certErr r =
     (case controllerErr of Some err \<Rightarrow> Inl err | None \<Rightarrow>
     (case watchErr of Some err \<Rightarrow> Inl err | None \<Rightarrow>
     (case certErr of Some err \<Rightarrow> Inl err | None \<Rightarrow> Inr (newCertManager (re_namespace r) []))))"

definition Add ::
  "(string \<Rightarrow> string result) \<Rightarrow> (string \<Rightarrow> string option) \<Rightarrow> ((string \<Rightarrow> string option) \<Rightarrow> nodePlacement result) \<Rightarrow>
     goerror option \<Rightarrow> goerror option \<Rightarrow> goerror option \<Rightarrow> goerror option \<Rightarrow> (reconcileMTQ \<times> certManager) result" where
  "Add readFile env decodePlacement clientErr controllerErr watchErr certErr =
     (case newReconciler readFile env decodePlacement clientErr of
        Inl err \<Rightarrow> Inl err
      | Inr r \<Rightarrow> map_sum id (Pair r) (addReconciler controllerErr watchErr certErr r))"

subsection \<open>cr-manager.go, reconciler-hooks.go\<close>

definition GetDependantResourcesListObjects :: "string list" where
  "GetDependantResourcesListObjects =
     [''CustomResourceDefinition'', ''ClusterRoleBinding'', ''ClusterRole'', ''Deployment'', ''Service'',
      ''RoleBinding'', ''Role'', ''ServiceAccount'']"

text \<open>The additional types \<open>watch\<close> registers, before the watch of the resource definition.\<close>

definition watchedTypes :: "string list" where
  "watchedTypes = [''ConfigMap'', ''Secret'']"

fun kindName :: "kobject \<Rightarrow> string" where
  "kindName (ServiceAccountObj _) = ''ServiceAccount''"
| "kindName (RoleObj _) = ''Role''"
| "kindName (RoleBindingObj _) = ''RoleBinding''"
| "kindName (ClusterRoleObj _) = ''ClusterRole''"
| "kindName (ClusterRoleBindingObj _) = ''ClusterRoleBinding''"
| "kindName (DeploymentObj _) = ''Deployment''"
| "kindName (ServiceObj _) = ''Service''"
| "kindName (CRDObj _) = ''CustomResourceDefinition''"
| "kindName (SecretObj _) = ''Secret''"
| "kindName (ConfigMapObj _) = ''ConfigMap''"

subsection \<open>cmd/mtq-operator\<close>

record managerOptions =
  mo_cacheNamespaces :: "string list"
  mo_leaderElection :: bool
  mo_leaderElectionNamespace :: string
  mo_leaderElectionID :: string
  mo_leaderElectionResourceLock :: string

definition operatorManagerOptions :: "(string \<Rightarrow> string result) \<Rightarrow> managerOptions" where
  "operatorManagerOptions readFile =
     (let namespace = GetNamespace readFile
      in \<lparr>mo_cacheNamespaces = [namespace], mo_leaderElection = True, mo_leaderElectionNamespace = namespace,
          mo_leaderElectionID = ''mtq-operator-leader-election-helper'', mo_leaderElectionResourceLock = ''leases''\<rparr>)"

subsection \<open>The environment of the operator's deployment\<close>

text \<open>What the kubelet makes of a container's variables: of two of the same name, the later counts.\<close>

definition envOf :: "envVar list \<Rightarrow> string \<Rightarrow> string option" where
  "envOf vs = map_of (rev (map (\<lambda>v. (env_name v, env_value v)) vs))"

fun firstContainerEnv :: "kobject list \<Rightarrow> envVar list" where
  "firstContainerEnv (DeploymentObj d # _) = concat (map co_env (ps_containers (dp_podSpec d)))"
| "firstContainerEnv _ = []"

lemma envKeys:
  "map (\<lambda>(n, b). envKey b n) requiredFields =
     [''OPERATOR_VERSION'', ''CONTROLLER_IMAGE'', ''DEPLOY_CLUSTER_RESOURCES'', ''MTQ_LOCK_SERVER_IMAGE'', ''VERBOSITY'', ''PULL_POLICY'']"
  "envKey False ''ImagePullSecrets'' = ''IMAGEPULLSECRETS''" "envKey False ''PriorityClassName'' = ''PRIORITYCLASSNAME''"
  "envKey False ''Namespace'' = ''NAMESPACE''"
  by code_simp+

lemma envKey_fields:
  "envKey True ''OperatorVersion'' = ''OPERATOR_VERSION''" "envKey True ''ControllerImage'' = ''CONTROLLER_IMAGE''"
  "envKey True ''DeployClusterResources'' = ''DEPLOY_CLUSTER_RESOURCES''"
  "envKey True ''MTQLockServerImage'' = ''MTQ_LOCK_SERVER_IMAGE''" "envKey False ''Verbosity'' = ''VERBOSITY''"
  "envKey True ''PullPolicy'' = ''PULL_POLICY''"
  using envKeys(1) by (simp_all add: requiredFields_def)

lemma operatorEnv:
  "firstContainerEnv (createDeployment args) =
     createOperatorEnvVar (fa_operatorVersion (of_namespacedArgs args)) (fa_deployClusterResources (of_namespacedArgs args))
       (fa_controllerImage (of_namespacedArgs args)) (fa_mtqLockServerImage (of_namespacedArgs args))
       (fa_verbosity (of_namespacedArgs args)) (fa_pullPolicy (of_namespacedArgs args))"
  by (simp add: createDeployment_def createOperatorDeployment_def Let_def)

end
