(* ===== verification/LockServer.thy ===== *)
theory LockServer
  imports WebhookConfig
begin

text \<open>
  The admission server behind the locking webhook: \<open>pkg/mtq-lock-server/mtq-server.go\<close>
  (routing), \<open>mtq-handler.go\<close> (decoding a request, encoding the answer) and
  \<open>validation/validator.go\<close> (the decision). The JSON codec and \<open>%q\<close> quoting are a record of
  functions, the discovery of KubeVirt's namespace a value that may be missing (the process
  exits then); everything else is computed.
\<close>

subsection \<open>Requests and answers\<close>

record adRequest =
  ar_kind :: string
  ar_uid :: string
  ar_username :: string
  ar_raw :: string

record adResponse =
  ap_uid :: string
  ap_allowed :: bool
  ap_code :: nat
  ap_message :: string

record adReview =
  av_kind :: string
  av_apiVersion :: string
  av_response :: adResponse

record codec =
  cd_review :: "string \<Rightarrow> adRequest option result"
  cd_podLabels :: "string \<Rightarrow> (string \<times> string) list result"
  cd_encode :: "adReview \<Rightarrow> string result"
  cd_quote :: "string \<Rightarrow> string"

record httpRequest =
  hq_method :: string
  hq_requestMethod :: string
  hq_path :: string
  hq_contentType :: string
  hq_body :: "string result"

record httpResponse =
  hs_code :: nat
  hs_contentType :: string
  hs_body :: string

definition StatusOK :: nat where "StatusOK = 200"
definition StatusAccepted :: nat where "StatusAccepted = 202"
definition StatusBadRequest :: nat where "StatusBadRequest = 400"
definition StatusForbidden :: nat where "StatusForbidden = 403"
definition StatusNotFound :: nat where "StatusNotFound = 404"
definition StatusInternalServerError :: nat where "StatusInternalServerError = 500"

subsection \<open>validator.go\<close>

definition ControllerPodName :: string where
  "ControllerPodName = ''mtq-controller''"

definition VirtControllerServiceAccountName :: string where
  "VirtControllerServiceAccountName = ''kubevirt-controller''"

definition InvalidPodCreationErrorMessage :: string where
  "InvalidPodCreationErrorMessage = ''Migration process is currently being handled by the Managed Quota controller, and as a result, creations of pods are not allowed in this namespace, please try again.''"

definition ReasonFoForbiddenVMMRQCreationOrDeletion :: string where
  "ReasonFoForbiddenVMMRQCreationOrDeletion = ''Migration process is currently being handled by the Managed Quota controller, and as a result, modifications,creation or deletion of virtualMachineMigrationResourceQuotas are not permitted in this namespace, please try again.''"

definition ReasonFoForbiddenRQUpdate :: string where
  "ReasonFoForbiddenRQUpdate = ''Migration process is currently being handled by the Managed Quota controller, and as a result, modifications to resourceQuotas are not permitted in this namespace, please try again.''"

definition ReasonForAcceptedRQUpdate :: string where
  "ReasonForAcceptedRQUpdate = ''valid ResourceQuota Update''"

definition ReasonForAcceptedVMMRQUpdate :: string where
  "ReasonForAcceptedVMMRQUpdate = ''valid VirtualMachineMigrationResourceQuota Update''"

definition ReasonForAcceptedPodCreation :: string where
  "ReasonForAcceptedPodCreation = ''valid target virt-launcher''"

definition MigrationJobLabel :: string where
  "MigrationJobLabel = ''kubevirt.io/migrationJobUID''"

definition reviewResponse :: "string \<Rightarrow> bool \<Rightarrow> nat \<Rightarrow> string \<Rightarrow> adReview" where
  "reviewResponse uid allowed httpCode reason =
     \<lparr>av_kind = ''AdmissionReview'', av_apiVersion = ''admission.k8s.io/v1'',
      av_response = \<lparr>ap_uid = uid, ap_allowed = allowed, ap_code = httpCode, ap_message = reason\<rparr>\<rparr>"

definition isVirtControllerServiceAccount :: "string \<Rightarrow> string \<Rightarrow> bool" where
  "isVirtControllerServiceAccount serviceAccount kubevirtNS =
     (let prefix = ''system:serviceaccount:'' @ kubevirtNS
      in serviceAccount = prefix @ '':'' @ VirtControllerServiceAccountName)"

definition isMTQControllerServiceAccount :: "string \<Rightarrow> string \<Rightarrow> bool" where
  "isMTQControllerServiceAccount serviceAccount mtqNS =
     (let prefix = ''system:serviceaccount:'' @ mtqNS
      in serviceAccount = prefix @ '':'' @ ControllerPodName)"

definition validateRQCtlModification :: "adRequest \<Rightarrow> string \<Rightarrow> string \<Rightarrow> string \<Rightarrow> adReview result" where
  "validateRQCtlModification r mtqNS reasonFoForbidden reasonForAccepted =
     (if isMTQControllerServiceAccount (ar_username r) mtqNS
      then Inr (reviewResponse (ar_uid r) True StatusAccepted reasonForAccepted)
      else Inr (reviewResponse (ar_uid r) False StatusForbidden reasonFoForbidden))"

definition validateTargetVirtLauncherPod :: "codec \<Rightarrow> adRequest \<Rightarrow> string \<Rightarrow> adReview result" where
  "validateTargetVirtLauncherPod cd r kubevirtNS =
     (if \<not> isVirtControllerServiceAccount (ar_username r) kubevirtNS
      then Inr (reviewResponse (ar_uid r) False StatusForbidden InvalidPodCreationErrorMessage)
      else case cd_podLabels cd (ar_raw r) of
        Inl err \<Rightarrow> Inl err
      | Inr labels \<Rightarrow>
          (if map_of labels MigrationJobLabel = None
           then Inr (reviewResponse (ar_uid r) False StatusForbidden InvalidPodCreationErrorMessage)
           else Inr (reviewResponse (ar_uid r) True StatusAccepted ReasonForAcceptedPodCreation)))"

text \<open>The error prints the whole request; its text stands for that.\<close>

definition unrecognized :: "adRequest \<Rightarrow> goerror" where
  "unrecognized r = GoErr (''MTQ webhook doesn't recongnize request: '' @ ar_kind r)"

definition Validate :: "codec \<Rightarrow> adRequest \<Rightarrow> string \<Rightarrow> string \<Rightarrow> adReview result" where
  "Validate cd r kubevirtNS mtqNS =
     (if ar_kind r = ''VirtualMachineMigrationResourceQuota''
      then validateRQCtlModification r mtqNS ReasonFoForbiddenVMMRQCreationOrDeletion ReasonForAcceptedVMMRQUpdate
      else if ar_kind r = ''ResourceQuota''
      then validateRQCtlModification r mtqNS ReasonFoForbiddenRQUpdate ReasonForAcceptedRQUpdate
      else if ar_kind r = ''Pod'' then validateTargetVirtLauncherPod cd r kubevirtNS
      else Inl (unrecognized r))"

subsection \<open>mtq-handler.go\<close>

definition jsonType :: string where
  "jsonType = ''application/json''"

definition parseRequest :: "codec \<Rightarrow> httpRequest \<Rightarrow> adRequest result" where
  "parseRequest cd r =
     (if hq_contentType r \<noteq> jsonType
      then Inl (GoErr (''Content-Type: '' @ cd_quote cd (hq_contentType r) @ '' should be '' @ cd_quote cd jsonType))
      else case hq_body r of
        Inl err \<Rightarrow> Inl err
      | Inr body \<Rightarrow>
          (if length body = 0 then Inl (GoErr ''admission request body is empty'')
           else case cd_review cd body of
             Inl err \<Rightarrow> Inl (GoErr (''could not parse admission review request: '' @ Error err))
           | Inr None \<Rightarrow> Inl (GoErr ''admission review can't be used: Request field is nil'')
           | Inr (Some request) \<Rightarrow> Inr request))"

definition httpError :: "string \<Rightarrow> nat \<Rightarrow> httpResponse" where
  "httpError msg code =
     \<lparr>hs_code = code, hs_contentType = ''text/plain; charset=utf-8'', hs_body = msg @ [CHR 0x0A]\<rparr>"

record launcherValidator =
  tv_mtqNS :: string
  tv_kvNS :: "string option"

definition NewTargetLauncherValidator :: "string \<Rightarrow> launcherValidator" where
  "NewTargetLauncherValidator mtqNS = \<lparr>tv_mtqNS = mtqNS, tv_kvNS = None\<rparr>"

text \<open>\<open>found\<close> is what \<open>getKVNS\<close> would find; without it the process exits (\<open>None\<close>).\<close>

definition ServeHTTP ::
  "codec \<Rightarrow> string option \<Rightarrow> launcherValidator \<Rightarrow> httpRequest \<Rightarrow> (httpResponse \<times> launcherValidator) option" where
  "ServeHTTP cd found tvlv r =
     (case (if tv_kvNS tvlv = None then found else tv_kvNS tvlv) of
        None \<Rightarrow> None
      | Some kvNS \<Rightarrow>
          (let tvlv' = tvlv\<lparr>tv_kvNS := Some kvNS\<rparr> in
           case parseRequest cd r of
             Inl err \<Rightarrow> Some (httpError (Error err) StatusBadRequest, tvlv')
           | Inr request \<Rightarrow>
          (case Validate cd request kvNS (tv_mtqNS tvlv) of
             Inl err \<Rightarrow> Some (httpError (''could not generate admission response: '' @ Error err) StatusInternalServerError, tvlv')
           | Inr out \<Rightarrow>
          (case cd_encode cd out of
             Inl err \<Rightarrow> Some (httpError (''could not parse admission response: '' @ Error err) StatusInternalServerError, tvlv')
           | Inr jout \<Rightarrow>
               Some (\<lparr>hs_code = StatusOK, hs_contentType = jsonType, hs_body = jout\<rparr>, tvlv')))))"

subsection \<open>mtq-server.go\<close>

definition healthzPath :: string where
  "healthzPath = ''/healthz''"

definition servePath :: string where
  "servePath = ''/validate-pods''"

definition handleHealthzRequest :: httpResponse where
  "handleHealthzRequest = \<lparr>hs_code = StatusOK, hs_contentType = ''text/plain; charset=utf-8'', hs_body = ''OK''\<rparr>"

text \<open>
  The \<open>ServeMux\<close> that \<open>initHandler\<close> builds: two exact paths, 404 for any other. The CORS
  handler around it answers a preflight request itself; \<open>hq_requestMethod\<close> is the header
  Access-Control-Request-Method.
\<close>

definition isPreflight :: "httpRequest \<Rightarrow> bool" where
  "isPreflight r \<longleftrightarrow> hq_method r = ''OPTIONS'' \<and> hq_requestMethod r \<noteq> []"

definition serverMux ::
  "codec \<Rightarrow> string option \<Rightarrow> launcherValidator \<Rightarrow> httpRequest \<Rightarrow> (httpResponse \<times> launcherValidator) option" where
  "serverMux cd found tvlv r =
     (if hq_path r = healthzPath then Some (handleHealthzRequest, tvlv)
      else if hq_path r = servePath then ServeHTTP cd found tvlv r
      else Some (httpError ''404 page not found'' StatusNotFound, tvlv))"

definition serverHandler ::
  "codec \<Rightarrow> string option \<Rightarrow> launcherValidator \<Rightarrow> httpRequest \<Rightarrow> (httpResponse \<times> launcherValidator) option" where
  "serverHandler cd found tvlv r =
     (if isPreflight r then Some (\<lparr>hs_code = StatusOK, hs_contentType = [], hs_body = []\<rparr>, tvlv)
      else serverMux cd found tvlv r)"

definition initHandler :: "string \<Rightarrow> launcherValidator" where
  "initHandler mtqNS = NewTargetLauncherValidator mtqNS"

subsection \<open>The decision\<close>

lemma reviewResponse_sel [simp]:
  "ap_allowed (av_response (reviewResponse u a c m)) = a"
  "ap_uid (av_response (reviewResponse u a c m)) = u"
  "ap_code (av_response (reviewResponse u a c m)) = c"
  by (simp_all add: reviewResponse_def)

definition mayModifyQuotas :: "string \<Rightarrow> adRequest \<Rightarrow> bool" where
  "mayModifyQuotas mtqNS r \<longleftrightarrow> ar_username r = ''system:serviceaccount:'' @ mtqNS @ '':mtq-controller''"

definition mayCreatePod :: "codec \<Rightarrow> string \<Rightarrow> adRequest \<Rightarrow> bool" where
  "mayCreatePod cd kubevirtNS r \<longleftrightarrow> ar_username r = ''system:serviceaccount:'' @ kubevirtNS @ '':kubevirt-controller''
     \<and> (\<exists>labels. cd_podLabels cd (ar_raw r) = Inr labels \<and> map_of labels MigrationJobLabel \<noteq> None)"

lemma isMTQController_iff: "isMTQControllerServiceAccount (ar_username r) mtqNS \<longleftrightarrow> mayModifyQuotas mtqNS r"
  by (simp add: isMTQControllerServiceAccount_def mayModifyQuotas_def ControllerPodName_def Let_def)

lemma isVirtController_iff:
  "isVirtControllerServiceAccount u kubevirtNS \<longleftrightarrow> u = ''system:serviceaccount:'' @ kubevirtNS @ '':kubevirt-controller''"
  by (simp add: isVirtControllerServiceAccount_def VirtControllerServiceAccountName_def Let_def)

lemma validateRQ_result:
  "\<exists>reason. validateRQCtlModification r mtqNS no yes = Inr (if mayModifyQuotas mtqNS r
     then reviewResponse (ar_uid r) True StatusAccepted reason else reviewResponse (ar_uid r) False StatusForbidden reason)"
  by (simp add: validateRQCtlModification_def isMTQController_iff) blast

lemma validatePod_result:
  "(\<exists>err. cd_podLabels cd (ar_raw r) = Inl err \<and> isVirtControllerServiceAccount (ar_username r) kubevirtNS
      \<and> validateTargetVirtLauncherPod cd r kubevirtNS = Inl err)
   \<or> (\<exists>reason. validateTargetVirtLauncherPod cd r kubevirtNS = Inr (if mayCreatePod cd kubevirtNS r
        then reviewResponse (ar_uid r) True StatusAccepted reason else reviewResponse (ar_uid r) False StatusForbidden reason))"
proof (cases "isVirtControllerServiceAccount (ar_username r) kubevirtNS")
  case True
  then have may: "mayCreatePod cd kubevirtNS r \<longleftrightarrow>
      (\<exists>labels. cd_podLabels cd (ar_raw r) = Inr labels \<and> map_of labels MigrationJobLabel \<noteq> None)"
    by (simp add: mayCreatePod_def isVirtController_iff)
  show ?thesis
  proof (cases "cd_podLabels cd (ar_raw r)")
    case (Inr labels)
    with True may show ?thesis
      by (cases "map_of labels MigrationJobLabel") (auto simp: validateTargetVirtLauncherPod_def)
  qed (use True in \<open>simp add: validateTargetVirtLauncherPod_def\<close>)
next
  case False
  then have "\<not> mayCreatePod cd kubevirtNS r" by (simp only: mayCreatePod_def isVirtController_iff) blast
  with False show ?thesis by (auto simp: validateTargetVirtLauncherPod_def)
qed

text \<open>Who may do what in a locked namespace, and the three outcomes of a request.\<close>

definition quotaKinds :: "string set" where
  "quotaKinds = {''VirtualMachineMigrationResourceQuota'', ''ResourceQuota''}"

definition admits :: "codec \<Rightarrow> string \<Rightarrow> string \<Rightarrow> adRequest \<Rightarrow> bool" where
  "admits cd kubevirtNS mtqNS r \<longleftrightarrow>
     ar_kind r \<in> quotaKinds \<and> mayModifyQuotas mtqNS r \<or> ar_kind r = ''Pod'' \<and> mayCreatePod cd kubevirtNS r"

definition undecidable :: "codec \<Rightarrow> string \<Rightarrow> adRequest \<Rightarrow> bool" where
  "undecidable cd kubevirtNS r \<longleftrightarrow>
     ar_kind r \<notin> quotaKinds \<and> ar_kind r \<noteq> ''Pod''
     \<or> ar_kind r = ''Pod'' \<and> isVirtControllerServiceAccount (ar_username r) kubevirtNS
        \<and> (\<exists>err. cd_podLabels cd (ar_raw r) = Inl err)"

lemma Pod_not_quota: "''Pod'' \<notin> quotaKinds"
  by (simp add: quotaKinds_def)

lemma Validate_quota:
  "ar_kind r \<in> quotaKinds \<Longrightarrow> \<exists>no yes. Validate cd r kubevirtNS mtqNS = validateRQCtlModification r mtqNS no yes"
  by (auto simp: Validate_def quotaKinds_def)

lemma Validate_pod: "ar_kind r = ''Pod'' \<Longrightarrow> Validate cd r kubevirtNS mtqNS = validateTargetVirtLauncherPod cd r kubevirtNS"
  by (simp add: Validate_def)

lemma Validate_other:
  "ar_kind r \<notin> quotaKinds \<Longrightarrow> ar_kind r \<noteq> ''Pod'' \<Longrightarrow> Validate cd r kubevirtNS mtqNS = Inl (unrecognized r)"
  by (simp add: Validate_def quotaKinds_def)

lemma Validate_result:
  "if undecidable cd kubevirtNS r then \<exists>err. Validate cd r kubevirtNS mtqNS = Inl err
   else \<exists>reason. Validate cd r kubevirtNS mtqNS = Inr (if admits cd kubevirtNS mtqNS r
        then reviewResponse (ar_uid r) True StatusAccepted reason else reviewResponse (ar_uid r) False StatusForbidden reason)"
proof -
  consider (quota) "ar_kind r \<in> quotaKinds" | (pod) "ar_kind r = ''Pod''"
    | (other) "ar_kind r \<notin> quotaKinds" "ar_kind r \<noteq> ''Pod''" by blast
  then show ?thesis
  proof cases
    case quota
    then have "ar_kind r \<noteq> ''Pod''" using Pod_not_quota by metis
    then have u: "\<not> undecidable cd kubevirtNS r" "admits cd kubevirtNS mtqNS r = mayModifyQuotas mtqNS r"
      using quota by (simp_all add: undecidable_def admits_def)
    obtain no yes where "Validate cd r kubevirtNS mtqNS = validateRQCtlModification r mtqNS no yes"
      using Validate_quota [OF quota] by blast
    then show ?thesis using validateRQ_result [of r mtqNS no yes] by (simp only: u if_False)
  next
    case pod
    then have k: "ar_kind r \<notin> quotaKinds" using Pod_not_quota by metis
    then have u: "undecidable cd kubevirtNS r \<longleftrightarrow> isVirtControllerServiceAccount (ar_username r) kubevirtNS
        \<and> (\<exists>err. cd_podLabels cd (ar_raw r) = Inl err)" "admits cd kubevirtNS mtqNS r = mayCreatePod cd kubevirtNS r"
      using pod by (simp_all add: undecidable_def admits_def)
    from validatePod_result [of cd r kubevirtNS] show ?thesis
    proof
      assume "\<exists>err. cd_podLabels cd (ar_raw r) = Inl err \<and> isVirtControllerServiceAccount (ar_username r) kubevirtNS
        \<and> validateTargetVirtLauncherPod cd r kubevirtNS = Inl err"
      then show ?thesis unfolding Validate_pod [OF pod] using u(1) by auto
    next
      assume dec: "\<exists>reason. validateTargetVirtLauncherPod cd r kubevirtNS = Inr (if mayCreatePod cd kubevirtNS r
        then reviewResponse (ar_uid r) True StatusAccepted reason else reviewResponse (ar_uid r) False StatusForbidden reason)"
      have "\<not> undecidable cd kubevirtNS r"
        using dec u(1) by (auto simp: validateTargetVirtLauncherPod_def)
      with dec show ?thesis unfolding Validate_pod [OF pod] u(2) by simp
    qed
  next
    case other
    then have "undecidable cd kubevirtNS r" by (simp add: undecidable_def)
    with Validate_other [OF other] show ?thesis by simp
  qed
qed

subsection \<open>What the webhook intercepts\<close>






subsection \<open>Properties\<close>

definition decision :: "codec \<Rightarrow> string \<Rightarrow> string \<Rightarrow> adRequest \<Rightarrow> string \<Rightarrow> adReview" where
  "decision cd kubevirtNS mtqNS r reason =
     (if admits cd kubevirtNS mtqNS r then reviewResponse (ar_uid r) True StatusAccepted reason
      else reviewResponse (ar_uid r) False StatusForbidden reason)"

definition knownNS :: "string option \<Rightarrow> launcherValidator \<Rightarrow> string option" where
  "knownNS found tvlv = (if tv_kvNS tvlv = None then found else tv_kvNS tvlv)"

text \<open>All outcomes of a request, by what its parts are.\<close>

lemma httpError_code [simp]: "hs_code (httpError m c) = c"
  by (simp add: httpError_def)

lemma ServeHTTP_cases:
  assumes kv: "knownNS found tvlv = Some kv"
  shows "\<exists>resp. ServeHTTP cd found tvlv rq = Some (resp, tvlv\<lparr>tv_kvNS := Some kv\<rparr>) \<and>
    (case parseRequest cd rq of
       Inl err \<Rightarrow> resp = httpError (Error err) StatusBadRequest
     | Inr r \<Rightarrow>
        (if undecidable cd kv r then hs_code resp = StatusInternalServerError
         else \<exists>reason. (case cd_encode cd (decision cd kv (tv_mtqNS tvlv) r reason) of
                Inl err \<Rightarrow> hs_code resp = StatusInternalServerError
              | Inr body \<Rightarrow> resp = \<lparr>hs_code = StatusOK, hs_contentType = jsonType, hs_body = body\<rparr>)))"
proof (cases "parseRequest cd rq")
  case (Inl err)
  then show ?thesis using kv by (simp add: ServeHTTP_def knownNS_def Let_def)
next
  case (Inr r)
  show ?thesis
  proof (cases "undecidable cd kv r")
    case True
    then obtain err where "Validate cd r kv (tv_mtqNS tvlv) = Inl err"
      using Validate_result [of cd kv r "tv_mtqNS tvlv"] by auto
    with True Inr kv show ?thesis by (simp add: ServeHTTP_def knownNS_def Let_def)
  next
    case False
    then obtain reason where v: "Validate cd r kv (tv_mtqNS tvlv) = Inr (decision cd kv (tv_mtqNS tvlv) r reason)"
      using Validate_result [of cd kv r "tv_mtqNS tvlv"] by (auto simp: decision_def)
    obtain resp where "ServeHTTP cd found tvlv rq = Some (resp, tvlv\<lparr>tv_kvNS := Some kv\<rparr>)"
      "case cd_encode cd (decision cd kv (tv_mtqNS tvlv) r reason) of
         Inl err \<Rightarrow> hs_code resp = StatusInternalServerError
       | Inr body \<Rightarrow> resp = \<lparr>hs_code = StatusOK, hs_contentType = jsonType, hs_body = body\<rparr>"
      using v Inr kv
      by (cases "cd_encode cd (decision cd kv (tv_mtqNS tvlv) r reason)")
        (simp_all add: ServeHTTP_def knownNS_def Let_def)
    with False Inr show ?thesis by auto
  qed
qed

text \<open>C13: an answer with status 200 always carries the encoding of a review that allows the request
  exactly when it is admissible: a quota or VMMRQ request by the MTQ controller's service
  account of the operator's namespace, or the creation by KubeVirt's controller of a pod with
  the migration label. Malformed requests, unknown kinds and failures of the codec are never
  answered with a review.\<close>

theorem server_fails_closed:
  assumes "ServeHTTP cd found tvlv rq = Some (resp, tvlv')" and "hs_code resp = StatusOK"
  shows "\<exists>r kv reason. parseRequest cd rq = Inr r \<and> tv_kvNS tvlv' = Some kv
     \<and> cd_encode cd (decision cd kv (tv_mtqNS tvlv) r reason) = Inr (hs_body resp)
     \<and> ap_allowed (av_response (decision cd kv (tv_mtqNS tvlv) r reason)) = admits cd kv (tv_mtqNS tvlv) r"
proof -
  have "knownNS found tvlv \<noteq> None" using assms(1) by (auto simp: ServeHTTP_def knownNS_def split: option.splits)
  then obtain kv where kv: "knownNS found tvlv = Some kv" by blast
  note codes = StatusOK_def StatusInternalServerError_def StatusBadRequest_def
  have parsed: "tvlv' = tvlv\<lparr>tv_kvNS := Some kv\<rparr>"
    "case parseRequest cd rq of
       Inl err \<Rightarrow> False
     | Inr r \<Rightarrow> \<exists>reason. (case cd_encode cd (decision cd kv (tv_mtqNS tvlv) r reason) of
           Inl err \<Rightarrow> False | Inr body \<Rightarrow> hs_body resp = body)"
    using ServeHTTP_cases [OF kv, of cd rq] assms
    by (auto simp: codes split: sum.splits if_splits)
  then obtain r reason where "parseRequest cd rq = Inr r"
    "case cd_encode cd (decision cd kv (tv_mtqNS tvlv) r reason) of
       Inl err \<Rightarrow> False | Inr body \<Rightarrow> hs_body resp = body"
    by (auto split: sum.splits)
  moreover from this(2) have "cd_encode cd (decision cd kv (tv_mtqNS tvlv) r reason) = Inr (hs_body resp)"
    by (cases "cd_encode cd (decision cd kv (tv_mtqNS tvlv) r reason)") simp_all
  moreover have "ap_allowed (av_response (decision cd kv (tv_mtqNS tvlv) r reason)) = admits cd kv (tv_mtqNS tvlv) r"
    by (simp add: decision_def)
  ultimately show ?thesis using parsed(1) by auto
qed

text \<open>A request on which the theorems are instantiated: the controller updates a quota.\<close>

definition demoCodec :: codec where
  "demoCodec = \<lparr>cd_review = (\<lambda>b. Inr (Some \<lparr>ar_kind = ''ResourceQuota'', ar_uid = b,
       ar_username = ''system:serviceaccount:mtq:mtq-controller'', ar_raw = []\<rparr>)),
     cd_podLabels = (\<lambda>b. Inr []), cd_encode = (\<lambda>v. Inr (ap_uid (av_response v))), cd_quote = (\<lambda>s. s)\<rparr>"

definition demoRequest :: httpRequest where
  "demoRequest = \<lparr>hq_method = ''POST'', hq_requestMethod = [], hq_path = servePath, hq_contentType = jsonType, hq_body = Inr ''u1''\<rparr>"

lemma demo_answer:
  "ServeHTTP demoCodec (Some ''kubevirt'') (initHandler ''mtq'') demoRequest =
     Some (\<lparr>hs_code = StatusOK, hs_contentType = jsonType, hs_body = ''u1''\<rparr>,
           \<lparr>tv_mtqNS = ''mtq'', tv_kvNS = Some ''kubevirt''\<rparr>)"
  by code_simp

theorem server_fails_closed_witness:
  "\<exists>r kv reason. parseRequest demoCodec demoRequest = Inr r \<and> Some ''kubevirt'' = Some kv
     \<and> cd_encode demoCodec (decision demoCodec kv ''mtq'' r reason) = Inr ''u1''
     \<and> ap_allowed (av_response (decision demoCodec kv ''mtq'' r reason)) = admits demoCodec kv ''mtq'' r"
  using server_fails_closed [OF demo_answer] by (simp add: initHandler_def NewTargetLauncherValidator_def)




text \<open>The service-account checks accept exactly one account: for names without a colon, the user
  \<open>system:serviceaccount:NS:NAME\<close> passes the check for an operator namespace only when NS is
  that namespace and NAME the controller's account, so no other account and no other namespace
  can pass as the controller.\<close>

theorem controller_account_unique:
  assumes "CHR '':'' \<notin> set ns" and "CHR '':'' \<notin> set ns'" and "CHR '':'' \<notin> set name"
  shows "isMTQControllerServiceAccount (''system:serviceaccount:'' @ ns' @ '':'' @ name) ns
     \<longleftrightarrow> ns' = ns \<and> name = ControllerPodName"
proof -
  have "ns' @ CHR '':'' # name = ns @ CHR '':'' # ControllerPodName \<longleftrightarrow> ns' = ns \<and> name = ControllerPodName"
    using append_sep_eq [of "CHR '':''" ns' ns] assms(1,2) by simp
  then show ?thesis by (simp add: isMTQControllerServiceAccount_def Let_def)
qed

theorem controller_account_unique_witness:
  "isMTQControllerServiceAccount (''system:serviceaccount:'' @ ''mtq'' @ '':'' @ ''mtq-controller'') ''mtq''
   \<and> \<not> isMTQControllerServiceAccount (''system:serviceaccount:'' @ ''ns1'' @ '':'' @ ''mtq-controller'') ''mtq''"
  using controller_account_unique [of "''mtq''" "''mtq''" "''mtq-controller''"]
    controller_account_unique [of "''mtq''" "''ns1''" "''mtq-controller''"]
  by (simp add: ControllerPodName_def)

end
