(* ===== verification/NamespaceLockMap.thy ===== *)
theory NamespaceLockMap
  imports Prelude
begin

text \<open>
  \<open>pkg/mtq-controller/namespace-lock-utils/namespace-lock-map.go\<close>: one mutex per namespace,
  created on first use under a global mutex, and the workers that take it around
  \<open>VmmrqController.execute\<close>. Workers are numbered; a step is one worker passing one
  synchronisation point. \<open>CacheWrite\<close> is a worker inside a write to the Go map of
  \<open>NamespaceCache\<close>, which \<open>execute\<close> does while it holds its namespace's mutex and nothing
  else.
\<close>

subsection \<open>The map of mutexes\<close>

record lockMap =
  lm_M :: "string \<rightharpoonup> nat"
  lm_next :: nat

definition emptyLockMap :: lockMap where
  "emptyLockMap = \<lparr>lm_M = Map.empty, lm_next = 0\<rparr>"

text \<open>The body of \<open>getLock\<close> between its \<open>Lock\<close> and its deferred \<open>Unlock\<close>.\<close>

definition getLock :: "string \<Rightarrow> lockMap \<Rightarrow> nat \<times> lockMap" where
  "getLock key nlm =
     (case lm_M nlm key of
        None \<Rightarrow> (lm_next nlm, nlm\<lparr>lm_M := (lm_M nlm)(key \<mapsto> lm_next nlm), lm_next := Suc (lm_next nlm)\<rparr>)
      | Some m \<Rightarrow> (m, nlm))"

definition lockMapOk :: "lockMap \<Rightarrow> bool" where
  "lockMapOk nlm \<longleftrightarrow>
     (\<forall>ns m. lm_M nlm ns = Some m \<longrightarrow> m < lm_next nlm) \<and>
     (\<forall>ns ns' m. lm_M nlm ns = Some m \<longrightarrow> lm_M nlm ns' = Some m \<longrightarrow> ns = ns')"

lemma getLock_result: "getLock key nlm = (m, nlm') \<Longrightarrow> lm_M nlm' key = Some m"
  by (auto simp: getLock_def split: option.splits)

lemma getLock_keeps: "getLock key nlm = (m, nlm') \<Longrightarrow> lm_M nlm ns = Some k \<Longrightarrow> lm_M nlm' ns = Some k"
  by (auto simp: getLock_def split: option.splits)

lemma getLock_new:
  "getLock key nlm = (m, nlm') \<Longrightarrow> lm_M nlm' ns = Some k \<Longrightarrow> lm_M nlm ns = Some k \<or> (ns = key \<and> k = m)"
  by (auto simp: getLock_def split: option.splits if_splits)

lemma getLock_ok: "getLock key nlm = (m, nlm') \<Longrightarrow> lockMapOk nlm \<Longrightarrow> lockMapOk nlm'"
  unfolding lockMapOk_def getLock_def
  by (auto split: option.splits if_splits simp: less_Suc_eq) blast+

lemma getLock_fresh:
  "getLock key nlm = (m, nlm') \<Longrightarrow> lockMapOk nlm \<Longrightarrow> lm_M nlm key = None \<Longrightarrow> lm_M nlm ns \<noteq> Some m"
  unfolding lockMapOk_def getLock_def by auto

subsection \<open>Workers\<close>

datatype wpc =
    Idle
  | LGet string | LIn string | LWait string nat
  | Crit string | CacheWrite string
  | UGet string | UIn string | UHave string nat

record lockSys =
  ls_lm :: lockMap
  ls_outer :: bool
  ls_held :: "nat \<Rightarrow> bool"
  ls_pc :: "nat \<Rightarrow> wpc"
  ls_panic :: bool

definition lockInit :: "lockSys \<Rightarrow> bool" where
  "lockInit s \<longleftrightarrow> ls_lm s = emptyLockMap \<and> \<not> ls_outer s \<and> ls_held s = (\<lambda>_. False)
     \<and> ls_pc s = (\<lambda>_. Idle) \<and> \<not> ls_panic s"

definition setPc :: "nat \<Rightarrow> wpc \<Rightarrow> lockSys \<Rightarrow> lockSys" where
  "setPc i p s = s\<lparr>ls_pc := (ls_pc s)(i := p)\<rparr>"

inductive lockStep :: "lockSys \<Rightarrow> lockSys \<Rightarrow> bool" where
  call_lock: "ls_pc s i = Idle \<Longrightarrow> lockStep s (setPc i (LGet ns) s)"
| lock_enter: "ls_pc s i = LGet ns \<Longrightarrow> \<not> ls_outer s \<Longrightarrow> lockStep s (setPc i (LIn ns) (s\<lparr>ls_outer := True\<rparr>))"
| lock_get: "ls_pc s i = LIn ns \<Longrightarrow> getLock ns (ls_lm s) = (m, lm') \<Longrightarrow>
     lockStep s (setPc i (LWait ns m) (s\<lparr>ls_lm := lm', ls_outer := False\<rparr>))"
| lock_acquire: "ls_pc s i = LWait ns m \<Longrightarrow> \<not> ls_held s m \<Longrightarrow>
     lockStep s (setPc i (Crit ns) (s\<lparr>ls_held := (ls_held s)(m := True)\<rparr>))"
| cache_begin: "ls_pc s i = Crit ns \<Longrightarrow> lockStep s (setPc i (CacheWrite ns) s)"
| cache_end: "ls_pc s i = CacheWrite ns \<Longrightarrow> lockStep s (setPc i (Crit ns) s)"
| call_unlock: "ls_pc s i = Crit ns \<Longrightarrow> lockStep s (setPc i (UGet ns) s)"
| unlock_enter: "ls_pc s i = UGet ns \<Longrightarrow> \<not> ls_outer s \<Longrightarrow> lockStep s (setPc i (UIn ns) (s\<lparr>ls_outer := True\<rparr>))"
| unlock_get: "ls_pc s i = UIn ns \<Longrightarrow> getLock ns (ls_lm s) = (m, lm') \<Longrightarrow>
     lockStep s (setPc i (UHave ns m) (s\<lparr>ls_lm := lm', ls_outer := False\<rparr>))"
| unlock_release: "ls_pc s i = UHave ns m \<Longrightarrow> ls_held s m \<Longrightarrow>
     lockStep s (setPc i Idle (s\<lparr>ls_held := (ls_held s)(m := False)\<rparr>))"
| unlock_panic: "ls_pc s i = UHave ns m \<Longrightarrow> \<not> ls_held s m \<Longrightarrow> lockStep s (s\<lparr>ls_panic := True\<rparr>)"

inductive_cases lockStepE: "lockStep s t"

text \<open>The namespace whose mutex a worker holds, and the workers inside \<open>getLock\<close>.\<close>

fun sectionOf :: "wpc \<Rightarrow> string option" where
  "sectionOf (Crit ns) = Some ns"
| "sectionOf (CacheWrite ns) = Some ns"
| "sectionOf (UGet ns) = Some ns"
| "sectionOf (UIn ns) = Some ns"
| "sectionOf (UHave ns _) = Some ns"
| "sectionOf _ = None"

fun insideGetLock :: "wpc \<Rightarrow> bool" where
  "insideGetLock (LIn _) = True"
| "insideGetLock (UIn _) = True"
| "insideGetLock _ = False"

fun knowsMutex :: "wpc \<Rightarrow> (string \<times> nat) option" where
  "knowsMutex (LWait ns m) = Some (ns, m)"
| "knowsMutex (UHave ns m) = Some (ns, m)"
| "knowsMutex _ = None"

definition outerOk :: "lockSys \<Rightarrow> bool" where
  "outerOk s \<longleftrightarrow> (ls_outer s \<longleftrightarrow> (\<exists>i. insideGetLock (ls_pc s i)))
     \<and> (\<forall>i j. insideGetLock (ls_pc s i) \<longrightarrow> insideGetLock (ls_pc s j) \<longrightarrow> i = j)"

definition mutexOk :: "lockSys \<Rightarrow> bool" where
  "mutexOk s \<longleftrightarrow> lockMapOk (ls_lm s)
     \<and> (\<forall>i ns m. knowsMutex (ls_pc s i) = Some (ns, m) \<longrightarrow> lm_M (ls_lm s) ns = Some m)
     \<and> (\<forall>i ns. sectionOf (ls_pc s i) = Some ns \<longrightarrow> lm_M (ls_lm s) ns \<noteq> None)"

definition heldOk :: "lockSys \<Rightarrow> bool" where
  "heldOk s \<longleftrightarrow>
     (\<forall>m. ls_held s m \<longleftrightarrow> (\<exists>i ns. sectionOf (ls_pc s i) = Some ns \<and> lm_M (ls_lm s) ns = Some m))
     \<and> (\<forall>i j ns. sectionOf (ls_pc s i) = Some ns \<longrightarrow> sectionOf (ls_pc s j) = Some ns \<longrightarrow> i = j)"

definition lockInv :: "lockSys \<Rightarrow> bool" where
  "lockInv s \<longleftrightarrow> outerOk s \<and> mutexOk s \<and> heldOk s \<and> \<not> ls_panic s"

lemma lockInv_init: "lockInit s \<Longrightarrow> lockInv s"
  by (auto simp: lockInit_def lockInv_def outerOk_def mutexOk_def heldOk_def lockMapOk_def emptyLockMap_def)

lemma setPc_sel [simp]:
  "ls_pc (setPc i p s) j = (if j = i then p else ls_pc s j)"
  "ls_lm (setPc i p s) = ls_lm s" "ls_outer (setPc i p s) = ls_outer s"
  "ls_held (setPc i p s) = ls_held s" "ls_panic (setPc i p s) = ls_panic s"
  by (auto simp: setPc_def)

lemma outerOk_step: "lockStep s t \<Longrightarrow> outerOk s \<Longrightarrow> outerOk t"
  by (cases rule: lockStep.cases, assumption)
    (auto simp: outerOk_def split: if_splits; metis insideGetLock.simps)+

lemma mutexOk_step: "lockStep s t \<Longrightarrow> mutexOk s \<Longrightarrow> mutexOk t"
  by (cases rule: lockStep.cases, assumption)
    (auto simp: mutexOk_def split: if_splits dest: getLock_result getLock_keeps intro: getLock_ok;
     metis getLock_keeps sectionOf.simps knowsMutex.simps)+

lemma mutexOk_LWait: "mutexOk s \<Longrightarrow> ls_pc s i = LWait ns m \<Longrightarrow> lm_M (ls_lm s) ns = Some m"
  unfolding mutexOk_def by (metis knowsMutex.simps(1))

lemma mutexOk_UHave: "mutexOk s \<Longrightarrow> ls_pc s i = UHave ns m \<Longrightarrow> lm_M (ls_lm s) ns = Some m"
  unfolding mutexOk_def by (metis knowsMutex.simps(2))

lemma mutexOk_section:
  assumes "mutexOk s" and "sectionOf (ls_pc s i) = Some ns"
  obtains m where "lm_M (ls_lm s) ns = Some m"
  using assms unfolding mutexOk_def by blast

text \<open>
  \<open>heldOk\<close> only reads the sections of the workers and the mutexes of the namespaces in them.
\<close>

lemma heldOk_frame:
  assumes "heldOk s" and "ls_held t = ls_held s"
    and "\<And>i. sectionOf (ls_pc t i) = sectionOf (ls_pc s i)"
    and "\<And>i ns. sectionOf (ls_pc s i) = Some ns \<Longrightarrow> lm_M (ls_lm t) ns = lm_M (ls_lm s) ns"
  shows "heldOk t"
  unfolding heldOk_def assms(2,3) using assms(1,4) unfolding heldOk_def by metis

lemma heldOk_getLock:
  assumes "heldOk s" and "mutexOk s" and "getLock ns (ls_lm s) = (m, lm')"
    and "sectionOf p = sectionOf (ls_pc s i)"
  shows "heldOk (setPc i p (s\<lparr>ls_lm := lm', ls_outer := False\<rparr>))"
proof (rule heldOk_frame [OF assms(1)])
  fix j n
  assume "sectionOf (ls_pc s j) = Some n"
  then obtain k where "lm_M (ls_lm s) n = Some k" using mutexOk_section [OF assms(2)] by blast
  with getLock_keeps [OF assms(3) this]
  show "lm_M (ls_lm (setPc i p (s\<lparr>ls_lm := lm', ls_outer := False\<rparr>))) n = lm_M (ls_lm s) n"
    by simp
qed (use assms(4) in auto)

lemma heldOk_acquire:
  assumes h: "heldOk s" and mo: "mutexOk s" and pc: "ls_pc s i = LWait ns m" and free: "\<not> ls_held s m"
  shows "heldOk (setPc i (Crit ns) (s\<lparr>ls_held := (ls_held s)(m := True)\<rparr>))" (is "heldOk ?t")
proof -
  have M: "lm_M (ls_lm s) ns = Some m" using mo pc by (rule mutexOk_LWait)
  have none: "sectionOf (ls_pc s j) \<noteq> Some ns" for j
    using h free M unfolding heldOk_def by blast
  have "ls_held ?t k \<longleftrightarrow> (\<exists>j n. sectionOf (ls_pc ?t j) = Some n \<and> lm_M (ls_lm ?t) n = Some k)" for k
  proof (cases "k = m")
    case True
    then show ?thesis using M by (auto intro!: exI [of _ i])
  next
    case False
    have "sectionOf (ls_pc s i) = None" using pc by simp
    then show ?thesis using False M h unfolding heldOk_def by (auto; metis option.distinct(1) option.inject)
  qed
  then show ?thesis using h none by (auto simp: heldOk_def)
qed

lemma heldOk_release:
  assumes h: "heldOk s" and mo: "mutexOk s" and pc: "ls_pc s i = UHave ns m"
  shows "heldOk (setPc i Idle (s\<lparr>ls_held := (ls_held s)(m := False)\<rparr>))" (is "heldOk ?t")
proof -
  have M: "lm_M (ls_lm s) ns = Some m" using mo pc by (rule mutexOk_UHave)
  have inj: "n = ns" if "lm_M (ls_lm s) n = Some m" for n
    using mo M that by (auto simp: mutexOk_def lockMapOk_def)
  have sec: "sectionOf (ls_pc s i) = Some ns" using pc by simp
  have only: "j = i" if "sectionOf (ls_pc s j) = Some ns" for j
    using h sec that unfolding heldOk_def by blast
  have "ls_held ?t k \<longleftrightarrow> (\<exists>j n. sectionOf (ls_pc ?t j) = Some n \<and> lm_M (ls_lm ?t) n = Some k)" for k
  proof (cases "k = m")
    case True
    then show ?thesis using inj only by auto
  next
    case False
    then show ?thesis using M sec h unfolding heldOk_def by (auto; metis option.inject)
  qed
  then show ?thesis using h unfolding heldOk_def by auto
qed

lemma heldOk_step:
  assumes "lockStep s t" and h: "heldOk s" and mo: "mutexOk s"
  shows "heldOk t"
  using assms(1)
proof cases
  case (lock_get i ns m lm')
  then show ?thesis using h mo by (simp add: heldOk_getLock)
next
  case (unlock_get i ns m lm')
  then show ?thesis using h mo by (simp add: heldOk_getLock)
next
  case (lock_acquire i ns m)
  then show ?thesis using h mo by (simp add: heldOk_acquire)
next
  case (unlock_release i ns m)
  then show ?thesis using h mo by (simp add: heldOk_release)
qed (auto intro!: heldOk_frame [OF h])

text \<open>A worker about to unlock holds the mutex it read, so the unlock cannot panic.\<close>

lemma UHave_held:
  assumes "heldOk s" and "mutexOk s" and "ls_pc s i = UHave ns m"
  shows "ls_held s m"
proof -
  have "lm_M (ls_lm s) ns = Some m" "sectionOf (ls_pc s i) = Some ns"
    using mutexOk_UHave [OF assms(2,3)] assms(3) by simp_all
  with assms(1) show ?thesis unfolding heldOk_def by blast
qed

lemma lockInv_step: "lockStep s t \<Longrightarrow> lockInv s \<Longrightarrow> lockInv t"
proof -
  assume st: "lockStep s t" and inv: "lockInv s"
  have "\<not> ls_panic t"
    using st by cases (use inv UHave_held in \<open>auto simp: lockInv_def\<close>)
  with st inv show ?thesis
    by (auto simp: lockInv_def intro: outerOk_step mutexOk_step heldOk_step)
qed

text \<open>
  Mutual exclusion of the section a worker runs \<open>execute\<close> in, and the two facts about the
  global mutex that make \<open>getLock\<close> atomic.
\<close>

interpretation lockSys: step_invariant lockInit lockStep lockInv
  by unfold_locales (auto intro: lockInv_init lockInv_step)

lemma reach_lockInv: "reach lockInit lockStep s \<Longrightarrow> lockInv s"
  by (rule lockSys.reach_inv)

lemma lockInv_exclusive:
  "lockInv s \<Longrightarrow> sectionOf (ls_pc s i) = Some ns \<Longrightarrow> sectionOf (ls_pc s j) = Some ns \<Longrightarrow> i = j"
  unfolding lockInv_def heldOk_def by blast

text \<open>
  Progress: while some worker is not idle, some worker can pass its next synchronisation
  point. A worker blocked on a namespace mutex waits for one inside the section, and a
  worker blocked on the global mutex waits for one inside \<open>getLock\<close>.
\<close>

definition canStep :: "lockSys \<Rightarrow> nat \<Rightarrow> bool" where
  "canStep s i \<longleftrightarrow>
     (case ls_pc s i of
        Idle \<Rightarrow> False
      | LGet _ \<Rightarrow> \<not> ls_outer s
      | UGet _ \<Rightarrow> \<not> ls_outer s
      | LWait _ m \<Rightarrow> \<not> ls_held s m
      | _ \<Rightarrow> True)"

lemma canStep_step:
  assumes "lockInv s" and "canStep s i"
  shows "\<exists>t. lockStep s t \<and> ls_pc t i \<noteq> ls_pc s i"
proof (cases "ls_pc s i")
  case (LIn ns)
  obtain m lm' where "getLock ns (ls_lm s) = (m, lm')" by fastforce
  with LIn lock_get show ?thesis by fastforce
next
  case (UIn ns)
  obtain m lm' where "getLock ns (ls_lm s) = (m, lm')" by fastforce
  with UIn unlock_get show ?thesis by fastforce
next
  case (UHave ns m)
  with assms(1) have "ls_held s m" by (auto simp: lockInv_def intro: UHave_held)
  with UHave unlock_release show ?thesis by fastforce
next
  case (CacheWrite ns)
  with cache_end show ?thesis by fastforce
qed (use assms(2) lock_enter lock_acquire call_unlock unlock_enter in \<open>fastforce simp: canStep_def\<close>)+

lemma outer_holder_steps: "lockInv s \<Longrightarrow> ls_outer s \<Longrightarrow> \<exists>i. canStep s i"
proof -
  assume "lockInv s" and "ls_outer s"
  then obtain i where "insideGetLock (ls_pc s i)" by (auto simp: lockInv_def outerOk_def)
  then have "canStep s i" by (cases "ls_pc s i") (auto simp: canStep_def)
  then show ?thesis ..
qed

lemma section_holder_steps:
  assumes inv: "lockInv s" and sec: "sectionOf (ls_pc s i) = Some ns"
  shows "\<exists>j. canStep s j"
proof (cases "ls_outer s")
  case True
  with inv show ?thesis by (rule outer_holder_steps)
next
  case False
  with sec have "canStep s i" by (cases "ls_pc s i") (auto simp: canStep_def)
  then show ?thesis ..
qed

lemma lockInv_progress:
  assumes inv: "lockInv s" and busy: "ls_pc s i \<noteq> Idle"
  shows "\<exists>j. canStep s j"
proof (cases "ls_outer s")
  case True
  with inv show ?thesis by (rule outer_holder_steps)
next
  case False
  show ?thesis
  proof (cases "canStep s i")
    case False
    with busy \<open>\<not> ls_outer s\<close> obtain ns m where "ls_pc s i = LWait ns m" "ls_held s m"
      by (cases "ls_pc s i") (auto simp: canStep_def)
    with inv obtain j n where "sectionOf (ls_pc s j) = Some n"
      unfolding lockInv_def heldOk_def by blast
    with inv show ?thesis by (rule section_holder_steps)
  qed blast
qed

subsection \<open>Properties\<close>

abbreviation reachable :: "lockSys \<Rightarrow> bool" where
  "reachable \<equiv> reach lockInit lockStep"

text \<open>A worker that finds both mutexes free gets into its section.\<close>

lemma reach_section:
  assumes r: "reachable s" and idle: "ls_pc s i = Idle" and free: "\<not> ls_outer s"
    and get: "getLock ns (ls_lm s) = (m, lm')" and unheld: "\<not> ls_held s m"
  obtains t where "reachable t" "ls_pc t = (ls_pc s)(i := Crit ns)" "ls_lm t = lm'" "\<not> ls_outer t"
    "ls_held t = (ls_held s)(m := True)"
proof -
  let ?a = "setPc i (LGet ns) s"
  let ?b = "setPc i (LIn ns) (?a\<lparr>ls_outer := True\<rparr>)"
  let ?c = "setPc i (LWait ns m) (?b\<lparr>ls_lm := lm', ls_outer := False\<rparr>)"
  let ?d = "setPc i (Crit ns) (?c\<lparr>ls_held := (ls_held ?c)(m := True)\<rparr>)"
  have "reachable ?a" using r idle by (blast intro: reach_step call_lock)
  then have "reachable ?b" by (rule reach_step) (rule lock_enter, use free in simp_all)
  then have "reachable ?c" by (rule reach_step) (rule lock_get, use get in simp_all)
  then have "reachable ?d" by (rule reach_step) (rule lock_acquire, use unheld in simp_all)
  then show thesis by (rule that) (auto simp: setPc_def)
qed

definition startState :: lockSys where
  "startState = \<lparr>ls_lm = emptyLockMap, ls_outer = False, ls_held = (\<lambda>_. False), ls_pc = (\<lambda>_. Idle), ls_panic = False\<rparr>"

lemma reach_start: "reachable startState"
  by (rule reach_init) (simp add: startState_def lockInit_def)

lemma two_sections:
  obtains t where "reachable t" "ls_pc t = ((\<lambda>_. Idle)(0 := Crit ''a''))(1 := Crit ''b'')"
proof -
  obtain m lm' where g: "getLock ''a'' (ls_lm startState) = (m, lm')" by fastforce
  obtain s where s: "reachable s" "ls_pc s = (ls_pc startState)(0 := Crit ''a'')" "ls_lm s = lm'" "\<not> ls_outer s"
    "ls_held s = (ls_held startState)(m := True)"
    by (rule reach_section [OF reach_start _ _ g, of 0]) (simp_all add: startState_def)
  obtain m2 lm2 where g2: "getLock ''b'' (ls_lm s) = (m2, lm2)" by fastforce
  have "m2 \<noteq> m" using g g2 by (auto simp: s(3) startState_def getLock_def emptyLockMap_def split: option.splits)
  then have "\<not> ls_held s m2" by (simp add: s(5) startState_def)
  then obtain t where "reachable t" "ls_pc t = (ls_pc s)(1 := Crit ''b'')"
    using reach_section [OF s(1) _ s(4) g2, of 1] s(2) by (auto simp: startState_def)
  then show thesis using that s(2) by (simp add: startState_def)
qed

text \<open>C18: in every reachable state of any number of workers, at most one worker is between
  \<open>Lock(ns)\<close> and \<open>Unlock(ns)\<close> of the same namespace, and no worker has unlocked a mutex that
  was not locked.\<close>

theorem passes_exclude_each_other:
  assumes "reachable s" and "sectionOf (ls_pc s i) = Some ns" and "sectionOf (ls_pc s j) = Some ns"
  shows "i = j \<and> \<not> ls_panic s"
  using reach_lockInv [OF assms(1)] lockInv_exclusive [OF _ assms(2,3)] by (simp add: lockInv_def)

theorem passes_exclude_each_other_witness:
  "\<exists>s. reachable s \<and> sectionOf (ls_pc s 0) = Some ''a'' \<and> (\<forall>j. sectionOf (ls_pc s j) = Some ''a'' \<longrightarrow> (0::nat) = j \<and> \<not> ls_panic s)"
proof -
  obtain s where s: "reachable s" "ls_pc s = ((\<lambda>_. Idle)(0 := Crit ''a''))(1 := Crit ''b'')" by (rule two_sections)
  have "sectionOf (ls_pc s 0) = Some ''a''" by (simp add: s(2))
  with s(1) passes_exclude_each_other [OF s(1) this] show ?thesis by blast
qed

text \<open>C19: the two-level locking cannot deadlock: in every reachable state with a worker that is not
  idle, some worker can pass its next synchronisation point.\<close>

theorem lock_never_deadlocks:
  assumes "reachable s" and "ls_pc s i \<noteq> Idle"
  shows "\<exists>j t. lockStep s t \<and> ls_pc t j \<noteq> ls_pc s j"
proof -
  have inv: "lockInv s" using assms(1) by (rule reach_lockInv)
  obtain j where "canStep s j" using lockInv_progress [OF inv assms(2)] by blast
  with canStep_step [OF inv] show ?thesis by blast
qed

theorem lock_never_deadlocks_witness:
  "\<exists>s. reachable s \<and> ls_pc s 0 = Crit ''a'' \<and> (\<exists>j t. lockStep s t \<and> ls_pc t j \<noteq> ls_pc s j)"
proof -
  obtain s where s: "reachable s" "ls_pc s = ((\<lambda>_. Idle)(0 := Crit ''a''))(1 := Crit ''b'')" by (rule two_sections)
  have "ls_pc s 0 = Crit ''a''" by (simp add: s(2))
  with s(1) lock_never_deadlocks [OF s(1), of 0] show ?thesis by auto
qed

text \<open>The per-namespace mutexes do not protect the namespace cache: a state is reachable in which
  two workers, in the sections of two namespaces, are both writing the cache's Go map (a
  concurrent map write, which the Go runtime answers by ending the process).\<close>

theorem cache_writes_can_overlap:
  "\<exists>s. reachable s \<and> ls_pc s 0 = CacheWrite ''a'' \<and> ls_pc s 1 = CacheWrite ''b''"
proof -
  obtain s where s: "reachable s" "ls_pc s = ((\<lambda>_. Idle)(0 := Crit ''a''))(1 := Crit ''b'')" by (rule two_sections)
  let ?t = "setPc 0 (CacheWrite ''a'') s"
  have "reachable ?t" by (rule reach_step [OF s(1)]) (rule cache_begin, simp add: s(2))
  then have "reachable (setPc 1 (CacheWrite ''b'') ?t)" by (rule reach_step) (rule cache_begin, simp add: s(2))
  then show ?thesis by (intro exI conjI) auto
qed

end
