(* ===== verification/Application.thy ===== *)
theory Application
  imports NamespacedResources LockServer NamespaceLockMap World Utilities GoTime
begin

text \<open>
  The processes around the controller and the lock server: what the controller is built with and
  what its \<open>Run\<close> starts (\<open>vmmrq-controller.go\<close>), leader election, start-up and the probe
  (\<open>pkg/mtq-controller/application.go\<close>), and the lock server's program
  (\<open>cmd/mtq-lock-server\<close>, \<open>pkg/mtq-lock-server/mtq-server.go\<close>). Goroutines and informers
  appear as the list of what is started, in order.
\<close>

subsection \<open>vmmrq-controller.go\<close>

text \<open>What \<open>NewVmmrqController\<close> sets besides the clients and informers it is given.\<close>

record controllerState =
  cs_mtqNs :: string
  cs_bundleName :: string
  cs_bundleNs :: string
  cs_queueName :: string
  cs_nsLockMap :: lockMap
  cs_nsCache :: nsCache
  cs_eventComponent :: string
  cs_hasTemplateSvc :: bool

definition NewVmmrqController :: "string \<Rightarrow> controllerState" where
  "NewVmmrqController mtqNs =
     \<lparr>cs_mtqNs = mtqNs, cs_bundleName = ''mtq-lock-signer-bundle'', cs_bundleNs = mtqNs,
      cs_queueName = ''migration-queue'', cs_nsLockMap = emptyLockMap, cs_nsCache = NewNamespaceCache,
      cs_eventComponent = utilsControllerPodName, cs_hasTemplateSvc = False\<rparr>"

datatype runStep =
    OnMigrationDelete
  | OnMigrationUpdate
  | OnVmmrqAdd
  | OnVmmrqUpdate
  | NewTemplateService string nat nat "string list"
  | Worker nat
  | EnqueueAll nat

definition fakeVal :: string where
  "fakeVal = ''NotImportantWeJustNeedTheTargetResources''"

text \<open>
  \<open>Run\<close>: the outcomes of the two registrations, the namespaces of the KubeVirt objects and the
  outcome of \<open>NewClusterConfig\<close> are arguments; periods are in seconds. The template service is
  listed with its fake value, its two limits and the caches it reads.
\<close>

definition ctrl_Run ::
  "goerror option \<Rightarrow> goerror option \<Rightarrow> string list \<Rightarrow> (string \<Rightarrow> goerror option) \<Rightarrow> nat \<Rightarrow> controllerState \<Rightarrow>
     goerror option \<times> runStep list \<times> controllerState" where
  "ctrl_Run migErr vmmrqErr kvs newClusterConfig threadiness ctrl =
     (case migErr of Some err \<Rightarrow> (Some err, [], ctrl) | None \<Rightarrow>
     (let r1 = [OnMigrationDelete, OnMigrationUpdate] in
      case vmmrqErr of Some err \<Rightarrow> (Some err, r1, ctrl) | None \<Rightarrow>
     (let r2 = r1 @ [OnVmmrqAdd, OnVmmrqUpdate] in
      if length kvs \<noteq> 1 then (Some (GoErr ''single KV object should exist in the cluster''), r2, ctrl)
      else (case newClusterConfig (hd kvs) of Some err \<Rightarrow> (Some err, r2, ctrl) | None \<Rightarrow>
        (None,
         r2 @ [NewTemplateService fakeVal 240 107 [''PersistentVolumeClaim'', ''ResourceQuota'', ''Namespace'']]
            @ map (\<lambda>_. Worker 1) [0..<threadiness] @ [EnqueueAll 30],
         ctrl\<lparr>cs_hasTemplateSvc := True\<rparr>)))))"

subsection \<open>application.go\<close>

record controllerApp =
  ma_mtqNs :: string
  ma_host :: string
  ma_controller :: controllerState
  ma_podInformer :: informer
  ma_limitRangeInformer :: informer
  ma_migrationInformer :: informer
  ma_resourceQuotaInformer :: informer
  ma_vmmrqInformer :: informer
  ma_vmiInformer :: informer
  ma_nsInformer :: informer
  ma_kubeVirtInformer :: informer
  ma_crdInformer :: informer
  ma_pvcInformer :: informer

text \<open>
  \<open>Execute\<close> up to \<open>Run\<close>: it ends the process (\<open>None\<close>) without a client, a namespace file or
  a host name. The namespace is the file as it is; \<open>GetNamespace\<close> would trim it.
\<close>

definition app_Execute ::
  "goerror option \<Rightarrow> (string \<Rightarrow> string result) \<Rightarrow> string result \<Rightarrow> goerror option \<Rightarrow> controllerApp option" where
  "app_Execute virtCliErr readFile hostname mtqCliErr =
     (if virtCliErr \<noteq> None then None
      else case readFile serviceAccountNamespacePath of
        Inl err \<Rightarrow> None
      | Inr nsBytes \<Rightarrow>
     (case hostname of
        Inl err \<Rightarrow> None
      | Inr host \<Rightarrow>
         if mtqCliErr \<noteq> None then None
         else Some
           \<lparr>ma_mtqNs = nsBytes,
            ma_host = host,
            ma_controller = NewVmmrqController nsBytes,
            ma_podInformer = GetLauncherPodInformer,
            ma_limitRangeInformer = GetlimitRangeInformer,
            ma_migrationInformer = GetMigrationInformer,
            ma_resourceQuotaInformer = GetResourceQuotaInformer,
            ma_vmmrqInformer = GetVirtualMachineMigrationResourceQuotaInformer,
            ma_vmiInformer = GetVMIInformer,
            ma_nsInformer = GetNamespaceInformer,
            ma_kubeVirtInformer = KubeVirtInformer,
            ma_crdInformer = CRDInformer,
            ma_pvcInformer = GetPersistentVolumeClaimInformer\<rparr>))"

text \<open>The channel \<open>readyChan\<close>: what is buffered in it, and whether it is closed.\<close>

datatype chan = Chan "bool list" bool

definition newReadyChan :: chan where
  "newReadyChan = Chan [] False"

text \<open>A non-blocking receive: whether something arrived, and the \<open>opened\<close> of the assignment.\<close>

fun tryReceive :: "chan \<Rightarrow> bool option \<times> chan" where
  "tryReceive (Chan (x # xs) closed) = (Some True, Chan xs closed)"
| "tryReceive (Chan [] closed) = (if closed then Some False else None, Chan [] closed)"

text \<open>The status and the value of "leader" in the answer; a received value falls through.\<close>

definition leaderProbe :: "chan \<Rightarrow> (nat \<times> string) \<times> chan" where
  "leaderProbe readyChan =
     (case tryReceive readyChan of
        (Some opened, ch) \<Rightarrow> (if \<not> opened then (StatusOK, ''true'') else (StatusOK, ''false''), ch)
      | (None, ch) \<Rightarrow> ((StatusOK, ''false''), ch))"

datatype appStep =
    RunInformer informer
  | WaitForCacheSync "informer list"
  | RunVmmrqController nat
  | CloseReadyChan

text \<open>A failed wait is only logged, so the steps do not depend on it.\<close>

definition onStartedLeading :: "controllerApp \<Rightarrow> appStep list" where
  "onStartedLeading mca =
     map RunInformer
       [ma_migrationInformer mca, ma_vmiInformer mca, ma_kubeVirtInformer mca, ma_crdInformer mca, ma_pvcInformer mca,
        ma_podInformer mca, ma_limitRangeInformer mca, ma_vmmrqInformer mca, ma_resourceQuotaInformer mca, ma_nsInformer mca]
     @ [WaitForCacheSync
         [ma_migrationInformer mca, ma_vmiInformer mca, ma_crdInformer mca, ma_kubeVirtInformer mca, ma_podInformer mca,
          ma_limitRangeInformer mca, ma_resourceQuotaInformer mca, ma_vmmrqInformer mca, ma_nsInformer mca],
        RunVmmrqController 3,
        CloseReadyChan]"

fun chanAfter :: "appStep list \<Rightarrow> chan \<Rightarrow> chan" where
  "chanAfter [] ch = ch"
| "chanAfter (CloseReadyChan # steps) (Chan xs closed) = chanAfter steps (Chan xs True)"
| "chanAfter (_ # steps) ch = chanAfter steps ch"

text \<open>Leader election; durations in seconds, as \<open>DefaultLeaderElectionConfiguration\<close> sets them.\<close>

record leaderElectionConfig =
  le_resourceLock :: string
  le_namespace :: string
  le_name :: string
  le_identity :: string
  le_leaseDuration :: nat
  le_renewDeadline :: nat
  le_retryPeriod :: nat
  le_onStartedLeading :: "appStep list"
  le_onStoppedLeadingFatal :: bool

definition setupLeaderElector :: "controllerApp \<Rightarrow> leaderElectionConfig" where
  "setupLeaderElector mca =
     \<lparr>le_resourceLock = ''leases'', le_namespace = ma_mtqNs mca, le_name = ''mtq-controller'',
      le_identity = ma_host mca, le_leaseDuration = 15, le_renewDeadline = 10, le_retryPeriod = 2,
      le_onStartedLeading = onStartedLeading mca, le_onStoppedLeadingFatal = True\<rparr>"

text \<open>
  \<open>Run\<close>: the informer of the serving certificate, the name and namespace of its secret, the
  address of the probe's server, and leader election; \<open>None\<close> where the process exits.
\<close>

record serverConfig =
  sc_secretInformer :: informer
  sc_certSecret :: "string \<times> string"
  sc_addr :: string

definition certServer :: "string \<Rightarrow> string \<Rightarrow> serverConfig" where
  "certServer mtqNs addr =
     \<lparr>sc_secretInformer = GetSecretInformer mtqNs, sc_certSecret = (mtqNs, SecretResourceName), sc_addr = addr\<rparr>"

definition hostPort :: "string \<Rightarrow> nat \<Rightarrow> string" where
  "hostPort host port = host @ '':'' @ fmtInt port"

definition app_Run :: "bool \<Rightarrow> goerror option \<Rightarrow> controllerApp \<Rightarrow> (serverConfig \<times> leaderElectionConfig) option" where
  "app_Run secretSynced electorErr mca =
     (if \<not> secretSynced then None
      else if electorErr \<noteq> None then None
      else Some (certServer (ma_mtqNs mca) (hostPort DefaultHost DefaultPort), setupLeaderElector mca))"

subsection \<open>mtq-lock-server.go, mtq-server.go\<close>

record mtqServer =
  ms_mtqNS :: string
  ms_bindAddress :: string
  ms_bindPort :: nat
  ms_handler :: launcherValidator

definition MTQLockServer :: "string \<Rightarrow> string \<Rightarrow> nat \<Rightarrow> mtqServer" where
  "MTQLockServer mtqNS bindAddress bindPort =
     \<lparr>ms_mtqNS = mtqNS, ms_bindAddress = bindAddress, ms_bindPort = bindPort, ms_handler = initHandler mtqNS\<rparr>"

definition startTLS :: "mtqServer \<Rightarrow> string" where
  "startTLS app = hostPort (ms_bindAddress app) (ms_bindPort app)"

definition lockServerMain ::
  "goerror option \<Rightarrow> (string \<Rightarrow> string result) \<Rightarrow> goerror option \<Rightarrow> bool \<Rightarrow> (mtqServer \<times> serverConfig) option" where
  "lockServerMain virtCliErr readFile readyFileErr secretSynced =
     (let mtqNS = GetNamespace readFile in
      if virtCliErr \<noteq> None then None
      else if readyFileErr \<noteq> None then None
      else if \<not> secretSynced then None
      else let server = MTQLockServer mtqNS DefaultHost DefaultPort
           in Some (server, certServer mtqNS (startTLS server)))"

end
