(* ===== verification/DeployTheorems.thy ===== *)
theory DeployTheorems
  imports OperatorSetup Application
begin

text \<open>
  What the operator deploys, put together: \<open>GetAllResources\<close> never fails and its result does
  not depend on the order in which Go ranges over the factory tables; the operator may create
  every object and grant every permission in it; the controller may send the requests it sends;
  and the locking webhook leads to the lock server.
\<close>

subsection \<open>What GetAllResources returns\<close>

definition clusterObjects :: "clusterFactoryArgs \<Rightarrow> kobject list" where
  "clusterObjects args =
     createStaticMTQLockResources args @ createStaticControllerResources args @ createCRDResources args"

definition namespacedObjects :: "factoryArgs \<Rightarrow> kobject list" where
  "namespacedObjects args =
     map (assignNamspaceIfMissing (fa_namespace args)) (createMTQLockResources args @ createMTQControllerResources args)"

definition allCertObjects :: "reconcileMTQ \<Rightarrow> mtq \<Rightarrow> kobject list" where
  "allCertObjects r cr = concat (map certObjects (getCertificateDefinitions r (Some cr)))"

definition tableOrder :: "'a factoryMap \<Rightarrow> string list \<Rightarrow> bool" where
  "tableOrder m order \<longleftrightarrow> distinct order \<and> set order = fst ` set m"

lemma GetAllResources_ok:
  assumes co: "tableOrder staticFactoryFunctions co" and no: "tableOrder factoryFunctions no"
  obtains objs where "GetAllResources A r env co no cr s = Some (Inr objs)"
    and "set objs = (if DeployClusterResources env then set (clusterObjects (re_clusterArgs r)) else {})
       \<union> set (namespacedObjects (getNamespacedArgs A r (Some cr) s)) \<union> set (allCertObjects r cr)"
proof
  let ?a = "getNamespacedArgs A r (Some cr) s"
  let ?crs = "if DeployClusterResources env
    then concat (map (\<lambda>g. the (map_of staticFactoryFunctions g) (re_clusterArgs r)) co) else []"
  let ?nsrs = "map (assignNamspaceIfMissing (fa_namespace ?a)) (concat (map (\<lambda>g. the (map_of factoryFunctions g) ?a) no))"
  have known: "\<forall>g \<in> set co. map_of staticFactoryFunctions g \<noteq> None" "\<forall>g \<in> set no. map_of factoryFunctions g \<noteq> None"
    using co no by (auto simp: tableOrder_def map_of_eq_None_iff)
  have "(if DeployClusterResources env then CreateAllStaticResources co (re_clusterArgs r) else Some (Inr [])) = Some (Inr ?crs)"
    using createAllResources_sound [OF static_sound known(1)] by (simp add: CreateAllStaticResources_def)
  moreover have "CreateAllNamespaced no ?a = Some (Inr ?nsrs)" by (rule CreateAllNamespaced_sound [OF known(2)])
  ultimately show "GetAllResources A r env co no cr s = Some (Inr (?crs @ ?nsrs @ allCertObjects r cr))"
    by (simp add: GetAllResources_def allCertObjects_def)
  have "set co = {''mtq-lock-rbac'', ''controller-rbac'', ''crd-resources''}" "set no = {''mtqlock'', ''controller''}"
    using co no by (simp_all add: tableOrder_def staticFactoryFunctions_def factoryFunctions_def)
  then have "set (concat (map (\<lambda>g. the (map_of staticFactoryFunctions g) (re_clusterArgs r)) co)) = set (clusterObjects (re_clusterArgs r))"
    and "set ?nsrs = set (namespacedObjects ?a)"
    by (simp_all add: clusterObjects_def namespacedObjects_def staticFactoryFunctions_def factoryFunctions_def Un_assoc image_Un)
  then show "set (?crs @ ?nsrs @ allCertObjects r cr) = (if DeployClusterResources env then set (clusterObjects (re_clusterArgs r)) else {})
       \<union> set (namespacedObjects ?a) \<union> set (allCertObjects r cr)"
    by (simp add: Un_assoc)
qed

lemma getNamespacedArgs_namespace [simp]: "fa_namespace (getNamespacedArgs A r cr s) = fa_namespace (re_namespacedArgs r)"
  by (simp add: getNamespacedArgs_def Let_def split: option.splits)

lemma newReconciler_namespaces:
  "newReconciler readFile env dp e = Inr r \<Longrightarrow>
     fa_namespace (re_namespacedArgs r) = re_namespace r \<and> cf_namespace (re_clusterArgs r) = re_namespace r
     \<and> re_namespace r = GetNamespace readFile"
  by (auto simp: newReconciler_def Let_def split: sum.splits option.splits)

subsection \<open>The operator's permissions\<close>

fun resourceOf :: "kobject \<Rightarrow> string \<times> string" where
  "resourceOf (ServiceAccountObj _) = ('''', ''serviceaccounts'')"
| "resourceOf (RoleObj _) = (''rbac.authorization.k8s.io'', ''roles'')"
| "resourceOf (RoleBindingObj _) = (''rbac.authorization.k8s.io'', ''rolebindings'')"
| "resourceOf (ClusterRoleObj _) = (''rbac.authorization.k8s.io'', ''clusterroles'')"
| "resourceOf (ClusterRoleBindingObj _) = (''rbac.authorization.k8s.io'', ''clusterrolebindings'')"
| "resourceOf (DeploymentObj _) = (''apps'', ''deployments'')"
| "resourceOf (ServiceObj _) = ('''', ''services'')"
| "resourceOf (CRDObj _) = (''apiextensions.k8s.io'', ''customresourcedefinitions'')"
| "resourceOf (SecretObj _) = ('''', ''secrets'')"
| "resourceOf (ConfigMapObj _) = ('''', ''configmaps'')"

text \<open>What the operator holds for objects of the namespace \<open>objNs\<close>; its own namespace is \<open>ns\<close>.\<close>

definition operatorRules :: "string \<Rightarrow> string \<Rightarrow> policyRule list" where
  "operatorRules ns objNs =
     ro_rules createClusterRole @ (if objNs = ns then ro_rules (createNamespacedRole ns) else [])"

definition mayManage :: "policyRule list \<Rightarrow> kobject \<Rightarrow> bool" where
  "mayManage rules k \<longleftrightarrow>
     list_all (\<lambda>v. rulesAllow rules v (fst (resourceOf k)) (snd (resourceOf k)))
       [''create'', ''get'', ''list'', ''watch'', ''update'', ''delete'']"

text \<open>
  Kubernetes lets a client create or bind a role only when the client holds its permissions
  itself. \<open>grantsOf\<close> are the rules of a role, \<open>refersTo\<close> says that a binding names it.
\<close>

fun grantsOf :: "kobject \<Rightarrow> policyRule list" where
  "grantsOf (RoleObj r) = ro_rules r"
| "grantsOf (ClusterRoleObj r) = ro_rules r"
| "grantsOf _ = []"

fun isRole :: "string \<Rightarrow> string \<Rightarrow> string \<Rightarrow> kobject \<Rightarrow> bool" where
  "isRole kind name ns (RoleObj r) \<longleftrightarrow> kind = ''Role'' \<and> om_name (ro_meta r) = name \<and> om_namespace (ro_meta r) = ns"
| "isRole kind name ns (ClusterRoleObj r) \<longleftrightarrow> kind = ''ClusterRole'' \<and> om_name (ro_meta r) = name"
| "isRole kind name ns _ \<longleftrightarrow> False"

fun refersTo :: "kobject \<Rightarrow> kobject \<Rightarrow> bool" where
  "refersTo (RoleBindingObj b) k \<longleftrightarrow> isRole (rb_refKind b) (rb_refName b) (om_namespace (rb_meta b)) k"
| "refersTo (ClusterRoleBindingObj b) k \<longleftrightarrow> isRole (rb_refKind b) (rb_refName b) [] k"
| "refersTo _ k \<longleftrightarrow> False"

fun isBinding :: "kobject \<Rightarrow> bool" where
  "isBinding (RoleBindingObj b) = True"
| "isBinding (ClusterRoleBindingObj b) = True"
| "isBinding _ = False"

definition mayGrant :: "policyRule list \<Rightarrow> kobject list \<Rightarrow> kobject \<Rightarrow> bool" where
  "mayGrant rules objs k \<longleftrightarrow>
     rulesCover rules (grantsOf k) \<and>
     (isBinding k \<longrightarrow> list_ex (refersTo k) objs \<and> list_all (\<lambda>x. refersTo k x \<longrightarrow> rulesCover rules (grantsOf x)) objs)"

text \<open>The service accounts of a binding; without a namespace, one of the binding's own.\<close>

definition subjectAccounts :: "roleBinding \<Rightarrow> (string \<times> string) list" where
  "subjectAccounts b = map (\<lambda>s. (if su_namespace s = [] then om_namespace (rb_meta b) else su_namespace s, su_name s)) (rb_subjects b)"

fun isAccount :: "string \<times> string \<Rightarrow> kobject \<Rightarrow> bool" where
  "isAccount a (ServiceAccountObj m) \<longleftrightarrow> a = (om_namespace m, om_name m)"
| "isAccount a _ \<longleftrightarrow> False"

fun subjectsExist :: "kobject list \<Rightarrow> kobject \<Rightarrow> bool" where
  "subjectsExist objs (RoleBindingObj b) = list_all (\<lambda>a. list_ex (isAccount a) objs) (subjectAccounts b)"
| "subjectsExist objs (ClusterRoleBindingObj b) = list_all (\<lambda>a. list_ex (isAccount a) objs) (subjectAccounts b)"
| "subjectsExist objs _ = True"

lemmas operator_permissions = operatorRules_def createClusterRole_def createNamespacedRole_def getClusterPolicyRules_def
  getNamespacedPolicyRules_def operatorClusterRules_def GetClusterRolePolicyRules_def crudVerbs_def rb_CreateOperatorClusterRole_def
  sdk_CreateClusterRole_def rb_CreateRole_def rule_def getControllerClusterPolicyRules_def getMTQLockServerClusterPolicyRules_def

text \<open>The objects with their metadata spelled out.\<close>

lemmas deployed_objects = clusterObjects_def namespacedObjects_def namespaced_factories namespaced_objects cluster_factories
  cluster_objects meta_simps assignNamspaceIfMissing_def Let_def

lemma operator_covers:
  "rulesCover (ro_rules createClusterRole) getControllerClusterPolicyRules"
  "rulesCover (ro_rules createClusterRole) getMTQLockServerClusterPolicyRules"
  "rulesCover (ro_rules (createNamespacedRole ns)) (ro_rules createControllerRole)"
  "rulesCover (ro_rules (createNamespacedRole ns)) (ro_rules createMTQlockRole)"
proof -
  show "rulesCover (ro_rules createClusterRole) getControllerClusterPolicyRules"
    "rulesCover (ro_rules createClusterRole) getMTQLockServerClusterPolicyRules"
    by (simp_all add: createClusterRole_def rb_CreateOperatorClusterRole_def sdk_CreateClusterRole_def
        getClusterPolicyRules_def GetClusterRolePolicyRules_def rulesCover_append_left rulesCover_refl)
  have "rulesCover getNamespacedPolicyRules (ro_rules createControllerRole)"
    "rulesCover getNamespacedPolicyRules (ro_rules createMTQlockRole)"
    by code_simp+
  then show "rulesCover (ro_rules (createNamespacedRole ns)) (ro_rules createControllerRole)"
    "rulesCover (ro_rules (createNamespacedRole ns)) (ro_rules createMTQlockRole)"
    by (simp_all add: createNamespacedRole_def rb_CreateRole_def)
qed

lemma rulesCover_nil [simp]: "rulesCover rules []"
  by (simp add: rulesCover_def)

lemmas cert_objects = allCertObjects_def getCertificateDefinitions_def CreateCertificateDefinitions_def
  createCertificateDefinitions_def adaptDefinition_def addNamespace_def createSecret_def createConfigMap_def plainMeta_def

fun clusterKind :: "kobject \<Rightarrow> bool" where
  "clusterKind (ClusterRoleObj _) = True"
| "clusterKind (ClusterRoleBindingObj _) = True"
| "clusterKind (CRDObj _) = True"
| "clusterKind _ = False"

lemma crud_cluster: "list_all (\<lambda>(g, n). list_all (\<lambda>v. rulesAllow (ro_rules createClusterRole) v g n)
    [''create'', ''get'', ''list'', ''watch'', ''update'', ''delete''])
    [(''rbac.authorization.k8s.io'', ''clusterroles''), (''rbac.authorization.k8s.io'', ''clusterrolebindings''),
     (''apiextensions.k8s.io'', ''customresourcedefinitions'')]"
  by code_simp

lemma crud_namespaced: "list_all (\<lambda>(g, n). list_all (\<lambda>v. rulesAllow getNamespacedPolicyRules v g n)
    [''create'', ''get'', ''list'', ''watch'', ''update'', ''delete''])
    [('''', ''serviceaccounts''), (''rbac.authorization.k8s.io'', ''roles''), (''rbac.authorization.k8s.io'', ''rolebindings''),
     (''apps'', ''deployments''), ('''', ''services''), ('''', ''secrets''), ('''', ''configmaps'')]"
  by code_simp

lemma mayManage_kind:
  "clusterKind k \<or> o1 = ns \<Longrightarrow> mayManage (operatorRules ns o1) k"
  using crud_cluster crud_namespaced
  by (cases k) (auto simp: mayManage_def operatorRules_def createNamespacedRole_def rb_CreateRole_def)

lemma deployed_kind:
  assumes "k \<in> set (clusterObjects c) \<union> set (namespacedObjects a) \<union> set (allCertObjects r cr)"
    and "fa_namespace a = re_namespace r"
  shows "if clusterKind k then om_namespace (metaOf k) = [] \<and> k \<in> set (clusterObjects c) else om_namespace (metaOf k) = re_namespace r"
  using assms by (auto simp: deployed_objects cert_objects certObjects_def certArgs_def split: option.splits)



lemma namespaced_kind: "k \<in> set (namespacedObjects a) \<union> set (allCertObjects r cr) \<Longrightarrow> \<not> clusterKind k"
  by (auto simp: deployed_objects cert_objects certObjects_def)

lemma deployed_covered:
  assumes "x \<in> set (clusterObjects c) \<union> set (namespacedObjects a) \<union> set (allCertObjects r cr)"
  shows "rulesCover (operatorRules ns ns) (grantsOf x)"
    and "clusterKind x \<Longrightarrow> rulesCover (ro_rules createClusterRole) (grantsOf x)"
proof -
  have "grantsOf x \<in> {[], getControllerClusterPolicyRules, getMTQLockServerClusterPolicyRules,
       ro_rules createControllerRole, ro_rules createMTQlockRole}"
    using assms by (auto simp: deployed_objects cert_objects certObjects_def)
  then show "rulesCover (operatorRules ns ns) (grantsOf x)"
    using operator_covers by (auto simp: operatorRules_def rulesCover_append_left)
  assume "clusterKind x"
  then have "grantsOf x \<in> {[], getControllerClusterPolicyRules, getMTQLockServerClusterPolicyRules}"
    using assms by (auto simp: deployed_objects cert_objects certObjects_def)
  then show "rulesCover (ro_rules createClusterRole) (grantsOf x)" using operator_covers by auto
qed

lemma operatorRules_cluster: "rulesCover (ro_rules createClusterRole) gs \<Longrightarrow> rulesCover (operatorRules ns o1) gs"
  by (simp add: operatorRules_def rulesCover_append_left)

lemma clusterBinding_refers: "refersTo (ClusterRoleBindingObj b) x \<Longrightarrow> rb_refKind b = ''ClusterRole'' \<Longrightarrow> clusterKind x"
  by (cases x) simp_all

lemma binding_found:
  assumes "k \<in> set (clusterObjects c) \<union> set (namespacedObjects a) \<union> set (allCertObjects r cr)" and "isBinding k"
  shows "\<exists>x \<in> (if clusterKind k then set (clusterObjects c) else set (namespacedObjects a)). refersTo k x"
    and "clusterKind k \<Longrightarrow> refersTo k x \<Longrightarrow> clusterKind x"
  using assms by (auto simp: deployed_objects cert_objects certObjects_def intro: clusterBinding_refers)

lemma subjects_listed:
  assumes "k \<in> set (clusterObjects c) \<union> set (namespacedObjects a) \<union> set (allCertObjects r cr)"
    and "cf_namespace c = fa_namespace a" and "k = RoleBindingObj b \<or> k = ClusterRoleBindingObj b"
  shows "subjectAccounts b \<in> {[(fa_namespace a, ''mtq-lock'')], [(fa_namespace a, ''mtq-controller'')]}"
  using assms by (auto simp: deployed_objects cert_objects certObjects_def subjectAccounts_def names controllerResourceName_def
        mtqLockResourceName_def clusterLockResourceName_def clusterControllerServiceAccountName_def
        split: if_split_asm)

lemma accounts_deployed:
  "list_ex (isAccount (fa_namespace a, ''mtq-lock'')) (namespacedObjects a)"
  "list_ex (isAccount (fa_namespace a, ''mtq-controller'')) (namespacedObjects a)"
  by (simp_all add: namespacedObjects_def namespaced_factories assignNamspaceIfMissing_def createMTQLockServiceAccount_def
      createMTQControllerServiceAccount_def rb_CreateServiceAccount_def mtqLockResourceName_def controllerResourceName_def names)

lemma subjects_found:
  assumes "k \<in> set (clusterObjects c) \<union> set (namespacedObjects a) \<union> set (allCertObjects r cr)"
    and "cf_namespace c = fa_namespace a" and "set (namespacedObjects a) \<subseteq> set objs"
  shows "subjectsExist objs k"
proof -
  have acc: "list_ex (isAccount (fa_namespace a, ''mtq-lock'')) objs" "list_ex (isAccount (fa_namespace a, ''mtq-controller'')) objs"
    using accounts_deployed [of a] assms(3) unfolding list_ex_iff by blast+
  show ?thesis
  proof (cases k)
    case (RoleBindingObj b)
    then show ?thesis using subjects_listed [OF assms(1,2)] acc by fastforce
  next
    case (ClusterRoleBindingObj b)
    then show ?thesis using subjects_listed [OF assms(1,2)] acc by fastforce
  qed simp_all
qed

text \<open>C15: whatever the custom resource says and in whichever order Go ranges over the factory
  tables, the operator's list of resources is complete without error or panic, and the
  operator's own roles let it manage every object in it, hold every permission the roles in it
  grant and the bindings in it bind, so the API server accepts them; every binding refers to a
  role and to service accounts that are deployed with it.\<close>

theorem operator_may_deploy:
  assumes "newReconciler readFile penv decodePlacement clientErr = Inr r"
    and "tableOrder staticFactoryFunctions co" and "tableOrder factoryFunctions no"
  shows "\<exists>objs. GetAllResources A r env co no cr s = Some (Inr objs) \<and>
     (\<forall>k \<in> set objs.
        mayManage (operatorRules (re_namespace r) (om_namespace (metaOf k))) k \<and>
        mayGrant (operatorRules (re_namespace r) (om_namespace (metaOf k))) objs k \<and>
        subjectsExist objs k)"
proof -
  let ?a = "getNamespacedArgs A r (Some cr) s" and ?c = "re_clusterArgs r"
  note ns = newReconciler_namespaces [OF assms(1)]
  obtain objs where objs: "GetAllResources A r env co no cr s = Some (Inr objs)"
    and all: "set objs = (if DeployClusterResources env then set (clusterObjects ?c) else {})
       \<union> set (namespacedObjects ?a) \<union> set (allCertObjects r cr)"
    by (rule GetAllResources_ok [OF assms(2,3)])
  have "mayManage (operatorRules (re_namespace r) (om_namespace (metaOf k))) k \<and>
        mayGrant (operatorRules (re_namespace r) (om_namespace (metaOf k))) objs k \<and> subjectsExist objs k"
    if k: "k \<in> set objs" for k
  proof -
    have sub: "x \<in> set (clusterObjects ?c) \<union> set (namespacedObjects ?a) \<union> set (allCertObjects r cr)" if "x \<in> set objs" for x
      using that all by (auto split: if_splits)
    note kind = deployed_kind [OF sub [OF k], simplified]
    have covered: "rulesCover (operatorRules (re_namespace r) (om_namespace (metaOf k))) (grantsOf x)"
      if "x \<in> set objs" "clusterKind k \<Longrightarrow> clusterKind x" for x
      using deployed_covered [OF sub [OF that(1)]] that(2) kind ns operatorRules_cluster by (cases "clusterKind k") auto
    have "list_ex (refersTo k) objs" if "isBinding k"
      using binding_found(1) [OF sub [OF k] that] kind ns all k namespaced_kind unfolding list_ex_iff by (auto split: if_splits)
    moreover have "mayManage (operatorRules (re_namespace r) (om_namespace (metaOf k))) k"
      by (rule mayManage_kind) (use kind ns in \<open>auto split: if_splits\<close>)
    moreover have "subjectsExist objs k" using subjects_found [OF sub [OF k], of objs] ns all by auto
    ultimately show ?thesis
      using covered [OF k] covered binding_found(2) [OF sub [OF k]] by (auto simp: mayGrant_def list_all_iff)
  qed
  then show ?thesis using objs by blast
qed

lemma envProcess_operatorEnv:
  assumes "decodePlacement (envOf (firstContainerEnv (createDeployment args))) = Inr placement"
  shows "envProcess (envOf (firstContainerEnv (createDeployment args))) decodePlacement =
    Inr ((of_namespacedArgs args)
           \<lparr>fa_imagePullSecrets := [], fa_priorityClassName := [], fa_namespace := [], fa_infraNodePlacement := Some placement\<rparr>)"
  using assms
  by (simp add: envProcess_def requiredFields_def envKey_fields envKeys(2-4) stringField_def structSlice_def
      operatorEnv envOf_def createOperatorEnvVar_def valueEnv_def Let_def)

text \<open>C33: the environment of the operator's deployment is read back as it was written: the
  operator that runs in the deployment made from some arguments starts without error and holds
  the versions, images, verbosity, pull policy and the choice about cluster resources of these
  arguments. The image pull secrets are lost: no variable carries them.\<close>

theorem operator_env_roundtrip:
  assumes "decodePlacement (envOf (firstContainerEnv (createDeployment args))) = Inr placement"
  shows "newReconciler readFile (envOf (firstContainerEnv (createDeployment args))) decodePlacement None =
    Inr \<lparr>re_namespace = GetNamespace readFile,
         re_namespacedArgs = (of_namespacedArgs args)
           \<lparr>fa_imagePullSecrets := [], fa_priorityClassName := [], fa_namespace := GetNamespace readFile,
            fa_infraNodePlacement := Some placement\<rparr>,
         re_clusterArgs = \<lparr>cf_namespace = GetNamespace readFile\<rparr>\<rparr>"
  using envProcess_operatorEnv [of decodePlacement, OF assms] by (simp add: newReconciler_def Let_def)

definition demoArgs :: factoryArgs where
  "demoArgs =
     \<lparr>fa_operatorVersion = ''v1'', fa_controllerImage = ''ctrl:v1'', fa_deployClusterResources = ''true'',
      fa_mtqLockServerImage = ''lock:v1'', fa_verbosity = ''1'', fa_pullPolicy = ''Always'', fa_imagePullSecrets = [''s''],
      fa_priorityClassName = [], fa_namespace = ''mtq'', fa_infraNodePlacement = None\<rparr>"

definition demoPlacement :: nodePlacement where
  "demoPlacement = \<lparr>np_nodeSelector = [(''zone'', ''a'')], np_tolerations = [], np_affinity = Some (GivenAffinity ''x'')\<rparr>"

definition demoEnv :: "string \<Rightarrow> string option" where
  "demoEnv = envOf (firstContainerEnv (createDeployment \<lparr>of_namespacedArgs = demoArgs, of_image = ''op:v1''\<rparr>))"

definition demoFile :: "string \<Rightarrow> string result" where
  "demoFile path = (if path = serviceAccountNamespacePath then Inr (''mtq'' @ [CHR 0x0A]) else Inl (NotFoundErr path))"

definition demoReconciler :: reconcileMTQ where
  "demoReconciler =
     \<lparr>re_namespace = ''mtq'', re_namespacedArgs = demoArgs\<lparr>fa_imagePullSecrets := [], fa_infraNodePlacement := Some demoPlacement\<rparr>,
      re_clusterArgs = \<lparr>cf_namespace = ''mtq''\<rparr>\<rparr>"

lemma demo_namespace: "GetNamespace demoFile = ''mtq''"
  by code_simp

lemma demo_new: "newReconciler demoFile demoEnv (\<lambda>_. Inr demoPlacement) None = Inr demoReconciler"
  by (simp add: newReconciler_def demoEnv_def envProcess_operatorEnv demo_namespace demoReconciler_def demoArgs_def Let_def)

definition demoApi :: "unit operatorApi" where
  "demoApi = \<lparr>oa_getMTQ = (\<lambda>n s. Inl (NotFoundErr n)), oa_listMTQs = (\<lambda>s. Inr []), oa_getConfigMap = (\<lambda>n ns s. Inl (NotFoundErr n)),
     oa_createConfigMap = (\<lambda>c s. (None, s)), oa_getPriorityClass = (\<lambda>n s. None), oa_kindOf = (\<lambda>m. Inr ''MTQ'')\<rparr>"

definition demoCR :: mtq where
  "demoCR = \<lparr>mtq_name = ''mtq'', mtq_uid = ''u'', mtq_labels = [], mtq_deleted = False,
     mtq_spec = \<lparr>ms_imagePullPolicy = ''IfNotPresent'', ms_infra = demoPlacement, ms_certConfig = None, ms_priorityClass = None\<rparr>,
     mtq_phase = ''Deployed''\<rparr>"

lemma demo_orders:
  "tableOrder staticFactoryFunctions [''crd-resources'', ''mtq-lock-rbac'', ''controller-rbac'']"
  "tableOrder factoryFunctions [''controller'', ''mtqlock'']"
  by (auto simp: tableOrder_def staticFactoryFunctions_def factoryFunctions_def)

theorem operator_env_roundtrip_witness:
  "\<exists>r. newReconciler demoFile demoEnv (\<lambda>_. Inr demoPlacement) None = Inr r \<and> fa_controllerImage (re_namespacedArgs r) = ''ctrl:v1''"
  unfolding demoEnv_def by (subst operator_env_roundtrip) (simp_all add: demoArgs_def)

theorem operator_may_deploy_witness:
  "\<exists>objs. GetAllResources demoApi demoReconciler ''TRUE'' [''crd-resources'', ''mtq-lock-rbac'', ''controller-rbac'']
       [''controller'', ''mtqlock''] demoCR () = Some (Inr objs)"
  using operator_may_deploy [OF demo_new demo_orders, of demoApi "''TRUE''" demoCR "()"] by blast

subsection \<open>The controller's permissions\<close>

text \<open>What the controller's service account holds in the namespace \<open>objNs\<close>; its own is \<open>ns\<close>.\<close>

definition controllerRules :: "string \<Rightarrow> string \<Rightarrow> policyRule list" where
  "controllerRules ns objNs =
     ro_rules createControllerClusterRole @ (if objNs = ns then ro_rules createControllerRole else [])"

text \<open>The verb, the group, the resource and the namespace of a call.\<close>

fun accessOf :: "string \<Rightarrow> apiCall \<Rightarrow> (string \<times> string \<times> string) \<times> string" where
  "accessOf mtqNs (ListVmmrqs ns) = ((''list'', ''mtq.kubevirt.io'', ''virtualmachinemigrationresourcequotas''), ns)"
| "accessOf mtqNs (UpdateVmmrqStatus v) = ((''update'', ''mtq.kubevirt.io'', ''virtualmachinemigrationresourcequotas/status''), v_ns v)"
| "accessOf mtqNs (UpdateRQ q) = ((''update'', [], ''resourcequotas''), rq_ns q)"
| "accessOf mtqNs (GetVWC n) = ((''get'', ''admissionregistration.k8s.io'', ''validatingwebhookconfigurations''), [])"
| "accessOf mtqNs (CreateVWC v) = ((''create'', ''admissionregistration.k8s.io'', ''validatingwebhookconfigurations''), [])"
| "accessOf mtqNs (UpdateVWC v) = ((''update'', ''admissionregistration.k8s.io'', ''validatingwebhookconfigurations''), [])"
| "accessOf mtqNs (DeleteVWC n) = ((''delete'', ''admissionregistration.k8s.io'', ''validatingwebhookconfigurations''), [])"
| "accessOf mtqNs FetchBundle = ((''get'', [], ''configmaps''), mtqNs)"

definition controllerMay :: "string \<Rightarrow> (string \<times> string \<times> string) \<times> string \<Rightarrow> bool" where
  "controllerMay mtqNs a = (case a of ((v, g, r), ns) \<Rightarrow> rulesAllow (controllerRules mtqNs ns) v g r)"

fun repairCall :: "apiCall \<Rightarrow> bool" where
  "repairCall (UpdateVWC v) = True"
| "repairCall _ = False"

lemma rulesAllow_Nil [simp]: "\<not> rulesAllow [] v g r"
  by (simp add: rulesAllow_def)

lemma controller_cluster_access:
  "list_all (\<lambda>(v, g, r). rulesAllow (ro_rules createControllerClusterRole) v g r)
     [(''list'', ''mtq.kubevirt.io'', ''virtualmachinemigrationresourcequotas''),
      (''update'', ''mtq.kubevirt.io'', ''virtualmachinemigrationresourcequotas/status''),
      (''update'', [], ''resourcequotas''),
      (''get'', ''admissionregistration.k8s.io'', ''validatingwebhookconfigurations''),
      (''create'', ''admissionregistration.k8s.io'', ''validatingwebhookconfigurations''),
      (''delete'', ''admissionregistration.k8s.io'', ''validatingwebhookconfigurations''),
      (''create'', [], ''events''), (''patch'', [], ''events'')]"
  "list_all (\<lambda>(v, g, r). rulesAllow (ro_rules createControllerRole) v g r)
     [(''get'', [], ''configmaps''), (''list'', [], ''secrets''), (''watch'', [], ''secrets''),
      (''get'', ''coordination.k8s.io'', ''leases''), (''create'', ''coordination.k8s.io'', ''leases''),
      (''update'', ''coordination.k8s.io'', ''leases'')]"
  "\<not> rulesAllow (ro_rules createControllerClusterRole @ ro_rules createControllerRole)
     ''update'' ''admissionregistration.k8s.io'' ''validatingwebhookconfigurations''"
  by code_simp+

lemma controller_may_watch:
  assumes "app_Execute virtErr readFile hostname mtqErr = Some mca"
    and "RunInformer i \<in> set (onStartedLeading mca)"
  shows "informerAllowed (ro_rules createControllerClusterRole) i"
proof -
  have "list_all (informerAllowed (ro_rules createControllerClusterRole))
     [GetMigrationInformer, GetVMIInformer, KubeVirtInformer, CRDInformer, GetPersistentVolumeClaimInformer,
      GetLauncherPodInformer, GetlimitRangeInformer, GetVirtualMachineMigrationResourceQuotaInformer,
      GetResourceQuotaInformer, GetNamespaceInformer]"
    by code_simp
  then show ?thesis using assms by (auto simp: app_Execute_def onStartedLeading_def split: if_splits sum.splits)
qed

lemma controller_call:
  "controllerMay mtqNs (accessOf mtqNs c) \<longleftrightarrow> \<not> repairCall c"
  using controller_cluster_access
  by (cases c) (auto simp: controllerMay_def controllerRules_def)

text \<open>C16: the roles the operator binds to the controller's service account allow every request a
  pass of the controller can send, the list and watch requests of all its informers, its
  serving certificate and its leader-election lease; the one exception is the update with which
  it would repair a locking webhook configuration that was tampered with, which they never allow.\<close>

theorem controller_permissions:
  assumes "app_Execute virtErr readFile hostname mtqErr = Some mca" and "app_Run synced electorErr mca = Some (srv, le)"
  shows "(\<forall>c. controllerMay (ma_mtqNs mca) (accessOf (ma_mtqNs mca) c) \<longleftrightarrow> \<not> repairCall c) \<and>
    (\<forall>i. RunInformer i \<in> set (le_onStartedLeading le) \<longrightarrow> informerAllowed (ro_rules createControllerClusterRole) i) \<and>
    informerAllowed (controllerRules (ma_mtqNs mca) (ma_mtqNs mca)) (sc_secretInformer srv) \<and>
    list_all (\<lambda>v. controllerMay (ma_mtqNs mca) ((v, ''coordination.k8s.io'', le_resourceLock le), le_namespace le))
      [''get'', ''create'', ''update''] \<and>
    ps_serviceAccountName (dp_podSpec (createMTQControllerDeployment img verbosity pullPolicy secrets prio infra)) =
      ControllerServiceAccountName \<and>
    map snd (subjectAccounts (createControllerClusterRoleBinding (ma_mtqNs mca)) @ subjectAccounts createControllerRoleBinding) =
      [ControllerServiceAccountName, ControllerServiceAccountName]"
proof -
  have le: "le = setupLeaderElector mca" "srv = certServer (ma_mtqNs mca) (hostPort DefaultHost DefaultPort)"
    using assms(2) by (auto simp: app_Run_def split: if_splits)
  have "informerAllowed (controllerRules (ma_mtqNs mca) (ma_mtqNs mca)) (sc_secretInformer srv)"
    using controller_cluster_access(2) by (simp add: le certServer_def informerAllowed_def informers informer_parts controllerRules_def)
  moreover have "list_all (\<lambda>v. controllerMay (ma_mtqNs mca) ((v, ''coordination.k8s.io'', le_resourceLock le), le_namespace le))
      [''get'', ''create'', ''update'']"
    using controller_cluster_access(2) by (simp add: le setupLeaderElector_def controllerMay_def controllerRules_def)
  moreover have "\<forall>i. RunInformer i \<in> set (le_onStartedLeading le) \<longrightarrow> informerAllowed (ro_rules createControllerClusterRole) i"
    using controller_may_watch [OF assms(1)] by (simp add: le setupLeaderElector_def)
  ultimately show ?thesis
    by (simp add: controller_call subjectAccounts_def meta_simps cluster_objects namespaced_objects names
      clusterControllerServiceAccountName_def controllerResourceName_def Let_def withPriority_def CreateDeployment_def
      rb_CreateDeployment_def sdk_CreateDeployment_def)
qed

definition demoApp :: controllerApp where
  "demoApp = the (app_Execute None (\<lambda>_. Inr ''mtq'') (Inr ''pod-1'') None)"

lemma demo_app: "app_Execute None (\<lambda>_. Inr ''mtq'') (Inr ''pod-1'') None = Some demoApp"
  by (simp add: demoApp_def app_Execute_def)

lemma demo_run:
  "app_Run True None demoApp = Some (certServer (ma_mtqNs demoApp) (hostPort DefaultHost DefaultPort), setupLeaderElector demoApp)"
  by (simp add: app_Run_def)

theorem controller_permissions_witness:
  "controllerMay (ma_mtqNs demoApp) (accessOf (ma_mtqNs demoApp) FetchBundle) \<and>
   \<not> controllerMay (ma_mtqNs demoApp) (accessOf (ma_mtqNs demoApp) (UpdateVWC (lockingVWC ''ns1'' ''mtq'' [])))"
  using controller_permissions [OF demo_app demo_run, THEN conjunct1] by (simp del: accessOf.simps)

subsection \<open>From the webhook to the server\<close>

text \<open>C17: a request the API server sends to the locking webhook reaches the validator: the webhook's
  service reference names the service the operator creates, the port leads to the port the lock
  server's container opens and its process listens on, the service selects the lock server's
  pods and not the controller's, and the server hands the path to the validator's handler.\<close>

theorem webhook_reaches_server:
  assumes "lockServerMain virtErr readFile readyErr synced = Some (server, srv)"
    and "wh_service (getLockingValidatingWebhook (ms_mtqNS server) locked ca) = Some ref"
    and "hq_path rq = the (svc_path ref)" and "\<not> isPreflight rq"
  shows "om_name (sv_meta createMTQLockService) = svc_name ref \<and>
    list_ex (\<lambda>sp. svc_port ref = Some (sp_port sp) \<and>
        hostPort DefaultHost (nat (sp_targetPort sp)) = sc_addr srv \<and>
        sp_targetPort sp \<in> cp_port ` set (co_ports (lockContainer img verbosity pullPolicy)))
      (sv_ports createMTQLockService) \<and>
    selects (sv_selector createMTQLockService)
      (dp_templateLabels (createMTQLockDeployment img pullPolicy secrets prio verbosity infra)) \<and>
    \<not> selects (sv_selector createMTQLockService)
      (dp_templateLabels (createMTQControllerDeployment img2 verbosity pullPolicy secrets prio infra)) \<and>
    serverHandler cd found (ms_handler server) rq = ServeHTTP cd found (ms_handler server) rq"
proof -
  have server: "server = MTQLockServer (GetNamespace readFile) DefaultHost DefaultPort"
      "srv = certServer (GetNamespace readFile) (startTLS server)"
    using assms(1) by (auto simp: lockServerMain_def Let_def split: if_splits)
  have ref: "ref = \<lparr>svc_ns = ms_mtqNS server, svc_name = MTQLockServerServiceName,
      svc_path = Some ''/validate-pods'', svc_port = Some 443\<rparr>"
    using assms(2) by (simp add: getLockingValidatingWebhook_def)
  have "serverHandler cd found (ms_handler server) rq = ServeHTTP cd found (ms_handler server) rq"
    using assms(3,4) ref by (simp add: serverHandler_def serverMux_def servePath_def healthzPath_def)
  then show ?thesis
    by (simp add: ref server certServer_def startTLS_def MTQLockServer_def createMTQLockService_def rb_CreateService_def
        MTQLockServerServiceName_def DefaultPort_def lockContainer_def createMTQLockPorts_def onlyPort_def selects_def
        createMTQLockDeployment_def createMTQControllerDeployment_def Let_def mtqCommonLabels_def names
        mtqLockResourceName_def controllerResourceName_def)
qed

definition demoServer :: mtqServer where
  "demoServer = MTQLockServer ''mtq'' DefaultHost DefaultPort"

lemma demo_server:
  "lockServerMain None (\<lambda>_. Inr ''mtq'') None True = Some (demoServer, certServer ''mtq'' (startTLS demoServer))"
proof -
  have "GetNamespace (\<lambda>_. Inr ''mtq'') = ''mtq''" by code_simp
  then show ?thesis by (simp add: lockServerMain_def demoServer_def Let_def)
qed

theorem webhook_reaches_server_witness:
  "serverHandler demoCodec (Some ''kubevirt'') (ms_handler demoServer) demoRequest =
     ServeHTTP demoCodec (Some ''kubevirt'') (ms_handler demoServer) demoRequest"
  by (rule webhook_reaches_server [OF demo_server, of "''ns1''" "[]"
    "\<lparr>svc_ns = ''mtq'', svc_name = MTQLockServerServiceName, svc_path = Some ''/validate-pods'', svc_port = Some 443\<rparr>", THEN conjunct2, THEN conjunct2, THEN conjunct2, THEN conjunct2])
    (simp_all add: getLockingValidatingWebhook_def demoRequest_def servePath_def isPreflight_def demoServer_def MTQLockServer_def)

end
