(* ===== verification/ClientTheorems.thy ===== *)
theory ClientTheorems
  imports ClientRoutes FakeClients DeployTheorems
begin

text \<open>
  What the generated clients guarantee: which calls are refused before they are sent
  (\<open>typed_calls_refused\<close>), that the server understands the others as they were meant
  (\<open>typed_calls_understood\<close>), that the fake clients record the same action
  (\<open>fake_clients_agree\<close>), and that what the controller sends is what its roles are checked against
  (\<open>controller_requests_authorized\<close>).
\<close>

subsection \<open>The generated clients\<close>

text \<open>C25: a call of the generated clients is refused before anything is sent exactly when a name in
  it is empty where one is needed or is not a path segment (\<open>.\<close>, \<open>..\<close>, or a text with \<open>/\<close> or \<open>%\<close>),
  when the namespace is not a path segment, or when a namespaced object is created, or one object is
  read, updated or deleted, in the empty namespace; a patch in the empty namespace is sent.\<close>

theorem typed_calls_refused:
  assumes "core_NewForConfig userAgent parseHost httpClientFor config = Inr c" and "parseHost (cfg_host config) = Inr []"
  shows "(\<forall>ns call. (\<exists>e. vmmrqs_send (newVirtualMachineMigrationResourceQuotas c ns) call = Inl e) \<longleftrightarrow>
        \<not> (namesOk v_name call \<and> namespaceOk v_name ns call)) \<and>
    (\<forall>call. (\<exists>e. mTQs_send c call = Inl e) \<longleftrightarrow> \<not> namesOk mtq_name call)"
proof (intro conjI allI)
  fix ns call show "(\<exists>e. vmmrqs_send (newVirtualMachineMigrationResourceQuotas c ns) call = Inl e) \<longleftrightarrow>
      \<not> (namesOk v_name call \<and> namespaceOk v_name ns call)"
    using callRequest_refused [OF core_client [OF assms] resources_plain(1,2), of "Some ns" v_name VmmrqBody call]
    by (simp add: vmmrqs_send_eq)
next
  fix call show "(\<exists>e. mTQs_send c call = Inl e) \<longleftrightarrow> \<not> namesOk mtq_name call"
    using callRequest_refused [OF core_client [OF assms] resources_plain(3,4), of None mtq_name MtqBody call]
    by (simp add: mTQs_send_eq)
qed

text \<open>C24: what the generated clients send, the API server reads back as it was meant: the verb of
  the method, the group and version of the API, the client's namespace (none for the MTQ), the
  resource, the first subresource and the name of the object; a listing gets the name its field
  selector pins, if that is a path segment.\<close>

theorem typed_calls_understood:
  assumes "core_NewForConfig userAgent parseHost httpClientFor config = Inr c" and "parseHost (cfg_host config) = Inr []"
  shows "(\<forall>ns call req. vmmrqs_send (newVirtualMachineMigrationResourceQuotas c ns) call = Inr req \<longrightarrow>
        understood D req = Inr (callTarget ns vmmrqResource (pinnedName D (hr_query req)) v_name call)) \<and>
    (\<forall>call req. mTQs_send c call = Inr req \<longrightarrow>
        understood D req = Inr (callTarget [] mtqResource (pinnedName D (hr_query req)) mtq_name call))"
proof (intro conjI allI impI)
  fix ns call req assume "vmmrqs_send (newVirtualMachineMigrationResourceQuotas c ns) call = Inr req"
  then show "understood D req = Inr (callTarget ns vmmrqResource (pinnedName D (hr_query req)) v_name call)"
    using callRequest_understood [OF core_client [OF assms] resources_plain(1,2), of "Some ns" v_name VmmrqBody call req D]
    by (simp add: vmmrqs_send_eq textOf_def)
next
  fix call req assume "mTQs_send c call = Inr req"
  then show "understood D req = Inr (callTarget [] mtqResource (pinnedName D (hr_query req)) mtq_name call)"
    using callRequest_understood [OF core_client [OF assms] resources_plain(3,4), of None mtq_name MtqBody call req D]
    by (simp add: mTQs_send_eq textOf_def)
qed

definition demoConfig :: "unit restConfig" where
  "demoConfig = \<lparr>cfg_host = ''https://10.0.0.1'', cfg_groupVersion = None, cfg_apiPath = [], cfg_userAgent = [],
     cfg_rateLimiter = None, cfg_qps = 0, cfg_burst = 0\<rparr>"

definition demoEndpoint :: restEndpoint where
  "demoEndpoint = NewRESTClient [] (DefaultVersionedAPIPath ''/apis'' mtqV1alpha1) 0"

lemma demo_client: "core_NewForConfig ''test'' (\<lambda>h. Inr []) (\<lambda>c. Inr 0) demoConfig = Inr demoEndpoint"
  by (simp add: core_NewForConfig_def core_NewForConfigAndClient_def RESTClientForConfigAndClient_def setConfigDefaults_def
      demoConfig_def demoEndpoint_def Let_def)

definition demoVmmrq :: "wire vmmrq" where
  "demoVmmrq = \<lparr>v_name = ''q'', v_ns = ''ns1'', v_rv = ''1'', v_specAdd = None, v_add = None, v_migs = None, v_orig = []\<rparr>"

definition noWriteOptions :: writeOptions where
  "noWriteOptions = \<lparr>wo_dryRun = [], wo_fieldManager = [], wo_fieldValidation = []\<rparr>"

lemma namesOk_demo: "namesOk v_name (UpdateStatusCall demoVmmrq opts)" "namespaceOk v_name ''ns1'' (UpdateStatusCall demoVmmrq opts)"
  by (auto simp: namesOk_def namespaceOk_def demoVmmrq_def valid_iff)

theorem typed_calls_refused_witness:
  "(\<exists>e. vmmrqs_send (newVirtualMachineMigrationResourceQuotas demoEndpoint []) (UpdateStatusCall demoVmmrq noWriteOptions :: (_, unit) typedCall) = Inl e) \<and>
   \<not> (\<exists>e. vmmrqs_send (newVirtualMachineMigrationResourceQuotas demoEndpoint ''ns1'') (UpdateStatusCall demoVmmrq noWriteOptions :: (_, unit) typedCall) = Inl e)"
proof -
  note R = typed_calls_refused [OF demo_client refl, THEN conjunct1, rule_format]
  have "\<not> namespaceOk v_name [] (UpdateStatusCall demoVmmrq noWriteOptions :: (_, unit) typedCall)"
    by (simp add: namespaceOk_def)
  then show ?thesis unfolding R by (simp add: namesOk_demo)
qed

definition demoStatusCall :: "(wire vmmrq, unit) typedCall" where
  "demoStatusCall = UpdateStatusCall demoVmmrq noWriteOptions"

lemma demo_sent:
  "case vmmrqs_send (newVirtualMachineMigrationResourceQuotas demoEndpoint ''ns1'') demoStatusCall of
     Inl e \<Rightarrow> False
   | Inr req \<Rightarrow> hr_method req = ''PUT'' \<and>
       hr_path req = ''/apis/mtq.kubevirt.io/v1alpha1/namespaces/ns1/virtualmachinemigrationresourcequotas/q/status''"
  by code_simp

theorem typed_calls_understood_witness:
  "\<exists>req. vmmrqs_send (newVirtualMachineMigrationResourceQuotas demoEndpoint ''ns1'') demoStatusCall = Inr req \<and>
     understood (\<lambda>q. Inr None) req = Inr \<lparr>at_verb = ''update'', at_group = ''mtq.kubevirt.io'', at_version = ''v1alpha1'',
       at_namespace = ''ns1'', at_resource = ''virtualmachinemigrationresourcequotas'', at_subresource = ''status'', at_name = ''q''\<rparr>"
proof -
  obtain req where req: "vmmrqs_send (newVirtualMachineMigrationResourceQuotas demoEndpoint ''ns1'') demoStatusCall = Inr req"
    using demo_sent by (auto split: sum.splits)
  with typed_calls_understood [OF demo_client refl, of "\<lambda>q. Inr None", THEN conjunct1, rule_format, OF req] show ?thesis
    by (simp add: callTarget_def demoStatusCall_def demoVmmrq_def vmmrqResource_def)
qed


subsection \<open>The fake clients\<close>

text \<open>The action of a fake, in the terms of the server; its verb for a collection is spelled differently.\<close>

definition actionVerb :: "string \<Rightarrow> string" where
  "actionVerb verb = (if verb = ''delete-collection'' then ''deletecollection'' else verb)"

definition actionName :: "('o \<Rightarrow> string) \<Rightarrow> ('o, 'l, 'd) testAction \<Rightarrow> string" where
  "actionName nm a = (case ta_object a of Some x \<Rightarrow> (if ta_verb a = ''update'' then nm x else ta_name a) | None \<Rightarrow> ta_name a)"

definition actionTarget :: "('o \<Rightarrow> string) \<Rightarrow> ('o, 'l, 'd) testAction \<Rightarrow> apiTarget" where
  "actionTarget nm a =
     \<lparr>at_verb = actionVerb (ta_verb a), at_group = gvr_group (ta_resource a), at_version = gvr_version (ta_resource a),
      at_namespace = ta_namespace a, at_resource = gvr_resource (ta_resource a),
      at_subresource = hd (splitOn slash (ta_subresource a)), at_name = actionName nm a\<rparr>"

text \<open>A list call that does not ask for a watch in its options: the fakes ignore that flag.\<close>

fun plainListing :: "('o, 'd) typedCall \<Rightarrow> bool" where
  "plainListing (ListCall opts) \<longleftrightarrow> \<not> lo_watch opts"
| "plainListing _ \<longleftrightarrow> True"

lemma pathJoin_hd:
  assumes "list_all (\<lambda>s. IsValidPathSegmentName s = []) (filter (\<lambda>s. s \<noteq> []) ss)"
  shows "hd (splitOn slash (pathJoin ss)) = (case filter (\<lambda>s. s \<noteq> []) ss of [] \<Rightarrow> [] | s # _ \<Rightarrow> s)"
proof -
  let ?fs = "filter (\<lambda>s. s \<noteq> []) ss"
  have valid: "\<forall>s \<in> set ss. IsValidPathSegmentName s = []" using assms by (auto simp: list_all_iff valid_iff)
  have join: "pathJoin ss = joinWith slash ?fs" by (rule pathJoin_relative [OF valid])
  show ?thesis
  proof (cases ?fs)
    case (Cons f fs)
    have "\<forall>s \<in> set ?fs. slash \<notin> set s" using valid by (auto simp: valid_iff)
    then have "splitOn slash (joinWith slash ?fs) = ?fs"
      using Cons splitOn_joinWith [of ?fs slash] splitOn_parts_id [of ?fs] by simp
    then show ?thesis using join Cons by simp
  qed (simp add: join)
qed

text \<open>The list options of a call, which the fakes parse.\<close>

fun callListOpts :: "('o, 'd) typedCall \<Rightarrow> listOpts option" where
  "callListOpts (ListCall opts) = Some opts"
| "callListOpts (WatchCall opts) = Some opts"
| "callListOpts (DeleteCollectionCall opts listOpts) = Some listOpts"
| "callListOpts _ = None"

definition unparsable :: "(string \<Rightarrow> 'l option) \<Rightarrow> ('o, 'd) typedCall \<Rightarrow> bool" where
  "unparsable parse call \<longleftrightarrow>
     (case callListOpts call of None \<Rightarrow> False
      | Some opts \<Rightarrow> parse (lo_labelSelector opts) = None \<or> parse (lo_fieldSelector opts) = None)"

lemma ExtractFromListOptions_None:
  "ExtractFromListOptions parse opts = None \<longleftrightarrow> parse (lo_labelSelector opts) = None \<or> parse (lo_fieldSelector opts) = None"
  by (auto simp: ExtractFromListOptions_def split: option.split)

text \<open>A fake client makes the action its typed client's request means to the server: same verb
  (up to the spelling of a collection's deletion), group, version, namespace, resource, first
  subresource and name, for every call with valid names that does not hide a watch in the options
  of a list; where a selector in the options does not parse, it panics, and only there.\<close>

theorem fake_clients_agree:
  fixes parse :: "string \<Rightarrow> 'l option" and call :: "('o, 'd) typedCall"
  assumes "namesOk nm call" and "plainListing call"
  shows "(fakeVmmrqs_action parse ns call = None \<longleftrightarrow> unparsable parse call) \<and>
    (fakeMTQs_action parse call = None \<longleftrightarrow> unparsable parse call) \<and>
    (\<forall>a. fakeVmmrqs_action parse ns call = Some a \<longrightarrow> actionTarget nm a = callTarget ns vmmrqResource None nm call) \<and>
    (\<forall>a. fakeMTQs_action parse call = Some a \<longrightarrow> actionTarget nm a = callTarget [] mtqResource None nm call)"
  using assms
  by (cases call) (auto simp: action_constructors actionTarget_def actionVerb_def actionName_def callTarget_def namesOk_def
      unparsable_def ExtractFromListOptions_None virtualmachinemigrationresourcequotasResource_def mtqsResource_def
      vmmrqResource_def mtqResource_def pathJoin_hd)

definition demoSelectors :: "string \<Rightarrow> unit option" where
  "demoSelectors s = (if s = [] then Some () else None)"

theorem fake_clients_agree_witness:
  "\<exists>a. fakeVmmrqs_action demoSelectors ''ns1'' demoStatusCall = Some a \<and>
     actionTarget v_name a = callTarget ''ns1'' vmmrqResource None v_name demoStatusCall"
proof -
  have "namesOk v_name demoStatusCall" "plainListing demoStatusCall" by (simp_all add: demoStatusCall_def namesOk_demo)
  from fake_clients_agree [OF this, of demoSelectors "''ns1''"] show ?thesis by (simp add: demoStatusCall_def)
qed


subsection \<open>What the controller sends\<close>

text \<open>
  The requests of an informer (\<open>NewListWatchFromClient\<close> in \<open>pkg/util/informers.go\<close>), through the same
  builder; the options an informer's reflector adds have no part in the route.
\<close>

definition restRequestParams :: "restRequest \<Rightarrow> urlValues" where
  "restRequestParams r = stringParam ''labelSelector'' (rr_labelSelector r) @ stringParam ''fieldSelector'' (rr_fieldSelector r) @
     boolParam ''watch'' (rr_watch r)"

definition sendListWatch :: "restEndpoint \<Rightarrow> restRequest \<Rightarrow> 'd clientBody httpReq result" where
  "sendListWatch c r =
     (let q = build (rest_Get c) [req_Namespace (rr_namespace r), req_Resource (rr_resource r),
        req_VersionedParams (restRequestParams r)]
      in if rr_watch r then req_Watch q else req_Do q)"

text \<open>The client for an API group: the core group lives under \<open>/api\<close>, the others under \<open>/apis\<close>.\<close>

definition groupClient :: "restClient \<Rightarrow> restEndpoint" where
  "groupClient gv = NewRESTClient [] (DefaultVersionedAPIPath (if rc_group gv = [] then ''/api'' else ''/apis'') gv) 0"

definition authorizedAs :: "apiTarget \<Rightarrow> (string \<times> string \<times> string) \<times> string" where
  "authorizedAs t =
     ((at_verb t, at_group t, if at_subresource t = [] then at_resource t else at_resource t @ slash # at_subresource t), at_namespace t)"

lemma groupClients:
  "servesGroup (groupClient coreV1) coreV1" "servesGroup (groupClient kubevirtV1) kubevirtV1"
  "servesGroup (groupClient mtqV1alpha1) mtqV1alpha1" "servesGroup (groupClient apiextensionsV1) apiextensionsV1"
  by code_simp+

lemma valuesOf_listWatch: "valuesOf ''watch'' (restRequestParams r) = (if rr_watch r then [''true''] else [])"
  by (simp add: restRequestParams_def valuesOf_def stringParam_def boolParam_def boolText_def)

lemma valuesOf_requestQuery: "valuesOf ''watch'' (requestQuery r) = valuesOf ''watch'' (rqst_params r)"
proof -
  have "filter (\<lambda>x. fst x \<noteq> ''timeout'' \<and> fst x = ''watch'') ps = filter (\<lambda>p. fst p = ''watch'') ps" for ps :: urlValues
    by (rule filter_cong) auto
  then show ?thesis by (simp add: requestQuery_def valuesOf_def)
qed

lemma sendListWatch_understood:
  fixes D :: "urlValues \<Rightarrow> string option result"
  assumes "servesGroup c (rr_client r)"
    and "plainResource (rr_resource r) \<or> rr_resource r = ''namespaces'' \<and> rr_namespace r = []"
    and "IsValidPathSegmentName (rr_resource r) = []"
    and "IsValidPathSegmentName (rr_namespace r) = []"
  obtains req :: "'d clientBody httpReq" and t where "sendListWatch c r = Inr req" "understood D req = Inr t"
    "authorizedAs t = ((if rr_watch r then ''watch'' else ''list'', rc_group (rr_client r), rr_resource r), rr_namespace r)"
proof -
  let ?g = "rest_Get c :: 'd clientBody restReq"
  let ?r = "routed ?g (Some (rr_namespace r)) (rr_resource r) None None [req_VersionedParams (restRequestParams r)]"
  have fit: "namesFit (Some (rr_namespace r)) None None" using assms(4) by (simp add: namesFit_def)
  have res: "plainResource (rr_resource r) \<or> rr_resource r = ''namespaces'' \<and> textOf (Some (rr_namespace r)) = [] \<and> None = (None :: string option)"
    using assms(2) by (auto simp: textOf_def)
  note S = routed_sent [OF fresh_NewRequest(1) prefix_NewRequest(1) assms(1) _ res assms(3) _ fit,
    of "[req_VersionedParams (restRequestParams r)] :: ('d clientBody restReq \<Rightarrow> _) list"]
  have err: "rqst_err ?r = None" and pre: "requestPreflightCheck ?r = None"
    using S(1,2) by (simp_all add: harmless_steps preflightFits_def)
  then have sent: "sendListWatch c r = Inr (newHTTPRequest ?r)"
    by (simp add: sendListWatch_def routed_def Let_def req_Do_def req_Watch_def)
  have plain: "routed ?g (Some (rr_namespace r)) (rr_resource r) None None [] = req_Resource (rr_resource r) (req_Namespace (rr_namespace r) ?g)"
    by (simp add: routed_def)
  have "rqst_err (routed ?g (Some (rr_namespace r)) (rr_resource r) None None []) = None"
    by (rule routed_sent(1) [OF fresh_NewRequest(1) prefix_NewRequest(1) assms(1) _ res assms(3) _ fit]) simp_all
  then have "rqst_params ?r = restRequestParams r"
    using params_routed [of ?g "Some (rr_namespace r)" "rr_resource r" None None]
    by (subst routed_others) (simp add: onRequest_def req_VersionedParams_def)
  then have "valuesOf ''watch'' (requestQuery ?r) = (if rr_watch r then [''true''] else [])"
    using valuesOf_listWatch [of r] by (simp add: valuesOf_requestQuery)
  then have v: "verbAndName D ''GET'' (requestQuery ?r) (textOf None) =
      (if rr_watch r then ''watch'' else ''list'', snd (verbAndName D ''GET'' (requestQuery ?r) (textOf None)))"
    by (auto simp: verbAndName_def methodVerb_def textOf_def dest: listOptionsOf_watch [where D = D] split: prod.split)
  have "understood D (newHTTPRequest ?r) = Inr
      \<lparr>at_verb = (if rr_watch r then ''watch'' else ''list''), at_group = rc_group (rr_client r),
       at_version = rc_version (rr_client r), at_namespace = rr_namespace r, at_resource = rr_resource r, at_subresource = [],
       at_name = snd (verbAndName D ''GET'' (requestQuery ?r) (textOf None))\<rparr>"
    using S(3) [of D] v by (simp add: harmless_steps Let_def textOf_def firstOf_def prod_eq_iff)
  from that [OF sent this] show thesis by (simp add: authorizedAs_def)
qed

text \<open>The informers of the controller: their requests are routed, and their rules were checked before.\<close>

lemma started_informers:
  assumes "app_Execute virtErr readFile hostname mtqErr = Some mca" and "RunInformer i \<in> set (onStartedLeading mca)"
  shows "i \<in> {GetMigrationInformer, GetVMIInformer, KubeVirtInformer, CRDInformer, GetPersistentVolumeClaimInformer,
      GetLauncherPodInformer, GetlimitRangeInformer, GetVirtualMachineMigrationResourceQuotaInformer,
      GetResourceQuotaInformer, GetNamespaceInformer}"
  using assms by (auto simp: app_Execute_def onStartedLeading_def split: if_splits sum.splits)

lemma informer_request:
  assumes i: "i \<in> {GetMigrationInformer, GetVMIInformer, KubeVirtInformer, CRDInformer, GetPersistentVolumeClaimInformer,
      GetLauncherPodInformer, GetlimitRangeInformer, GetVirtualMachineMigrationResourceQuotaInformer,
      GetResourceQuotaInformer, GetNamespaceInformer}"
    and r: "r = lw_list (if_listWatch i) opts \<or> r = lw_watch (if_listWatch i) opts"
  shows "rr_namespace r = []" and "rr_client r \<in> {coreV1, kubevirtV1, mtqV1alpha1, apiextensionsV1}"
    and "rr_resource r = ''namespaces'' \<or> rr_resource r \<in> {''virtualmachineinstancemigrations'', ''virtualmachineinstances'',
      ''kubevirts'', ''customresourcedefinitions'', ''persistentvolumeclaims'', ''pods'', ''limitranges'',
      ''virtualmachinemigrationresourcequotas'', ''resourcequotas''}"
    and "(rr_client r, rr_resource r) = (let r0 = lw_list (if_listWatch i) \<lparr>lo_fieldSelector = [], lo_labelSelector = [], lo_watch = False\<rparr>
      in (rr_client r0, rr_resource r0))"
  using assms by (auto simp: informers NewSharedIndexInformer_def NewListWatchFromClient_def cache_NewListWatchFromClient_def
      requestOf_def NamespaceAll_def)

lemma informer_resources_plain:
  "list_all (\<lambda>s. plainResource s \<and> IsValidPathSegmentName s = [])
     [''virtualmachineinstancemigrations'', ''virtualmachineinstances'', ''kubevirts'', ''customresourcedefinitions'',
      ''persistentvolumeclaims'', ''pods'', ''limitranges'', ''virtualmachinemigrationresourcequotas'', ''resourcequotas'']"
  "IsValidPathSegmentName ''namespaces'' = []" "IsValidPathSegmentName [] = []"
  by code_simp+

definition serverAccess :: "(urlValues \<Rightarrow> string option result) \<Rightarrow> 'b httpReq \<Rightarrow> ((string \<times> string \<times> string) \<times> string) option" where
  "serverAccess D req = (case understood D req of Inl err \<Rightarrow> None | Inr t \<Rightarrow> Some (authorizedAs t))"

lemma informer_access:
  assumes "app_Execute virtErr readFile hostname mtqErr = Some mca" and "RunInformer i \<in> set (onStartedLeading mca)"
    and "r = lw_list (if_listWatch i) opts \<or> r = lw_watch (if_listWatch i) opts"
  shows "\<exists>(req :: 'd clientBody httpReq) verb group res. sendListWatch (groupClient (rr_client r)) r = Inr req \<and>
     serverAccess D req = Some ((verb, group, res), []) \<and> verb = (if rr_watch r then ''watch'' else ''list'') \<and>
     rulesAllow (ro_rules createControllerClusterRole) verb group res"
proof -
  note R = informer_request [OF started_informers [OF assms(1,2)] assms(3)]
  have "servesGroup (groupClient (rr_client r)) (rr_client r)" using R(2) groupClients by auto
  moreover have "plainResource (rr_resource r) \<or> rr_resource r = ''namespaces'' \<and> rr_namespace r = []"
    "IsValidPathSegmentName (rr_resource r) = []" "IsValidPathSegmentName (rr_namespace r) = []"
    using R(1,3) informer_resources_plain by auto
  ultimately obtain req :: "'d clientBody httpReq" and t where req: "sendListWatch (groupClient (rr_client r)) r = Inr req"
    "understood D req = Inr t"
    "authorizedAs t = ((if rr_watch r then ''watch'' else ''list'', rc_group (rr_client r), rr_resource r), rr_namespace r)"
    by (rule sendListWatch_understood)
  have "informerAllowed (ro_rules createControllerClusterRole) i" by (rule controller_may_watch [OF assms(1,2)])
  then have "rulesAllow (ro_rules createControllerClusterRole) (if rr_watch r then ''watch'' else ''list'') (rc_group (rr_client r)) (rr_resource r)"
    using R(4) by (auto simp: informerAllowed_def Let_def)
  with req R(1) show ?thesis by (auto simp: serverAccess_def)
qed

lemma call_access:
  assumes "servesGroup c mtqV1alpha1" and "vmmrqs_send (newVirtualMachineMigrationResourceQuotas c ns) call = Inr req"
  shows "serverAccess D req = Some (authorizedAs (callTarget ns vmmrqResource (pinnedName D (hr_query req)) v_name call))"
  using callRequest_understood [OF assms(1) resources_plain(1,2), of "Some ns" v_name VmmrqBody call req D] assms(2)
  by (simp add: vmmrqs_send_eq serverAccess_def textOf_def)

text \<open>C23: the requests of the controller are what its permissions were checked for. The list and the
  status update of the VMMRQ, as the API server reads them from path, method and query, are the
  accesses the model of a pass stands for, and the controller's roles allow them; and the list and
  watch requests of every informer it starts are read as a list or watch its cluster role allows.\<close>

theorem controller_requests_authorized:
  fixes D :: "urlValues \<Rightarrow> string option result"
  assumes "app_Execute virtErr readFile hostname mtqErr = Some mca"
    and "core_NewForConfig userAgent parseHost httpClientFor config = Inr c" and "parseHost (cfg_host config) = Inr []"
  shows "(\<forall>ns opts (req :: 'd clientBody httpReq).
        vmmrqs_List (newVirtualMachineMigrationResourceQuotas c ns) opts = Inr req \<and> \<not> lo_watch opts \<longrightarrow>
        serverAccess D req = Some (accessOf (ma_mtqNs mca) (ListVmmrqs ns)) \<and>
        controllerMay (ma_mtqNs mca) (the (serverAccess D req))) \<and>
    (\<forall>v opts (req :: 'd clientBody httpReq).
        vmmrqs_UpdateStatus (newVirtualMachineMigrationResourceQuotas c (v_ns v)) v opts = Inr req \<longrightarrow>
        serverAccess D req = Some (accessOf (ma_mtqNs mca) (UpdateVmmrqStatus v)) \<and>
        controllerMay (ma_mtqNs mca) (the (serverAccess D req))) \<and>
    (\<forall>i opts r. RunInformer i \<in> set (onStartedLeading mca) \<and> (r = lw_list (if_listWatch i) opts \<or> r = lw_watch (if_listWatch i) opts) \<longrightarrow>
        (\<exists>(req :: 'd clientBody httpReq) verb group res. sendListWatch (groupClient (rr_client r)) r = Inr req \<and>
           serverAccess D req = Some ((verb, group, res), []) \<and> verb = (if rr_watch r then ''watch'' else ''list'') \<and>
           rulesAllow (ro_rules createControllerClusterRole) verb group res))"
proof (intro conjI allI impI; (elim conjE)?)
  fix ns opts and req :: "'d clientBody httpReq"
  assume "vmmrqs_List (newVirtualMachineMigrationResourceQuotas c ns) opts = Inr req" "\<not> lo_watch opts"
  then show "serverAccess D req = Some (accessOf (ma_mtqNs mca) (ListVmmrqs ns))"
    and "controllerMay (ma_mtqNs mca) (the (serverAccess D req))"
    using call_access [OF core_client [OF assms(2,3)], of ns "ListCall opts" req D] controller_call [of "ma_mtqNs mca" "ListVmmrqs ns"]
    by (simp_all add: callTarget_def authorizedAs_def vmmrqResource_def)
next
  fix v opts and req :: "'d clientBody httpReq"
  assume "vmmrqs_UpdateStatus (newVirtualMachineMigrationResourceQuotas c (v_ns v)) v opts = Inr req"
  then show "serverAccess D req = Some (accessOf (ma_mtqNs mca) (UpdateVmmrqStatus v))"
    and "controllerMay (ma_mtqNs mca) (the (serverAccess D req))"
    using call_access [OF core_client [OF assms(2,3)], of "v_ns v" "UpdateStatusCall v opts" req D]
      controller_call [of "ma_mtqNs mca" "UpdateVmmrqStatus v"]
    by (simp_all add: callTarget_def authorizedAs_def vmmrqResource_def)
next
  fix i opts r
  assume "RunInformer i \<in> set (onStartedLeading mca)" "r = lw_list (if_listWatch i) opts \<or> r = lw_watch (if_listWatch i) opts"
  then show "\<exists>(req :: 'd clientBody httpReq) verb group res. sendListWatch (groupClient (rr_client r)) r = Inr req \<and>
           serverAccess D req = Some ((verb, group, res), []) \<and> verb = (if rr_watch r then ''watch'' else ''list'') \<and>
           rulesAllow (ro_rules createControllerClusterRole) verb group res"
    by (rule informer_access [OF assms(1)])
qed

theorem controller_requests_authorized_witness:
  "\<exists>req :: unit clientBody httpReq.
     vmmrqs_UpdateStatus (newVirtualMachineMigrationResourceQuotas demoEndpoint (v_ns demoVmmrq)) demoVmmrq noWriteOptions = Inr req \<and>
     serverAccess (\<lambda>q. Inr None) req =
       Some ((''update'', ''mtq.kubevirt.io'', ''virtualmachinemigrationresourcequotas/status''), ''ns1'')"
proof -
  obtain req :: "unit clientBody httpReq" where req:
    "vmmrqs_UpdateStatus (newVirtualMachineMigrationResourceQuotas demoEndpoint (v_ns demoVmmrq)) demoVmmrq noWriteOptions = Inr req"
    using demo_sent by (auto simp: demoStatusCall_def demoVmmrq_def split: sum.splits)
  with controller_requests_authorized [OF demo_app demo_client refl, of "\<lambda>q. Inr None", THEN conjunct2, THEN conjunct1, rule_format, OF req]
  show ?thesis by (simp add: demoVmmrq_def)
qed

end
