(* ===== verification/InformerFactory.thy ===== *)
theory InformerFactory
  imports ClientTheorems
begin

text \<open>
  The shared informer factory (\<open>pkg/generated/informers/externalversions\<close>): its construction from
  options, the informers it makes on demand, and its life: \<open>Start\<close> runs every informer that does not
  run yet in a goroutine, \<open>Shutdown\<close> forbids new ones and waits for the old. The life is a step
  relation, as \<open>Start\<close>, \<open>Shutdown\<close> and the goroutines run concurrently; what holds the mutex is
  one step.
\<close>

subsection \<open>Informers\<close>

text \<open>
  The object types that have an informer stand for \<open>reflect.Type\<close>. An informer is known by what it
  asks the server, its resync period and its indices; \<open>tweak\<close> is the function that changes the
  options of a listing, if there is one.
\<close>

datatype objType = MTQType | VMMRQType

type_synonym tweakFunc = "listOpts \<Rightarrow> listOpts"

record 'd sharedInformer =
  si_list :: "listOpts \<Rightarrow> 'd clientBody httpReq result"
  si_watch :: "listOpts \<Rightarrow> 'd clientBody httpReq result"
  si_type :: objType
  si_resync :: "64 word"
  si_indexers :: "string list"
  si_transform :: "string option"

definition NamespaceIndex :: string where "NamespaceIndex = ''namespace''"

definition applyTweak :: "tweakFunc option \<Rightarrow> listOpts \<Rightarrow> listOpts" where
  "applyTweak tweak options = (case tweak of None \<Rightarrow> options | Some f \<Rightarrow> f options)"

definition NewFilteredVirtualMachineMigrationResourceQuotaInformer ::
  "restEndpoint \<Rightarrow> string \<Rightarrow> 64 word \<Rightarrow> string list \<Rightarrow> tweakFunc option \<Rightarrow> 'd sharedInformer" where
  "NewFilteredVirtualMachineMigrationResourceQuotaInformer client namespace resyncPeriod indexers tweak =
     \<lparr>si_list = (\<lambda>options. vmmrqs_List (newVirtualMachineMigrationResourceQuotas client namespace) (applyTweak tweak options)),
      si_watch = (\<lambda>options. vmmrqs_Watch (newVirtualMachineMigrationResourceQuotas client namespace) (applyTweak tweak options)),
      si_type = VMMRQType, si_resync = resyncPeriod, si_indexers = indexers, si_transform = None\<rparr>"

definition NewVirtualMachineMigrationResourceQuotaInformer ::
  "restEndpoint \<Rightarrow> string \<Rightarrow> 64 word \<Rightarrow> string list \<Rightarrow> 'd sharedInformer" where
  "NewVirtualMachineMigrationResourceQuotaInformer client namespace resyncPeriod indexers =
     NewFilteredVirtualMachineMigrationResourceQuotaInformer client namespace resyncPeriod indexers None"

definition NewFilteredMTQInformer :: "restEndpoint \<Rightarrow> 64 word \<Rightarrow> string list \<Rightarrow> tweakFunc option \<Rightarrow> 'd sharedInformer" where
  "NewFilteredMTQInformer client resyncPeriod indexers tweak =
     \<lparr>si_list = (\<lambda>options. mTQs_List client (applyTweak tweak options)),
      si_watch = (\<lambda>options. mTQs_Watch client (applyTweak tweak options)),
      si_type = MTQType, si_resync = resyncPeriod, si_indexers = indexers, si_transform = None\<rparr>"

definition NewMTQInformer :: "restEndpoint \<Rightarrow> 64 word \<Rightarrow> string list \<Rightarrow> 'd sharedInformer" where
  "NewMTQInformer client resyncPeriod indexers = NewFilteredMTQInformer client resyncPeriod indexers None"

subsection \<open>The factory\<close>

text \<open>
  \<open>started\<close> is the map \<open>startedInformers\<close>, which only ever holds true. The wait group is a counter.
  A transform is named by a text.
\<close>

record 'd informerFactory =
  sf_client :: restEndpoint
  sf_namespace :: string
  sf_tweakListOptions :: "tweakFunc option"
  sf_defaultResync :: "64 word"
  sf_customResync :: "(objType \<times> 64 word) list"
  sf_transformFunc :: "string option"
  sf_informers :: "(objType \<times> 'd sharedInformer) list"
  sf_startedInformers :: "objType list"
  sf_wg :: nat
  sf_shuttingDown :: bool

type_synonym 'd informerOption = "'d informerFactory \<Rightarrow> 'd informerFactory"

definition WithCustomResyncConfig :: "(objType \<times> 64 word) list \<Rightarrow> 'd informerOption" where
  "WithCustomResyncConfig resyncConfig factory =
     fold (\<lambda>(k, v) f. f\<lparr>sf_customResync := AList.update k v (sf_customResync f)\<rparr>) resyncConfig factory"

definition WithTweakListOptions :: "tweakFunc option \<Rightarrow> 'd informerOption" where
  "WithTweakListOptions tweak factory = factory\<lparr>sf_tweakListOptions := tweak\<rparr>"

definition WithNamespace :: "string \<Rightarrow> 'd informerOption" where
  "WithNamespace namespace factory = factory\<lparr>sf_namespace := namespace\<rparr>"

definition WithTransform :: "string option \<Rightarrow> 'd informerOption" where
  "WithTransform transform factory = factory\<lparr>sf_transformFunc := transform\<rparr>"

definition NewSharedInformerFactoryWithOptions ::
  "restEndpoint \<Rightarrow> 64 word \<Rightarrow> 'd informerOption list \<Rightarrow> 'd informerFactory" where
  "NewSharedInformerFactoryWithOptions client defaultResync options =
     fold (\<lambda>opt factory. opt factory) options
       \<lparr>sf_client = client, sf_namespace = NamespaceAll, sf_tweakListOptions = None, sf_defaultResync = defaultResync,
        sf_customResync = [], sf_transformFunc = None, sf_informers = [], sf_startedInformers = [], sf_wg = 0,
        sf_shuttingDown = False\<rparr>"

definition NewSharedInformerFactory :: "restEndpoint \<Rightarrow> 64 word \<Rightarrow> 'd informerFactory" where
  "NewSharedInformerFactory client defaultResync = NewSharedInformerFactoryWithOptions client defaultResync []"

definition NewFilteredSharedInformerFactory ::
  "restEndpoint \<Rightarrow> 64 word \<Rightarrow> string \<Rightarrow> tweakFunc option \<Rightarrow> 'd informerFactory" where
  "NewFilteredSharedInformerFactory client defaultResync namespace tweak =
     NewSharedInformerFactoryWithOptions client defaultResync [WithNamespace namespace, WithTweakListOptions tweak]"

definition InformerFor ::
  "objType \<Rightarrow> (restEndpoint \<Rightarrow> 64 word \<Rightarrow> 'd sharedInformer) \<Rightarrow> 'd informerFactory \<Rightarrow> 'd sharedInformer \<times> 'd informerFactory" where
  "InformerFor informerType newFunc f =
     (case map_of (sf_informers f) informerType of
        Some informer \<Rightarrow> (informer, f)
      | None \<Rightarrow>
          let resyncPeriod = (case map_of (sf_customResync f) informerType of
                Some d \<Rightarrow> d
              | None \<Rightarrow> sf_defaultResync f);
              informer = (newFunc (sf_client f) resyncPeriod)\<lparr>si_transform := sf_transformFunc f\<rparr>
          in (informer, f\<lparr>sf_informers := sf_informers f @ [(informerType, informer)]\<rparr>))"

text \<open>\<open>f.Mtq().V1alpha1()\<close> carries the factory's namespace and tweak into the two accessors.\<close>

definition vmmrq_Informer :: "'d informerFactory \<Rightarrow> 'd sharedInformer \<times> 'd informerFactory" where
  "vmmrq_Informer f = InformerFor VMMRQType
     (\<lambda>client resyncPeriod. NewFilteredVirtualMachineMigrationResourceQuotaInformer client (sf_namespace f) resyncPeriod
        [NamespaceIndex] (sf_tweakListOptions f)) f"

definition mtq_Informer :: "'d informerFactory \<Rightarrow> 'd sharedInformer \<times> 'd informerFactory" where
  "mtq_Informer f = InformerFor MTQType
     (\<lambda>client resyncPeriod. NewFilteredMTQInformer client resyncPeriod [NamespaceIndex] (sf_tweakListOptions f)) f"

definition ForResource :: "gvResource \<Rightarrow> 'd informerFactory \<Rightarrow> ('d sharedInformer \<times> string \<times> string) result \<times> 'd informerFactory" where
  "ForResource resource f =
     (if resource = mtqsResource then
        (case mtq_Informer f of (i, f') \<Rightarrow> (Inr (i, gvr_group resource, gvr_resource resource), f'))
      else if resource = virtualmachinemigrationresourcequotasResource then
        (case vmmrq_Informer f of (i, f') \<Rightarrow> (Inr (i, gvr_group resource, gvr_resource resource), f'))
      else (Inl (GoErr (''no informer found for '' @ gvr_group resource @ ''/'' @ gvr_version resource @ '', Resource='' @ gvr_resource resource)), f))"

text \<open>The goroutines \<open>Start\<close> makes: which informer, and the channel that stops it.\<close>

fun startLoop :: "nat \<Rightarrow> (objType \<times> 'd sharedInformer) list \<Rightarrow> 'd informerFactory \<Rightarrow> (objType \<times> nat) list \<times> 'd informerFactory" where
  "startLoop stopCh [] f = ([], f)"
| "startLoop stopCh ((informerType, informer) # rest) f =
     (if informerType \<notin> set (sf_startedInformers f)
      then (case startLoop stopCh rest
              (f\<lparr>sf_wg := sf_wg f + 1, sf_startedInformers := sf_startedInformers f @ [informerType]\<rparr>) of
              (gs, f') \<Rightarrow> ((informerType, stopCh) # gs, f'))
      else startLoop stopCh rest f)"

definition Start :: "nat \<Rightarrow> 'd informerFactory \<Rightarrow> (objType \<times> nat) list \<times> 'd informerFactory" where
  "Start stopCh f = (if sf_shuttingDown f then ([], f) else startLoop stopCh (sf_informers f) f)"

text \<open>The first half of \<open>Shutdown\<close>; the second waits until \<open>wg\<close> is zero.\<close>

definition markShutdown :: "'d informerFactory \<Rightarrow> 'd informerFactory" where
  "markShutdown f = f\<lparr>sf_shuttingDown := True\<rparr>"

text \<open>\<open>synced\<close> says whether the informer's cache came up before the stop channel was closed.\<close>

definition WaitForCacheSync :: "(objType \<Rightarrow> bool) \<Rightarrow> 'd informerFactory \<Rightarrow> (objType \<times> bool) list" where
  "WaitForCacheSync synced f =
     map (\<lambda>(t, informer). (t, synced t)) (filter (\<lambda>(t, informer). t \<in> set (sf_startedInformers f)) (sf_informers f))"

subsection \<open>The life of a factory\<close>

text \<open>
  The factory, the goroutines that still run, the informers \<open>Run\<close> was called on so far, the closed
  channels, and the calls of \<open>Shutdown\<close> that wait or have returned. An informer's \<open>Run\<close> returns only
  after its channel was closed.
\<close>

record 'd factoryRun =
  fr_factory :: "'d informerFactory"
  fr_running :: "(objType \<times> nat) list"
  fr_runs :: "objType list"
  fr_closed :: "nat list"
  fr_waiting :: nat
  fr_returned :: nat

inductive factoryStep :: "'d factoryRun \<Rightarrow> 'd factoryRun \<Rightarrow> bool" where
  resource: "ForResource resource (fr_factory s) = (r, f) \<Longrightarrow> factoryStep s (s\<lparr>fr_factory := f\<rparr>)"
| start: "Start stopCh (fr_factory s) = (gs, f) \<Longrightarrow>
     factoryStep s (s\<lparr>fr_factory := f, fr_running := fr_running s @ gs, fr_runs := fr_runs s @ map fst gs\<rparr>)"
| close: "factoryStep s (s\<lparr>fr_closed := stopCh # fr_closed s\<rparr>)"
| finish: "(t, stopCh) \<in> set (fr_running s) \<Longrightarrow> stopCh \<in> set (fr_closed s) \<Longrightarrow>
     factoryStep s (s\<lparr>fr_running := remove1 (t, stopCh) (fr_running s),
       fr_factory := (fr_factory s)\<lparr>sf_wg := sf_wg (fr_factory s) - 1\<rparr>\<rparr>)"
| shutdown: "factoryStep s (s\<lparr>fr_factory := markShutdown (fr_factory s), fr_waiting := fr_waiting s + 1\<rparr>)"
| returned: "fr_waiting s > 0 \<Longrightarrow> sf_wg (fr_factory s) = 0 \<Longrightarrow>
     factoryStep s (s\<lparr>fr_waiting := fr_waiting s - 1, fr_returned := fr_returned s + 1\<rparr>)"

inductive_cases factoryStepE: "factoryStep s t"

definition factoryInit :: "'d informerFactory \<Rightarrow> 'd factoryRun \<Rightarrow> bool" where
  "factoryInit f0 s \<longleftrightarrow> sf_informers f0 = [] \<and> sf_startedInformers f0 = [] \<and> sf_wg f0 = 0 \<and> \<not> sf_shuttingDown f0 \<and>
     s = \<lparr>fr_factory = f0, fr_running = [], fr_runs = [], fr_closed = [], fr_waiting = 0, fr_returned = 0\<rparr>"

text \<open>The informer a factory makes for a type; its settings never change.\<close>

definition informerOf :: "'d informerFactory \<Rightarrow> objType \<Rightarrow> 'd sharedInformer" where
  "informerOf f t =
     (let resyncPeriod = (case map_of (sf_customResync f) t of Some d \<Rightarrow> d | None \<Rightarrow> sf_defaultResync f)
      in (case t of
            MTQType \<Rightarrow> NewFilteredMTQInformer (sf_client f) resyncPeriod [NamespaceIndex] (sf_tweakListOptions f)
          | VMMRQType \<Rightarrow> NewFilteredVirtualMachineMigrationResourceQuotaInformer (sf_client f) (sf_namespace f) resyncPeriod
              [NamespaceIndex] (sf_tweakListOptions f))\<lparr>si_transform := sf_transformFunc f\<rparr>)"

definition sameSettings :: "'d informerFactory \<Rightarrow> 'd informerFactory \<Rightarrow> bool" where
  "sameSettings f g \<longleftrightarrow> sf_client f = sf_client g \<and> sf_namespace f = sf_namespace g \<and>
     sf_tweakListOptions f = sf_tweakListOptions g \<and> sf_defaultResync f = sf_defaultResync g \<and>
     sf_customResync f = sf_customResync g \<and> sf_transformFunc f = sf_transformFunc g"

definition factoryInv :: "'d informerFactory \<Rightarrow> 'd factoryRun \<Rightarrow> bool" where
  "factoryInv f0 s \<longleftrightarrow>
     (let f = fr_factory s in
       sameSettings f f0 \<and> distinct (map fst (sf_informers f)) \<and> (\<forall>(t, i) \<in> set (sf_informers f). i = informerOf f0 t) \<and>
       sf_wg f = length (fr_running s) \<and> distinct (fr_runs s) \<and> set (fr_runs s) = set (sf_startedInformers f) \<and>
       set (sf_startedInformers f) \<subseteq> fst ` set (sf_informers f) \<and>
       distinct (map fst (fr_running s)) \<and> fst ` set (fr_running s) \<subseteq> set (fr_runs s) \<and>
       (fr_waiting s > 0 \<or> fr_returned s > 0 \<longrightarrow> sf_shuttingDown f) \<and> (fr_returned s > 0 \<longrightarrow> fr_running s = []))"

lemma informerOf_same: "sameSettings f g \<Longrightarrow> informerOf f t = informerOf g t"
  by (auto simp: informerOf_def sameSettings_def Let_def split: objType.split option.split)

lemma ForResource_factory:
  assumes "ForResource res f = (r, f')"
  shows "f' = f \<or> (\<exists>t. map_of (sf_informers f) t = None \<and> f' = f\<lparr>sf_informers := sf_informers f @ [(t, informerOf f t)]\<rparr>)"
  using assms
  by (auto simp: ForResource_def mtq_Informer_def vmmrq_Informer_def InformerFor_def informerOf_def Let_def
      split: if_splits option.splits prod.splits)

lemma startLoop_props:
  assumes "startLoop ch infs f = (gs, f')" and "distinct (map fst infs)"
  shows "sf_informers f' = sf_informers f \<and> sameSettings f' f \<and> sf_shuttingDown f' = sf_shuttingDown f \<and>
     sf_wg f' = sf_wg f + length gs \<and> sf_startedInformers f' = sf_startedInformers f @ map fst gs \<and>
     distinct (map fst gs) \<and> set (map fst gs) = fst ` set infs - set (sf_startedInformers f)"
  using assms
proof (induction ch infs f arbitrary: gs rule: startLoop.induct)
  case (2 ch t i rest f)
  show ?case
  proof (cases "t \<in> set (sf_startedInformers f)")
    case True
    then show ?thesis using 2 by auto
  next
    case False
    let ?f = "f\<lparr>sf_wg := sf_wg f + 1, sf_startedInformers := sf_startedInformers f @ [t]\<rparr>"
    obtain hs where hs: "startLoop ch rest ?f = (hs, f')" "gs = (t, ch) # hs"
      using 2(3) False by (auto split: prod.splits)
    have "distinct (map fst rest)" using 2(4) by simp
    note IH = 2(1) [OF False hs(1) this]
    then show ?thesis using hs(2) 2(4) False by (auto simp: sameSettings_def)
  qed
qed (simp add: sameSettings_def)

lemma Start_props:
  assumes "Start ch f = (gs, f')" and "distinct (map fst (sf_informers f))"
  shows "sf_informers f' = sf_informers f \<and> sameSettings f' f \<and> sf_shuttingDown f' = sf_shuttingDown f \<and>
     sf_wg f' = sf_wg f + length gs \<and> sf_startedInformers f' = sf_startedInformers f @ map fst gs \<and>
     distinct (map fst gs) \<and> set (map fst gs) \<subseteq> fst ` set (sf_informers f) - set (sf_startedInformers f) \<and>
     (sf_shuttingDown f \<longrightarrow> gs = [])"
  using assms startLoop_props [of ch "sf_informers f" f gs f'] by (auto simp: Start_def sameSettings_def split: if_splits)

lemma distinct_map_remove1: "distinct (map f xs) \<Longrightarrow> distinct (map f (remove1 x xs))"
  by (induction xs) (auto dest: notin_set_remove1 [THEN contrapos_nn] simp: image_iff)

lemma conj_running:
  assumes "distinct (map fst xs)" and "fst ` set xs \<subseteq> set rs" and "distinct (map fst gs)" and "set (map fst gs) \<inter> set rs = {}"
  shows "distinct (map fst (xs @ gs))" and "fst ` set (xs @ gs) \<subseteq> set (rs @ map fst gs)"
proof -
  have "set (map fst xs) \<inter> set (map fst gs) = {}" using assms(2,4) by fastforce
  then show "distinct (map fst (xs @ gs))" using assms(1,3) by (simp del: set_map)
  show "fst ` set (xs @ gs) \<subseteq> set (rs @ map fst gs)" using assms(2) by (simp add: image_Un) blast
qed

lemma factoryInv_step:
  assumes "factoryStep s t" and "factoryInv f0 s"
  shows "factoryInv f0 t"
  using assms(1)
proof cases
  case (resource res r f)
  then show ?thesis
    using assms(2) ForResource_factory [OF resource(2)] informerOf_same [of "fr_factory s" f0]
    by (auto simp: factoryInv_def Let_def sameSettings_def map_of_eq_None_iff)
next
  case (start stopCh gs f)
  have "distinct (map fst (sf_informers (fr_factory s)))" using assms(2) by (simp add: factoryInv_def Let_def)
  note P = Start_props [OF start(2) this] and I = assms(2) [unfolded factoryInv_def Let_def]
  have disjoint: "set (map fst gs) \<inter> set (fr_runs s) = {}" using P I by blast
  have set1: "sameSettings f f0" using P I by (simp add: sameSettings_def)
  have runs: "distinct (fr_runs s @ map fst gs)" using I P disjoint by (simp add: Int_commute)
  have started: "set (fr_runs s @ map fst gs) = set (sf_startedInformers f)" "set (sf_startedInformers f) \<subseteq> fst ` set (sf_informers f)"
    using I P by auto
  have i1: "distinct (map fst (fr_running s))" using I by (elim conjE)
  have i2: "fst ` set (fr_running s) \<subseteq> set (fr_runs s)" using I by (elim conjE)
  have i3: "distinct (map fst gs)" using P by (elim conjE)
  have running: "distinct (map fst (fr_running s @ gs))" "fst ` set (fr_running s @ gs) \<subseteq> set (fr_runs s @ map fst gs)"
    by (rule conj_running [OF i1 i2 i3 disjoint])+
  have down: "fr_waiting s > 0 \<or> fr_returned s > 0 \<longrightarrow> sf_shuttingDown f" "fr_returned s > 0 \<longrightarrow> fr_running s @ gs = []"
    using I P by auto
  show ?thesis
    unfolding start(1) factoryInv_def Let_def using set1 runs started running down I P by simp
next
  case (finish ty stopCh)
  let ?l = "remove1 (ty, stopCh) (fr_running s)"
  note I = assms(2) [unfolded factoryInv_def Let_def]
  have len: "sf_wg (fr_factory s) - 1 = length ?l" using I finish by (simp add: length_remove1)
  have d: "distinct (map fst ?l)" using I by (simp add: distinct_map_remove1)
  have sub: "fst ` set ?l \<subseteq> set (fr_runs s)" using I set_remove1_subset [of "(ty, stopCh)" "fr_running s"] by blast
  have "fr_running s \<noteq> []" using finish by auto
  then have "fr_returned s = 0" using I by blast
  then show ?thesis using I len d sub unfolding factoryInv_def Let_def finish(1) by (simp add: sameSettings_def)
next
  case returned
  then show ?thesis using assms(2) by (auto simp: factoryInv_def Let_def)
qed (use assms(2) in \<open>auto simp: factoryInv_def Let_def sameSettings_def markShutdown_def\<close>)

interpretation factory: step_invariant "factoryInit f0" factoryStep "factoryInv f0" for f0
proof unfold_locales
  show "factoryInit f0 s \<Longrightarrow> factoryInv f0 s" for s
    by (auto simp: factoryInit_def factoryInv_def sameSettings_def)
  show "factoryStep s t \<Longrightarrow> factoryInv f0 s \<Longrightarrow> factoryInv f0 t" for s t by (rule factoryInv_step)
qed

lemma factoryInvD:
  assumes "factoryInv f0 s"
  shows "sameSettings (fr_factory s) f0" "(t, i) \<in> set (sf_informers (fr_factory s)) \<Longrightarrow> i = informerOf f0 t"
    "sf_wg (fr_factory s) = length (fr_running s)" "distinct (fr_runs s)" "distinct (map fst (fr_running s))"
    "fst ` set (fr_running s) \<subseteq> set (fr_runs s)" "fr_waiting s > 0 \<or> fr_returned s > 0 \<longrightarrow> sf_shuttingDown (fr_factory s)"
    "fr_returned s > 0 \<longrightarrow> fr_running s = []"
  using assms unfolding factoryInv_def Let_def by blast+

lemma down_step:
  assumes "factoryStep s t" and "sf_shuttingDown (fr_factory s)"
  shows "fr_runs t = fr_runs s \<and> sf_shuttingDown (fr_factory t) \<and> length (fr_running t) \<le> length (fr_running s)"
  using assms(1)
proof cases
  case (resource res r f)
  then show ?thesis using ForResource_factory [OF resource(2)] assms(2) by auto
next
  case (start stopCh gs f)
  then show ?thesis using assms(2) by (simp add: Start_def)
next
  case (finish ty stopCh)
  then show ?thesis using assms(2) by (simp add: length_remove1)
qed (use assms(2) in \<open>simp_all add: markShutdown_def\<close>)

text \<open>C28: in every state a factory can reach, \<open>Run\<close> was called at most once on each informer, no
  informer runs in two goroutines, and the wait group counts the goroutines that run. Once
  \<open>Shutdown\<close> was called nothing is started any more, and once a call of it has returned nothing
  runs and nothing ever will.\<close>

theorem informers_run_once:
  assumes "reach (factoryInit f0) factoryStep s"
  shows "distinct (fr_runs s) \<and> distinct (map fst (fr_running s)) \<and> sf_wg (fr_factory s) = length (fr_running s) \<and>
    (fr_waiting s > 0 \<or> fr_returned s > 0 \<longrightarrow> (\<forall>t. factoryStep\<^sup>*\<^sup>* s t \<longrightarrow> fr_runs t = fr_runs s)) \<and>
    (fr_returned s > 0 \<longrightarrow> (\<forall>t. factoryStep\<^sup>*\<^sup>* s t \<longrightarrow> fr_running t = []))"
proof -
  have inv: "factoryInv f0 s" by (rule factory.reach_inv [OF assms])
  have down: "fr_runs t = fr_runs s \<and> sf_shuttingDown (fr_factory t) \<and> length (fr_running t) \<le> length (fr_running s)"
    if "sf_shuttingDown (fr_factory s)" "factoryStep\<^sup>*\<^sup>* s t" for t
    using that(2)
  proof (induction rule: rtranclp_induct)
    case (step t u)
    then show ?case using down_step [of t u] by simp
  qed (simp add: that)
  note D = factoryInvD [OF inv]
  have quiet: "fr_waiting s > 0 \<or> fr_returned s > 0 \<longrightarrow> (\<forall>t. factoryStep\<^sup>*\<^sup>* s t \<longrightarrow> fr_runs t = fr_runs s)"
    using D(7) down by blast
  have ended: "fr_running t = []" if "fr_returned s > 0" "factoryStep\<^sup>*\<^sup>* s t" for t
  proof -
    have "sf_shuttingDown (fr_factory s)" "fr_running s = []" using D(7,8) that(1) by blast+
    then show ?thesis using down [OF _ that(2)] by simp
  qed
  show ?thesis using D(3-5) quiet ended by blast
qed

lemma finish_all:
  assumes "factoryInv f0 s" and "\<forall>(ty, ch) \<in> set (fr_running s). ch \<in> set (fr_closed s)"
  shows "\<exists>t. factoryStep\<^sup>*\<^sup>* s t \<and> fr_running t = [] \<and> fr_waiting t = fr_waiting s \<and> fr_returned t = fr_returned s \<and> factoryInv f0 t"
  using assms
proof (induction "length (fr_running s)" arbitrary: s)
  case 0
  then show ?case by auto
next
  case (Suc n)
  then obtain ty ch rest where run: "fr_running s = (ty, ch) # rest" by (cases "fr_running s") auto
  let ?t = "s\<lparr>fr_running := remove1 (ty, ch) (fr_running s), fr_factory := (fr_factory s)\<lparr>sf_wg := sf_wg (fr_factory s) - 1\<rparr>\<rparr>"
  have step: "factoryStep s ?t" using Suc.prems(2) run by (intro factoryStep.finish) auto
  moreover have "factoryInv f0 ?t" by (rule factoryInv_step [OF step Suc.prems(1)])
  moreover have "n = length (fr_running ?t)" "\<forall>(ty, ch) \<in> set (fr_running ?t). ch \<in> set (fr_closed ?t)"
    using Suc.hyps(2) Suc.prems(2) run by auto
  ultimately obtain u where "factoryStep\<^sup>*\<^sup>* ?t u" "fr_running u = []" "fr_waiting u = fr_waiting ?t" "fr_returned u = fr_returned ?t"
    "factoryInv f0 u"
    using Suc.hyps(1) by blast
  with step show ?case by (intro exI [of _ u]) (auto intro: converse_rtranclp_into_rtranclp)
qed

text \<open>A call of \<open>Shutdown\<close> that waits returns exactly when no goroutine runs any more. It can always
  come to that once the channels of the running informers are closed, whatever else was started
  before: from every reachable state in which they are, some steps make a waiting call return.\<close>

theorem shutdown_returns:
  assumes "reach (factoryInit f0) factoryStep s" and "fr_waiting s > 0"
  shows "((\<exists>t. factoryStep s t \<and> fr_returned t > fr_returned s) \<longleftrightarrow> fr_running s = []) \<and>
    ((\<forall>(ty, ch) \<in> set (fr_running s). ch \<in> set (fr_closed s)) \<longrightarrow>
       (\<exists>t. factoryStep\<^sup>*\<^sup>* s t \<and> fr_returned t = fr_returned s + 1 \<and> fr_waiting t = fr_waiting s - 1))"
proof
  have inv: "factoryInv f0 s" by (rule factory.reach_inv [OF assms(1)])
  note D = factoryInvD [OF inv]
  show "(\<exists>t. factoryStep s t \<and> fr_returned t > fr_returned s) \<longleftrightarrow> fr_running s = []"
  proof
    assume "\<exists>t. factoryStep s t \<and> fr_returned t > fr_returned s"
    then show "fr_running s = []" using D(3) by (auto elim!: factoryStepE)
  next
    assume "fr_running s = []"
    then have "factoryStep s (s\<lparr>fr_waiting := fr_waiting s - 1, fr_returned := fr_returned s + 1\<rparr>)"
      using D(3) assms(2) by (intro factoryStep.returned) auto
    then show "\<exists>t. factoryStep s t \<and> fr_returned t > fr_returned s" by force
  qed
  show "(\<forall>(ty, ch) \<in> set (fr_running s). ch \<in> set (fr_closed s)) \<longrightarrow>
       (\<exists>t. factoryStep\<^sup>*\<^sup>* s t \<and> fr_returned t = fr_returned s + 1 \<and> fr_waiting t = fr_waiting s - 1)"
  proof
    assume "\<forall>(ty, ch) \<in> set (fr_running s). ch \<in> set (fr_closed s)"
    then obtain u where u: "factoryStep\<^sup>*\<^sup>* s u" "fr_running u = []" "fr_waiting u = fr_waiting s" "fr_returned u = fr_returned s"
      "factoryInv f0 u"
      using finish_all [OF inv] by blast
    have "factoryStep u (u\<lparr>fr_waiting := fr_waiting u - 1, fr_returned := fr_returned u + 1\<rparr>)"
      using factoryInvD(3) [OF u(5)] u assms(2) by (intro factoryStep.returned) auto
    then show "\<exists>t. factoryStep\<^sup>*\<^sup>* s t \<and> fr_returned t = fr_returned s + 1 \<and> fr_waiting t = fr_waiting s - 1"
      using u by (intro exI [of _ "u\<lparr>fr_waiting := fr_waiting u - 1, fr_returned := fr_returned u + 1\<rparr>"])
        (auto intro: rtranclp.rtrancl_into_rtrancl)
  qed
qed

text \<open>A factory with both informers, started, its channel closed, and a call of \<open>Shutdown\<close> waiting.\<close>

definition demoFactory :: "unit informerFactory" where
  "demoFactory = NewSharedInformerFactory demoEndpoint 3600000000000"

definition demoBoth :: "unit informerFactory" where
  "demoBoth = snd (ForResource mtqsResource (snd (ForResource virtualmachinemigrationresourcequotasResource demoFactory)))"

definition demoStopping :: "unit factoryRun" where
  "demoStopping =
     \<lparr>fr_factory = markShutdown (snd (Start 0 demoBoth)), fr_running = fst (Start 0 demoBoth),
      fr_runs = map fst (fst (Start 0 demoBoth)), fr_closed = [0], fr_waiting = 1, fr_returned = 0\<rparr>"

lemma demo_reach: "reach (factoryInit demoFactory) factoryStep demoStopping"
proof -
  let ?s0 = "\<lparr>fr_factory = demoFactory, fr_running = [], fr_runs = [], fr_closed = [], fr_waiting = 0, fr_returned = 0\<rparr>"
  let ?f1 = "snd (ForResource virtualmachinemigrationresourcequotasResource demoFactory)"
  have "factoryInit demoFactory ?s0"
    by (simp add: factoryInit_def demoFactory_def NewSharedInformerFactory_def NewSharedInformerFactoryWithOptions_def)
  then have "reach (factoryInit demoFactory) factoryStep ?s0" by (rule reach_init)
  then have "reach (factoryInit demoFactory) factoryStep (?s0\<lparr>fr_factory := ?f1\<rparr>)"
    by (rule reach_step) (rule factoryStep.resource [of virtualmachinemigrationresourcequotasResource _ "fst (ForResource virtualmachinemigrationresourcequotasResource demoFactory)"], simp)
  then have "reach (factoryInit demoFactory) factoryStep (?s0\<lparr>fr_factory := ?f1\<rparr>\<lparr>fr_factory := demoBoth\<rparr>)"
    by (rule reach_step) (rule factoryStep.resource [of mtqsResource _ "fst (ForResource mtqsResource ?f1)"], simp add: demoBoth_def)
  then have "reach (factoryInit demoFactory) factoryStep (?s0\<lparr>fr_factory := snd (Start 0 demoBoth), fr_running := [] @ fst (Start 0 demoBoth),
      fr_runs := [] @ map fst (fst (Start 0 demoBoth))\<rparr>)"
    using factoryStep.start [of 0 "?s0\<lparr>fr_factory := demoBoth\<rparr>" "fst (Start 0 demoBoth)" "snd (Start 0 demoBoth)"]
    by (auto intro: reach_step)
  then have "reach (factoryInit demoFactory) factoryStep (?s0\<lparr>fr_factory := snd (Start 0 demoBoth), fr_running := fst (Start 0 demoBoth),
      fr_runs := map fst (fst (Start 0 demoBoth))\<rparr>\<lparr>fr_closed := [0]\<rparr>)"
    using factoryStep.close [of "?s0\<lparr>fr_factory := snd (Start 0 demoBoth), fr_running := fst (Start 0 demoBoth),
      fr_runs := map fst (fst (Start 0 demoBoth))\<rparr>" 0] by (auto intro: reach_step)
  then show ?thesis
    using factoryStep.shutdown [of "?s0\<lparr>fr_factory := snd (Start 0 demoBoth), fr_running := fst (Start 0 demoBoth),
      fr_runs := map fst (fst (Start 0 demoBoth)), fr_closed := [0]\<rparr>"] by (auto intro: reach_step simp: demoStopping_def)
qed

lemma demo_running: "fr_running demoStopping = [(VMMRQType, 0), (MTQType, 0)]"
  by (simp add: demoStopping_def demoBoth_def demoFactory_def NewSharedInformerFactory_def NewSharedInformerFactoryWithOptions_def
      ForResource_def mtq_Informer_def vmmrq_Informer_def InformerFor_def mtqsResource_def
      virtualmachinemigrationresourcequotasResource_def Start_def Let_def)

theorem informers_run_once_witness: "sf_wg (fr_factory demoStopping) = 2 \<and> distinct (fr_runs demoStopping)"
  using informers_run_once [OF demo_reach] by (simp add: demo_running)

theorem shutdown_returns_witness:
  "\<exists>t. factoryStep\<^sup>*\<^sup>* demoStopping t \<and> fr_returned t = 1 \<and> fr_waiting t = 0"
proof -
  have "fr_waiting demoStopping > 0" by (simp add: demoStopping_def)
  from shutdown_returns [OF demo_reach this] show ?thesis
    by (simp add: demo_running) (simp add: demoStopping_def)
qed

end
