(* ===== verification/Listers.thy ===== *)
theory Listers
  imports ObjectStore InformerFactory
begin

text \<open>
  The listers (\<open>pkg/generated/listers/core/v1alpha1\<close>) over the helpers of
  \<open>client-go/tools/cache/listers.go\<close>. \<open>cache.Indexer\<close>, the interface they read, is a record of
  functions on any state; what they promise is proved once in the locale \<open>object_store\<close> from its laws,
  which the store of an informer satisfies.
\<close>

subsection \<open>Listing and getting\<close>

record ('o, 's) indexer =
  idx_List :: "'s \<Rightarrow> 'o list"
  idx_Index :: "string \<Rightarrow> 'o indexable \<Rightarrow> 's \<Rightarrow> 'o list result"
  idx_GetByKey :: "string \<Rightarrow> 's \<Rightarrow> 'o option"

text \<open>A selector is the list of its requirements (\<open>internalSelector\<close>).\<close>

type_synonym selector = "(labels \<Rightarrow> bool) list"

definition sel_Empty :: "selector \<Rightarrow> bool" where "sel_Empty s = (length s = 0)"
definition sel_Matches :: "selector \<Rightarrow> labels \<Rightarrow> bool" where "sel_Matches s ls = list_all (\<lambda>r. r ls) s"

definition cache_ListAll :: "('o \<Rightarrow> objectMeta) \<Rightarrow> ('o, 's) indexer \<Rightarrow> selector \<Rightarrow> 's \<Rightarrow> 'o list" where
  "cache_ListAll meta store selector s =
     (let selectAll = sel_Empty selector
      in filter (\<lambda>m. selectAll \<or> sel_Matches selector (om_labels (meta m))) (idx_List store s))"

definition emptyMeta :: "string \<Rightarrow> objectMeta" where
  "emptyMeta ns = \<lparr>om_apiVersion = [], om_kind = [], om_name = [], om_namespace = ns, om_labels = []\<rparr>"

definition cache_ListAllByNamespace ::
  "('o \<Rightarrow> objectMeta) \<Rightarrow> ('o, 's) indexer \<Rightarrow> string \<Rightarrow> selector \<Rightarrow> 's \<Rightarrow> 'o list" where
  "cache_ListAllByNamespace meta indexer namespace selector s =
     (if namespace = NamespaceAll then cache_ListAll meta indexer selector s
      else (case idx_Index indexer NamespaceIndex (MetaOnly (emptyMeta namespace)) s of
              Inl err \<Rightarrow> filter (\<lambda>m. om_namespace (meta m) = namespace \<and> sel_Matches selector (om_labels (meta m))) (idx_List indexer s)
            | Inr items \<Rightarrow>
                let selectAll = sel_Empty selector
                in filter (\<lambda>m. selectAll \<or> sel_Matches selector (om_labels (meta m))) items))"

text \<open>\<open>errors.NewNotFound\<close> for a resource of the API group; a valid name needs no escapes in quotes.\<close>

definition NewNotFound :: "string \<Rightarrow> string \<Rightarrow> goerror" where
  "NewNotFound resource name = NotFoundErr (resource @ ''.'' @ rc_group mtqV1alpha1 @ '' '' @ [CHR 0x22] @ name @ [CHR 0x22] @ '' not found'')"

definition getByKey :: "('o, 's) indexer \<Rightarrow> string \<Rightarrow> string \<Rightarrow> string \<Rightarrow> 's \<Rightarrow> 'o result" where
  "getByKey indexer key resource name s =
     (case idx_GetByKey indexer key s of None \<Rightarrow> Inl (NewNotFound resource name) | Some obj \<Rightarrow> Inr obj)"

definition mtqLister_List :: "('o \<Rightarrow> objectMeta) \<Rightarrow> ('o, 's) indexer \<Rightarrow> selector \<Rightarrow> 's \<Rightarrow> 'o list" where
  "mtqLister_List meta indexer selector s = cache_ListAll meta indexer selector s"

definition mtqLister_Get :: "('o, 's) indexer \<Rightarrow> string \<Rightarrow> 's \<Rightarrow> 'o result" where
  "mtqLister_Get indexer name s = getByKey indexer name ''mtq'' name s"

definition vmmrqLister_List :: "('o \<Rightarrow> objectMeta) \<Rightarrow> ('o, 's) indexer \<Rightarrow> selector \<Rightarrow> 's \<Rightarrow> 'o list" where
  "vmmrqLister_List meta indexer selector s = cache_ListAll meta indexer selector s"

record ('o, 's) vmmrqNamespaceLister =
  vnl_indexer :: "('o, 's) indexer"
  vnl_namespace :: string

definition VirtualMachineMigrationResourceQuotas :: "('o, 's) indexer \<Rightarrow> string \<Rightarrow> ('o, 's) vmmrqNamespaceLister" where
  "VirtualMachineMigrationResourceQuotas indexer namespace = \<lparr>vnl_indexer = indexer, vnl_namespace = namespace\<rparr>"

definition vmmrqNamespaceLister_List ::
  "('o \<Rightarrow> objectMeta) \<Rightarrow> ('o, 's) vmmrqNamespaceLister \<Rightarrow> selector \<Rightarrow> 's \<Rightarrow> 'o list" where
  "vmmrqNamespaceLister_List meta l selector s = cache_ListAllByNamespace meta (vnl_indexer l) (vnl_namespace l) selector s"

definition vmmrqNamespaceLister_Get :: "('o, 's) vmmrqNamespaceLister \<Rightarrow> string \<Rightarrow> 's \<Rightarrow> 'o result" where
  "vmmrqNamespaceLister_Get l name s =
     getByKey (vnl_indexer l) (vnl_namespace l @ ''/'' @ name) ''virtualmachinemigrationresourcequota'' name s"

subsection \<open>What a lister relies on\<close>

definition simpleNames :: "objectMeta \<Rightarrow> bool" where
  "simpleNames m \<longleftrightarrow> slash \<notin> set (om_namespace m) \<and> slash \<notin> set (om_name m)"

definition wanted :: "('o \<Rightarrow> objectMeta) \<Rightarrow> string \<Rightarrow> selector \<Rightarrow> 'o \<Rightarrow> bool" where
  "wanted meta namespace selector x \<longleftrightarrow>
     (namespace = NamespaceAll \<or> om_namespace (meta x) = namespace) \<and> sel_Matches selector (om_labels (meta x))"

lemma sel_Matches_empty: "sel_Empty s \<Longrightarrow> sel_Matches s ls"
  by (simp add: sel_Empty_def sel_Matches_def)

lemma append_slash: "slash \<notin> set a \<Longrightarrow> slash \<notin> set b \<Longrightarrow> a @ slash # x = b @ slash # y \<longleftrightarrow> a = b \<and> x = y"
  by (induction a arbitrary: b; case_tac b) auto

lemma key_of_namespaced:
  assumes "simpleNames m" and "slash \<notin> set ns"
  shows "MetaNamespaceKeyFunc m = ns @ slash # name \<longleftrightarrow> ns \<noteq> [] \<and> om_namespace m = ns \<and> om_name m = name"
proof (cases "om_namespace m")
  case Nil
  have "om_name m \<noteq> ns @ slash # name" using assms(1) by (auto simp: simpleNames_def)
  with Nil show ?thesis by (auto simp: MetaNamespaceKeyFunc_def)
next
  case (Cons a as)
  then show ?thesis using assms append_slash [of "om_namespace m" ns "om_name m" name] by (auto simp: MetaNamespaceKeyFunc_def simpleNames_def)
qed

lemma key_of_global:
  assumes "slash \<notin> set name"
  shows "MetaNamespaceKeyFunc m = name \<longleftrightarrow> om_namespace m = [] \<and> om_name m = name"
  using assms by (auto simp: MetaNamespaceKeyFunc_def)

locale object_store =
  fixes store :: "('o, 's) indexer"
    and meta :: "'o \<Rightarrow> objectMeta"
    and inv :: "'s \<Rightarrow> bool"
    and contents :: "'s \<Rightarrow> 'o list"
  assumes list_contents: "inv s \<Longrightarrow> mset (idx_List store s) = mset (contents s)"
    and index_contents: "inv s \<Longrightarrow> idx_Index store NamespaceIndex (MetaOnly m) s = Inr objs \<Longrightarrow>
      mset objs = mset (filter (\<lambda>x. om_namespace (meta x) = om_namespace m) (contents s))"
    and get_contents: "inv s \<Longrightarrow> idx_GetByKey store key s = Some x \<longleftrightarrow> x \<in> set (contents s) \<and> MetaNamespaceKeyFunc (meta x) = key"
begin

lemma list_all: "inv s \<Longrightarrow> mset (cache_ListAll meta store selector s) = mset (filter (wanted meta NamespaceAll selector) (contents s))"
  by (simp add: cache_ListAll_def wanted_def Let_def list_contents) (rule filter_mset_cong; auto simp: sel_Matches_empty)

lemma list_namespace:
  assumes "inv s"
  shows "mset (cache_ListAllByNamespace meta store namespace selector s) = mset (filter (wanted meta namespace selector) (contents s))"
proof (cases "namespace = NamespaceAll")
  case True
  then show ?thesis using list_all [OF assms] by (simp add: cache_ListAllByNamespace_def)
next
  case False
  show ?thesis
  proof (cases "idx_Index store NamespaceIndex (MetaOnly (emptyMeta namespace)) s")
    case (Inl err)
    then show ?thesis using False list_contents [OF assms] by (simp add: cache_ListAllByNamespace_def wanted_def)
  next
    case (Inr items)
    then have "mset items = filter_mset (\<lambda>x. om_namespace (meta x) = namespace) (mset (contents s))"
      using index_contents [OF assms Inr] by (simp add: emptyMeta_def)
    then show ?thesis using False Inr
      by (simp add: cache_ListAllByNamespace_def wanted_def Let_def filter_filter_mset)
        (rule filter_mset_cong; auto simp: sel_Matches_empty)
  qed
qed

lemma get_namespaced:
  assumes "inv s" and "\<forall>x \<in> set (contents s). simpleNames (meta x)" and "slash \<notin> set namespace"
  shows "vmmrqNamespaceLister_Get (VirtualMachineMigrationResourceQuotas store namespace) name s = Inr x \<longleftrightarrow>
    namespace \<noteq> [] \<and> x \<in> set (contents s) \<and> om_namespace (meta x) = namespace \<and> om_name (meta x) = name"
  using assms get_contents [OF assms(1), of "namespace @ slash # name" x] key_of_namespaced [of "meta x" namespace name]
  by (auto simp: vmmrqNamespaceLister_Get_def VirtualMachineMigrationResourceQuotas_def getByKey_def split: option.splits)

lemma get_global:
  assumes "inv s" and "slash \<notin> set name"
  shows "mtqLister_Get store name s = Inr x \<longleftrightarrow> x \<in> set (contents s) \<and> om_namespace (meta x) = [] \<and> om_name (meta x) = name"
  using get_contents [OF assms(1), of name x] key_of_global [OF assms(2), of "meta x"]
  by (auto simp: mtqLister_Get_def getByKey_def split: option.splits)

end

subsection \<open>The store of an informer\<close>

definition storeIndexer :: "('o, 'o threadSafeMap) indexer" where
  "storeIndexer = \<lparr>idx_List = tm_List, idx_Index = tm_Index, idx_GetByKey = tm_Get\<rparr>"

definition namespacedStore :: "('o \<Rightarrow> objectMeta) \<Rightarrow> 'o threadSafeMap \<Rightarrow> bool" where
  "namespacedStore meta c \<longleftrightarrow> storeInv meta c \<and>
     map_of (ix_indexers (tm_index c)) NamespaceIndex \<in> {None, Some (MetaNamespaceIndexFunc meta)}"

lemma namespace_index:
  assumes "namespacedStore meta c" and "tm_Index NamespaceIndex (MetaOnly m) c = Inr objs"
  shows "mset objs = mset (filter (\<lambda>x. om_namespace (meta x) = om_namespace m) (tm_List c))"
proof -
  have f: "map_of (ix_indexers (tm_index c)) NamespaceIndex = Some (MetaNamespaceIndexFunc meta)"
    using assms by (auto simp: namespacedStore_def tm_Index_def getKeysFromIndex_def)
  have "tm_ByIndex NamespaceIndex (om_namespace m) c = Inr objs"
    using assms(2) f by (simp add: tm_Index_def tm_ByIndex_def getKeysFromIndex_def getKeysByIndex_def MetaNamespaceIndexFunc_def Let_def)
  with byIndex_answer [OF _ f, of meta "om_namespace m"] assms(1)
  have "mset objs = mset (filter (\<lambda>x. om_namespace m = om_namespace (meta x)) (tm_List c))"
    by (simp add: namespacedStore_def MetaNamespaceIndexFunc_def)
  then show ?thesis by (simp add: eq_commute [of "om_namespace m"])
qed

lemma get_stored:
  assumes "storeInv meta c"
  shows "tm_Get key c = Some x \<longleftrightarrow> x \<in> set (tm_List c) \<and> MetaNamespaceKeyFunc (meta x) = key"
proof -
  have "(k, x) \<in> set (tm_items c) \<longleftrightarrow> map_of (tm_items c) k = Some x" for k
    using assms by (simp add: storeInv_def)
  moreover have "x \<in> set (tm_List c) \<longleftrightarrow> (\<exists>k. (k, x) \<in> set (tm_items c))" by (force simp: tm_List_def)
  moreover have "(k, x) \<in> set (tm_items c) \<Longrightarrow> k = MetaNamespaceKeyFunc (meta x)" for k
    using assms by (simp add: storeInv_def keyed_def)
  ultimately show ?thesis by (auto simp: tm_Get_def)
qed

interpretation informer_store: object_store storeIndexer meta "namespacedStore meta" tm_List for meta
proof unfold_locales
  fix c :: "'a threadSafeMap" and m objs
  assume "namespacedStore meta c" "idx_Index storeIndexer NamespaceIndex (MetaOnly m) c = Inr objs"
  then show "mset objs = mset (filter (\<lambda>x. om_namespace (meta x) = om_namespace m) (tm_List c))"
    by (simp add: storeIndexer_def namespace_index)
qed (simp_all add: storeIndexer_def namespacedStore_def get_stored)

text \<open>C26: the store of an informer is a map from keys to objects. Whatever is added, updated, deleted
  or replaced, no operation panics, a lookup answers what the map of the same operations holds, the
  list is the objects of that map, each once, and every index answers, for every value, exactly the
  objects its index function gives that value; also where an update skips the index because the value
  did not change.\<close>

theorem indexed_store_refines_map:
  assumes "distinct (map fst indexers)" and "\<forall>(name, f) \<in> set indexers. \<forall>obj. \<exists>vs. f (Stored obj) = Inr vs"
  shows "\<exists>c. storeRun meta ops (NewThreadSafeStore indexers []) = Some c \<and>
    (\<forall>key. tm_Get key c = fold (mapOp meta) ops Map.empty key) \<and>
    mset (tm_List c) = image_mset (\<lambda>key. the (fold (mapOp meta) ops Map.empty key)) (mset_set (dom (fold (mapOp meta) ops Map.empty))) \<and>
    (\<forall>name f v. map_of indexers name = Some f \<longrightarrow>
       (\<exists>objs. tm_ByIndex name v c = Inr objs \<and> mset objs = filter_mset (\<lambda>obj. v \<in> set (projr (f (Stored obj)))) (mset (tm_List c))))"
proof -
  let ?m = "fold (mapOp meta) ops Map.empty"
  have total: "\<forall>(name, f) \<in> set indexers. totalIndex f" using assms(2) by (simp add: totalIndex_def)
  note run_refines [OF storeInv_new [OF assms(1) total], of meta ops]
  then obtain c where c: "storeRun meta ops (NewThreadSafeStore indexers []) = Some c" "storeInv meta c" "map_of (tm_items c) = ?m"
    "ix_indexers (tm_index c) = indexers" by (auto simp: NewThreadSafeStore_def)
  have d: "distinct (map fst (tm_items c))" using c(2) by (simp add: storeInv_def)
  have "dom ?m = set (map fst (tm_items c))" by (simp flip: c(3) add: dom_map_of_conv_image_fst)
  then have "mset_set (dom ?m) = mset (map fst (tm_items c))" using d by (metis mset_set_set)
  then have list: "mset (tm_List c) = image_mset (\<lambda>key. the (?m key)) (mset_set (dom ?m))"
    using d by (simp flip: c(3) mset_map add: tm_List_def comp_def) (rule arg_cong [of _ _ mset], auto simp: map_of_is_SomeI)
  have "\<exists>objs. tm_ByIndex name v c = Inr objs \<and> mset objs = filter_mset (\<lambda>obj. v \<in> set (projr (f (Stored obj)))) (mset (tm_List c))"
    if "map_of indexers name = Some f" for name f v
  proof -
    have "\<exists>vs. f (Stored obj) = Inr vs" for obj using assms(2) map_of_SomeD [OF that] by fast
    then have "(\<exists>vs. f (Stored obj) = Inr vs \<and> v \<in> set vs) \<longleftrightarrow> v \<in> set (projr (f (Stored obj)))" for obj
      by (metis sum.sel(2))
    then show ?thesis using byIndex_answer [OF c(2), of name f v] that c(4) by simp
  qed
  with c list show ?thesis by (intro exI [of _ c]) (simp add: tm_Get_def)
qed

text \<open>C27: the listers answer what is stored, with or without a namespace index. Listing a namespace
  (or all of them) yields exactly the objects of the namespace whose labels match the selector; a
  lookup in a namespace finds exactly the object of that namespace and name, and never anything in the
  empty namespace; the lister of the cluster-wide MTQ finds exactly the object of that name.\<close>

theorem listers_answer_what_is_stored:
  assumes "indexers \<in> {[], [(NamespaceIndex, MetaNamespaceIndexFunc meta)]}"
    and "storeRun meta ops (NewThreadSafeStore indexers []) = Some c"
    and "\<forall>x \<in> set (tm_List c). simpleNames (meta x)" and "slash \<notin> set namespace" and "slash \<notin> set name"
  shows "mset (vmmrqNamespaceLister_List meta (VirtualMachineMigrationResourceQuotas storeIndexer namespace) selector c) =
      mset (filter (\<lambda>x. (namespace = NamespaceAll \<or> om_namespace (meta x) = namespace) \<and> sel_Matches selector (om_labels (meta x))) (tm_List c)) \<and>
    mset (vmmrqLister_List meta storeIndexer selector c) = mset (filter (\<lambda>x. sel_Matches selector (om_labels (meta x))) (tm_List c)) \<and>
    mset (mtqLister_List meta storeIndexer selector c) = mset (filter (\<lambda>x. sel_Matches selector (om_labels (meta x))) (tm_List c)) \<and>
    (\<forall>x. vmmrqNamespaceLister_Get (VirtualMachineMigrationResourceQuotas storeIndexer namespace) name c = Inr x \<longleftrightarrow>
       namespace \<noteq> [] \<and> x \<in> set (tm_List c) \<and> om_namespace (meta x) = namespace \<and> om_name (meta x) = name) \<and>
    (\<forall>x. mtqLister_Get storeIndexer name c = Inr x \<longleftrightarrow> x \<in> set (tm_List c) \<and> om_namespace (meta x) = [] \<and> om_name (meta x) = name)"
proof -
  have "storeInv meta (NewThreadSafeStore indexers [])"
    using assms(1) by (intro storeInv_new) (auto simp: totalIndex_def MetaNamespaceIndexFunc_def)
  from run_refines [OF this, of ops] have inv: "namespacedStore meta c"
    using assms(1,2) by (auto simp: namespacedStore_def NewThreadSafeStore_def)
  note all = informer_store.list_all [OF inv, of selector, unfolded wanted_def]
  show ?thesis
    using informer_store.list_namespace [OF inv, of namespace selector] all
      informer_store.get_namespaced [OF inv assms(3,4)] informer_store.get_global [OF inv assms(5)]
    by (simp add: vmmrqNamespaceLister_List_def VirtualMachineMigrationResourceQuotas_def vmmrqLister_List_def mtqLister_List_def
        wanted_def)
qed

text \<open>Two objects of one namespace, added and one of them moved to other labels.\<close>

definition demoMeta :: "string \<Rightarrow> string \<Rightarrow> labels \<Rightarrow> objectMeta" where
  "demoMeta ns name ls = \<lparr>om_apiVersion = [], om_kind = [], om_name = name, om_namespace = ns, om_labels = ls\<rparr>"

definition demoStoreOps :: "objectMeta storeOp list" where
  "demoStoreOps = [StoreAdd (demoMeta ''ns1'' ''a'' []), StoreAdd (demoMeta ''ns2'' ''b'' []), StoreUpdate (demoMeta ''ns1'' ''a'' [(''app'', ''x'')])]"

definition demoIndexers :: "(string \<times> objectMeta indexFunc) list" where
  "demoIndexers = [(NamespaceIndex, MetaNamespaceIndexFunc (\<lambda>m. m))]"

theorem indexed_store_refines_map_witness:
  "\<exists>c. storeRun (\<lambda>m. m) demoStoreOps (NewThreadSafeStore demoIndexers []) = Some c \<and>
     (\<exists>objs. tm_ByIndex NamespaceIndex ''ns1'' c = Inr objs)"
proof -
  have "distinct (map fst demoIndexers)" "\<forall>(name, f) \<in> set demoIndexers. \<forall>obj. \<exists>vs. f (Stored obj) = Inr vs"
    by (simp_all add: demoIndexers_def MetaNamespaceIndexFunc_def)
  from indexed_store_refines_map [OF this, of "\<lambda>m. m" demoStoreOps] obtain c
    where c: "storeRun (\<lambda>m. m) demoStoreOps (NewThreadSafeStore demoIndexers []) = Some c"
      "\<forall>name f v. map_of demoIndexers name = Some f \<longrightarrow> (\<exists>objs. tm_ByIndex name v c = Inr objs \<and>
         mset objs = filter_mset (\<lambda>obj. v \<in> set (projr (f (Stored obj)))) (mset (tm_List c)))" by blast
  have "map_of demoIndexers NamespaceIndex = Some (MetaNamespaceIndexFunc (\<lambda>m. m))" by (simp add: demoIndexers_def)
  with c show ?thesis by blast
qed

theorem listers_answer_what_is_stored_witness:
  "\<exists>c. storeRun (\<lambda>m. m) demoStoreOps (NewThreadSafeStore demoIndexers []) = Some c \<and>
     vmmrqNamespaceLister_Get (VirtualMachineMigrationResourceQuotas storeIndexer ''ns1'') ''a'' c = Inr (demoMeta ''ns1'' ''a'' [(''app'', ''x'')])"
proof -
  obtain c where c: "storeRun (\<lambda>m. m) demoStoreOps (NewThreadSafeStore demoIndexers []) = Some c"
    "tm_List c = [demoMeta ''ns1'' ''a'' [(''app'', ''x'')], demoMeta ''ns2'' ''b'' []]"
    by (simp add: demoStoreOps_def demoIndexers_def demoMeta_def cache_Add_def cache_Update_def tm_Add_def tm_Update_def tm_List_def
        updateIndices_def updateSingleIndex_def valuesFor_def MetaNamespaceIndexFunc_def MetaNamespaceKeyFunc_def
        NewThreadSafeStore_def Let_def look_def addKeyToIndex_def)
  have "\<forall>x \<in> set (tm_List c). simpleNames x" "slash \<notin> set ''ns1''" "slash \<notin> set ''a''"
    by (simp_all add: c(2) simpleNames_def demoMeta_def)
  from listers_answer_what_is_stored [OF _ c(1) this, of "[]"] have
    "vmmrqNamespaceLister_Get (VirtualMachineMigrationResourceQuotas storeIndexer ''ns1'') ''a'' c = Inr (demoMeta ''ns1'' ''a'' [(''app'', ''x'')])"
    by (simp add: c(2) demoIndexers_def) (simp add: demoMeta_def)
  with c(1) show ?thesis by blast
qed

end
