(* ===== verification/PassFrame.thy ===== *)
theory PassFrame
  imports VmmrqController
begin

text \<open>
  What a pass leaves alone in the controller's own state. \<open>stays ns\<close> relates two worlds that
  differ, outside the namespace \<open>ns\<close>, in nothing the workers of other namespaces look at: the
  informer's quota objects and the cached lock states of the other namespaces. It is an instance
  of \<open>pass_relation\<close>, so each part of the pass is treated once and the whole pass follows.
\<close>

definition inNs :: "string \<Rightarrow> 'm resourceQuota \<Rightarrow> bool" where
  "inNs ns q \<longleftrightarrow> (\<exists>n. rqKey q = metaKey ns n)"

definition stays :: "string \<Rightarrow> 's world \<Rightarrow> 's world \<Rightarrow> bool" where
  "stays ns w w' \<longleftrightarrow> logExt w w'
     \<and> map rqKey (w_rqs w') = map rqKey (w_rqs w)
     \<and> filter (\<lambda>q. \<not> inNs ns q) (w_rqs w') = filter (\<lambda>q. \<not> inNs ns q) (w_rqs w)
     \<and> (\<forall>n. n \<noteq> ns \<longrightarrow> GetLockState (w_nsc w') n = GetLockState (w_nsc w) n)"

lemma stays_refl [simp]: "stays ns w w"
  by (simp add: stays_def)

lemma stays_trans: "stays ns u v \<Longrightarrow> stays ns v w \<Longrightarrow> stays ns u w"
  by (simp add: stays_def) (blast intro: logExt_trans)

interpretation pass: pass_relation "stays ns" for ns
  by unfold_locales (simp, rule stays_trans)

lemma staysI:
  "w_rqs w' = w_rqs w \<Longrightarrow> w_nsc w' = w_nsc w \<Longrightarrow> w_log w' = w_log w @ l \<Longrightarrow> stays ns w w'"
  by (auto simp: stays_def logExt_iff)

lemma stays_heap [simp]: "stays ns w (w\<lparr>w_heap := h\<rparr>)" "stays ns w (w\<lparr>w_heap := h, w_events := e\<rparr>)"
  by (simp_all add: staysI [where l = "[]"])

lemma stays_doRead: "doRead c f w = (r, w') \<Longrightarrow> stays ns w w'"
  by (rule staysI) (simp_all add: doRead_frame)

lemma stays_doWrite: "doWrite c f w = (r, w') \<Longrightarrow> stays ns w w'"
  by (rule staysI) (simp_all add: doWrite_frame)

lemma filter_map_guard:
  "(\<And>q. q \<in> set qs \<Longrightarrow> P (f q) = P q) \<Longrightarrow> (\<And>q. q \<in> set qs \<Longrightarrow> P q \<Longrightarrow> f q = q) \<Longrightarrow>
   filter P (map f qs) = filter P qs"
  by (induction qs) auto

lemma stays_assignHard: "stays ns w (assignHard (metaKey ns n) r w)"
proof -
  have "filter (\<lambda>q. \<not> inNs ns q) (w_rqs (assignHard (metaKey ns n) r w)) = filter (\<lambda>q. \<not> inNs ns q) (w_rqs w)"
    unfolding assignHard_def by (simp, rule filter_map_guard) (auto simp: inNs_def)
  then show ?thesis by (simp add: stays_def logExt_def)
qed

lemma stays_assignHard_write:
  "doWrite c f (assignHard (metaKey ns n) r w) = (e, w') \<Longrightarrow> stays ns w w'"
  using stays_trans [OF stays_assignHard stays_doWrite] .

lemma restoreOne_stays: "stays ns w (snd (restoreOne A en ns x w))"
proof -
  obtain r w' where res: "restoreOne A en ns x w = (r, w')" by fastforce
  then have "stays ns w w'"
    by (cases rule: restoreOneE) (auto intro: stays_assignHard_write)
  with res show ?thesis by simp
qed

lemma enlargeOne_stays: "stays ns w (snd (enlargeOne A en toAdd ns x w))"
proof -
  obtain r w' where res: "enlargeOne A en toAdd ns x w = (r, w')" by fastforce
  then have "stays ns w w'"
    by (cases rule: enlargeOneE) (auto dest: stays_assignHard_write intro: stays_trans [OF stays_heap(1)])
  with res show ?thesis by simp
qed

interpretation restoreStays: loop_contract "restoreOne A en ns" "stays ns" "\<lambda>_. True" for A en ns
  by unfold_locales (auto intro: stays_trans restoreOne_stays)

interpretation enlargeStays: loop_contract "enlargeOne A en add ns" "stays ns" "\<lambda>_. True" for A en add ns
  by unfold_locales (auto intro: stays_trans enlargeOne_stays)

subsection \<open>The parts of the pass\<close>

named_theorems keeps \<open>operations that keep the frame relation\<close>

lemmas [keeps] = pass.keepsRel_bind pass.keepsRel_return pass.keepsRel_tryPure

lemma keeps_whenOp [keeps]: "pass.keepsRel ns m \<Longrightarrow> pass.keepsRel ns (whenOp b m)"
  by (simp add: whenOp_def pass.keepsRel_return)

lemma keeps_readVmmrq [keeps]: "pass.keepsRel ns (readVmmrq A n)"
  unfolding readVmmrq_def
  by (intro keeps pass.keepsRel_tryVal stays_doRead)
    (auto simp: pass.keepsRel_def split: prod.split)

lemma keeps_sendStatus [keeps]: "pass.keepsRel ns (tryErr st (sendStatus A vm))"
  by (rule pass.keepsRel_tryErr) (auto simp: sendStatus_def Let_def intro: stays_doWrite)

lemma keeps_syncAdditional [keeps]: "pass.keepsRel ns (syncAdditional A vm)"
proof (rule pass.keepsRelI)
  fix w r w'
  assume run: "syncAdditional A vm w = (r, w')"
  have "pass.keepsRel ns (bindOp (tryErr Immediate (sendStatus A (vm\<lparr>v_add := v_specAdd vm\<rparr>)))
      (\<lambda>_. returnOp (vm\<lparr>v_add := v_specAdd vm\<rparr>)))" by (intro keeps)
  from pass.keepsRelD [OF this] run show "stays ns w w'"
    by (auto simp: syncAdditional_def Let_def split: if_splits)
qed

lemma keeps_snapshot [keeps]: "pass.keepsRel ns (snapshot vm)"
  by (auto simp: pass.keepsRel_def snapshot_def split: prod.split)

lemma keeps_inspectMigration [keeps]: "pass.keepsRel ns (inspectMigration en n mig)"
  unfolding inspectMigration_def by (auto intro!: keeps split: option.split)

lemma keeps_targetPodOp [keeps]: "pass.keepsRel ns (targetPodOp en n v)"
  unfolding targetPodOp_def by (auto intro!: keeps split: option.split prod.split)

lemma keeps_blocking [keeps]: "pass.keepsRel ns (tryVal st (getCurrBlockingRQInNS en vm m p l))"
  by (rule pass.keepsRel_tryVal)
    (auto simp: getCurrBlockingRQInNS_def split: sum.splits prod.splits option.splits)

lemma keeps_assignMig [keeps]: "pass.keepsRel ns (assignMig name rqs v)"
  by (auto simp: pass.keepsRel_def assignMig_def split: option.split)

lemma keeps_decideBlocking [keeps]: "pass.keepsRel ns (decideBlocking en n name mig insp vm)"
  unfolding decideBlocking_def by (auto intro!: keeps split: option.split prod.split bool.split)

lemma keeps_adoptOriginals [keeps]: "pass.keepsRel ns (adoptOriginals en n vm)"
  unfolding adoptOriginals_def
  by (intro keeps pass.keepsRel_tryVal)
    (auto simp: getAllBlockingRQsInNS_def Let_def split: sum.splits prod.splits)

lemma NamespaceLocked_stays: "NamespaceLocked A n m ca w = (r, w') \<Longrightarrow> stays ns w w'"
  using NamespaceLocked_frame [of A n m ca w r w'] by (auto intro: staysI)

lemma keeps_readLock [keeps]: "pass.keepsRel ns (readLock A en n)"
proof (rule pass.keepsRelI)
  fix w r w'
  assume run: "readLock A en n w = (r, w')"
  obtain ca w1 where ca: "doRead FetchBundle (api_bundleBytes A) w = (ca, w1)" by fastforce
  obtain q w2 where q: "NamespaceLocked A n (e_mtqNs en) (bundleOr ca) w1 = (q, w2)" by fastforce
  have "stays ns w w2" using stays_trans [OF stays_doRead [OF ca] NamespaceLocked_stays [OF q]] .
  with run ca q show "stays ns w w'"
    by (auto simp: readLock_def split: lockState.splits option.splits)
qed

lemma keeps_markLocked [keeps]: "pass.keepsRel ns (markLocked ns)" "pass.keepsRel ns (markUnlocked ns)"
  by (auto simp: pass.keepsRel_def markLocked_def markUnlocked_def stays_def logExt_def
      nsc.get_markLocked nsc.get_markUnlocked)

lemma keeps_acquireLock [keeps]: "pass.keepsRel ns (acquireLock A en ns)"
  unfolding acquireLock_def
  by (intro keeps pass.keepsRel_tryVal pass.keepsRel_tryErr)
    (auto simp: LockNamespace_def Let_def intro: stays_doRead stays_doWrite)

lemma keeps_releaseLock [keeps]: "pass.keepsRel ns (releaseLock A ns)"
  unfolding releaseLock_def
  by (intro keeps pass.keepsRel_tryErr) (auto simp: UnlockNamespace_def intro: stays_doWrite)

lemma keeps_publish [keeps]: "pass.keepsRel ns (publish A vm prev)"
proof (rule pass.keepsRelI)
  fix w r w'
  assume run: "publish A vm prev w = (r, w')"
  have "pass.keepsRel ns (whenOp (shouldUpdateVmmrq (w_heap w) vm prev) (tryErr Immediate (sendStatus A vm)))"
    by (intro keeps)
  from pass.keepsRelD [OF this] run show "stays ns w w'" by (simp add: publish_def)
qed

lemma keeps_restore [keeps]: "pass.keepsRel ns (tryErr st (restoreOriginalRQs A en xs ns))"
proof (rule pass.keepsRel_tryErr)
  fix w r w'
  assume run: "restoreOriginalRQs A en xs ns w = (r, w')"
  show "stays ns w w'"
    using restoreStays.runLoop_rel [of xs ns w A en] run
    by (simp add: restoreOriginalRQs_def split: if_splits)
qed

lemma keeps_enlarge [keeps]: "pass.keepsRel ns (tryErr st (addResourcesToRQs A en vm ns))"
proof (rule pass.keepsRel_tryErr)
  fix w r w'
  assume run: "addResourcesToRQs A en vm ns w = (r, w')"
  show "stays ns w w'" using enlargeStays.runLoop_rel [of "v_orig vm" ns w A en "v_add vm"] run by (simp add: addResourcesToRQs_def)
qed

lemma keeps_reconcile [keeps]: "pass.keepsRel ns (reconcile A en ns vm prev)"
  unfolding reconcile_def by (intro keeps)

lemma keeps_executeLocked: "pass.keepsRel ns (executeLocked A en ns name mig)"
  unfolding executeLocked_def by (intro keeps) (auto intro!: keeps split: prod.split)

lemma execute_stays:
  assumes "parseKey key = Inr (ns, name)"
  shows "stays ns w (snd (execute A en key w))"
proof -
  obtain mig r w' where "e_migByKey en key = Inr mig \<Longrightarrow> executeLocked A en ns name mig w = (r, w')"
    by (metis prod.collapse)
  then show ?thesis
    using assms pass.keepsRelD [OF keeps_executeLocked]
    by (fastforce simp: execute_def split: sum.splits prod.splits)
qed

end
