(* ===== verification/RestartStall.thy ===== *)
theory RestartStall
  imports DeployTheorems PassFrame Scenario
begin

text \<open>
  The controller after a restart, in a namespace it had locked before: the cache is empty, the
  locking webhook is in place, and the controller has the permissions the operator gives it.
  The passes of \<open>VmmrqController\<close> are run with the roles of \<open>ClusterResources\<close>.
\<close>

subsection \<open>A pass that gets nowhere\<close>

text \<open>Nothing that moves a quota or the lock was sent, and the controller knows what it knew.\<close>

definition idleCall :: "apiCall \<Rightarrow> bool" where
  "idleCall c = (case c of UpdateRQ _ \<Rightarrow> False | CreateVWC _ \<Rightarrow> False | DeleteVWC _ \<Rightarrow> False | _ \<Rightarrow> True)"

definition stuck :: "'s world \<Rightarrow> 's world \<Rightarrow> bool" where
  "stuck w0 w \<longleftrightarrow> w_nsc w = w_nsc w0 \<and> w_rqs w = w_rqs w0 \<and>
     (\<exists>l. w_log w = w_log w0 @ l \<and> list_all (idleCall \<circ> fst) l)"

lemma stuckD: "stuck w0 w \<Longrightarrow> w_nsc w = w_nsc w0" "stuck w0 w \<Longrightarrow> w_rqs w = w_rqs w0"
  by (simp_all add: stuck_def)

lemma stuck_simps [simp]:
  "stuck w w" "stuck w0 w \<Longrightarrow> stuck w0 (w\<lparr>w_heap := h\<rparr>)" "stuck w0 w \<Longrightarrow> stuck w0 (w\<lparr>w_heap := h, w_events := e\<rparr>)"
  by (auto simp: stuck_def)

lemma stuck_call:
  "stuck w0 w \<Longrightarrow> w_log w' = w_log w @ l \<Longrightarrow> list_all (idleCall \<circ> fst) l \<Longrightarrow> w_nsc w' = w_nsc w \<Longrightarrow> w_rqs w' = w_rqs w \<Longrightarrow>
   stuck w0 w'"
  by (auto simp: stuck_def)

lemma stuck_doRead: "stuck w0 w \<Longrightarrow> doRead c f w = (r, w') \<Longrightarrow> idleCall c \<Longrightarrow> stuck w0 w'"
  by (erule stuck_call) (auto simp: doRead_frame)

lemma stuck_doWrite: "stuck w0 w \<Longrightarrow> doWrite c f w = (r, w') \<Longrightarrow> idleCall c \<Longrightarrow> stuck w0 w'"
  by (erule stuck_call) (auto simp: doWrite_frame)

text \<open>An operation that stays stuck and can end the pass only with an error.\<close>

definition idles :: "'s world \<Rightarrow> ('s, 'a) op \<Rightarrow> bool" where
  "idles w0 m \<longleftrightarrow> triple (stuck w0) m (\<lambda>_. stuck w0) (\<lambda>out w. stuck w0 w \<and> (\<forall>st. out \<noteq> Returned None st))"

named_theorems idling \<open>operations that idle\<close>

lemma idles_bind [idling]: "idles w0 m \<Longrightarrow> (\<And>a. idles w0 (k a)) \<Longrightarrow> idles w0 (bindOp m k)"
  unfolding idles_def by (rule triple_bind)

lemma idles_basic [idling]: "idles w0 (returnOp a)" "idles w0 (tryPure st r)"
  by (simp_all add: idles_def triple_return triple_tryPure)

lemma idles_try:
  "(\<And>w r w'. stuck w0 w \<Longrightarrow> f w = (r, w') \<Longrightarrow> stuck w0 w') \<Longrightarrow> idles w0 (tryVal st f)"
  "(\<And>w r w'. stuck w0 w \<Longrightarrow> g w = (r, w') \<Longrightarrow> stuck w0 w') \<Longrightarrow> idles w0 (tryErr st g)"
  by (simp_all add: idles_def triple_tryVal triple_tryErr)

lemma idlesI:
  "(\<And>w r w'. stuck w0 w \<Longrightarrow> m w = (r, w') \<Longrightarrow> stuck w0 w' \<and> (\<forall>out st. r = Inl out \<longrightarrow> out \<noteq> Returned None st)) \<Longrightarrow> idles w0 m"
  unfolding idles_def by (rule tripleI) fastforce+

lemma idles_readVmmrq [idling]: "idles w0 (readVmmrq A ns)"
  unfolding readVmmrq_def
  by (intro idling idles_try idlesI) (auto simp: idleCall_def elim: stuck_doRead split: if_splits prod.splits)

lemma idles_sendStatus [idling]: "idles w0 (tryErr st (sendStatus A vm))"
  by (rule idles_try) (auto simp: sendStatus_def Let_def idleCall_def elim: stuck_doWrite)

lemma idles_syncAdditional [idling]: "idles w0 (syncAdditional A vm)"
proof -
  have "idles w0 (bindOp (tryErr Immediate (sendStatus A (vm\<lparr>v_add := v_specAdd vm\<rparr>))) (\<lambda>_. returnOp (vm\<lparr>v_add := v_specAdd vm\<rparr>)))"
    by (intro idling)
  then show ?thesis
    unfolding idles_def triple_def by (simp add: syncAdditional_def Let_def)
qed

lemma idles_snapshot [idling]: "idles w0 (snapshot vm)"
  by (rule idlesI) (auto simp: snapshot_def split: prod.splits)

lemma idles_inspectMigration [idling]: "idles w0 (inspectMigration en ns mig)"
  unfolding inspectMigration_def by (auto intro!: idling split: option.split)

lemma idles_targetPodOp [idling]: "idles w0 (targetPodOp en ns v)"
  unfolding targetPodOp_def by (auto intro!: idling split: option.split prod.split)

lemma idles_blocking [idling]: "idles w0 (tryVal st (getCurrBlockingRQInNS en vm m p l))"
  by (rule idles_try) (auto simp: getCurrBlockingRQInNS_def split: sum.splits prod.splits option.splits)

lemma idles_assignMig [idling]: "idles w0 (assignMig name rqs v)"
  by (rule idlesI) (auto simp: assignMig_def split: option.splits)

lemma idles_decideBlocking [idling]: "idles w0 (decideBlocking en ns name mig insp vm)"
  unfolding decideBlocking_def by (auto intro!: idling split: option.split prod.split bool.split)

lemma idles_adoptOriginals [idling]: "idles w0 (adoptOriginals en ns vm)"
  unfolding adoptOriginals_def
  by (intro idling idles_try) (auto simp: getAllBlockingRQsInNS_def Let_def split: sum.splits prod.splits)

subsection \<open>The lock that cannot be repaired\<close>

text \<open>The server refuses what the controller's roles do not allow.\<close>

definition enforcesRoles :: "string \<Rightarrow> 's api \<Rightarrow> bool" where
  "enforcesRoles mtqNs A \<longleftrightarrow>
     (\<forall>v s. controllerMay mtqNs (accessOf mtqNs (UpdateVWC v)) \<or> fst (api_updateVWC A v s) \<noteq> None)"

text \<open>The configuration the controller created is still there.\<close>

definition ownLockStored :: "string \<Rightarrow> string \<Rightarrow> 's api \<Rightarrow> bool" where
  "ownLockStored mtqNs ns A \<longleftrightarrow> (\<forall>s. \<exists>ca. fst (api_getVWC A (lockName ns) s) = Inr (lockingVWC ns mtqNs ca))"

lemma NamespaceLocked_refused:
  assumes "enforcesRoles m A" and "ownLockStored m ns A" and "ns \<noteq> m"
    and "NamespaceLocked A ns m ca w = (r, w')"
  shows "\<exists>e. r = Some (False, Some e)"
proof -
  have own: "isOurValidatingWebhookConfiguration ns m (lockingVWC ns m old) ca = Some False" for old
    by (rule isOur_name_differs [where wh = "getLockingValidatingWebhook m ns old"])
      (use assms(3) in \<open>simp_all add: lockingVWC_def getLockingValidatingWebhook_def lockName_def\<close>)
  obtain old s where got: "api_getVWC A (lockName ns) (w_srv w) = (Inr (lockingVWC ns m old), s)"
    using assms(2) by (metis ownLockStored_def prod.collapse)
  have "fst (api_updateVWC A v s) \<noteq> None" for v
    using assms(1) by (simp add: enforcesRoles_def controller_call del: accessOf.simps)
  then have refused: "\<exists>e s'. api_updateVWC A v s = (Some e, s')" for v
    by (metis not_None_eq prod.collapse)
  show ?thesis
    using assms(4) refused [of "(lockingVWC ns m old)\<lparr>vwc_webhooks := [getLockingValidatingWebhook m ns ca]\<rparr>"]
    by (auto simp: NamespaceLocked_def doRead_def doWrite_def got own Let_def)
qed

lemma readLock_stalls:
  assumes "enforcesRoles (e_mtqNs en) A" and "ownLockStored (e_mtqNs en) ns A" and "ns \<noteq> e_mtqNs en"
    and "GetLockState (w_nsc w0) ns = Unknown"
  shows "triple (stuck w0) (readLock A en ns) (\<lambda>_ _. False) (\<lambda>out w. stuck w0 w \<and> (\<forall>st. out \<noteq> Returned None st))"
proof -
  have *: "\<exists>e. r = Inl (Returned (Some e) Immediate) \<and> stuck w0 w'"
    if w: "stuck w0 w" and run: "readLock A en ns w = (r, w')" for w r w'
  proof -
    obtain ca w1 where ca: "doRead FetchBundle (api_bundleBytes A) w = (ca, w1)" by fastforce
    obtain q w2 where q: "NamespaceLocked A ns (e_mtqNs en) (bundleOr ca) w1 = (q, w2)" by fastforce
    obtain e where e: "q = Some (False, Some e)" using NamespaceLocked_refused [OF assms(1-3) q] by blast
    have "stuck w0 w1" using stuck_doRead [OF w ca] by (simp add: idleCall_def)
    then have "stuck w0 w2"
      using NamespaceLocked_frame [OF q] by (fastforce simp: idleCall_def list_all_iff intro: stuck_call)
    moreover have "GetLockState (w_nsc w) ns = Unknown" using w assms(4) by (simp add: stuckD)
    ultimately show ?thesis using run ca q e by (auto simp: readLock_def)
  qed
  show ?thesis by (rule tripleI) (use * in \<open>fastforce+\<close>)
qed

lemma triple_False: "triple (\<lambda>_. False) m post exc"
  by (simp add: triple_def)

lemma execute_stalls:
  assumes "parseKey key = Inr (ns, name)" and "enforcesRoles (e_mtqNs en) A" and "ownLockStored (e_mtqNs en) ns A"
    and "ns \<noteq> e_mtqNs en" and "GetLockState (w_nsc w) ns = Unknown"
  shows "(\<forall>st. fst (execute A en key w) \<noteq> Returned None st) \<and> stuck w (snd (execute A en key w))"
proof -
  let ?E = "\<lambda>out w'. stuck w w' \<and> (\<forall>st. out \<noteq> Returned None st)"
  have rest: "triple (stuck w) (bindOp (reconcile A en ns vm prev) k) (\<lambda>_ _. False) ?E"
    for vm prev and k :: "unit \<Rightarrow> ('a, enqueueState) op"
    unfolding reconcile_def
    by (intro triple_bind [where mid = "\<lambda>_ _. False"] readLock_stalls [OF assms(2-5)] triple_False)
  have front: "triple (stuck w) m (\<lambda>_. stuck w) ?E" if "idles w m" for m :: "('a, 'b) op"
    using that by (simp add: idles_def)
  have "triple (stuck w) (executeLocked A en ns name mig) (\<lambda>_ _. False) ?E" for mig
    unfolding executeLocked_def
    by (auto intro!: triple_bind [where mid = "\<lambda>_. stuck w"] front idling rest split: prod.split)
  note T = tripleD [OF this]
  show ?thesis
  proof (cases "e_migByKey en key")
    case (Inr mig)
    obtain r w' where r: "executeLocked A en ns name mig w = (r, w')" by fastforce
    show ?thesis using T [of w mig] r Inr assms(1) by (cases r) (auto simp: execute_def)
  qed (simp add: execute_def)
qed

subsection \<open>Any number of passes\<close>

text \<open>
  Passes one after the other, each with what the informers hold then; of each the key, how it
  ended and what it sent.
\<close>

fun runPasses :: "'s api \<Rightarrow> (env \<times> string) list \<Rightarrow> 's world \<Rightarrow> (string \<times> outcome \<times> apiCall list) list \<times> 's world" where
  "runPasses A [] w = ([], w)"
| "runPasses A ((en, key) # steps) w =
     (case execute A en key w of (out, w1) \<Rightarrow>
      case runPasses A steps w1 of (outs, w2) \<Rightarrow> ((key, out, map fst (sentBy A en key w)) # outs, w2))"

text \<open>The passes of a namespace that ended without an error or sent more than \<open>idleCall\<close> allows.\<close>

definition keyOf :: "string \<Rightarrow> string \<Rightarrow> bool" where
  "keyOf ns key \<longleftrightarrow> (case parseKey key of Inl _ \<Rightarrow> False | Inr (n, _) \<Rightarrow> n = ns)"

fun movedOn :: "outcome \<times> apiCall list \<Rightarrow> bool" where
  "movedOn (out, sent) \<longleftrightarrow> (\<exists>st. out = Returned None st) \<or> \<not> list_all idleCall sent"

definition passesThatMoved :: "string \<Rightarrow> (string \<times> outcome \<times> apiCall list) list \<Rightarrow> (string \<times> outcome \<times> apiCall list) list" where
  "passesThatMoved ns outs = filter (\<lambda>(key, rest). keyOf ns key \<and> movedOn rest) outs"

lemma pass_of_locked_namespace:
  assumes "enforcesRoles (e_mtqNs en) A" and "ownLockStored (e_mtqNs en) ns A"
    and "ns \<noteq> e_mtqNs en" and "GetLockState (w_nsc w) ns = Unknown"
    and run: "execute A en key w = (out, w')"
  shows "GetLockState (w_nsc w') ns = Unknown"
    and "keyOf ns key \<Longrightarrow> \<not> movedOn (out, map fst (sentBy A en key w))"
proof -
  have no_key: "w' = w" if "parseKey key = Inl e" for e
    using run that by (auto simp: execute_def split: sum.splits)
  have mine: "(\<forall>st. out \<noteq> Returned None st) \<and> stuck w w'" if "parseKey key = Inr (ns, name)" for name
    using execute_stalls [OF that assms(1-4)] run by simp
  have other: "GetLockState (w_nsc w') ns = Unknown" if "parseKey key = Inr (n, name)" "n \<noteq> ns" for n name
    using execute_stays [OF that(1), of w A en] run that(2) assms(4) by (simp add: stays_def)
  show "GetLockState (w_nsc w') ns = Unknown"
    using no_key mine other assms(4) by (metis old.prod.exhaust stuckD(1) sum.exhaust)
  show "\<not> movedOn (out, map fst (sentBy A en key w))" if k: "keyOf ns key"
  proof -
    obtain name where "parseKey key = Inr (ns, name)"
      using k by (cases "parseKey key") (auto simp: keyOf_def)
    from mine [OF this] obtain l where "w_log w' = w_log w @ l" "list_all (idleCall \<circ> fst) l" "\<forall>st. out \<noteq> Returned None st"
      by (auto simp: stuck_def)
    then show ?thesis using run by (simp add: sentBy_def logged_append list.pred_map)
  qed
qed

text \<open>C9: after a restart the controller stays stuck in a namespace that it had locked. With the roles
  the operator gives it, and the lock it created still stored, every pass for the namespace,
  however many there are and whatever passes of other namespaces run between them, ends with
  an error and neither writes a quota nor touches the lock: the raised quotas are not restored
  and the namespace is not unlocked, because \<open>NamespaceLocked\<close> does not recognise the
  controller's own configuration and the roles refuse the update it answers with.\<close>

theorem restart_stalls:
  assumes "enforcesRoles mtqNs A" and "ownLockStored mtqNs ns A" and "ns \<noteq> mtqNs"
    and "GetLockState (w_nsc w) ns = Unknown" and "list_all (\<lambda>(en, key). e_mtqNs en = mtqNs) steps"
  shows "passesThatMoved ns (fst (runPasses A steps w)) = []"
  using assms(4,5)
proof (induction steps arbitrary: w)
  case (Cons s steps)
  obtain en key where s: "s = (en, key)" by fastforce
  obtain out w1 where run: "execute A en key w = (out, w1)" by fastforce
  have m: "e_mtqNs en = mtqNs" using Cons.prems(2) s by simp
  note P = pass_of_locked_namespace [OF assms(1-3) [folded m] Cons.prems(1) run]
  have "passesThatMoved ns (fst (runPasses A steps w1)) = []"
    using Cons.IH [OF P(1)] Cons.prems(2) by simp
  then show ?case using P(2) by (cases "runPasses A steps w1") (simp add: passesThatMoved_def s run)
qed (simp add: passesThatMoved_def)

text \<open>The server of the scenario, with the lock stored and the update refused.\<close>

definition restartApi :: "unit api" where
  "restartApi = apiB\<lparr>api_getVWC := \<lambda>n s. (Inr (lockingVWC ''ns1'' ''mtq'' [1]), s),
     api_updateVWC := \<lambda>v s. (Some (GoErr ''forbidden''), s)\<rparr>"

theorem restart_stalls_witness:
  "passesThatMoved ''ns1'' (fst (runPasses restartApi [(envB, keyA), (envB, keyA)] (scWorld 3 NewNamespaceCache))) = [] \<and>
   fst (execute restartApi envB keyA (scWorld 3 NewNamespaceCache)) = Returned (Some (GoErr ''forbidden'')) Immediate"
proof
  show "passesThatMoved ''ns1'' (fst (runPasses restartApi [(envB, keyA), (envB, keyA)] (scWorld 3 NewNamespaceCache))) = []"
    by (rule restart_stalls [of "''mtq''"])
      (auto simp: enforcesRoles_def ownLockStored_def restartApi_def scWorld_def nsc.get_empty envB_def scEnv_def)
  show "fst (execute restartApi envB keyA (scWorld 3 NewNamespaceCache)) = Returned (Some (GoErr ''forbidden'')) Immediate"
    by code_simp
qed

end
