(* ===== verification/WorkerLoop.thy ===== *)
theory WorkerLoop
  imports VmmrqController Scenario
begin

text \<open>
  \<open>runWorker\<close> of \<open>vmmrq-controller.go\<close>: the loop of a worker, \<open>for ctrl.Execute() {}\<close>, which
  ends only when the queue is shut down or a pass panics, so it is a partial function. \<open>gets i\<close>
  is what the \<open>i\<close>-th call of \<open>Get\<close> hands out and \<open>envs i\<close> what the informers hold then.
\<close>

text \<open>The keys for which \<open>Done\<close> is called.\<close>

fun doneKeys :: "queueOp list \<Rightarrow> string list" where
  "doneKeys [] = []"
| "doneKeys (QDone key # ops) = key # doneKeys ops"
| "doneKeys (_ # ops) = doneKeys ops"

text \<open>The queue operations, whether the loop ended by itself (and not by a panic), and the world.\<close>

partial_function (option) runWorker ::
  "'s api \<Rightarrow> (nat \<Rightarrow> env) \<Rightarrow> (nat \<Rightarrow> string option) \<Rightarrow> nat \<Rightarrow> 's world \<Rightarrow> (queueOp list \<times> bool \<times> 's world) option" where
  "runWorker A envs gets i w =
     (case Execute A (envs i) (gets i) w of
        (goesOn, ops, w') \<Rightarrow>
          (if goesOn = Some True
           then Option.bind (runWorker A envs gets (Suc i) w') (\<lambda>(rest, ok, w''). Some (ops @ rest, ok, w''))
           else Some (ops, goesOn = Some False, w')))"

lemma doneKeys_append [simp]: "doneKeys (a @ b) = doneKeys a @ doneKeys b"
  by (induction a rule: doneKeys.induct) simp_all

lemma doneKeys_enqueue [simp]: "doneKeys (enqueueOps st key) = []"
  by (cases st) simp_all

lemma Execute_cases:
  obtains (shutdown) "got = None" "Execute A en got w = (Some False, [], w)"
  | (went) key ops w' where "got = Some key" "Execute A en got w = (Some True, ops, w')" "doneKeys ops = [key]"
  | (panicked) key ops w' where "got = Some key" "Execute A en got w = (None, ops, w')" "doneKeys ops = [key]"
proof (cases got)
  case None
  then show thesis using shutdown by (simp add: Execute_def)
next
  case (Some key)
  obtain o1 w' where "execute A en key w = (o1, w')" by fastforce
  then show thesis using Some went panicked by (cases o1) (auto simp: Execute_def)
qed

lemma runWorker_returns:
  assumes "gets (i + d) = None"
  shows "\<exists>ops ok w' m. runWorker A envs gets i w = Some (ops, ok, w') \<and> i \<le> m \<and> m \<le> i + d \<and>
    map Some (doneKeys ops) = map gets [i..<m] \<and> (ok \<longrightarrow> gets m = None)"
  using assms
proof (induction d arbitrary: i w)
  case 0
  then have "gets i = None" by simp
  then have "runWorker A envs gets i w = Some ([], True, w)" by (subst runWorker.simps) (simp add: Execute_def)
  then show ?case using \<open>gets i = None\<close> by (intro exI [of _ "[]"] exI [of _ True] exI [of _ w] exI [of _ i]) simp
next
  case (Suc d)
  show ?case
  proof (cases rule: Execute_cases [of "gets i" A "envs i" w])
    case shutdown
    have "runWorker A envs gets i w = Some ([], True, w)"
      using shutdown(2) by (subst runWorker.simps) simp
    then show ?thesis using shutdown(1) by (intro exI [of _ "[]"] exI [of _ True] exI [of _ w] exI [of _ i]) simp
  next
    case (went key ops w')
    obtain rest ok w'' m where rest: "runWorker A envs gets (Suc i) w' = Some (rest, ok, w'')" "Suc i \<le> m" "m \<le> Suc i + d"
      "map Some (doneKeys rest) = map gets [Suc i..<m]" "ok \<longrightarrow> gets m = None"
      using Suc.IH [of "Suc i" w'] Suc.prems by auto
    have "runWorker A envs gets i w = Some (ops @ rest, ok, w'')"
      using went(2) rest(1) by (subst runWorker.simps) simp
    moreover have "map Some (doneKeys (ops @ rest)) = map gets [i..<m]"
      using went(1,3) rest(2,4) by (simp add: upt_conv_Cons)
    ultimately show ?thesis using rest(2,3,5) by (intro exI [of _ "ops @ rest"] exI [of _ ok] exI [of _ w''] exI [of _ m]) simp
  next
    case (panicked key ops w')
    have "runWorker A envs gets i w = Some (ops, False, w')"
      using panicked(2) by (subst runWorker.simps) simp
    then show ?thesis using panicked(1,3) by (intro exI [of _ ops] exI [of _ False] exI [of _ w'] exI [of _ "Suc i"]) simp
  qed
qed

text \<open>C21: a worker ends once the queue is shut down, whatever the passes do: the loop returns when
  some \<open>Get\<close> finds the queue shut down, and by then has called \<open>Done\<close> exactly once, in order, for
  every key it was handed, also for one whose pass panicked.\<close>

theorem worker_ends:
  assumes "gets n = None"
  shows "\<exists>ops ok w' m. runWorker A envs gets 0 w = Some (ops, ok, w') \<and> m \<le> n \<and>
    map Some (doneKeys ops) = map gets [0..<m] \<and> (ok \<longrightarrow> gets m = None)"
  using runWorker_returns [of gets 0 n] assms by simp

theorem worker_ends_witness:
  "\<exists>ops ok w'. runWorker apiA (\<lambda>_. envA) (\<lambda>i. if i = 0 then Some keyA else None) 0 worldA = Some (ops, ok, w')"
  using worker_ends [of "\<lambda>i. if i = 0 then Some keyA else None" 1 apiA "\<lambda>_. envA" worldA] by auto

end
