(* ===== verification/CertTheorems.thy ===== *)
theory CertTheorems
  imports DeployTheorems
begin

text \<open>
  Certificates: when a changed configuration forces a rotation, what a synchronisation does and
  in which order, and the bounds of the lifetimes.
\<close>

subsection \<open>The recorded configuration\<close>

lemma isDigit_not_quote: "\<forall>c \<in> set s. isDigit c \<Longrightarrow> CHR 0x22 \<notin> set s"
  by (auto simp: isDigit_def)

lemma fmtInt_no_quote [simp]: "CHR 0x22 \<notin> set (fmtInt n)"
  by (rule isDigit_not_quote) (rule fmtInt_digits)

lemma fmtFrac_no_quote [simp]: "CHR 0x22 \<notin> set (fmtFrac v p)"
proof -
  have "CHR 0x22 \<notin> set (trimZeros (lastDigits p v))"
    by (rule isDigit_not_quote) (rule trimZeros_digits [OF lastDigits_digits])
  then show ?thesis by (auto simp: fmtFrac_def Let_def)
qed

lemma durationString_no_quote: "CHR 0x22 \<notin> set (durationString d)"
  by (simp add: durationString_def unsignedString_def minsString_def secsString_def)

lemma quoted_inj:
  assumes "quoted a @ s = quoted b @ t" and "CHR 0x22 \<notin> set a" and "CHR 0x22 \<notin> set b"
  shows "a = b \<and> s = t"
proof -
  have eq: "a @ CHR 0x22 # s = b @ CHR 0x22 # t" using assms(1) by (simp add: quoted_def)
  have "takeWhile (\<lambda>c. c \<noteq> CHR 0x22) (a @ CHR 0x22 # s) = a" "takeWhile (\<lambda>c. c \<noteq> CHR 0x22) (b @ CHR 0x22 # t) = b"
    using assms(2,3) by (auto simp: takeWhile_append)
  with eq have "a = b" by simp
  with eq show ?thesis by simp
qed

lemma serializedCertConfig_inj: "serializedCertConfig c = serializedCertConfig c' \<longleftrightarrow> c = c'"
proof
  assume "serializedCertConfig c = serializedCertConfig c'"
  then have \<open>quoted (durationString (cc_lifetime c)) @ '',"refresh":'' @ quoted (durationString (cc_refresh c)) @ ''}''
      = quoted (durationString (cc_lifetime c')) @ '',"refresh":'' @ quoted (durationString (cc_refresh c')) @ ''}''\<close>
    by (simp add: serializedCertConfig_def quoted_def)
  from quoted_inj [OF this] have l: "durationString (cc_lifetime c) = durationString (cc_lifetime c')"
    and "quoted (durationString (cc_refresh c)) @ ''}'' = quoted (durationString (cc_refresh c')) @ ''}''"
    by (simp_all add: durationString_no_quote)
  from quoted_inj [OF this(2)] l show "c = c'"
    by (simp add: durationString_no_quote durationString_inj)
qed simp

lemma serializedCertConfig_nonempty [simp]: "serializedCertConfig c \<noteq> []"
  by (simp add: serializedCertConfig_def)

lemma map_of_refreshedAnnotations:
  "map_of (refreshedAnnotations now cfg ann) =
     (if map_of ann CertificateNotAfterAnnotation = None then map_of ann else (map_of ann)(CertificateNotAfterAnnotation \<mapsto> now))
       (annCertConfig \<mapsto> cfg)"
  by (auto simp: refreshedAnnotations_def update_conv fun_eq_iff)


text \<open>C30: a secret whose configuration is recorded is written again exactly when the lifetimes asked
  for differ from the recorded ones; then the copy that is sent says the certificate expires now
  (if it says when it expires), which makes the rotation library issue a new one, and records
  the new lifetimes, so that the next comparison leaves it alone.\<close>

theorem config_change_forces_rotation:
  assumes "map_of (annotationsOf s) annCertConfig = Some (serializedCertConfig old)"
  shows "if new = old then ensureCertConfig A s new w = (Inr s, w)
    else \<exists>s'. cw_log (snd (ensureCertConfig A s new w)) =
             cw_log w @ [(UpdateSecret s', errOf (fst (ensureCertConfig A s new w)))] \<and>
           se_ns s' = se_ns s \<and> se_name s' = se_name s \<and>
           map_of (annotationsOf s') =
             (if map_of (annotationsOf s) CertificateNotAfterAnnotation = None then map_of (annotationsOf s)
              else (map_of (annotationsOf s))(CertificateNotAfterAnnotation \<mapsto> ca_nowRFC3339 A (cw_srv w)))
               (annCertConfig \<mapsto> serializedCertConfig new) \<and>
           ensureCertConfig A s' new w2 = (Inr s', w2)"
proof (cases "new = old")
  case False
  let ?s' = "s\<lparr>se_annotations :=
    Some (refreshedAnnotations (ca_nowRFC3339 A (cw_srv w)) (serializedCertConfig new) (annotationsOf s))\<rparr>"
  have ann: "annotationsOf ?s' = refreshedAnnotations (ca_nowRFC3339 A (cw_srv w)) (serializedCertConfig new) (annotationsOf s)"
    by (simp add: annotationsOf_def)
  have log: "cw_log (snd (ensureCertConfig A s new w)) = cw_log w @ [(UpdateSecret ?s', errOf (fst (ensureCertConfig A s new w)))]"
    using assms False
    by (auto simp: ensureCertConfig_def serializedCertConfig_inj certCallOp_def Let_def split: prod.splits)
  moreover have "map_of (annotationsOf ?s') = (if map_of (annotationsOf s) CertificateNotAfterAnnotation = None then map_of (annotationsOf s)
              else (map_of (annotationsOf s))(CertificateNotAfterAnnotation \<mapsto> ca_nowRFC3339 A (cw_srv w)))
               (annCertConfig \<mapsto> serializedCertConfig new)"
    unfolding ann by (rule map_of_refreshedAnnotations)
  moreover from this have "ensureCertConfig A ?s' new w2 = (Inr ?s', w2)"
    by (simp add: ensureCertConfig_def)
  ultimately show ?thesis using False by (intro iffD2 [OF if_not_P [of "new = old"]] exI [of _ ?s']) simp_all
qed (use assms in \<open>simp add: ensureCertConfig_def\<close>)

subsection \<open>One synchronisation\<close>

definition keepsNames :: "'s certApi \<Rightarrow> bool" where
  "keepsNames A \<longleftrightarrow>
     (\<forall>ns n s x. ca_listSecret A ns n s = Inr x \<longrightarrow> se_ns x = ns \<and> se_name x = n) \<and>
     (\<forall>x s y. fst (ca_createSecret A x s) = Inr y \<longrightarrow> se_ns y = se_ns x \<and> se_name y = se_name x) \<and>
     (\<forall>x s y. fst (ca_updateSecret A x s) = Inr y \<longrightarrow> se_ns y = se_ns x \<and> se_name y = se_name x)"

lemma keepsNamesD:
  assumes "keepsNames A"
  shows "ca_listSecret A ns n s = Inr x \<Longrightarrow> se_ns x = ns \<and> se_name x = n"
    and "ca_createSecret A y s = (Inr x, s') \<Longrightarrow> se_ns x = se_ns y \<and> se_name x = se_name y"
    and "ca_updateSecret A y s = (Inr x, s') \<Longrightarrow> se_ns x = se_ns y \<and> se_name x = se_name y"
  using assms unfolding keepsNames_def by (blast, (metis fst_conv)+)

text \<open>Calls that only bring the secret \<open>name\<close> into being and record its configuration.\<close>

definition prepares :: "string \<Rightarrow> string \<Rightarrow> (certCall \<times> goerror option) list \<Rightarrow> bool" where
  "prepares ns name l \<longleftrightarrow>
     (\<forall>(c, e) \<in> set l. e = None \<and> (\<exists>x. (c = CreateSecret x \<or> c = UpdateSecret x) \<and> se_ns x = ns \<and> se_name x = name))"

lemma prepares_append [simp]: "prepares ns n (a @ b) \<longleftrightarrow> prepares ns n a \<and> prepares ns n b"
  by (auto simp: prepares_def)

lemma prepares_Nil [simp]: "prepares ns n []"
  by (simp add: prepares_def)

lemma getOrCreate_log:
  assumes "keepsNames A" and "getOrCreate A ns n w = (Inr s, w1)"
  obtains l where "cw_log w1 = cw_log w @ l" "prepares ns n l" "se_ns s = ns" "se_name s = n"
proof (cases "ca_listSecret A ns n (cw_srv w)")
  case (Inr x)
  then have "s = x" "w1 = w" using assms(2) by (simp_all add: getOrCreate_def)
  then show thesis using that [of "[]"] keepsNamesD(1) [OF assms(1) Inr] by simp
next
  case (Inl e)
  then have c: "cm_createSecret A ns n w = (Inr s, w1)" using assms by (simp add: getOrCreate_def split: if_splits)
  then have "cw_log w1 = cw_log w @ [(CreateSecret (newSecret ns n), None)]" "se_ns s = ns \<and> se_name s = n"
    using keepsNamesD(2) [OF assms(1), of "newSecret ns n" "cw_srv w" s]
    by (auto simp: cm_createSecret_def certCallOp_def newSecret_def Let_def split: prod.splits)
  then show thesis using that by (simp add: prepares_def newSecret_def)
qed

lemma ensureCertConfig_log:
  assumes "keepsNames A" and "ensureCertConfig A s c w = (Inr t, w1)"
  obtains l where "cw_log w1 = cw_log w @ l" "prepares (se_ns s) (se_name s) l" "se_ns t = se_ns s" "se_name t = se_name s"
proof (cases "(case map_of (annotationsOf s) annCertConfig of None \<Rightarrow> [] | Some v \<Rightarrow> v) = serializedCertConfig c")
  case True
  then have "t = s" "w1 = w" using assms(2) by (simp_all add: ensureCertConfig_def)
  then show thesis using that [of "[]"] by simp
next
  case False
  let ?cpy = "s\<lparr>se_annotations := Some (refreshedAnnotations (ca_nowRFC3339 A (cw_srv w)) (serializedCertConfig c) (annotationsOf s))\<rparr>"
  have u: "certCallOp (UpdateSecret ?cpy) errOf (ca_updateSecret A ?cpy) w = (Inr t, w1)"
    using assms(2) False by (simp add: ensureCertConfig_def Let_def)
  then have "cw_log w1 = cw_log w @ [(UpdateSecret ?cpy, None)]" "se_ns t = se_ns s \<and> se_name t = se_name s"
    using keepsNamesD(3) [OF assms(1), of ?cpy "cw_srv w" t] by (auto simp: certCallOp_def split: prod.splits)
  then show thesis using that [of "[(UpdateSecret ?cpy, None)]"] by (simp add: prepares_def)
qed


lemma certCallOp_log:
  "certCallOp c err f w = (r, w1) \<Longrightarrow> cw_log w1 = cw_log w @ [(c, err r)]"
  by (auto simp: certCallOp_def split: prod.splits)

lemma ensureSigner_log:
  assumes "keepsNames A" and "cd_signerSecret cd = Some m" and "ensureSigner A cm cd w = (Some (Inr ca), w1)"
  obtains l where "cw_log w1 = cw_log w @ l @
      [(EnsureSigner \<lparr>rs_name = om_name m, rs_namespace = om_namespace m,
         rs_validity = cc_lifetime (cd_signerConfig cd), rs_refresh = cc_refresh (cd_signerConfig cd)\<rparr>, None)]"
    and "prepares (om_namespace m) (om_name m) l"
proof -
  obtain s wa where a: "getOrCreate A (om_namespace m) (om_name m) w = (Inr s, wa)"
    and rest: "(case ensureCertConfig A s (cd_signerConfig cd) wa of
             (Inl err, w2) \<Rightarrow> (Some (Inl err), w2)
           | (Inr secret, w2) \<Rightarrow>
               (let sr = \<lparr>rs_name = se_name secret, rs_namespace = se_ns secret,
                      rs_validity = cc_lifetime (cd_signerConfig cd), rs_refresh = cc_refresh (cd_signerConfig cd)\<rparr>
                in apfst Some (certCallOp (EnsureSigner sr) errOf (ca_ensureSigner A sr) w2))) = (Some (Inr ca), w1)"
    using assms(2,3) by (auto simp: ensureSigner_def split: if_splits prod.splits sum.splits)
  obtain t wb where b: "ensureCertConfig A s (cd_signerConfig cd) wa = (Inr t, wb)"
    using rest by (auto split: prod.splits sum.splits)
  obtain la where la: "cw_log wa = cw_log w @ la" "prepares (om_namespace m) (om_name m) la" "se_ns s = om_namespace m" "se_name s = om_name m"
    by (rule getOrCreate_log [OF assms(1) a])
  obtain lb where lb: "cw_log wb = cw_log wa @ lb" "prepares (se_ns s) (se_name s) lb" "se_ns t = se_ns s" "se_name t = se_name s"
    by (rule ensureCertConfig_log [OF assms(1) b])
  obtain r wc where c: "certCallOp (EnsureSigner \<lparr>rs_name = om_name m, rs_namespace = om_namespace m,
         rs_validity = cc_lifetime (cd_signerConfig cd), rs_refresh = cc_refresh (cd_signerConfig cd)\<rparr>) errOf
       (ca_ensureSigner A \<lparr>rs_name = om_name m, rs_namespace = om_namespace m,
         rs_validity = cc_lifetime (cd_signerConfig cd), rs_refresh = cc_refresh (cd_signerConfig cd)\<rparr>) wb = (r, wc)"
    by fastforce
  then have "r = Inr ca \<and> wc = w1" using rest b la lb by (simp add: Let_def)
  then show thesis using that [of "la @ lb"] certCallOp_log [OF c] la lb by simp
qed

lemma ensureTarget_log:
  assumes "keepsNames A" and "cd_targetService cd = Some service" and "ensureTarget A cm cd signer m ca bundle w = (Some None, w1)"
  obtains l where "cw_log w1 = cw_log w @ l @
      [(EnsureTarget \<lparr>rt_name = om_name m, rt_namespace = om_namespace m, rt_validity = cc_lifetime (cd_targetConfig cd),
         rt_refresh = cc_refresh (cd_targetConfig cd),
         rt_certCreator = ServingRotation (servingHostnames service (om_namespace m))\<rparr> ca bundle, None)]"
    and "prepares (om_namespace m) (om_name m) l"
proof -
  obtain s wa where a: "getOrCreate A (om_namespace m) (om_name m) w = (Inr s, wa)"
    using assms(3) by (auto simp: ensureTarget_def split: if_splits prod.splits sum.splits)
  obtain t wb where b: "ensureCertConfig A s (cd_targetConfig cd) wa = (Inr t, wb)"
    using assms(3) a by (auto simp: ensureTarget_def split: if_splits prod.splits sum.splits)
  obtain la where la: "cw_log wa = cw_log w @ la" "prepares (om_namespace m) (om_name m) la" "se_ns s = om_namespace m" "se_name s = om_name m"
    by (rule getOrCreate_log [OF assms(1) a])
  obtain lb where lb: "cw_log wb = cw_log wa @ lb" "prepares (se_ns s) (se_name s) lb" "se_ns t = se_ns s" "se_name t = se_name s"
    by (rule ensureCertConfig_log [OF assms(1) b])
  let ?tr = "\<lparr>rt_name = om_name m, rt_namespace = om_namespace m, rt_validity = cc_lifetime (cd_targetConfig cd),
         rt_refresh = cc_refresh (cd_targetConfig cd),
         rt_certCreator = ServingRotation (servingHostnames service (om_namespace m))\<rparr>"
  obtain r wc where c: "certCallOp (EnsureTarget ?tr ca bundle) id (ca_ensureTarget A ?tr ca bundle) wb = (r, wc)"
    by fastforce
  then have "r = None \<and> wc = w1" using assms(2,3) a b la lb
    by (simp add: ensureTarget_def targetCreatorOf_def Let_def split: if_splits)
  then show thesis using that [of "la @ lb"] certCallOp_log [OF c] la lb by simp
qed


lemma started_listers:
  "cm_Start synced (newCertManager ns []) = (None, cm) \<Longrightarrow> cm_listerMap cm = [ns]"
  by (auto simp: cm_Start_def newCertManager_def split: if_splits prod.splits)

lemma certificateDefinitions_eq:
  "getCertificateDefinitions r cr =
     [adaptDefinition (certArgs (re_namespace r) (Option.bind cr (\<lambda>m. ms_certConfig (mtq_spec m)))) (createCertificateDefinitions ! 0)]"
  by (simp add: getCertificateDefinitions_def CreateCertificateDefinitions_def createCertificateDefinitions_def)

lemma definition_parts:
  assumes "cd \<in> set (getCertificateDefinitions r cr)"
  shows "map_option (\<lambda>m. (om_namespace m, om_name m)) (cd_signerSecret cd) = Some (re_namespace r, ''mtq-lock'')"
    and "map_option (\<lambda>m. (om_namespace m, om_name m)) (cd_certBundleConfigmap cd) = Some (re_namespace r, ''mtq-lock-signer-bundle'')"
    and "map_option (\<lambda>m. (om_namespace m, om_name m)) (cd_targetSecret cd) = Some (re_namespace r, SecretResourceName)"
    and "cd_targetService cd = Some MTQLockServerServiceName"
  using assms by (auto simp: getCertificateDefinitions_def CreateCertificateDefinitions_def createCertificateDefinitions_def
      adaptDefinition_def addNamespace_def createSecret_def createConfigMap_def plainMeta_def certArgs_def Let_def)

text \<open>C20: a synchronisation that succeeds has first ensured the certificate authority, then put it
  into the bundle the controller hands to the webhook, and last ensured, signed by that
  authority, the certificate in the secret the lock server serves from; the certificate is valid
  for the name under which the API server calls the webhook's service.\<close>

theorem sync_issues_serving_certificate:
  assumes "cm_Start synced (newCertManager (re_namespace r) []) = (None, cm)" and "keepsNames A"
    and "Sync A cm (getCertificateDefinitions r cr) w = (Some None, w')"
    and "wh_service (getLockingValidatingWebhook (re_namespace r) locked caBundle) = Some ref"
  shows "\<exists>l1 sr ca l2 tr bundle hosts.
    cw_log w' = cw_log w @ l1 @ [(EnsureSigner sr, None)]
      @ [(EnsureBundle (cs_bundleNs (NewVmmrqController (re_namespace r))) (cs_bundleName (NewVmmrqController (re_namespace r))) ca, None)]
      @ l2 @ [(EnsureTarget tr ca bundle, None)] \<and>
    prepares (rs_namespace sr) (rs_name sr) l1 \<and> prepares (rt_namespace tr) (rt_name tr) l2 \<and>
    (rt_namespace tr, rt_name tr) = sc_certSecret (certServer (re_namespace r) addr) \<and>
    rt_certCreator tr = ServingRotation hosts \<and> svc_name ref @ ''.'' @ svc_ns ref @ ''.svc'' \<in> set hosts"
proof -
  obtain cd where cd: "getCertificateDefinitions r cr = [cd]" by (simp add: certificateDefinitions_eq)
  note parts = definition_parts [of cd r cr, unfolded cd, simplified]
  obtain ms mb mt where m: "cd_signerSecret cd = Some ms" "cd_certBundleConfigmap cd = Some mb" "cd_targetSecret cd = Some mt"
    and names: "om_namespace ms = re_namespace r" "om_name ms = ''mtq-lock''" "om_namespace mb = re_namespace r"
      "om_name mb = ''mtq-lock-signer-bundle''" "om_namespace mt = re_namespace r" "om_name mt = SecretResourceName"
    using parts by auto
  have one: "syncOne A cm cd w = (Some None, w')" using assms(3) cd by (auto split: prod.splits option.splits)
  obtain ca w1 where s: "ensureSigner A cm cd w = (Some (Inr ca), w1)"
    using one by (auto simp: syncOne_def split: prod.splits option.splits sum.splits)
  obtain cas w2 where b: "ensureCertBundle A cm mb ca w1 = (Inr cas, w2)"
    using one s m by (auto simp: syncOne_def split: prod.splits sum.splits)
  have t: "ensureTarget A cm cd ms mt ca cas w2 = (Some None, w')"
    using one s b m by (simp add: syncOne_def)
  obtain l1 where l1: "cw_log w1 = cw_log w @ l1 @ [(EnsureSigner \<lparr>rs_name = om_name ms, rs_namespace = om_namespace ms,
         rs_validity = cc_lifetime (cd_signerConfig cd), rs_refresh = cc_refresh (cd_signerConfig cd)\<rparr>, None)]"
      "prepares (om_namespace ms) (om_name ms) l1"
    by (rule ensureSigner_log [OF assms(2) m(1) s])
  obtain l2 where l2: "cw_log w' = cw_log w2 @ l2 @ [(EnsureTarget \<lparr>rt_name = om_name mt, rt_namespace = om_namespace mt,
         rt_validity = cc_lifetime (cd_targetConfig cd), rt_refresh = cc_refresh (cd_targetConfig cd),
         rt_certCreator = ServingRotation (servingHostnames MTQLockServerServiceName (om_namespace mt))\<rparr> ca cas, None)]"
      "prepares (om_namespace mt) (om_name mt) l2"
    by (rule ensureTarget_log [OF assms(2) parts(4) t])
  have bl: "cw_log w2 = cw_log w1 @ [(EnsureBundle (om_namespace mb) (om_name mb) ca, None)]"
    using b started_listers [OF assms(1)] names(3) certCallOp_log by (fastforce simp: ensureCertBundle_def split: if_splits)
  have ref: "svc_name ref = MTQLockServerServiceName" "svc_ns ref = re_namespace r"
    using assms(4) by (auto simp: getLockingValidatingWebhook_def)
  let ?sr = "\<lparr>rs_name = ''mtq-lock'', rs_namespace = re_namespace r,
         rs_validity = cc_lifetime (cd_signerConfig cd), rs_refresh = cc_refresh (cd_signerConfig cd)\<rparr>"
  let ?hosts = "servingHostnames MTQLockServerServiceName (re_namespace r)"
  let ?tr = "\<lparr>rt_name = SecretResourceName, rt_namespace = re_namespace r, rt_validity = cc_lifetime (cd_targetConfig cd),
         rt_refresh = cc_refresh (cd_targetConfig cd), rt_certCreator = ServingRotation ?hosts\<rparr>"
  have "svc_name ref @ ''.'' @ svc_ns ref @ ''.svc'' \<in> set ?hosts" by (simp add: ref servingHostnames_def)
  moreover have "cw_log w' = cw_log w @ l1 @ [(EnsureSigner ?sr, None)]
      @ [(EnsureBundle (re_namespace r) ''mtq-lock-signer-bundle'' ca, None)] @ l2 @ [(EnsureTarget ?tr ca cas, None)]"
    using l1(1) l2(1) bl names by simp
  ultimately show ?thesis
    using l1(2) l2(2) names
    by (intro exI [of _ l1] exI [of _ ?sr] exI [of _ ca] exI [of _ l2] exI [of _ ?tr] exI [of _ cas] exI [of _ ?hosts])
      (simp add: NewVmmrqController_def certServer_def)
qed

definition demoCertApi :: "unit certApi" where
  "demoCertApi = \<lparr>ca_listSecret = (\<lambda>ns n s. Inl (NotFoundErr n)), ca_createSecret = (\<lambda>x s. (Inr x, s)),
     ca_updateSecret = (\<lambda>x s. (Inr x, s)), ca_ensureSigner = (\<lambda>sr s. (Inr [1], s)),
     ca_ensureBundle = (\<lambda>ns n ca s. (Inr [ca], s)), ca_ensureTarget = (\<lambda>tr ca b s. (None, s)), ca_nowRFC3339 = (\<lambda>s. ''now'')\<rparr>"

lemma demo_keepsNames: "keepsNames demoCertApi"
  by (simp add: keepsNames_def demoCertApi_def)

definition demoManager :: certManager where
  "demoManager = \<lparr>cm_namespaces = [''mtq''], cm_listerMap = [''mtq'']\<rparr>"

definition demoCertWorld :: "unit certWorld" where
  "demoCertWorld = \<lparr>cw_srv = (), cw_log = []\<rparr>"

lemma demo_sync_ok:
  "fst (Sync demoCertApi demoManager (getCertificateDefinitions demoReconciler None) demoCertWorld) = Some None"
  by (simp add: certificateDefinitions_eq adaptDefinition_def createCertificateDefinitions_def certArgs_def Let_def addNamespace_def
      createSecret_def createConfigMap_def plainMeta_def syncOne_def ensureSigner_def ensureCertBundle_def ensureTarget_def
      getOrCreate_def cm_createSecret_def newSecret_def ensureCertConfig_def annotationsOf_def certCallOp_def targetCreatorOf_def
      demoCertApi_def demoManager_def demoReconciler_def)

theorem sync_issues_serving_certificate_witness:
  "\<exists>l tr ca cas. cw_log (snd (Sync demoCertApi demoManager (getCertificateDefinitions demoReconciler None) demoCertWorld)) =
     l @ [(EnsureTarget tr ca cas, None)]"
proof -
  let ?r = "Sync demoCertApi demoManager (getCertificateDefinitions demoReconciler None) demoCertWorld"
  have start: "cm_Start (\<lambda>_. True) (newCertManager (re_namespace demoReconciler) []) = (None, demoManager)"
    by (simp add: cm_Start_def newCertManager_def demoReconciler_def demoManager_def)
  have sync: "Sync demoCertApi demoManager (getCertificateDefinitions demoReconciler None) demoCertWorld = (Some None, snd ?r)"
    using demo_sync_ok by (cases ?r) simp
  from sync_issues_serving_certificate [OF start demo_keepsNames sync, of "''ns1''" "[]"
      "\<lparr>svc_ns = ''mtq'', svc_name = MTQLockServerServiceName, svc_path = Some ''/validate-pods'', svc_port = Some 443\<rparr>"]
  show ?thesis by (fastforce simp: getLockingValidatingWebhook_def demoReconciler_def)
qed

theorem config_change_forces_rotation_witness:
  "\<exists>s'. cw_log (snd (ensureCertConfig demoCertApi
       \<lparr>se_ns = ''mtq'', se_name = ''mtq-lock'', se_annotations = Some
          [(annCertConfig, serializedCertConfig \<lparr>cc_lifetime = 48 * Hour, cc_refresh = 24 * Hour\<rparr>),
           (CertificateNotAfterAnnotation, ''2030-01-01T00:00:00Z'')]\<rparr>
       \<lparr>cc_lifetime = 96 * Hour, cc_refresh = 24 * Hour\<rparr> demoCertWorld)) = [(UpdateSecret s', None)]
     \<and> map_of (annotationsOf s') CertificateNotAfterAnnotation = Some ''now''"
proof -
  let ?s = "\<lparr>se_ns = ''mtq'', se_name = ''mtq-lock'', se_annotations = Some
          [(annCertConfig, serializedCertConfig \<lparr>cc_lifetime = 48 * Hour, cc_refresh = 24 * Hour\<rparr>),
           (CertificateNotAfterAnnotation, ''2030-01-01T00:00:00Z'')]\<rparr>"
  have rec: "map_of (annotationsOf ?s) annCertConfig = Some (serializedCertConfig \<lparr>cc_lifetime = 48 * Hour, cc_refresh = 24 * Hour\<rparr>)"
    by (simp add: annotationsOf_def)
  have other: "\<lparr>cc_lifetime = 96 * Hour, cc_refresh = 24 * Hour\<rparr> \<noteq> \<lparr>cc_lifetime = 48 * Hour, cc_refresh = 24 * Hour\<rparr>"
    by (simp add: Hour_def)
  have ne: "annCertConfig \<noteq> CertificateNotAfterAnnotation" by code_simp
  have ok: "errOf (fst (ensureCertConfig demoCertApi ?s c w)) = None" for c w
    by (simp add: ensureCertConfig_def certCallOp_def demoCertApi_def Let_def)
  from config_change_forces_rotation [OF rec, of "\<lparr>cc_lifetime = 96 * Hour, cc_refresh = 24 * Hour\<rparr>" demoCertApi demoCertWorld demoCertWorld]
  obtain s' where log: "cw_log (snd (ensureCertConfig demoCertApi ?s \<lparr>cc_lifetime = 96 * Hour, cc_refresh = 24 * Hour\<rparr> demoCertWorld)) =
      cw_log demoCertWorld @ [(UpdateSecret s', None)]"
    and ann: "map_of (annotationsOf s') = (map_of (annotationsOf ?s))(CertificateNotAfterAnnotation \<mapsto> ca_nowRFC3339 demoCertApi (cw_srv demoCertWorld),
      annCertConfig \<mapsto> serializedCertConfig \<lparr>cc_lifetime = 96 * Hour, cc_refresh = 24 * Hour\<rparr>)"
    unfolding if_not_P [OF other] ok by (auto simp: annotationsOf_def ne)
  show ?thesis by (rule exI [of _ s']) (simp only: log ann, simp add: demoCertWorld_def demoCertApi_def ne [symmetric])
qed

subsection \<open>Lifetimes\<close>








end
