(* ===== verification/CrdSchema.thy ===== *)
theory CrdSchema
  imports GoTime Scenario
begin

text \<open>
  The schema of the VMMRQ resource definition in \<open>crds_generated.go\<close> and the JSON of the types in
  \<open>types.go\<close>. How a quantity is printed and what a scope selector holds, which the controller
  does not look into, are arguments.
\<close>

subsection \<open>JSON and structural schemas\<close>

datatype json =
    JNull
  | JInt int
  | JString string
  | JArr "json list"
  | JObj "(string \<times> json) list"

text \<open>
  The part of OpenAPI the definition uses. The text alternative of \<open>SIntOrString\<close> has the pattern
  of quantities; \<open>SMetadata\<close> is the metadata, which the server does not prune.
\<close>

datatype sch =
    SString
  | SNullableString
  | SInteger
  | SEnum "string list"
  | SIntOrString
  | SMetadata
  | SArray sch
  | SMap sch
  | SObject "(string \<times> sch) list" "string list"

text \<open>
  The pattern of a quantity: a sign, a decimal number, and a binary or decimal suffix or an
  exponent. \<open>numberRest\<close> is what follows a number.
\<close>

definition numberRest :: "string \<Rightarrow> string option" where
  "numberRest s =
     (let ds = takeWhile isDigit s; rest = dropWhile isDigit s
      in if ds \<noteq> [] then
           (case rest of c # cs \<Rightarrow> (if c = CHR ''.'' then Some (dropWhile isDigit cs) else Some rest) | [] \<Rightarrow> Some [])
         else (case rest of
             c # cs \<Rightarrow> (if c = CHR ''.'' \<and> takeWhile isDigit cs \<noteq> [] then Some (dropWhile isDigit cs) else None)
           | [] \<Rightarrow> None))"

fun stripSign :: "string \<Rightarrow> string" where
  "stripSign [] = []"
| "stripSign (c # cs) = (if c = CHR ''+'' \<or> c = CHR ''-'' then cs else c # cs)"

fun quantitySuffix :: "string \<Rightarrow> bool" where
  "quantitySuffix [] = True"
| "quantitySuffix [c] = (c \<in> set ''numkMGTPE'')"
| "quantitySuffix (c # cs) =
     ((c \<in> set ''KMGTPE'' \<and> cs = ''i'') \<or> (c \<in> set ''eE'' \<and> numberRest (stripSign cs) = Some []))"

definition matchesQuantity :: "string \<Rightarrow> bool" where
  "matchesQuantity s = (case numberRest (stripSign s) of None \<Rightarrow> False | Some rest \<Rightarrow> quantitySuffix rest)"

fun validates :: "sch \<Rightarrow> json \<Rightarrow> bool" where
  "validates SString j = (case j of JString _ \<Rightarrow> True | _ \<Rightarrow> False)"
| "validates SNullableString j = (case j of JString _ \<Rightarrow> True | JNull \<Rightarrow> True | _ \<Rightarrow> False)"
| "validates SInteger j = (case j of JInt _ \<Rightarrow> True | _ \<Rightarrow> False)"
| "validates (SEnum vs) j = (case j of JString s \<Rightarrow> s \<in> set vs | _ \<Rightarrow> False)"
| "validates SIntOrString j = (case j of JString s \<Rightarrow> matchesQuantity s | JInt _ \<Rightarrow> True | _ \<Rightarrow> False)"
| "validates SMetadata j = (case j of JObj _ \<Rightarrow> True | _ \<Rightarrow> False)"
| "validates (SArray s) (JArr xs) = (\<forall>x \<in> set xs. validates s x)"
| "validates (SMap s) (JObj kvs) = (\<forall>kv \<in> set kvs. validates s (snd kv))"
| "validates (SObject props required) (JObj kvs) =
     (set required \<subseteq> fst ` set kvs \<and>
      (\<forall>kv \<in> set kvs. case map_of props (fst kv) of None \<Rightarrow> True | Some s \<Rightarrow> validates s (snd kv)))"
| "validates _ _ = False"


text \<open>What the server keeps of an object: the fields the schema names, all of a map and of the metadata.\<close>

fun prune :: "sch \<Rightarrow> json \<Rightarrow> json" where
  "prune (SArray s) (JArr xs) = JArr (map (prune s) xs)"
| "prune (SMap s) (JObj kvs) = JObj (map (\<lambda>kv. (fst kv, prune s (snd kv))) kvs)"
| "prune (SObject props required) (JObj kvs) =
     JObj (map (\<lambda>kv. (fst kv, case map_of props (fst kv) of None \<Rightarrow> snd kv | Some s \<Rightarrow> prune s (snd kv)))
       (filter (\<lambda>kv. map_of props (fst kv) \<noteq> None) kvs))"
| "prune s j = j"

definition fits :: "sch \<Rightarrow> json \<Rightarrow> bool" where
  "fits s j \<longleftrightarrow> validates s j \<and> prune s j = j"

subsection \<open>crds_generated.go\<close>

definition resourceListSchema :: sch where
  "resourceListSchema = SMap SIntOrString"

definition matchExpressionSchema :: sch where
  "matchExpressionSchema =
     SObject [(''operator'', SString), (''scopeName'', SString), (''values'', SArray SString)] [''operator'', ''scopeName'']"

definition quotaSpecSchema :: sch where
  "quotaSpecSchema =
     SObject
       [(''hard'', resourceListSchema),
        (''scopeSelector'', SObject [(''matchExpressions'', SArray matchExpressionSchema)] []),
        (''scopes'', SArray SString)] []"

definition statusSchema :: sch where
  "statusSchema =
     SObject
       [(''additionalMigrationResources'', resourceListSchema),
        (''creationTime'', SNullableString),
        (''migrationsToBlockingResourceQuotas'', SMap (SArray SString)),
        (''originalBlockingResourceQuotas'', SArray (SObject [(''name'', SString), (''spec'', quotaSpecSchema)] []))] []"

definition vmmrqSchema :: sch where
  "vmmrqSchema =
     SObject
       [(''apiVersion'', SString), (''kind'', SString), (''metadata'', SMetadata),
        (''spec'', SObject [(''additionalMigrationResources'', resourceListSchema)] []),
        (''status'', statusSchema)] [''spec'']"

subsection \<open>The JSON of types.go\<close>

text \<open>A field tagged \<open>omitempty\<close>.\<close>

definition omitEmpty :: "bool \<Rightarrow> string \<Rightarrow> json \<Rightarrow> (string \<times> json) list" where
  "omitEmpty isEmpty name j = (if isEmpty then [] else [(name, j)])"








subsection \<open>Fitting\<close>

lemma fits_simps [simp]:
  "fits SString (JString s)" "fits SNullableString (JString s)" "fits SMetadata (JObj kvs)"
  "fits SIntOrString (JString s) \<longleftrightarrow> matchesQuantity s"
  by (simp_all add: fits_def)



text \<open>Every field is one of the schema's and fits it.\<close>

definition fieldsFit :: "(string \<times> sch) list \<Rightarrow> (string \<times> json) list \<Rightarrow> bool" where
  "fieldsFit props kvs \<longleftrightarrow> list_all (\<lambda>(k, x). case map_of props k of None \<Rightarrow> False | Some s \<Rightarrow> fits s x) kvs"

lemma fieldsFit_simps [simp]:
  "fieldsFit props []"
  "fieldsFit props ((k, x) # kvs) \<longleftrightarrow> (case map_of props k of None \<Rightarrow> False | Some s \<Rightarrow> fits s x) \<and> fieldsFit props kvs"
  "fieldsFit props (as @ bs) \<longleftrightarrow> fieldsFit props as \<and> fieldsFit props bs"
  by (simp_all add: fieldsFit_def)

lemma fieldsFit_omitEmpty [simp]:
  "fieldsFit props (omitEmpty b k x) \<longleftrightarrow> b \<or> (case map_of props k of None \<Rightarrow> False | Some s \<Rightarrow> fits s x)"
  by (simp add: omitEmpty_def)















text \<open>The schema is not vacuous: it rejects a status that is not of its types.\<close>

lemma schema_rejects:
  "\<not> validates vmmrqSchema (JObj [(''spec'', JObj []), (''status'', JObj [(''migrationsToBlockingResourceQuotas'', JObj [(''m1'', JNull)])])])"
  "\<not> validates vmmrqSchema (JObj [(''spec'', JObj [(''additionalMigrationResources'', JObj [(''cpu'', JString ''1 core'')])])])"
  "\<not> validates vmmrqSchema (JObj [])"
  by code_simp+

end
