(* ===== verification/MtqSchema.thy ===== *)
theory MtqSchema
  imports CrdSchema OperatorUtils
begin

text \<open>
  The schema of the MTQ resource definition in \<open>crds_generated.go\<close>, and the JSON of the MTQ with
  everything it holds: the placements of \<open>types.go\<close> are those of Kubernetes
  (\<open>vendor/k8s.io/api/core/v1/types.go\<close>), of which the operator only passes on. Descriptions,
  list types and the formats of integers and dates are left out of the schema.
\<close>

subsection \<open>crds_generated.go\<close>

definition stringsSchema :: sch where "stringsSchema = SArray SString"

definition durationsSchema :: sch where
  "durationsSchema = SObject [(''duration'', SString), (''renewBefore'', SString)] []"

definition certConfigSchema :: sch where
  "certConfigSchema = SObject [(''ca'', durationsSchema), (''server'', durationsSchema)] []"

definition requirementSchema :: sch where
  "requirementSchema = SObject [(''key'', SString), (''operator'', SString), (''values'', stringsSchema)] [''key'', ''operator'']"

definition nodeSelectorTermSchema :: sch where
  "nodeSelectorTermSchema =
     SObject [(''matchExpressions'', SArray requirementSchema), (''matchFields'', SArray requirementSchema)] []"

definition preferredNodesSchema :: sch where
  "preferredNodesSchema =
     SArray (SObject [(''preference'', nodeSelectorTermSchema), (''weight'', SInteger)] [''preference'', ''weight''])"

definition requiredNodesSchema :: sch where
  "requiredNodesSchema = SObject [(''nodeSelectorTerms'', SArray nodeSelectorTermSchema)] [''nodeSelectorTerms'']"

definition nodeAffinitySchema :: sch where
  "nodeAffinitySchema =
     SObject
       [(''preferredDuringSchedulingIgnoredDuringExecution'', preferredNodesSchema),
        (''requiredDuringSchedulingIgnoredDuringExecution'', requiredNodesSchema)] []"

definition labelSelectorSchema :: sch where
  "labelSelectorSchema = SObject [(''matchExpressions'', SArray requirementSchema), (''matchLabels'', SMap SString)] []"

definition podAffinityTermSchema :: sch where
  "podAffinityTermSchema =
     SObject
       [(''labelSelector'', labelSelectorSchema), (''matchLabelKeys'', stringsSchema), (''mismatchLabelKeys'', stringsSchema),
        (''namespaceSelector'', labelSelectorSchema), (''namespaces'', stringsSchema), (''topologyKey'', SString)] [''topologyKey'']"

definition preferredPodsSchema :: sch where
  "preferredPodsSchema =
     SArray (SObject [(''podAffinityTerm'', podAffinityTermSchema), (''weight'', SInteger)] [''podAffinityTerm'', ''weight''])"

definition requiredPodsSchema :: sch where
  "requiredPodsSchema = SArray podAffinityTermSchema"

definition podAffinitySchema :: sch where
  "podAffinitySchema =
     SObject
       [(''preferredDuringSchedulingIgnoredDuringExecution'', preferredPodsSchema),
        (''requiredDuringSchedulingIgnoredDuringExecution'', requiredPodsSchema)] []"

definition podAntiAffinitySchema :: sch where
  "podAntiAffinitySchema =
     SObject
       [(''preferredDuringSchedulingIgnoredDuringExecution'', preferredPodsSchema),
        (''requiredDuringSchedulingIgnoredDuringExecution'', requiredPodsSchema)] []"

definition affinitySchema :: sch where
  "affinitySchema =
     SObject
       [(''nodeAffinity'', nodeAffinitySchema), (''podAffinity'', podAffinitySchema), (''podAntiAffinity'', podAntiAffinitySchema)] []"

definition tolerationsSchema :: sch where
  "tolerationsSchema =
     SArray (SObject
       [(''effect'', SString), (''key'', SString), (''operator'', SString), (''tolerationSeconds'', SInteger), (''value'', SString)] [])"

definition infraSchema :: sch where
  "infraSchema = SObject [(''affinity'', affinitySchema), (''nodeSelector'', SMap SString), (''tolerations'', tolerationsSchema)] []"

definition workloadSchema :: sch where
  "workloadSchema = SObject [(''affinity'', affinitySchema), (''nodeSelector'', SMap SString), (''tolerations'', tolerationsSchema)] []"

definition mtqSpecSchema :: sch where
  "mtqSpecSchema =
     SObject
       [(''certConfig'', certConfigSchema), (''imagePullPolicy'', SEnum [''Always'', ''IfNotPresent'', ''Never'']),
        (''infra'', infraSchema), (''priorityClass'', SString), (''workload'', workloadSchema)] []"

definition conditionsSchema :: sch where
  "conditionsSchema =
     SArray (SObject
       [(''lastHeartbeatTime'', SString), (''lastTransitionTime'', SString), (''message'', SString), (''reason'', SString),
        (''status'', SString), (''type'', SString)] [''status'', ''type''])"

definition mtqStatusSchema :: sch where
  "mtqStatusSchema =
     SObject
       [(''conditions'', conditionsSchema), (''observedVersion'', SString), (''operatorVersion'', SString), (''phase'', SString),
        (''targetVersion'', SString)] []"

definition mtqSchema :: sch where
  "mtqSchema =
     SObject
       [(''apiVersion'', SString), (''kind'', SString), (''metadata'', SMetadata), (''spec'', mtqSpecSchema), (''status'', mtqStatusSchema)]
       [''spec'']"

lemmas mtq_schemas = mtqSchema_def mtqStatusSchema_def conditionsSchema_def mtqSpecSchema_def workloadSchema_def infraSchema_def
  tolerationsSchema_def affinitySchema_def podAntiAffinitySchema_def podAffinitySchema_def requiredPodsSchema_def preferredPodsSchema_def
  podAffinityTermSchema_def labelSelectorSchema_def nodeAffinitySchema_def requiredNodesSchema_def preferredNodesSchema_def
  nodeSelectorTermSchema_def requirementSchema_def certConfigSchema_def durationsSchema_def stringsSchema_def

subsection \<open>The types\<close>

text \<open>
  A slice that is always printed may be nil (\<open>None\<close>), and so may a time be zero: both print as null.
  Of the other slices and maps, nil and empty are both left out.
\<close>

record keyRequirement =
  kr_key :: string
  kr_operator :: string
  kr_values :: "string list"

record nodeSelectorTerm =
  nt_matchExpressions :: "keyRequirement list"
  nt_matchFields :: "keyRequirement list"

record nodeAffinity =
  na_required :: "nodeSelectorTerm list option option"
  na_preferred :: "(int \<times> nodeSelectorTerm) list"

record labelSelector =
  ls_matchLabels :: labels
  ls_matchExpressions :: "keyRequirement list"

record podAffinityTerm =
  pt_labelSelector :: "labelSelector option"
  pt_namespaces :: "string list"
  pt_topologyKey :: string
  pt_namespaceSelector :: "labelSelector option"
  pt_matchLabelKeys :: "string list"
  pt_mismatchLabelKeys :: "string list"

record podAffinity =
  pa_required :: "podAffinityTerm list"
  pa_preferred :: "(int \<times> podAffinityTerm) list"

record wholeAffinity =
  wa_nodeAffinity :: "nodeAffinity option"
  wa_podAffinity :: "podAffinity option"
  wa_podAntiAffinity :: "podAffinity option"

record wholeToleration =
  wt_key :: string
  wt_operator :: string
  wt_value :: string
  wt_effect :: string
  wt_seconds :: "int option"

record wholePlacement =
  wp_nodeSelector :: labels
  wp_affinity :: "wholeAffinity option"
  wp_tolerations :: "wholeToleration list"

record mtqCondition =
  co_type :: string
  co_status :: string
  co_reason :: string
  co_message :: string
  co_lastHeartbeat :: "string option"
  co_lastTransition :: "string option"

record wholeMtq =
  wm_name :: string
  wm_imagePullPolicy :: string
  wm_infra :: wholePlacement
  wm_workloads :: wholePlacement
  wm_certConfig :: "mtqCertConfig option"
  wm_priorityClass :: "string option"
  wm_phase :: string
  wm_conditions :: "mtqCondition list"
  wm_operatorVersion :: string
  wm_targetVersion :: string
  wm_observedVersion :: string

subsection \<open>Their JSON\<close>

definition ofStrings :: "string list \<Rightarrow> json" where "ofStrings ss = JArr (map JString ss)"

definition optField :: "string \<Rightarrow> ('a \<Rightarrow> json) \<Rightarrow> 'a option \<Rightarrow> (string \<times> json) list" where
  "optField name f x = (case x of None \<Rightarrow> [] | Some v \<Rightarrow> [(name, f v)])"

definition textField :: "string \<Rightarrow> string \<Rightarrow> (string \<times> json) list" where
  "textField name s = omitEmpty (s = []) name (JString s)"

definition listField :: "string \<Rightarrow> ('a \<Rightarrow> json) \<Rightarrow> 'a list \<Rightarrow> (string \<times> json) list" where
  "listField name f xs = omitEmpty (xs = []) name (JArr (map f xs))"

definition mapField :: "string \<Rightarrow> labels \<Rightarrow> (string \<times> json) list" where
  "mapField name m = omitEmpty (m = []) name (JObj (map (\<lambda>(k, v). (k, JString v)) m))"

definition encodeRequirement :: "keyRequirement \<Rightarrow> json" where
  "encodeRequirement r =
     JObj ([(''key'', JString (kr_key r)), (''operator'', JString (kr_operator r))] @ listField ''values'' JString (kr_values r))"

definition encodeNodeTerm :: "nodeSelectorTerm \<Rightarrow> json" where
  "encodeNodeTerm t =
     JObj (listField ''matchExpressions'' encodeRequirement (nt_matchExpressions t)
       @ listField ''matchFields'' encodeRequirement (nt_matchFields t))"

definition encodeNodeSelector :: "nodeSelectorTerm list option \<Rightarrow> json" where
  "encodeNodeSelector terms =
     JObj [(''nodeSelectorTerms'', case terms of None \<Rightarrow> JNull | Some ts \<Rightarrow> JArr (map encodeNodeTerm ts))]"

definition encodePreferredNode :: "int \<times> nodeSelectorTerm \<Rightarrow> json" where
  "encodePreferredNode p = JObj [(''weight'', JInt (fst p)), (''preference'', encodeNodeTerm (snd p))]"

definition encodeNodeAffinity :: "nodeAffinity \<Rightarrow> json" where
  "encodeNodeAffinity a =
     JObj (optField ''requiredDuringSchedulingIgnoredDuringExecution'' encodeNodeSelector (na_required a)
       @ listField ''preferredDuringSchedulingIgnoredDuringExecution'' encodePreferredNode (na_preferred a))"

definition encodeLabelSelector :: "labelSelector \<Rightarrow> json" where
  "encodeLabelSelector s =
     JObj (mapField ''matchLabels'' (ls_matchLabels s) @ listField ''matchExpressions'' encodeRequirement (ls_matchExpressions s))"

definition encodePodTerm :: "podAffinityTerm \<Rightarrow> json" where
  "encodePodTerm t =
     JObj (optField ''labelSelector'' encodeLabelSelector (pt_labelSelector t)
       @ listField ''namespaces'' JString (pt_namespaces t)
       @ [(''topologyKey'', JString (pt_topologyKey t))]
       @ optField ''namespaceSelector'' encodeLabelSelector (pt_namespaceSelector t)
       @ listField ''matchLabelKeys'' JString (pt_matchLabelKeys t)
       @ listField ''mismatchLabelKeys'' JString (pt_mismatchLabelKeys t))"

definition encodeWeightedPod :: "int \<times> podAffinityTerm \<Rightarrow> json" where
  "encodeWeightedPod p = JObj [(''weight'', JInt (fst p)), (''podAffinityTerm'', encodePodTerm (snd p))]"

definition encodePodAffinity :: "podAffinity \<Rightarrow> json" where
  "encodePodAffinity a =
     JObj (listField ''requiredDuringSchedulingIgnoredDuringExecution'' encodePodTerm (pa_required a)
       @ listField ''preferredDuringSchedulingIgnoredDuringExecution'' encodeWeightedPod (pa_preferred a))"

definition encodeAffinity :: "wholeAffinity \<Rightarrow> json" where
  "encodeAffinity a =
     JObj (optField ''nodeAffinity'' encodeNodeAffinity (wa_nodeAffinity a)
       @ optField ''podAffinity'' encodePodAffinity (wa_podAffinity a)
       @ optField ''podAntiAffinity'' encodePodAffinity (wa_podAntiAffinity a))"

definition encodeToleration :: "wholeToleration \<Rightarrow> json" where
  "encodeToleration t =
     JObj (textField ''key'' (wt_key t) @ textField ''operator'' (wt_operator t) @ textField ''value'' (wt_value t)
       @ textField ''effect'' (wt_effect t) @ optField ''tolerationSeconds'' JInt (wt_seconds t))"

definition encodePlacement :: "wholePlacement \<Rightarrow> json" where
  "encodePlacement p =
     JObj (mapField ''nodeSelector'' (wp_nodeSelector p) @ optField ''affinity'' encodeAffinity (wp_affinity p)
       @ listField ''tolerations'' encodeToleration (wp_tolerations p))"

definition encodeCertConfig :: "certConfig \<Rightarrow> json" where
  "encodeCertConfig c =
     JObj (optField ''duration'' (\<lambda>d. JString (durationString d)) (cc_duration c)
       @ optField ''renewBefore'' (\<lambda>d. JString (durationString d)) (cc_renewBefore c))"

definition encodeCertConfigs :: "mtqCertConfig \<Rightarrow> json" where
  "encodeCertConfigs c = JObj (optField ''ca'' encodeCertConfig (mc_ca c) @ optField ''server'' encodeCertConfig (mc_server c))"

definition encodeTime :: "string option \<Rightarrow> json" where
  "encodeTime t = (case t of None \<Rightarrow> JNull | Some s \<Rightarrow> JString s)"

definition encodeCondition :: "mtqCondition \<Rightarrow> json" where
  "encodeCondition c =
     JObj ([(''type'', JString (co_type c)), (''status'', JString (co_status c))]
       @ textField ''reason'' (co_reason c) @ textField ''message'' (co_message c)
       @ [(''lastHeartbeatTime'', encodeTime (co_lastHeartbeat c)), (''lastTransitionTime'', encodeTime (co_lastTransition c))])"

definition encodeMtqSpec :: "wholeMtq \<Rightarrow> json" where
  "encodeMtqSpec m =
     JObj (textField ''imagePullPolicy'' (wm_imagePullPolicy m)
       @ [(''infra'', encodePlacement (wm_infra m)), (''workload'', encodePlacement (wm_workloads m))]
       @ optField ''certConfig'' encodeCertConfigs (wm_certConfig m)
       @ optField ''priorityClass'' JString (wm_priorityClass m))"

definition encodeMtqStatus :: "wholeMtq \<Rightarrow> json" where
  "encodeMtqStatus m =
     JObj (textField ''phase'' (wm_phase m) @ listField ''conditions'' encodeCondition (wm_conditions m)
       @ textField ''operatorVersion'' (wm_operatorVersion m) @ textField ''targetVersion'' (wm_targetVersion m)
       @ textField ''observedVersion'' (wm_observedVersion m))"

definition encodeMtq :: "wholeMtq \<Rightarrow> json" where
  "encodeMtq m =
     JObj [(''kind'', JString ''MTQ''), (''apiVersion'', JString ''mtq.kubevirt.io/v1alpha1''),
       (''metadata'', JObj [(''name'', JString (wm_name m)), (''creationTimestamp'', JNull)]),
       (''spec'', encodeMtqSpec m), (''status'', encodeMtqStatus m)]"

subsection \<open>Which objects fit\<close>

text \<open>
  What is accepted and what is kept, field by field, with rules that decide both for the fields the
  encoders print.
\<close>

definition keeps :: "sch \<Rightarrow> json \<Rightarrow> bool" where
  "keeps s j \<longleftrightarrow> prune s j = j"

definition fieldsValid :: "(string \<times> sch) list \<Rightarrow> (string \<times> json) list \<Rightarrow> bool" where
  "fieldsValid props kvs \<longleftrightarrow> list_all (\<lambda>(k, x). case map_of props k of None \<Rightarrow> True | Some s \<Rightarrow> validates s x) kvs"

definition fieldsKept :: "(string \<times> sch) list \<Rightarrow> (string \<times> json) list \<Rightarrow> bool" where
  "fieldsKept props kvs \<longleftrightarrow> list_all (\<lambda>(k, x). case map_of props k of None \<Rightarrow> False | Some s \<Rightarrow> keeps s x) kvs"

lemma validates_simps [simp]:
  "validates SString (JString s)" "\<not> validates SString JNull" "validates SInteger (JInt i)"
  "validates (SEnum vs) (JString s) \<longleftrightarrow> s \<in> set vs" "validates SMetadata (JObj kvs)"
  "validates (SArray t) (JArr xs) \<longleftrightarrow> (\<forall>x \<in> set xs. validates t x)" "\<not> validates (SArray t) JNull"
  by simp_all

lemma validates_object:
  "validates (SObject props req) (JObj kvs) \<longleftrightarrow> set req \<subseteq> fst ` set kvs \<and> fieldsValid props kvs"
  by (simp add: fieldsValid_def list_all_iff split_def)

lemma validates_strings: "validates (SMap SString) (JObj (map (\<lambda>(k, v). (k, JString v)) m))"
  by auto

declare validates.simps [simp del]

lemma keeps_simps [simp]:
  "keeps SString j" "keeps SInteger j" "keeps (SEnum vs) j" "keeps SMetadata j"
  "keeps (SArray s) (JArr xs) \<longleftrightarrow> (\<forall>x \<in> set xs. keeps s x)"
  "keeps (SArray s) JNull" "keeps (SMap s) JNull" "keeps (SObject props req) JNull"
  using map_eq_conv [of "prune s" xs "\<lambda>x. x"] by (simp_all add: keeps_def)

lemma keeps_map: "(\<And>kv. kv \<in> set kvs \<Longrightarrow> keeps s (snd kv)) \<Longrightarrow> keeps (SMap s) (JObj kvs)"
  by (auto simp: keeps_def intro!: map_idI)

lemma keeps_object:
  assumes "fieldsKept props kvs"
  shows "keeps (SObject props req) (JObj kvs)"
proof -
  have f: "\<exists>s. map_of props (fst kv) = Some s \<and> keeps s (snd kv)" if "kv \<in> set kvs" for kv
    using assms that by (fastforce simp: fieldsKept_def list_all_iff split: option.splits)
  have "filter (\<lambda>kv. map_of props (fst kv) \<noteq> None) kvs = kvs"
    using f by (fastforce simp: filter_id_conv)
  moreover have "map (\<lambda>kv. (fst kv, case map_of props (fst kv) of None \<Rightarrow> snd kv | Some s \<Rightarrow> prune s (snd kv))) kvs = kvs"
    using f by (fastforce simp: keeps_def intro!: map_idI split: option.splits)
  ultimately show ?thesis by (simp add: keeps_def)
qed

lemma fields_simps [simp]:
  "fieldsValid props []" "fieldsKept props []"
  "fieldsValid props ((k, x) # kvs) \<longleftrightarrow> (case map_of props k of None \<Rightarrow> True | Some s \<Rightarrow> validates s x) \<and> fieldsValid props kvs"
  "fieldsKept props ((k, x) # kvs) \<longleftrightarrow> (case map_of props k of None \<Rightarrow> False | Some s \<Rightarrow> keeps s x) \<and> fieldsKept props kvs"
  "fieldsValid props (as @ bs) \<longleftrightarrow> fieldsValid props as \<and> fieldsValid props bs"
  "fieldsKept props (as @ bs) \<longleftrightarrow> fieldsKept props as \<and> fieldsKept props bs"
  by (simp_all add: fieldsValid_def fieldsKept_def)

lemma fields_printed [simp]:
  "map_of props n = Some s \<Longrightarrow> fieldsValid props (optField n f x) \<longleftrightarrow> (\<forall>v \<in> set_option x. validates s (f v))"
  "map_of props n = Some s \<Longrightarrow> fieldsKept props (optField n f x) \<longleftrightarrow> (\<forall>v \<in> set_option x. keeps s (f v))"
  "map_of props n = Some (SArray s) \<Longrightarrow> fieldsValid props (listField n f xs) \<longleftrightarrow> (\<forall>v \<in> set xs. validates s (f v))"
  "map_of props n = Some (SArray s) \<Longrightarrow> fieldsKept props (listField n f xs) \<longleftrightarrow> (\<forall>v \<in> set xs. keeps s (f v))"
  "map_of props n = Some s \<Longrightarrow> fieldsValid props (textField n t) \<longleftrightarrow> t = [] \<or> validates s (JString t)"
  "map_of props n = Some s \<Longrightarrow> fieldsKept props (textField n t) \<longleftrightarrow> t = [] \<or> keeps s (JString t)"
  by (auto simp: optField_def listField_def textField_def omitEmpty_def split: option.split)

lemma fields_map [simp]:
  assumes "map_of props n = Some (SMap SString)"
  shows "fieldsValid props (mapField n m)" "fieldsKept props (mapField n m)"
  using assms by (auto simp: mapField_def omitEmpty_def validates_strings intro!: keeps_map)

lemma requirement [simp]: "validates requirementSchema (encodeRequirement r)" "keeps requirementSchema (encodeRequirement r)"
  unfolding requirementSchema_def encodeRequirement_def stringsSchema_def
  by (simp_all add: validates_object keeps_object)

lemma nodeTerm [simp]: "validates nodeSelectorTermSchema (encodeNodeTerm t)" "keeps nodeSelectorTermSchema (encodeNodeTerm t)"
  unfolding nodeSelectorTermSchema_def encodeNodeTerm_def
  by (simp_all add: validates_object keeps_object)

text \<open>A node selector must have a list of terms, if an empty one.\<close>

definition placeable :: "wholePlacement \<Rightarrow> bool" where
  "placeable p \<longleftrightarrow> (\<forall>a na. wp_affinity p = Some a \<and> wa_nodeAffinity a = Some na \<longrightarrow> na_required na \<noteq> Some None)"

lemma nodeAffinity:
  "validates nodeAffinitySchema (encodeNodeAffinity a) \<longleftrightarrow> na_required a \<noteq> Some None" "keeps nodeAffinitySchema (encodeNodeAffinity a)"
proof -
  have sel: "validates requiredNodesSchema (encodeNodeSelector ts) \<longleftrightarrow> ts \<noteq> None" "keeps requiredNodesSchema (encodeNodeSelector ts)" for ts
    unfolding requiredNodesSchema_def encodeNodeSelector_def
    by (simp_all add: validates_object keeps_object split: option.split)
  have pref: "validates (SObject [(''preference'', nodeSelectorTermSchema), (''weight'', SInteger)] [''preference'', ''weight'']) (encodePreferredNode p)"
    "keeps (SObject [(''preference'', nodeSelectorTermSchema), (''weight'', SInteger)] [''preference'', ''weight'']) (encodePreferredNode p)" for p
    unfolding encodePreferredNode_def by (simp_all add: validates_object keeps_object)
  show "validates nodeAffinitySchema (encodeNodeAffinity a) \<longleftrightarrow> na_required a \<noteq> Some None" "keeps nodeAffinitySchema (encodeNodeAffinity a)"
    unfolding nodeAffinitySchema_def encodeNodeAffinity_def preferredNodesSchema_def
    by (cases "na_required a"; simp add: validates_object keeps_object sel pref)+
qed

lemma labelSelector [simp]: "validates labelSelectorSchema (encodeLabelSelector s)" "keeps labelSelectorSchema (encodeLabelSelector s)"
  unfolding labelSelectorSchema_def encodeLabelSelector_def
  by (simp_all add: validates_object keeps_object)

lemma podTerm [simp]: "validates podAffinityTermSchema (encodePodTerm t)" "keeps podAffinityTermSchema (encodePodTerm t)"
  unfolding podAffinityTermSchema_def encodePodTerm_def stringsSchema_def
  by (simp_all add: validates_object keeps_object)

lemma podAffinity [simp]:
  "validates podAffinitySchema (encodePodAffinity a)" "keeps podAffinitySchema (encodePodAffinity a)"
  "validates podAntiAffinitySchema (encodePodAffinity a)" "keeps podAntiAffinitySchema (encodePodAffinity a)"
proof -
  have pref: "validates (SObject [(''podAffinityTerm'', podAffinityTermSchema), (''weight'', SInteger)] [''podAffinityTerm'', ''weight'']) (encodeWeightedPod p)"
    "keeps (SObject [(''podAffinityTerm'', podAffinityTermSchema), (''weight'', SInteger)] [''podAffinityTerm'', ''weight'']) (encodeWeightedPod p)" for p
    unfolding encodeWeightedPod_def by (simp_all add: validates_object keeps_object)
  show "validates podAffinitySchema (encodePodAffinity a)" "keeps podAffinitySchema (encodePodAffinity a)"
    "validates podAntiAffinitySchema (encodePodAffinity a)" "keeps podAntiAffinitySchema (encodePodAffinity a)"
    unfolding podAffinitySchema_def podAntiAffinitySchema_def encodePodAffinity_def preferredPodsSchema_def requiredPodsSchema_def
    by (simp_all add: validates_object keeps_object pref)
qed

lemma affinity:
  "validates affinitySchema (encodeAffinity a) \<longleftrightarrow> (\<forall>na. wa_nodeAffinity a = Some na \<longrightarrow> na_required na \<noteq> Some None)"
  "keeps affinitySchema (encodeAffinity a)"
  unfolding affinitySchema_def encodeAffinity_def
  by (cases "wa_nodeAffinity a"; simp add: validates_object keeps_object nodeAffinity)+

lemma placement:
  "validates infraSchema (encodePlacement p) \<longleftrightarrow> placeable p" "keeps infraSchema (encodePlacement p)"
proof -
  let ?t = "SObject [(''effect'', SString), (''key'', SString), (''operator'', SString), (''tolerationSeconds'', SInteger), (''value'', SString)] []"
  have tol: "validates ?t (encodeToleration t)" "keeps ?t (encodeToleration t)" for t
    unfolding encodeToleration_def by (simp_all add: validates_object keeps_object)
  show "validates infraSchema (encodePlacement p) \<longleftrightarrow> placeable p" "keeps infraSchema (encodePlacement p)"
    unfolding infraSchema_def encodePlacement_def tolerationsSchema_def placeable_def
    by (cases "wp_affinity p"; simp add: validates_object keeps_object affinity tol)+
qed

lemma workload: "workloadSchema = infraSchema"
  by (simp add: workloadSchema_def infraSchema_def)

lemma certConfigs [simp]: "validates certConfigSchema (encodeCertConfigs c)" "keeps certConfigSchema (encodeCertConfigs c)"
proof -
  have "validates durationsSchema (encodeCertConfig d)" "keeps durationsSchema (encodeCertConfig d)" for d
    unfolding durationsSchema_def encodeCertConfig_def by (simp_all add: validates_object keeps_object)
  then show "validates certConfigSchema (encodeCertConfigs c)" "keeps certConfigSchema (encodeCertConfigs c)"
    unfolding certConfigSchema_def encodeCertConfigs_def by (simp_all add: validates_object keeps_object)
qed

definition pullPolicies :: "string list" where "pullPolicies = [[], ''Always'', ''IfNotPresent'', ''Never'']"

lemma mtqSpec:
  "validates mtqSpecSchema (encodeMtqSpec m) \<longleftrightarrow>
     wm_imagePullPolicy m \<in> set pullPolicies \<and> placeable (wm_infra m) \<and> placeable (wm_workloads m)"
  "keeps mtqSpecSchema (encodeMtqSpec m)"
  unfolding mtqSpecSchema_def encodeMtqSpec_def workload pullPolicies_def
  by (auto simp add: validates_object keeps_object placement)

lemma mtqStatus:
  "validates mtqStatusSchema (encodeMtqStatus m) \<longleftrightarrow>
     (\<forall>c \<in> set (wm_conditions m). co_lastHeartbeat c \<noteq> None \<and> co_lastTransition c \<noteq> None)"
  "keeps mtqStatusSchema (encodeMtqStatus m)"
proof -
  let ?c = "SObject
       [(''lastHeartbeatTime'', SString), (''lastTransitionTime'', SString), (''message'', SString), (''reason'', SString),
        (''status'', SString), (''type'', SString)] [''status'', ''type'']"
  have cond: "validates ?c (encodeCondition c) \<longleftrightarrow> co_lastHeartbeat c \<noteq> None \<and> co_lastTransition c \<noteq> None" "keeps ?c (encodeCondition c)" for c
    unfolding encodeCondition_def encodeTime_def by (auto simp add: validates_object keeps_object split: option.split)
  show "validates mtqStatusSchema (encodeMtqStatus m) \<longleftrightarrow>
     (\<forall>c \<in> set (wm_conditions m). co_lastHeartbeat c \<noteq> None \<and> co_lastTransition c \<noteq> None)"
    "keeps mtqStatusSchema (encodeMtqStatus m)"
    unfolding mtqStatusSchema_def encodeMtqStatus_def conditionsSchema_def
    by (simp_all add: validates_object keeps_object cond)
qed

text \<open>C32: the server keeps every field of an MTQ: nothing that can be written in its Go type is pruned.
  It accepts exactly the objects whose pull policy is empty or one of the three, whose required
  node affinity, if any, has a list of terms (a nil one prints as null), and whose conditions
  have both their times (a zero one prints as null).\<close>

theorem mtq_fits_definition:
  "prune mtqSchema (encodeMtq m) = encodeMtq m \<and>
   (validates mtqSchema (encodeMtq m) \<longleftrightarrow>
      wm_imagePullPolicy m \<in> set pullPolicies \<and>
      (\<forall>p a na. p \<in> {wm_infra m, wm_workloads m} \<and> wp_affinity p = Some a \<and> wa_nodeAffinity a = Some na \<longrightarrow> na_required na \<noteq> Some None) \<and>
      (\<forall>c \<in> set (wm_conditions m). co_lastHeartbeat c \<noteq> None \<and> co_lastTransition c \<noteq> None))"
proof -
  have "keeps mtqSchema (encodeMtq m)"
    unfolding mtqSchema_def encodeMtq_def by (simp add: keeps_object mtqSpec mtqStatus)
  moreover have "validates mtqSchema (encodeMtq m) \<longleftrightarrow>
      wm_imagePullPolicy m \<in> set pullPolicies \<and> placeable (wm_infra m) \<and> placeable (wm_workloads m) \<and>
      (\<forall>c \<in> set (wm_conditions m). co_lastHeartbeat c \<noteq> None \<and> co_lastTransition c \<noteq> None)"
    unfolding mtqSchema_def encodeMtq_def by (simp add: validates_object mtqSpec mtqStatus conj_assoc)
  ultimately show ?thesis by (auto simp: keeps_def placeable_def)
qed

text \<open>An example of each kind.\<close>

definition demoPlacement :: "nodeSelectorTerm list option \<Rightarrow> wholePlacement" where
  "demoPlacement terms =
     \<lparr>wp_nodeSelector = [(''kubernetes.io/os'', ''linux'')],
      wp_affinity = Some \<lparr>wa_nodeAffinity = Some \<lparr>na_required = Some terms, na_preferred = []\<rparr>, wa_podAffinity = None, wa_podAntiAffinity = None\<rparr>,
      wp_tolerations = [\<lparr>wt_key = ''CriticalAddonsOnly'', wt_operator = ''Exists'', wt_value = [], wt_effect = [], wt_seconds = None\<rparr>]\<rparr>"

definition demoMtq :: "nodeSelectorTerm list option \<Rightarrow> wholeMtq" where
  "demoMtq terms =
     \<lparr>wm_name = ''mtq'', wm_imagePullPolicy = ''Always'', wm_infra = demoPlacement terms, wm_workloads = demoPlacement (Some []),
      wm_certConfig = Some \<lparr>mc_ca = Some \<lparr>cc_duration = Some 172800000000000, cc_renewBefore = None\<rparr>, mc_server = None\<rparr>,
      wm_priorityClass = None, wm_phase = ''Deployed'', wm_conditions = [], wm_operatorVersion = ''v1'', wm_targetVersion = ''v1'',
      wm_observedVersion = ''v1''\<rparr>"

theorem mtq_fits_definition_witness:
  "validates mtqSchema (encodeMtq (demoMtq (Some []))) \<and> \<not> validates mtqSchema (encodeMtq (demoMtq None))"
  using mtq_fits_definition [of "demoMtq (Some [])"] mtq_fits_definition [of "demoMtq None"]
  by (auto simp: demoMtq_def demoPlacement_def pullPolicies_def)

end
