(* ===== verification/Tools.thy ===== *)
theory Tools
  imports MtqSchema OperatorSetup RestRequest "HOL-Library.AList" "HOL-Library.List_Lexorder" "HOL-Library.Char_ord"
begin

text \<open>
  The build-time tools (\<open>tools/\<close>) and the commands (\<open>cmd/\<close>): printing objects as YAML without what the
  server fills in (\<open>util/marshaller.go\<close>), the manifest and CSV generators, the generator of
  \<open>crds_generated.go\<close>, and the start of the operator. The JSON and YAML codecs, the template engine and
  the file system are arguments. Where a tool ends with \<open>klog.Fatalf\<close> the result is an error, where
  it panics it is \<open>None\<close>.
\<close>

subsection \<open>util/marshaller.go\<close>

text \<open>\<open>unstructured.RemoveNestedField\<close>, \<open>NestedSlice\<close> and \<open>SetNestedSlice\<close>.\<close>

fun RemoveNestedField :: "string list \<Rightarrow> json \<Rightarrow> json" where
  "RemoveNestedField [] j = j"
| "RemoveNestedField [field] (JObj m) = JObj (AList.delete field m)"
| "RemoveNestedField (field # f # path) (JObj m) =
     (case map_of m field of
        Some (JObj m') \<Rightarrow> JObj (AList.update field (RemoveNestedField (f # path) (JObj m')) m)
      | _ \<Rightarrow> JObj m)"
| "RemoveNestedField path j = j"

fun NestedFieldNoCopy :: "string list \<Rightarrow> json \<Rightarrow> json option result" where
  "NestedFieldNoCopy [] val = Inr (Some val)"
| "NestedFieldNoCopy (field # path) JNull = Inr None"
| "NestedFieldNoCopy (field # path) (JObj m) =
     (case map_of m field of None \<Rightarrow> Inr None | Some val \<Rightarrow> NestedFieldNoCopy path val)"
| "NestedFieldNoCopy (field # path) val = Inl (GoErr ''accessor error: expected map[string]interface{}'')"

definition NestedSlice :: "string list \<Rightarrow> json \<Rightarrow> json list option result" where
  "NestedSlice path obj =
     (case NestedFieldNoCopy path obj of
        Inl err \<Rightarrow> Inl err
      | Inr None \<Rightarrow> Inr None
      | Inr (Some val) \<Rightarrow>
          (case val of JArr xs \<Rightarrow> Inr (Some xs) | _ \<Rightarrow> Inl (GoErr ''accessor error: expected []interface{}'')))"

fun SetNestedField :: "json \<Rightarrow> string list \<Rightarrow> json \<Rightarrow> json result" where
  "SetNestedField value [field] (JObj m) = Inr (JObj (AList.update field value m))"
| "SetNestedField value (field # f # path) (JObj m) =
     (case (case map_of m field of Some val \<Rightarrow> val | None \<Rightarrow> JObj []) of
        JObj m' \<Rightarrow>
          (case SetNestedField value (f # path) (JObj m') of
             Inl err \<Rightarrow> Inl err
           | Inr j \<Rightarrow> Inr (JObj (AList.update field j m)))
      | _ \<Rightarrow> Inl (GoErr (''value cannot be set because '' @ field @ '' is not a map[string]interface{}'')))"
| "SetNestedField value path j = Inl (GoErr ''value cannot be set'')"

definition createdPath :: "string list" where "createdPath = [''metadata'', ''creationTimestamp'']"
definition templatePath :: "string list" where "templatePath = [''spec'', ''template'', ''metadata'', ''creationTimestamp'']"
definition deploymentsPath :: "string list" where "deploymentsPath = [''spec'', ''install'', ''spec'', ''deployments'']"

definition stripServerFields :: "json \<Rightarrow> json" where
  "stripServerFields obj = RemoveNestedField [''status''] (RemoveNestedField templatePath (RemoveNestedField createdPath obj))"

definition isMap :: "json \<Rightarrow> bool" where
  "isMap j = (case j of JObj m \<Rightarrow> True | _ \<Rightarrow> False)"

definition stripObject :: "json \<Rightarrow> json result option" where
  "stripObject obj =
     (let r = stripServerFields obj
      in case NestedSlice deploymentsPath r of
           Inl err \<Rightarrow> Some (Inl err)
         | Inr None \<Rightarrow> Some (Inr r)
         | Inr (Some deployments) \<Rightarrow>
             if list_all isMap deployments
             then Some (SetNestedField (JArr (map stripServerFields deployments)) deploymentsPath r)
             else None)"

text \<open>\<open>strings.Replace\<close> of all occurrences of a text that is not empty.\<close>

function replaceAll :: "string \<Rightarrow> string \<Rightarrow> string \<Rightarrow> string" where
  "replaceAll old new [] = []"
| "replaceAll old new (c # cs) =
     (if old \<noteq> [] \<and> take (length old) (c # cs) = old then new @ replaceAll old new (drop (length old) (c # cs))
      else c # replaceAll old new cs)"
  by pat_completeness auto
termination by (relation "measure (\<lambda>(old, new, s). length s)") auto

definition fixTemplates :: "string \<Rightarrow> string" where
  "fixTemplates s = replaceAll (''}}'' @ [CHR 0x27]) ''}}'' (replaceAll ([CHR 0x27] @ ''{{'') ''{{'' s)"

record ('o, 'w) marshaller =
  mk_marshal :: "'o \<Rightarrow> json result"
  mk_toYAML :: "json \<Rightarrow> string result"
  mk_write :: "string \<Rightarrow> 'w \<Rightarrow> goerror option \<times> 'w"

definition MarshallObject :: "('o, 'w) marshaller \<Rightarrow> 'o \<Rightarrow> 'w \<Rightarrow> (goerror option \<times> 'w) option" where
  "MarshallObject mk obj w =
     (case mk_marshal mk obj of
        Inl err \<Rightarrow> Some (Some err, w)
      | Inr j \<Rightarrow>
          if \<not> isMap j then Some (Some (GoErr ''cannot unmarshal into map[string]interface{}''), w)
          else (case stripObject j of
             None \<Rightarrow> None
           | Some (Inl err) \<Rightarrow> Some (Some err, w)
           | Some (Inr r) \<Rightarrow>
               (case mk_toYAML mk r of
                  Inl err \<Rightarrow> Some (Some err, w)
                | Inr yaml \<Rightarrow>
                    (case mk_write mk (''---'' @ [CHR 0x0A]) w of
                       (Some err, w1) \<Rightarrow> Some (Some err, w1)
                     | (None, w1) \<Rightarrow> Some (mk_write mk (fixTemplates yaml) w1)))))"

subsection \<open>manifest-generator\<close>

record manifestFlags =
  mf_dockerRepo :: string
  mf_dockertag :: string
  mf_operatorVersion :: string
  mf_genManifestsPath :: string
  mf_deployClusterResources :: string
  mf_operatorImage :: string
  mf_controllerImage :: string
  mf_mtqLockServerImage :: string
  mf_verbosity :: string
  mf_pullPolicy :: string
  mf_crName :: string
  mf_namespace :: string

definition noArgs :: factoryArgs where
  "noArgs =
     \<lparr>fa_operatorVersion = [], fa_controllerImage = [], fa_deployClusterResources = [], fa_mtqLockServerImage = [], fa_verbosity = [],
      fa_pullPolicy = [], fa_imagePullSecrets = [], fa_priorityClassName = [], fa_namespace = [], fa_infraNodePlacement = None\<rparr>"

definition getOperatorResources :: "manifestFlags \<Rightarrow> string \<Rightarrow> kobject list result option" where
  "getOperatorResources fl resourceGroup =
     CreateOperatorResourceGroup resourceGroup
       \<lparr>of_namespacedArgs = noArgs\<lparr>fa_verbosity := mf_verbosity fl, fa_operatorVersion := mf_operatorVersion fl,
          fa_deployClusterResources := mf_deployClusterResources fl, fa_controllerImage := mf_controllerImage fl,
          fa_mtqLockServerImage := mf_mtqLockServerImage fl, fa_pullPolicy := mf_pullPolicy fl, fa_namespace := mf_namespace fl\<rparr>,
        of_image = mf_operatorImage fl\<rparr>"

definition getNamespacedResources :: "manifestFlags \<Rightarrow> string \<Rightarrow> kobject list result option" where
  "getNamespacedResources fl codeGroup =
     CreateResourceGroup codeGroup
       (noArgs\<lparr>fa_verbosity := mf_verbosity fl, fa_operatorVersion := mf_operatorVersion fl, fa_controllerImage := mf_controllerImage fl,
          fa_mtqLockServerImage := mf_mtqLockServerImage fl, fa_pullPolicy := mf_pullPolicy fl, fa_namespace := mf_namespace fl\<rparr>)"

definition resourceGetterMap :: "(string \<times> (manifestFlags \<Rightarrow> string \<Rightarrow> kobject list result option)) list" where
  "resourceGetterMap = [(''namespaced'', getNamespacedResources), (''operator'', getOperatorResources)]"

fun marshallAll :: "('o, 'w) marshaller \<Rightarrow> 'o list \<Rightarrow> 'w \<Rightarrow> (goerror option \<times> 'w) option" where
  "marshallAll mk [] w = Some (None, w)"
| "marshallAll mk (r # rs) w =
     (case MarshallObject mk r w of
        None \<Rightarrow> None
      | Some (Some err, w') \<Rightarrow> Some (Some (GoErr (''Error marshalling resource: '' @ Error err)), w')
      | Some (None, w') \<Rightarrow> marshallAll mk rs w')"

definition generateFromCode ::
  "(kobject, 'w) marshaller \<Rightarrow> manifestFlags \<Rightarrow> string \<Rightarrow> string \<Rightarrow> 'w \<Rightarrow> (goerror option \<times> 'w) option" where
  "generateFromCode mk fl resourceType resourceGroup w =
     (case map_of resourceGetterMap resourceType of
        None \<Rightarrow> Some (Some (GoErr (''Unknown resource type '' @ resourceType)), w)
      | Some f \<Rightarrow>
          (case f fl resourceGroup of
             None \<Rightarrow> None
           | Some (Inl err) \<Rightarrow> Some (Some (GoErr (''Error getting resources: '' @ Error err)), w)
           | Some (Inr resources) \<Rightarrow> marshallAll mk resources w))"

text \<open>
  The data of a template. \<open>OperatorVersion\<close> and the images of no component of MTQ exist in the
  struct but are never set. The entries of a directory are names, each a directory or not.
\<close>

record templateData =
  td_DockerRepo :: string
  td_DockerTag :: string
  td_OperatorVersion :: string
  td_DeployClusterResources :: string
  td_OperatorImage :: string
  td_ControllerImage :: string
  td_MTQLockServerImage :: string
  td_Verbosity :: string
  td_PullPolicy :: string
  td_CrName :: string
  td_Namespace :: string
  td_GeneratedManifests :: "(string \<times> string) list"

fun readManifests :: "(string \<Rightarrow> string result) \<Rightarrow> string \<Rightarrow> string \<Rightarrow> (string \<times> bool) list \<Rightarrow> (string \<times> string) list \<Rightarrow> (string \<times> string) list result" where
  "readManifests readFile templFile genDir [] acc = Inr acc"
| "readManifests readFile templFile genDir ((name, isDir) # rest) acc =
     (if isDir then readManifests readFile templFile genDir rest acc
      else (case readFile (pathJoin [genDir, name]) of
              Inl err \<Rightarrow> Inl (GoErr (''Failed to read file '' @ templFile @ '': '' @ Error err))
            | Inr b \<Rightarrow> readManifests readFile templFile genDir rest (AList.update name b acc)))"

definition templateDataOf :: "manifestFlags \<Rightarrow> (string \<times> string) list \<Rightarrow> templateData" where
  "templateDataOf fl manifests =
     \<lparr>td_DockerRepo = mf_dockerRepo fl, td_DockerTag = mf_dockertag fl, td_OperatorVersion = [],
      td_DeployClusterResources = mf_deployClusterResources fl, td_OperatorImage = mf_operatorImage fl,
      td_ControllerImage = mf_controllerImage fl, td_MTQLockServerImage = mf_mtqLockServerImage fl, td_Verbosity = mf_verbosity fl,
      td_PullPolicy = mf_pullPolicy fl, td_CrName = mf_crName fl, td_Namespace = mf_namespace fl, td_GeneratedManifests = manifests\<rparr>"

definition generateFromFile ::
  "(string \<Rightarrow> string result) \<Rightarrow> (string \<Rightarrow> (string \<times> bool) list result) \<Rightarrow> (string \<Rightarrow> templateData \<Rightarrow> string result option) \<Rightarrow>
   manifestFlags \<Rightarrow> string \<Rightarrow> string result option" where
  "generateFromFile readFile readDir runTemplate fl templFile =
     (case readFile templFile of
        Inl err \<Rightarrow> Some (Inl (GoErr (''Failed to open file '' @ templFile @ '': '' @ Error err)))
      | Inr text \<Rightarrow>
          (case readDir (mf_genManifestsPath fl) of
             Inl err \<Rightarrow> Some (Inl (GoErr (''Failed to read directory '' @ mf_genManifestsPath fl @ '': '' @ Error err)))
           | Inr entries \<Rightarrow>
               (case readManifests readFile templFile (mf_genManifestsPath fl) entries [] of
                  Inl err \<Rightarrow> Some (Inl err)
                | Inr manifests \<Rightarrow>
                    map_option (map_sum (\<lambda>err. GoErr (''Error executing template: '' @ Error err)) id)
                      (runTemplate text (templateDataOf fl manifests)))))"

text \<open>
  \<open>main\<close>, on its three flags, of which \<open>resource-group\<close> is \<open>everything\<close> unless it is set;
  \<open>print\<close> writes to the standard output.
\<close>

definition defaultResourceGroup :: string where
  "defaultResourceGroup = ''everything''"

definition manifestMain ::
  "(string \<Rightarrow> string result) \<Rightarrow> (string \<Rightarrow> (string \<times> bool) list result) \<Rightarrow> (string \<Rightarrow> templateData \<Rightarrow> string result option) \<Rightarrow>
   (kobject, 'w) marshaller \<Rightarrow> (string \<Rightarrow> 'w \<Rightarrow> 'w) \<Rightarrow> manifestFlags \<Rightarrow> string \<Rightarrow> string \<Rightarrow> string option \<Rightarrow> 'w \<Rightarrow>
   (goerror option \<times> 'w) option" where
  "manifestMain readFile readDir runTemplate mk print fl templFile resourceType resourceGroup w =
     (if templFile \<noteq> [] then
        (case generateFromFile readFile readDir runTemplate fl templFile of
           None \<Rightarrow> None
         | Some (Inl err) \<Rightarrow> Some (Some err, w)
         | Some (Inr out) \<Rightarrow> Some (None, print out w))
      else generateFromCode mk fl resourceType (case resourceGroup of None \<Rightarrow> defaultResourceGroup | Some g \<Rightarrow> g) w)"

text \<open>The default group is one of the operator's; for the namespaced resources it is an error.\<close>

lemma namespaced_needs_a_group:
  "manifestMain readFile readDir runTemplate mk print fl [] ''namespaced'' None w =
     Some (Some (GoErr (''Error getting resources: '' @ Error (groupErr ''everything''))), w)"
  by (simp add: manifestMain_def generateFromCode_def resourceGetterMap_def getNamespacedResources_def CreateResourceGroup_def
      factoryFunctions_def defaultResourceGroup_def)

subsection \<open>csv-generator\<close>

record csvFlags =
  gf_csvVersion :: string
  gf_replacesCsvVersion :: string
  gf_namespace :: string
  gf_pullPolicy :: string
  gf_mtqLogoBase64 :: string
  gf_verbosity :: string
  gf_operatorVersion :: string
  gf_operatorImage :: string
  gf_controllerImage :: string
  gf_mtqLockServerImage :: string
  gf_dumpCRDs :: bool

definition csvDataOf :: "csvFlags \<Rightarrow> clusterServiceVersionData" where
  "csvDataOf fl =
     \<lparr>cd_csvVersion = gf_csvVersion fl, cd_replacesCsvVersion = gf_replacesCsvVersion fl, cd_namespace = gf_namespace fl,
      cd_imagePullPolicy = gf_pullPolicy fl, cd_imagePullSecrets = [], cd_iconBase64 = gf_mtqLogoBase64 fl, cd_verbosity = gf_verbosity fl,
      cd_operatorVersion = gf_operatorVersion fl, cd_controllerImage = gf_controllerImage fl,
      cd_webhookServerImage = gf_mtqLockServerImage fl, cd_operatorImage = gf_operatorImage fl\<rparr>"

definition orPanic :: "(goerror option \<times> 'w) option \<Rightarrow> 'w option" where
  "orPanic r = (case r of Some (None, w) \<Rightarrow> Some w | _ \<Rightarrow> None)"

definition csvMain ::
  "(csvStrategySpec \<Rightarrow> string result) \<Rightarrow> (string \<Rightarrow> string option) \<Rightarrow> (clusterServiceVersion, 'w) marshaller \<Rightarrow> (crd, 'w) marshaller \<Rightarrow>
   csvFlags \<Rightarrow> 'w \<Rightarrow> 'w option" where
  "csvMain marshal semver mkCsv mkCrd fl w =
     (case NewClusterServiceVersion marshal semver (csvDataOf fl) of
        Some (Inr csv) \<Rightarrow>
          (case orPanic (MarshallObject mkCsv csv w) of
             None \<Rightarrow> None
           | Some w1 \<Rightarrow> if gf_dumpCRDs fl then orPanic (MarshallObject mkCrd NewMtqCrd w1) else Some w1)
      | _ \<Rightarrow> None)"

subsection \<open>crd-generator\<close>

text \<open>
  \<open>singular\<close> and \<open>clearStatus\<close> read the name of a definition and reset its status. An error of
  \<open>yaml.Marshal\<close> is dropped, which leaves the text empty.
\<close>

abbreviation backtick :: char where "backtick \<equiv> CHR 0x60"
abbreviation quote :: char where "quote \<equiv> CHR 0x22"
abbreviation newline :: char where "newline \<equiv> CHR 0x0A"
abbreviation creturn :: char where "creturn \<equiv> CHR 0x0D"

definition quotedBacktick :: string where
  "quotedBacktick = backtick # '' + '' @ [quote, backtick, quote] @ '' + '' @ [backtick]"

definition goEntry :: "string \<Rightarrow> string \<Rightarrow> string" where
  "goEntry crdname yaml =
     CHR 0x09 # quote # crdname @ quote # '': '' @ backtick # replaceAll [backtick] quotedBacktick yaml @ backtick # '','' @ [newline]"

definition goHeader :: "string list" where
  "goHeader =
     [''package resources'' @ [newline, newline],
      ''// MTQCRDs is a map containing yaml strings of all CRDs'' @ [newline],
      ''var MTQCRDs map[string]string = map[string]string{'' @ [newline]]"

definition marshalled :: "('c \<Rightarrow> 'c) \<Rightarrow> ('c \<Rightarrow> string result) \<Rightarrow> 'c \<Rightarrow> string" where
  "marshalled clearStatus marshal crd = (case marshal (clearStatus crd) of Inl err \<Rightarrow> [] | Inr b \<Rightarrow> b)"

definition goFileWrites :: "('c \<Rightarrow> string) \<Rightarrow> (string \<times> 'c) list \<Rightarrow> string list" where
  "goFileWrites yamlOf crds =
     goHeader @ map (\<lambda>crdname. goEntry crdname (yamlOf (the (map_of crds crdname)))) (sort (map fst crds)) @ [''}'' @ [newline]]"

fun writeAllOrPanic :: "(string \<Rightarrow> 'w \<Rightarrow> goerror option \<times> 'w) \<Rightarrow> string list \<Rightarrow> 'w \<Rightarrow> 'w option" where
  "writeAllOrPanic write [] w = Some w"
| "writeAllOrPanic write (s # ss) w =
     (case write s w of (Some err, w') \<Rightarrow> None | (None, w') \<Rightarrow> writeAllOrPanic write ss w')"

definition generateGoFile ::
  "(string \<Rightarrow> 'w result) \<Rightarrow> ('c \<Rightarrow> 'c) \<Rightarrow> ('c \<Rightarrow> string result) \<Rightarrow> (string \<Rightarrow> 'w \<Rightarrow> goerror option \<times> 'w) \<Rightarrow>
   string \<Rightarrow> (string \<times> 'c) list \<Rightarrow> 'w option" where
  "generateGoFile openFile clearStatus marshal write outputDir crds =
     (case openFile (pathJoin [outputDir, ''crds_generated.go'']) of
        Inl err \<Rightarrow> None
      | Inr file \<Rightarrow> writeAllOrPanic write (goFileWrites (marshalled clearStatus marshal) crds) file)"

definition getCRD :: "(string \<Rightarrow> string result) \<Rightarrow> (string \<Rightarrow> 'c result) \<Rightarrow> ('c \<Rightarrow> string) \<Rightarrow> string \<Rightarrow> (string \<times> 'c) option" where
  "getCRD readFile decode singular filename =
     (case readFile filename of
        Inl err \<Rightarrow> None
      | Inr text \<Rightarrow> (case decode text of Inl err \<Rightarrow> None | Inr crd \<Rightarrow> Some (singular crd, crd)))"

definition HasSuffix :: "string \<Rightarrow> string \<Rightarrow> bool" where
  "HasSuffix s suffix \<longleftrightarrow> length suffix \<le> length s \<and> drop (length s - length suffix) s = suffix"

fun collectCRDs ::
  "(string \<Rightarrow> (string \<times> 'c) option) \<Rightarrow> string \<Rightarrow> (string \<times> bool) list \<Rightarrow> (string \<times> 'c) list \<Rightarrow> (string \<times> 'c) list option" where
  "collectCRDs get dirname [] crds = Some crds"
| "collectCRDs get dirname ((filename, isDir) # files) crds =
     (if isDir \<or> \<not> HasSuffix filename ''.yaml'' then collectCRDs get dirname files crds
      else (case get (pathJoin [dirname, filename]) of
              None \<Rightarrow> None
            | Some (crdname, crd) \<Rightarrow> collectCRDs get dirname files (AList.update crdname crd crds)))"

definition crdMain ::
  "(string \<Rightarrow> (string \<times> bool) list result) \<Rightarrow> (string \<Rightarrow> (string \<times> 'c) option) \<Rightarrow> (string \<Rightarrow> (string \<times> 'c) list \<Rightarrow> 'w option) \<Rightarrow>
   string \<Rightarrow> string \<Rightarrow> 'w option" where
  "crdMain readDir get generate dirname outputdir =
     (case readDir dirname of
        Inl err \<Rightarrow> None
      | Inr files \<Rightarrow>
          if length files = 0 then None
          else (case collectCRDs get dirname files [] of None \<Rightarrow> None | Some crds \<Rightarrow> generate outputdir crds))"

subsection \<open>cmd/mtq-operator\<close>

text \<open>
  The level of the logger: \<open>atoi\<close> yields a number also with an error, the level has eight bits. Then
  the start, up to the first step that fails (\<open>os.Exit(1)\<close>).
\<close>

definition loggerLevel :: "(string \<Rightarrow> 64 word \<times> goerror option) \<Rightarrow> string option \<Rightarrow> 8 word \<times> bool" where
  "loggerLevel atoi verbosityEnv =
     (let verbose = (case verbosityEnv of Some v \<Rightarrow> if v \<noteq> [] then v else ''1'' | None \<Rightarrow> ''1'')
      in case atoi verbose of
           (verbosityLevel, err) \<Rightarrow> (ucast (- 1 * verbosityLevel), err = None \<and> sint verbosityLevel > 1))"

datatype operatorStep =
    SetLogger "8 word" bool
  | GetConfig
  | NewManager managerOptions
  | AddMtqToScheme
  | AddExtToScheme
  | AddController
  | StartManager

definition operatorSteps :: "(string \<Rightarrow> 64 word \<times> goerror option) \<Rightarrow> string option \<Rightarrow> (string \<Rightarrow> string result) \<Rightarrow> operatorStep list" where
  "operatorSteps atoi verbosityEnv readFile =
     (case loggerLevel atoi verbosityEnv of
        (level, debug) \<Rightarrow>
          [SetLogger level debug, GetConfig, NewManager (operatorManagerOptions readFile), AddMtqToScheme, AddExtToScheme, AddController,
           StartManager])"

fun runSteps :: "('s \<Rightarrow> goerror option) \<Rightarrow> 's list \<Rightarrow> 's list \<times> goerror option" where
  "runSteps perform [] = ([], None)"
| "runSteps perform (s # ss) =
     (case perform s of
        Some err \<Rightarrow> ([s], Some err)
      | None \<Rightarrow> (case runSteps perform ss of (done, err) \<Rightarrow> (s # done, err)))"

definition operatorMain ::
  "(string \<Rightarrow> 64 word \<times> goerror option) \<Rightarrow> string option \<Rightarrow> (string \<Rightarrow> string result) \<Rightarrow> (operatorStep \<Rightarrow> goerror option) \<Rightarrow>
   operatorStep list \<times> goerror option" where
  "operatorMain atoi verbosityEnv readFile perform = runSteps perform (operatorSteps atoi verbosityEnv readFile)"

subsection \<open>Printing\<close>

lemma nested_removed: "path \<noteq> [] \<Longrightarrow> NestedFieldNoCopy path (RemoveNestedField path j) \<noteq> Inr (Some v)"
  by (induction path j rule: RemoveNestedField.induct)
    (auto simp: delete_conv' update_conv' split: option.split json.split)

text \<open>Two paths that part: what lies at the one does not depend on the other.\<close>

fun apart :: "string list \<Rightarrow> string list \<Rightarrow> bool" where
  "apart (a # as) (b # bs) \<longleftrightarrow> a \<noteq> b \<or> apart as bs"
| "apart _ _ \<longleftrightarrow> False"

lemma nested_apart: "apart p q \<Longrightarrow> NestedFieldNoCopy q (RemoveNestedField p j) = NestedFieldNoCopy q j"
proof (induction p j arbitrary: q rule: RemoveNestedField.induct)
  case (2 field m)
  then show ?case by (cases q) (auto simp: delete_conv')
next
  case (3 k f fs m)
  then show ?case by (cases q) (auto simp: update_conv' split: option.split json.split)
qed auto

lemma set_apart:
  "SetNestedField v p j = Inr r \<Longrightarrow> apart p q \<Longrightarrow> NestedFieldNoCopy q r = NestedFieldNoCopy q j"
proof (induction v p j arbitrary: q r rule: SetNestedField.induct)
  case (1 v field m)
  then show ?case by (cases q) (auto simp: update_conv')
next
  case (2 v k f fs m)
  obtain m' j where m': "(case map_of m k of Some val \<Rightarrow> val | None \<Rightarrow> JObj []) = JObj m'"
    and j: "SetNestedField v (f # fs) (JObj m') = Inr j" "r = JObj (AList.update k j m)"
    using 2(2) by (auto split: json.splits sum.splits)
  show ?case
  proof (cases q)
    case (Cons b bs)
    show ?thesis
    proof (cases "k = b")
      case True
      then have ap: "apart (f # fs) bs" using 2(3) Cons by simp
      then have "NestedFieldNoCopy bs j = NestedFieldNoCopy bs (JObj m')" using 2(1) [OF m' j(1)] by simp
      moreover have "bs \<noteq> []" using ap by (cases bs) auto
      ultimately show ?thesis using True Cons j m' by (cases bs) (auto simp: update_conv' split: option.splits)
    next
      case False
      then show ?thesis using Cons j by (simp add: update_conv')
    qed
  qed (use 2 in simp)
qed auto

lemma set_get: "SetNestedField v p j = Inr r \<Longrightarrow> NestedFieldNoCopy p r = Inr (Some v)"
proof (induction v p j arbitrary: r rule: SetNestedField.induct)
  case (2 v k f fs m)
  obtain m' j where m': "(case map_of m k of Some val \<Rightarrow> val | None \<Rightarrow> JObj []) = JObj m'"
    and j: "SetNestedField v (f # fs) (JObj m') = Inr j" "r = JObj (AList.update k j m)"
    using 2(2) by (auto split: json.splits sum.splits)
  then show ?case using 2(1) [OF m' j(1)] by (simp add: update_conv')
qed (auto simp: update_conv')

definition serverPaths :: "string list list" where
  "serverPaths = [createdPath, templatePath, [''status'']]"

lemmas path_defs = createdPath_def templatePath_def deploymentsPath_def

lemma server_fields_gone: "p \<in> set serverPaths \<Longrightarrow> NestedFieldNoCopy p (stripServerFields j) \<noteq> Inr (Some v)"
  using nested_removed [of "[''status'']" "RemoveNestedField templatePath (RemoveNestedField createdPath j)" v]
    nested_removed [of templatePath "RemoveNestedField createdPath j" v] nested_removed [of createdPath j v]
  by (auto simp: serverPaths_def stripServerFields_def nested_apart path_defs)

lemma other_fields_stay: "\<forall>p \<in> set serverPaths. apart p q \<Longrightarrow> NestedFieldNoCopy q (stripServerFields j) = NestedFieldNoCopy q j"
  by (simp add: serverPaths_def stripServerFields_def nested_apart)

text \<open>What is printed of an object: nothing the server fills in, neither in the object nor in a
  deployment of its install strategy, and everything else as it was.\<close>

theorem printed_without_server_fields:
  assumes "stripObject obj = Some (Inr r)"
  shows "(\<forall>p \<in> set serverPaths. \<forall>v. NestedFieldNoCopy p r \<noteq> Inr (Some v)) \<and>
    (\<forall>ds. NestedSlice deploymentsPath r = Inr (Some ds) \<longrightarrow>
       (\<forall>d \<in> set ds. \<forall>p \<in> set serverPaths. \<forall>v. NestedFieldNoCopy p d \<noteq> Inr (Some v))) \<and>
    (\<forall>q. apart deploymentsPath q \<and> (\<forall>p \<in> set serverPaths. apart p q) \<longrightarrow> NestedFieldNoCopy q r = NestedFieldNoCopy q obj)"
proof (cases "NestedSlice deploymentsPath (stripServerFields obj)")
  case (Inl err)
  then show ?thesis using assms by (simp add: stripObject_def)
next
  case (Inr found)
  show ?thesis
  proof (cases found)
    case None
    then have "r = stripServerFields obj" using assms Inr by (simp add: stripObject_def)
    then show ?thesis using Inr None server_fields_gone other_fields_stay by simp
  next
    case (Some ds)
    then have set: "SetNestedField (JArr (map stripServerFields ds)) deploymentsPath (stripServerFields obj) = Inr r"
      using assms Inr by (simp add: stripObject_def split: if_splits)
    have "apart deploymentsPath p" if "p \<in> set serverPaths" for p
      using that by (auto simp: serverPaths_def path_defs)
    moreover have "NestedSlice deploymentsPath r = Inr (Some (map stripServerFields ds))"
      using set_get [OF set] by (simp add: NestedSlice_def)
    ultimately show ?thesis
      using server_fields_gone other_fields_stay set_apart [OF set] by auto
  qed
qed

subsection \<open>Reading crds_generated.go\<close>

text \<open>
  What Go makes of the generated file: a raw string ends at the next backtick and loses its carriage
  returns, an interpreted string here has no escapes, and \<open>+\<close> joins strings.
\<close>

fun rawString :: "string \<Rightarrow> (string \<times> string) option" where
  "rawString [] = None"
| "rawString (c # cs) =
     (if c = backtick then Some ([], cs)
      else map_option (\<lambda>(s, rest). (if c = creturn then s else c # s, rest)) (rawString cs))"

fun quotedString :: "string \<Rightarrow> (string \<times> string) option" where
  "quotedString [] = None"
| "quotedString (c # cs) =
     (if c = quote then Some ([], cs)
      else if c = CHR 0x5C \<or> c = newline then None
      else map_option (\<lambda>(s, rest). (c # s, rest)) (quotedString cs))"

fun goOperand :: "string \<Rightarrow> (string \<times> string) option" where
  "goOperand [] = None"
| "goOperand (c # cs) = (if c = backtick then rawString cs else if c = quote then quotedString cs else None)"

lemma rest_shorter:
  "rawString s = Some (v, rest) \<Longrightarrow> length rest < length s"
  "quotedString s = Some (v, rest) \<Longrightarrow> length rest < length s"
  "goOperand s = Some (v, rest) \<Longrightarrow> length rest < length s"
proof -
  show raw: "rawString s = Some (v, rest) \<Longrightarrow> length rest < length s" for s v
    by (induction s arbitrary: v) (fastforce split: if_splits)+
  show quoted: "quotedString s = Some (v, rest) \<Longrightarrow> length rest < length s" for s v
    by (induction s arbitrary: v) (fastforce split: if_splits)+
  show "goOperand s = Some (v, rest) \<Longrightarrow> length rest < length s"
    by (cases s) (fastforce dest: raw quoted split: if_splits)+
qed

function goExpr :: "string \<Rightarrow> (string \<times> string) option" where
  "goExpr s =
     (case goOperand s of
        None \<Rightarrow> None
      | Some (v, rest) \<Rightarrow>
          if take 3 rest = '' + '' then map_option (\<lambda>(v', rest'). (v @ v', rest')) (goExpr (drop 3 rest)) else Some (v, rest))"
  by pat_completeness auto
termination by (relation "measure length") (auto dest: rest_shorter(3))

declare goExpr.simps [simp del]

lemma goExpr_shorter: "goExpr s = Some (v, rest) \<Longrightarrow> length rest < length s"
proof (induction s arbitrary: v rule: goExpr.induct)
  case (1 s)
  then show ?case
    by (subst (asm) goExpr.simps) (fastforce dest: rest_shorter(3) split: option.splits if_splits prod.splits)
qed

text \<open>The entries of the map: \<open>"name": expression,\<close> on a line of its own, up to the closing brace.\<close>

definition goEntryOf :: "string \<Rightarrow> ((string \<times> string) \<times> string) option" where
  "goEntryOf s =
     (case s of
        c # d # s1 \<Rightarrow>
          if c = CHR 0x09 \<and> d = quote then
            (case quotedString s1 of
               None \<Rightarrow> None
             | Some (name, s2) \<Rightarrow>
                 if take 2 s2 = '': '' then
                   (case goExpr (drop 2 s2) of
                      None \<Rightarrow> None
                    | Some (v, s3) \<Rightarrow> if take 2 s3 = '','' @ [newline] then Some ((name, v), drop 2 s3) else None)
                 else None)
          else None
      | _ \<Rightarrow> None)"

lemma goEntryOf_shorter: "goEntryOf s = Some (e, rest) \<Longrightarrow> length rest < length s"
  by (auto simp: goEntryOf_def dest!: rest_shorter(2) goExpr_shorter split: list.splits if_splits option.splits, linarith)

function goEntries :: "string \<Rightarrow> (string \<times> string) list option" where
  "goEntries s =
     (if s = ''}'' @ [newline] then Some []
      else (case goEntryOf s of None \<Rightarrow> None | Some (e, rest) \<Rightarrow> map_option (\<lambda>es. e # es) (goEntries rest)))"
  by pat_completeness auto
termination by (relation "measure length") (auto dest: goEntryOf_shorter)

declare goEntries.simps [simp del]

definition readGoFile :: "string \<Rightarrow> (string \<times> string) list option" where
  "readGoFile text =
     (let header = concat goHeader
      in if take (length header) text = header then goEntries (drop (length header) text) else None)"

lemma rawString_plain: "backtick \<notin> set a \<Longrightarrow> creturn \<notin> set a \<Longrightarrow> rawString (a @ backtick # rest) = Some (a, rest)"
  by (induction a) auto

lemma escape_simps:
  "replaceAll [backtick] quotedBacktick (a @ backtick # b) =
     a @ quotedBacktick @ replaceAll [backtick] quotedBacktick b" if "backtick \<notin> set a"
  using that by (induction a) auto

lemma escape_plain: "backtick \<notin> set a \<Longrightarrow> replaceAll [backtick] quotedBacktick a = a"
  by (induction a) auto

lemma goExpr_escaped:
  assumes "creturn \<notin> set yaml" and "take 3 rest \<noteq> '' + ''"
  shows "goExpr (backtick # replaceAll [backtick] quotedBacktick yaml @ backtick # rest) = Some (yaml, rest)"
  using assms(1)
proof (induction "length yaml" arbitrary: yaml rule: less_induct)
  case less
  show ?case
  proof (cases "backtick \<in> set yaml")
    case False
    then show ?thesis using less.prems assms(2)
      by (subst goExpr.simps) (simp add: escape_plain rawString_plain)
  next
    case True
    then obtain a b where y: "yaml = a @ backtick # b" "backtick \<notin> set a" by (meson split_list_first)
    then have cr: "creturn \<notin> set a" "creturn \<notin> set b" using less.prems by auto
    let ?e = "replaceAll [backtick] quotedBacktick b @ backtick # rest"
    have ih: "goExpr (backtick # ?e) = Some (b, rest)" using less.hyps [of b] y cr by simp
    have mid: "goExpr (quote # backtick # quote # '' + '' @ backtick # ?e) = Some (backtick # b, rest)"
      using ih by (subst goExpr.simps) simp
    have "goExpr (backtick # a @ backtick # '' + '' @ quote # backtick # quote # '' + '' @ backtick # ?e) = Some (a @ backtick # b, rest)"
      using mid by (subst goExpr.simps) (simp add: rawString_plain [OF y(2) cr(1)])
    then show ?thesis using y escape_simps [OF y(2), of b] by (simp add: quotedBacktick_def)
  qed
qed

lemma quotedString_plain:
  "quote \<notin> set a \<Longrightarrow> CHR 0x5C \<notin> set a \<Longrightarrow> newline \<notin> set a \<Longrightarrow> quotedString (a @ quote # rest) = Some (a, rest)"
  by (induction a) auto

definition goName :: "string \<Rightarrow> bool" where
  "goName s \<longleftrightarrow> quote \<notin> set s \<and> CHR 0x5C \<notin> set s \<and> newline \<notin> set s"

lemma goEntryOf_entry:
  assumes "goName name" and "creturn \<notin> set yaml"
  shows "goEntryOf (goEntry name yaml @ rest) = Some ((name, yaml), rest)"
proof -
  have "goExpr (backtick # replaceAll [backtick] quotedBacktick yaml @ backtick # '','' @ newline # rest) = Some (yaml, '','' @ newline # rest)"
    by (rule goExpr_escaped [OF assms(2)]) simp
  moreover have "quotedString (name @ quote # s) = Some (name, s)" for s
    using assms(1) by (simp add: goName_def quotedString_plain)
  ultimately show ?thesis by (simp add: goEntryOf_def goEntry_def)
qed

lemma goEntries_entries:
  assumes "\<forall>n \<in> set names. goName n \<and> creturn \<notin> set (f n)"
  shows "goEntries (concat (map (\<lambda>n. goEntry n (f n)) names) @ ''}'' @ [newline]) = Some (map (\<lambda>n. (n, f n)) names)"
  using assms
proof (induction names)
  case Nil
  then show ?case by (subst goEntries.simps) simp
next
  case (Cons n names)
  let ?rest = "concat (map (\<lambda>n. goEntry n (f n)) names) @ ''}'' @ [newline]"
  have "goEntry n (f n) @ ?rest \<noteq> ''}'' @ [newline]" by (simp add: goEntry_def)
  then show ?case using Cons goEntryOf_entry [of n "f n" ?rest]
    by (subst goEntries.simps) simp
qed

definition appendTo :: "string \<Rightarrow> string \<Rightarrow> goerror option \<times> string" where
  "appendTo s file = (None, file @ s)"

lemma writeAll_append: "writeAllOrPanic appendTo ss w = Some (w @ concat ss)"
  by (induction ss arbitrary: w) (simp_all add: appendTo_def)

text \<open>C34: the generated Go file means what was generated: into an empty file, the generator writes a
  text that Go reads back as the map from the names of the definitions to their YAML, whatever
  backticks it contains, in the order of the names.\<close>

theorem generated_definitions_read_back:
  assumes "distinct (map fst crds)" and "\<forall>(crdname, crd) \<in> set crds. goName crdname \<and> creturn \<notin> set (marshalled clearStatus marshal crd)"
  shows "\<exists>text. generateGoFile (\<lambda>f. Inr []) clearStatus marshal appendTo outputDir crds = Some text \<and>
    readGoFile text = Some (map (\<lambda>crdname. (crdname, marshalled clearStatus marshal (the (map_of crds crdname)))) (sort (map fst crds)))"
proof -
  let ?y = "marshalled clearStatus marshal"
  let ?names = "sort (map fst crds)"
  have "goName n \<and> creturn \<notin> set (?y (the (map_of crds n)))" if "n \<in> set ?names" for n
    using that assms by (auto simp: map_of_is_SomeI)
  then have "goEntries (concat (map (\<lambda>n. goEntry n (?y (the (map_of crds n)))) ?names) @ ''}'' @ [newline]) =
      Some (map (\<lambda>n. (n, ?y (the (map_of crds n)))) ?names)"
    by (intro goEntries_entries) blast
  then show ?thesis by (simp add: generateGoFile_def writeAll_append goFileWrites_def readGoFile_def Let_def)
qed

definition demoYaml :: "string \<Rightarrow> string" where
  "demoYaml crd = ''the '' @ [backtick] @ crd @ [backtick] @ '' resource''"

theorem generated_definitions_read_back_witness:
  "\<exists>text. generateGoFile (\<lambda>f. Inr []) id (\<lambda>c. Inr (demoYaml c)) appendTo ''out'' [(''mtq'', ''a''), (''abc'', ''b'')] = Some text \<and>
     readGoFile text = Some [(''abc'', demoYaml ''b''), (''mtq'', demoYaml ''a'')]"
proof -
  have "sort [''mtq'', ''abc''] = [''abc'', ''mtq'']" by code_simp
  moreover have "\<forall>(crdname, crd) \<in> set [(''mtq'', ''a''), (''abc'', ''b'')]. goName crdname \<and> creturn \<notin> set (marshalled id (\<lambda>c. Inr (demoYaml c)) crd)"
    by (simp add: goName_def marshalled_def demoYaml_def)
  ultimately show ?thesis
    using generated_definitions_read_back [of "[(''mtq'', ''a''), (''abc'', ''b'')]" id "\<lambda>c. Inr (demoYaml c)" "''out''"]
    by (simp add: marshalled_def)
qed

text \<open>The level of the logger is what it should be up to a verbosity of 128, and wraps above.\<close>

lemma loggerLevel_bounds:
  assumes "atoi v = (of_nat n, None)" and "v \<noteq> []" and "n \<le> 128"
  shows "sint (fst (loggerLevel atoi (Some v))) = - int n"
proof -
  have "ucast (- word_of_nat n :: 64 word) = (word_of_int (- int n) :: 8 word)"
    using ucast_down_wi [of "- int n", where 'a = 64 and 'b = 8] by (simp add: is_down)
  moreover have "sint (word_of_int (- int n) :: 8 word) = - int n"
    unfolding signed_of_int of_int_eq_id id_apply using assms(3) by (intro signed_take_bit_int_eq_self) simp_all
  ultimately show ?thesis using assms(1,2) by (simp add: loggerLevel_def del: of_int_minus)
qed

end
