(* ===== verification/GoMemory.thy ===== *)
theory GoMemory
  imports Prelude
begin

text \<open>
  Go's memory as the generated deep copies see it. A value is flat (a string, a number, a
  time: what assignment copies whole), a struct of named fields, or a reference: a pointer, a
  slice or a map, which assignment shares. What a reference refers to is a cell: the one
  target of a pointer, the elements of a slice, the entries of a map. On top of it stand the
  shapes the generated code is made of (\<open>*out = *in\<close> followed by one statement per field
  that holds references, and the loop or the \<open>new\<close> behind such a statement) and the contract
  a deep copy keeps: it allocates only, its result reads as its argument does, and no
  address of the result was in use before.
\<close>

subsection \<open>Types, values and cells\<close>

datatype gty = FlatT | RefT gty | StructT "(string \<times> gty) list"

datatype gval = Flat string | Null | Ref nat | Struct "(string \<times> gval) list"

record gmem =
  gm_cells :: "nat \<Rightarrow> (string \<times> gval) list"
  gm_next :: nat

definition store :: "nat \<Rightarrow> (string \<times> gval) list \<Rightarrow> gmem \<Rightarrow> gmem" where
  "store a es m = m\<lparr>gm_cells := (gm_cells m)(a := es)\<rparr>"

text \<open>\<open>new\<close> and \<open>make\<close>: the next address.\<close>

definition alloc :: "gmem \<Rightarrow> nat \<times> gmem" where
  "alloc m = (gm_next m, m\<lparr>gm_next := Suc (gm_next m)\<rparr>)"

text \<open>A value of a type: its fields are those of the type, its references are allocated.\<close>

fun hasType :: "gmem \<Rightarrow> gty \<Rightarrow> gval \<Rightarrow> bool" and fieldsTyped where
  "hasType m FlatT v = (case v of Flat s \<Rightarrow> True | _ \<Rightarrow> False)"
| "hasType m (RefT t) v =
     (case v of
        Null \<Rightarrow> True
      | Ref a \<Rightarrow> a < gm_next m \<and> (\<forall>e \<in> set (gm_cells m a). hasType m t (snd e))
      | _ \<Rightarrow> False)"
| "hasType m (StructT ts) v = (case v of Struct fs \<Rightarrow> fieldsTyped m ts fs | _ \<Rightarrow> False)"
| "fieldsTyped m [] fs = (fs = [])"
| "fieldsTyped m ((n, t) # ts) fs =
     (case fs of [] \<Rightarrow> False | (n', v) # fs' \<Rightarrow> n' = n \<and> hasType m t v \<and> fieldsTyped m ts fs')"

text \<open>What a value says, references followed: two values that read alike are \<open>DeepEqual\<close>.\<close>

datatype gtree = TFlat string | TNull | TCell "(string \<times> gtree) list" | TStruct "(string \<times> gtree) list" | TBad

fun reads :: "gmem \<Rightarrow> gty \<Rightarrow> gval \<Rightarrow> gtree" and readsFields where
  "reads m FlatT v = (case v of Flat s \<Rightarrow> TFlat s | _ \<Rightarrow> TBad)"
| "reads m (RefT t) v =
     (case v of
        Null \<Rightarrow> TNull
      | Ref a \<Rightarrow> TCell (map (\<lambda>e. (fst e, reads m t (snd e))) (gm_cells m a))
      | _ \<Rightarrow> TBad)"
| "reads m (StructT ts) v = (case v of Struct fs \<Rightarrow> TStruct (readsFields m ts fs) | _ \<Rightarrow> TBad)"
| "readsFields m [] fs = []"
| "readsFields m ((n, t) # ts) fs =
     (case fs of [] \<Rightarrow> [] | (n', v) # fs' \<Rightarrow> (n', reads m t v) # readsFields m ts fs')"

text \<open>The cells a value reaches.\<close>

fun cellsOf :: "gmem \<Rightarrow> gty \<Rightarrow> gval \<Rightarrow> nat list" and cellsOfFields where
  "cellsOf m FlatT v = []"
| "cellsOf m (RefT t) v =
     (case v of Ref a \<Rightarrow> a # concat (map (\<lambda>e. cellsOf m t (snd e)) (gm_cells m a)) | _ \<Rightarrow> [])"
| "cellsOf m (StructT ts) v = (case v of Struct fs \<Rightarrow> cellsOfFields m ts fs | _ \<Rightarrow> [])"
| "cellsOfFields m [] fs = []"
| "cellsOfFields m ((n, t) # ts) fs =
     (case fs of [] \<Rightarrow> [] | (n', v) # fs' \<Rightarrow> cellsOf m t v @ cellsOfFields m ts fs')"

text \<open>A type without references.\<close>

fun flatType :: "gty \<Rightarrow> bool" and flatFields where
  "flatType FlatT = True"
| "flatType (RefT t) = False"
| "flatType (StructT ts) = flatFields ts"
| "flatFields [] = True"
| "flatFields ((n, t) # ts) = (flatType t \<and> flatFields ts)"

subsection \<open>What a write leaves alone\<close>

definition agreeOn :: "nat set \<Rightarrow> gmem \<Rightarrow> gmem \<Rightarrow> bool" where
  "agreeOn A m m' \<longleftrightarrow> gm_next m \<le> gm_next m' \<and> (\<forall>a \<in> A. gm_cells m' a = gm_cells m a)"

lemma agreeOn_sub: "agreeOn A m m' \<Longrightarrow> B \<subseteq> A \<Longrightarrow> agreeOn B m m'"
  by (auto simp: agreeOn_def)

lemma agreeOn_trans: "agreeOn A m m' \<Longrightarrow> agreeOn A m' m'' \<Longrightarrow> agreeOn A m m''"
  by (auto simp: agreeOn_def)

lemma agree_store: "a \<notin> A \<Longrightarrow> agreeOn A m (store a es m)"
  by (auto simp: agreeOn_def store_def)

lemma agree_alloc: "alloc m = (a, m') \<Longrightarrow> agreeOn A m m'"
  by (auto simp: agreeOn_def alloc_def)

lemma agree_typed_reads:
  "agreeOn (set (cellsOf m t v)) m m' \<Longrightarrow> hasType m t v \<Longrightarrow>
     hasType m' t v \<and> reads m' t v = reads m t v \<and> cellsOf m' t v = cellsOf m t v"
  "agreeOn (set (cellsOfFields m ts fs)) m m' \<Longrightarrow> fieldsTyped m ts fs \<Longrightarrow>
     fieldsTyped m' ts fs \<and> readsFields m' ts fs = readsFields m ts fs
     \<and> cellsOfFields m' ts fs = cellsOfFields m ts fs"
proof (induction m t v and m ts fs rule: hasType_fieldsTyped.induct)
  case (2 m t v)
  show ?case
  proof (cases v)
    case (Ref a)
    have c: "gm_cells m' a = gm_cells m a" and n: "gm_next m \<le> gm_next m'"
      using "2.prems"(1) Ref by (auto simp: agreeOn_def)
    have e: "hasType m' t (snd e) \<and> reads m' t (snd e) = reads m t (snd e)
        \<and> cellsOf m' t (snd e) = cellsOf m t (snd e)" if "e \<in> set (gm_cells m a)" for e
      using "2.IH" [OF Ref that] "2.prems" Ref that by (auto simp: agreeOn_def)
    show ?thesis
      using "2.prems"(2) Ref c n e by (auto simp: cong: map_cong)
  qed (use "2.prems"(2) in auto)
qed (auto simp: agreeOn_def split: gval.splits list.splits)

lemmas agree_hasType = agree_typed_reads(1) [THEN conjunct1]
lemmas agree_reads = agree_typed_reads(1) [THEN conjunct2, THEN conjunct1]
lemmas agree_reach = agree_typed_reads(1) [THEN conjunct2, THEN conjunct2]

lemma reach_below:
  "hasType m t v \<Longrightarrow> set (cellsOf m t v) \<subseteq> {..<gm_next m}"
  "fieldsTyped m ts fs \<Longrightarrow> set (cellsOfFields m ts fs) \<subseteq> {..<gm_next m}"
  by (induction m t v and m ts fs rule: hasType_fieldsTyped.induct)
    (fastforce split: gval.splits list.splits)+

lemma flat_reach:
  "flatType t \<Longrightarrow> cellsOf m t v = []"
  "flatFields ts \<Longrightarrow> cellsOfFields m ts fs = []"
  by (induction m t v and m ts fs rule: cellsOf_cellsOfFields.induct) (auto split: gval.splits list.splits)

subsection \<open>The shapes of generated code\<close>

type_synonym gcopy = "gval \<Rightarrow> gmem \<Rightarrow> gval \<times> gmem"

text \<open>\<open>*out = *in\<close>, \<open>**out = **in\<close>, \<open>(*out)[key] = val\<close>, \<open>copy(*out, *in)\<close>: plain assignment.\<close>

definition assign :: gcopy where
  "assign v m = (v, m)"

text \<open>\<open>for i := range *in\<close> and \<open>for key, val := range *in\<close>: one element after the other.\<close>

fun copyEntries :: "gcopy \<Rightarrow> (string \<times> gval) list \<Rightarrow> gmem \<Rightarrow> (string \<times> gval) list \<times> gmem" where
  "copyEntries f [] m = ([], m)"
| "copyEntries f ((k, v) # es) m =
     (case f v m of (v', m1) \<Rightarrow> case copyEntries f es m1 of (es', m2) \<Rightarrow> ((k, v') # es', m2))"

text \<open>
  \<open>if in.F != nil { *out = new(T) or make(T, len(*in)); ... }\<close>: nil stays nil, anything else
  gets a cell of its own, filled with the copies of its elements. A \<open>DeepCopy\<close>, which is
  \<open>new\<close> and \<open>DeepCopyInto\<close> behind the same test, has this shape as well.
\<close>

definition copyRef :: "gcopy \<Rightarrow> gcopy" where
  "copyRef f v m =
     (case v of
        Ref a \<Rightarrow>
          (case alloc m of (b, m1) \<Rightarrow>
           case copyEntries f (gm_cells m1 a) m1 of (es, m2) \<Rightarrow> (Ref b, store b es m2))
      | _ \<Rightarrow> (v, m))"

text \<open>
  A \<open>DeepCopyInto\<close> starts from \<open>*out = *in\<close>; its statements, in the order of the fields, then
  replace the fields they name. A field without a statement stays as assigned.
\<close>

fun copyFields :: "(string \<times> gcopy) list \<Rightarrow> (string \<times> gval) list \<Rightarrow> gmem \<Rightarrow> (string \<times> gval) list \<times> gmem" where
  "copyFields steps [] m = ([], m)"
| "copyFields steps ((n, v) # fs) m =
     (case (case map_of steps n of None \<Rightarrow> assign | Some f \<Rightarrow> f) v m of (v', m1) \<Rightarrow>
      case copyFields steps fs m1 of (fs', m2) \<Rightarrow> ((n, v') # fs', m2))"

definition deepCopyInto :: "(string \<times> gcopy) list \<Rightarrow> gcopy" where
  "deepCopyInto steps v m =
     (case v of
        Struct fs \<Rightarrow> (case copyFields steps fs m of (fs', m') \<Rightarrow> (Struct fs', m'))
      | _ \<Rightarrow> (v, m))"

text \<open>\<open>DeepCopyObject\<close>: the interface value is nil exactly when the copy is.\<close>

definition deepCopyObject :: "gcopy \<Rightarrow> gcopy" where
  "deepCopyObject f v m = (case f v m of (c, m') \<Rightarrow> if c \<noteq> Null then (c, m') else (Null, m'))"

lemma deepCopyObject_eq [simp]: "deepCopyObject f = f"
  by (auto simp: deepCopyObject_def fun_eq_iff split: prod.splits)

subsection \<open>The contract\<close>

text \<open>
  \<open>v'\<close>, read in \<open>m'\<close>, is a copy of \<open>v\<close>, read in \<open>m\<close>: nothing that was allocated has changed,
  it reads alike, and the cells it reaches are new and met once each.
\<close>

definition isCopy :: "gty \<Rightarrow> gval \<Rightarrow> gmem \<Rightarrow> gval \<Rightarrow> gmem \<Rightarrow> bool" where
  "isCopy t v m v' m' \<longleftrightarrow>
     agreeOn {..<gm_next m} m m' \<and> hasType m' t v' \<and> reads m' t v' = reads m t v
     \<and> set (cellsOf m' t v') \<subseteq> {gm_next m..} \<and> distinct (cellsOf m' t v')"

definition copies :: "gty \<Rightarrow> gcopy \<Rightarrow> bool" where
  "copies t f \<longleftrightarrow> (\<forall>v m v' m'. f v m = (v', m') \<longrightarrow> hasType m t v \<longrightarrow> isCopy t v m v' m')"

lemma isCopy_cong:
  "reads m t v = reads n t w \<Longrightarrow> gm_next n \<le> gm_next m \<Longrightarrow> agreeOn {..<gm_next n} n m \<Longrightarrow>
     isCopy t v m v' m' \<Longrightarrow> isCopy t w n v' m'"
  by (auto simp: isCopy_def agreeOn_def)

lemma copies_assign: "flatType t \<Longrightarrow> copies t assign"
  by (auto simp: copies_def assign_def isCopy_def agreeOn_def flat_reach)

text \<open>A copy stays one while memory is only added to.\<close>

lemma typed_agree:
  "agreeOn {..<gm_next m} m m' \<Longrightarrow> hasType m t v \<Longrightarrow>
     hasType m' t v \<and> reads m' t v = reads m t v \<and> cellsOf m' t v = cellsOf m t v"
  using agree_typed_reads(1) agreeOn_sub reach_below(1) by blast

lemma isCopy_later:
  assumes "isCopy t v m v' m1" and "agreeOn {..<gm_next m1} m1 m2"
  shows "isCopy t v m v' m2"
proof -
  have "agreeOn {..<gm_next m} m m2"
    using assms by (auto simp: isCopy_def agreeOn_def)
  then show ?thesis
    using assms typed_agree [OF assms(2), of t v'] by (simp add: isCopy_def)
qed

text \<open>Two copies made one after the other share nothing.\<close>

lemma isCopy_apart:
  assumes "isCopy t v m v' m1" and "isCopy u w m1 w' m2"
  shows "set (cellsOf m2 t v') \<inter> set (cellsOf m2 u w') = {}"
proof -
  have "cellsOf m2 t v' = cellsOf m1 t v'"
    using assms typed_agree by (auto simp: isCopy_def)
  moreover have "set (cellsOf m1 t v') \<subseteq> {..<gm_next m1}"
    using assms(1) reach_below(1) by (auto simp: isCopy_def)
  ultimately show ?thesis
    using assms(2) by (fastforce simp: isCopy_def)
qed

text \<open>The fields of a struct, the first and the rest.\<close>

lemma isCopy_Cons:
  assumes v: "isCopy t v m v' m1" and fs: "isCopy (StructT ts) (Struct fs) m1 (Struct fs') m2"
    and ok: "fieldsTyped m ts fs"
  shows "isCopy (StructT ((n, t) # ts)) (Struct ((n, v) # fs)) m (Struct ((n, v') # fs')) m2"
proof -
  have a1: "agreeOn {..<gm_next m} m m1" and a2: "agreeOn {..<gm_next m1} m1 m2"
    using v fs by (simp_all add: isCopy_def)
  have tail: "reads m1 (StructT ts) (Struct fs) = reads m (StructT ts) (Struct fs)"
    using typed_agree [OF a1, of "StructT ts" "Struct fs"] ok by simp
  note later = isCopy_later [OF v a2]
  have "set (cellsOf m2 (StructT ts) (Struct fs')) \<subseteq> {gm_next m..}"
    using fs a1 by (fastforce simp: isCopy_def agreeOn_def)
  then show ?thesis
    using later fs tail isCopy_apart [OF v fs] by (simp add: isCopy_def)
qed

lemma isCopy_Nil: "isCopy (StructT []) (Struct []) m (Struct []) m"
  by (simp add: isCopy_def agreeOn_def)

definition fieldCopied :: "(string \<times> gcopy) list \<Rightarrow> string \<times> gty \<Rightarrow> bool" where
  "fieldCopied steps f = (case map_of steps (fst f) of None \<Rightarrow> flatType (snd f) | Some c \<Rightarrow> copies (snd f) c)"

lemma copyFields_copies:
  "list_all (fieldCopied steps) ts \<Longrightarrow> fieldsTyped m ts fs \<Longrightarrow> copyFields steps fs m = (fs', m') \<Longrightarrow>
     isCopy (StructT ts) (Struct fs) m (Struct fs') m'"
proof (induction ts arbitrary: fs m fs' m')
  case Nil
  then show ?case by (auto simp: isCopy_Nil)
next
  case (Cons nt ts)
  obtain n t where nt: "nt = (n, t)" by (cases nt)
  obtain v rest where fs: "fs = (n, v) # rest" and ty: "hasType m t v" "fieldsTyped m ts rest"
    using Cons.prems(2) nt by (auto split: list.splits)
  let ?f = "case map_of steps n of None \<Rightarrow> assign | Some f \<Rightarrow> f"
  obtain v' m1 where v': "?f v m = (v', m1)" by fastforce
  obtain rest' m2 where r': "copyFields steps rest m1 = (rest', m2)" by fastforce
  have "copies t ?f"
    using Cons.prems(1) nt copies_assign by (auto simp: fieldCopied_def split: option.splits)
  then have c: "isCopy t v m v' m1"
    using v' ty(1) by (simp add: copies_def)
  then have "fieldsTyped m1 ts rest"
    using typed_agree [of m m1 "StructT ts" "Struct rest"] ty(2) by (simp add: isCopy_def)
  with Cons.IH [OF _ _ r'] Cons.prems(1)
  have "isCopy (StructT ts) (Struct rest) m1 (Struct rest') m2" by simp
  moreover have "fs' = (n, v') # rest'" "m' = m2"
    using Cons.prems(3) v' r' by (simp_all add: fs)
  ultimately show ?case
    using isCopy_Cons [OF c _ ty(2)] by (simp add: fs nt)
qed

lemma copies_deepCopyInto:
  "list_all (fieldCopied steps) ts \<Longrightarrow> copies (StructT ts) (deepCopyInto steps)"
  by (auto simp: copies_def deepCopyInto_def copyFields_copies split: gval.splits prod.splits)

text \<open>The entries of a cell are the fields of a struct all of one type.\<close>

definition entryTypes :: "gty \<Rightarrow> (string \<times> gval) list \<Rightarrow> (string \<times> gty) list" where
  "entryTypes t es = map (\<lambda>k. (k, t)) (map fst es)"

lemma entries_as_fields:
  "fieldsTyped m (entryTypes t es) es = (\<forall>e \<in> set es. hasType m t (snd e))"
  "readsFields m (entryTypes t es) es = map (\<lambda>e. (fst e, reads m t (snd e))) es"
  "cellsOfFields m (entryTypes t es) es = concat (map (\<lambda>e. cellsOf m t (snd e)) es)"
  by (induction es) (auto simp: entryTypes_def)

lemma copyEntries_keys: "copyEntries f es m = (es', m') \<Longrightarrow> map fst es' = map fst es"
proof (induction es arbitrary: m es')
  case (Cons e es)
  obtain v' m1 where v: "f (snd e) m = (v', m1)" by fastforce
  obtain es1 m2 where r: "copyEntries f es m1 = (es1, m2)" by fastforce
  have "es' = (fst e, v') # es1" "m2 = m'"
    using Cons.prems v r by (cases e, simp)+
  with Cons.IH r show ?case by simp
qed simp

lemma copyEntries_copies:
  assumes "copies t f"
  shows "fieldsTyped m (entryTypes t es) es \<Longrightarrow> copyEntries f es m = (es', m') \<Longrightarrow>
     isCopy (StructT (entryTypes t es)) (Struct es) m (Struct es') m'"
proof (induction es arbitrary: m es' m')
  case Nil
  then show ?case by (simp add: entryTypes_def isCopy_Nil)
next
  case (Cons e es)
  obtain k v where e: "e = (k, v)" by (cases e)
  have ty: "hasType m t v" "fieldsTyped m (entryTypes t es) es"
    using Cons.prems(1) by (simp_all add: e entryTypes_def)
  obtain v' m1 where v': "f v m = (v', m1)" by fastforce
  obtain es1 m2 where r': "copyEntries f es m1 = (es1, m2)" by fastforce
  have c: "isCopy t v m v' m1"
    using assms v' ty(1) by (simp add: copies_def)
  then have "fieldsTyped m1 (entryTypes t es) es"
    using typed_agree [of m m1 "StructT (entryTypes t es)" "Struct es"] ty(2) by (simp add: isCopy_def)
  from isCopy_Cons [OF c Cons.IH [OF this r'] ty(2)] show ?case
    using Cons.prems(2) v' r' by (auto simp: e entryTypes_def)
qed

lemma copies_copyRef:
  assumes f: "copies t f"
  shows "copies (RefT t) (copyRef f)"
  unfolding copies_def
proof (intro allI impI)
  fix v m w n
  assume run: "copyRef f v m = (w, n)" and ty: "hasType m (RefT t) v"
  show "isCopy (RefT t) v m w n"
  proof (cases v)
    case (Ref a)
    let ?es = "gm_cells m a" and ?b = "gm_next m"
    let ?ts = "StructT (entryTypes t ?es)"
    define m1 where "m1 = m\<lparr>gm_next := Suc ?b\<rparr>"
    obtain es m2 where es: "copyEntries f ?es m1 = (es, m2)" by fastforce
    have wn: "w = Ref ?b" "n = store ?b es m2"
      using run Ref es by (auto simp: copyRef_def alloc_def m1_def)
    have a0: "agreeOn {..<?b} m m1" by (auto simp: agreeOn_def m1_def)
    have ty0: "hasType m ?ts (Struct ?es)" using ty Ref by (simp add: entries_as_fields)
    note carried = typed_agree [OF a0 ty0]
    have c: "isCopy ?ts (Struct ?es) m1 (Struct es) m2"
      using copyEntries_copies [OF f _ es] carried by simp
    have "?b \<notin> set (cellsOf m2 ?ts (Struct es))"
      using c by (auto simp: isCopy_def m1_def)
    then have a2: "agreeOn (set (cellsOf m2 ?ts (Struct es))) m2 n"
      unfolding wn by (rule agree_store)
    have ts: "entryTypes t ?es = entryTypes t es"
      using copyEntries_keys [OF es] by (simp add: entryTypes_def)
    have r: "hasType n ?ts (Struct es) \<and> reads n ?ts (Struct es) = reads m2 ?ts (Struct es)
        \<and> cellsOf n ?ts (Struct es) = cellsOf m2 ?ts (Struct es)"
      using agree_typed_reads(1) [OF a2] c by (simp add: isCopy_def)
    have lt: "?b < gm_next n" "agreeOn {..<?b} m n"
      using c by (auto simp: isCopy_def agreeOn_def m1_def wn store_def)
    have cell: "gm_cells n ?b = es" by (simp add: wn store_def)
    have ty': "hasType n (RefT t) (Ref ?b)"
      using r lt cell ts entries_as_fields(1) [of n t es] by simp
    have "reads n (RefT t) (Ref ?b) = reads m (RefT t) v"
      using r c carried cell ts Ref entries_as_fields(2) [of n t es] entries_as_fields(2) [of m t ?es]
      by (simp add: isCopy_def)
    moreover have "cellsOf n (RefT t) (Ref ?b) = ?b # cellsOf m2 ?ts (Struct es)"
      using r cell ts entries_as_fields(3) [of n t es] by simp
    moreover have "set (cellsOf m2 ?ts (Struct es)) \<subseteq> {Suc ?b..} \<and> distinct (cellsOf m2 ?ts (Struct es))"
      using c by (simp add: isCopy_def m1_def)
    ultimately show ?thesis
      using ty' lt(2) wn(1) by (fastforce simp: isCopy_def)
  next
    case Null
    then show ?thesis using run by (auto simp: copyRef_def isCopy_def agreeOn_def)
  qed (use ty in simp_all)
qed

lemmas copies_shapes = copies_deepCopyInto copies_copyRef

subsection \<open>What the owner of a copy may do\<close>

text \<open>
  The interface of a generated type: its \<open>DeepCopyInto\<close> keeps the contract. Then so does its
  \<open>DeepCopy\<close>, and writing through either object is not seen through the other.
\<close>

locale deep_copier =
  fixes t :: gty and copyInto :: gcopy
  assumes into: "copies t copyInto"
begin

lemma deepCopy: "copies (RefT t) (copyRef copyInto)"
  using into by (rule copies_copyRef)

lemma writes_stay_apart:
  assumes "copyRef copyInto v m = (v', m')" and "hasType m (RefT t) v"
  shows "reads m' (RefT t) v' = reads m (RefT t) v"
    and "reads m' (RefT t) v = reads m (RefT t) v"
    and "a \<in> set (cellsOf m' (RefT t) v') \<Longrightarrow> reads (store a es m') (RefT t) v = reads m (RefT t) v"
    and "a \<in> set (cellsOf m (RefT t) v) \<Longrightarrow> reads (store a es m') (RefT t) v' = reads m (RefT t) v"
    and "distinct (cellsOf m' (RefT t) v')"
proof -
  have c: "isCopy (RefT t) v m v' m'"
    using deepCopy assms unfolding copies_def by blast
  then have old: "hasType m' (RefT t) v" "reads m' (RefT t) v = reads m (RefT t) v"
    "cellsOf m' (RefT t) v = cellsOf m (RefT t) v"
    using typed_agree [of m m' "RefT t" v] assms(2) by (simp_all add: isCopy_def)
  have below: "set (cellsOf m (RefT t) v) \<subseteq> {..<gm_next m}"
    using assms(2) by (rule reach_below(1))
  have fresh: "set (cellsOf m' (RefT t) v') \<subseteq> {gm_next m..}" and ty': "hasType m' (RefT t) v'"
    using c by (simp_all add: isCopy_def)
  have apart: "x \<notin> set (cellsOf m' (RefT t) v')" if "x \<in> set (cellsOf m (RefT t) v)" for x
    using subsetD [OF below that] subsetD [OF fresh, of x] by auto
  show same: "reads m' (RefT t) v' = reads m (RefT t) v"
    using c by (simp add: isCopy_def)
  show "reads m' (RefT t) v = reads m (RefT t) v" by (rule old(2))
  show "distinct (cellsOf m' (RefT t) v')" using c by (simp add: isCopy_def)
  show "reads (store a es m') (RefT t) v = reads m (RefT t) v"
    if "a \<in> set (cellsOf m' (RefT t) v')"
  proof -
    have "a \<notin> set (cellsOf m' (RefT t) v)"
      using that apart unfolding old(3) by blast
    from agree_reads [OF agree_store [OF this] old(1)] show ?thesis by (simp only: old(2))
  qed
  show "reads (store a es m') (RefT t) v' = reads m (RefT t) v"
    if "a \<in> set (cellsOf m (RefT t) v)"
  proof -
    have "a \<notin> set (cellsOf m' (RefT t) v')"
      using that by (rule apart)
    from agree_reads [OF agree_store [OF this] ty'] show ?thesis by (simp only: same)
  qed
qed

end

end
