(* ===== verification/DeepCopy.thy ===== *)
theory DeepCopy
  imports GoMemory
begin

text \<open>
  The generated deep copies of the API types (\<open>zz_generated.deepcopy.go\<close>): for each type its
  fields as \<open>types.go\<close> declares them and its \<open>DeepCopyInto\<close>, one entry per statement of the
  code; a field that no entry names is shared with the original. The copies of the vendored
  types they call (object metadata, quota specifications, node placement and affinity,
  conditions) are transcribed in the same way. Every one keeps the contract of
  \<open>copies\<close>; each type of the package is an interpretation of \<open>deep_copier\<close>.
\<close>

named_theorems copy_rules \<open>the contracts of the copies that other copies call\<close>

declare copies_copyRef [copy_rules] copies_assign [copy_rules] fieldCopied_def [copy_rules]

lemma copies_struct:
  "T = StructT ts \<Longrightarrow> f = deepCopyInto steps \<Longrightarrow> list_all (fieldCopied steps) ts \<Longrightarrow> copies T f"
  by (simp add: copies_deepCopyInto)

subsection \<open>Times and quantities\<close>

text \<open>\<open>Time.DeepCopyInto\<close> assigns: the location a time points to is never written.\<close>

definition TimeT :: gty where
  "TimeT = FlatT"

definition Time_DeepCopyInto :: gcopy where
  "Time_DeepCopyInto = assign"

definition Time_DeepCopy :: gcopy where
  "Time_DeepCopy = copyRef Time_DeepCopyInto"

lemma Time_copies [copy_rules]:
  "copies TimeT Time_DeepCopyInto"
  by (simp add: TimeT_def Time_DeepCopyInto_def copies_assign)

lemma Time_DeepCopy_copies [copy_rules]: "copies (RefT TimeT) Time_DeepCopy"
  by (simp add: Time_DeepCopy_def copy_rules)

text \<open>
  A quantity refers to its big decimal, when it has one; \<open>inf.Dec.Set\<close> stores value and
  scale into the new decimal. (A big integer is its value: \<open>SetUnscaledBig\<close> copies the digits.)
\<close>

definition DecT :: gty where
  "DecT = StructT [(''unscaled'', FlatT), (''scale'', FlatT)]"

definition QuantityT :: gty where
  "QuantityT = StructT [(''i'', FlatT), (''d'', RefT DecT), (''s'', FlatT), (''Format'', FlatT)]"

definition Quantity_DeepCopy :: gcopy where
  "Quantity_DeepCopy = deepCopyInto [(''d'', copyRef assign)]"

lemma DecT_flat [copy_rules]: "flatType DecT"
  by (simp add: DecT_def)

lemma Quantity_copies [copy_rules]: "copies QuantityT Quantity_DeepCopy"
  by (rule copies_struct [OF QuantityT_def Quantity_DeepCopy_def]) (simp add: copy_rules)

subsection \<open>Metadata\<close>

definition TypeMetaT :: gty where
  "TypeMetaT = StructT
     [(''Kind'', FlatT), (''APIVersion'', FlatT)]"

lemma TypeMeta_copies [copy_rules]: "flatType TypeMetaT"
  by (simp add: TypeMetaT_def)

definition ListMetaT :: gty where
  "ListMetaT = StructT
     [(''SelfLink'', FlatT), (''ResourceVersion'', FlatT), (''Continue'', FlatT), (''RemainingItemCount'', RefT FlatT)]"

definition ListMeta_DeepCopyInto :: gcopy where
  "ListMeta_DeepCopyInto = deepCopyInto
     [(''RemainingItemCount'', copyRef assign)]"

lemma ListMeta_copies [copy_rules]: "copies ListMetaT ListMeta_DeepCopyInto"
  by (rule copies_struct [OF ListMetaT_def ListMeta_DeepCopyInto_def]) (simp add: copy_rules)

definition OwnerReferenceT :: gty where
  "OwnerReferenceT = StructT
     [(''APIVersion'', FlatT), (''Kind'', FlatT), (''Name'', FlatT), (''UID'', FlatT), (''Controller'', RefT FlatT),
     (''BlockOwnerDeletion'', RefT FlatT)]"

definition OwnerReference_DeepCopyInto :: gcopy where
  "OwnerReference_DeepCopyInto = deepCopyInto
     [(''Controller'', copyRef assign), (''BlockOwnerDeletion'', copyRef assign)]"

lemma OwnerReference_copies [copy_rules]: "copies OwnerReferenceT OwnerReference_DeepCopyInto"
  by (rule copies_struct [OF OwnerReferenceT_def OwnerReference_DeepCopyInto_def]) (simp add: copy_rules)

definition FieldsV1T :: gty where
  "FieldsV1T = StructT
     [(''Raw'', RefT FlatT)]"

definition FieldsV1_DeepCopyInto :: gcopy where
  "FieldsV1_DeepCopyInto = deepCopyInto
     [(''Raw'', copyRef assign)]"

lemma FieldsV1_copies [copy_rules]: "copies FieldsV1T FieldsV1_DeepCopyInto"
  by (rule copies_struct [OF FieldsV1T_def FieldsV1_DeepCopyInto_def]) (simp add: copy_rules)

definition ManagedFieldsEntryT :: gty where
  "ManagedFieldsEntryT = StructT
     [(''Manager'', FlatT), (''Operation'', FlatT), (''APIVersion'', FlatT), (''Time'', RefT TimeT),
     (''FieldsType'', FlatT), (''FieldsV1'', RefT FieldsV1T), (''Subresource'', FlatT)]"

definition ManagedFieldsEntry_DeepCopyInto :: gcopy where
  "ManagedFieldsEntry_DeepCopyInto = deepCopyInto
     [(''Time'', Time_DeepCopy), (''FieldsV1'', copyRef FieldsV1_DeepCopyInto)]"

lemma ManagedFieldsEntry_copies [copy_rules]: "copies ManagedFieldsEntryT ManagedFieldsEntry_DeepCopyInto"
  by (rule copies_struct [OF ManagedFieldsEntryT_def ManagedFieldsEntry_DeepCopyInto_def]) (simp add: copy_rules)

definition ObjectMetaT :: gty where
  "ObjectMetaT = StructT
     [(''Name'', FlatT), (''GenerateName'', FlatT), (''Namespace'', FlatT), (''SelfLink'', FlatT), (''UID'', FlatT),
     (''ResourceVersion'', FlatT), (''Generation'', FlatT), (''CreationTimestamp'', TimeT),
     (''DeletionTimestamp'', RefT TimeT), (''DeletionGracePeriodSeconds'', RefT FlatT), (''Labels'', RefT FlatT),
     (''Annotations'', RefT FlatT), (''OwnerReferences'', RefT OwnerReferenceT), (''Finalizers'', RefT FlatT),
     (''ManagedFields'', RefT ManagedFieldsEntryT)]"

definition ObjectMeta_DeepCopyInto :: gcopy where
  "ObjectMeta_DeepCopyInto = deepCopyInto
     [(''CreationTimestamp'', Time_DeepCopyInto), (''DeletionTimestamp'', Time_DeepCopy),
     (''DeletionGracePeriodSeconds'', copyRef assign), (''Labels'', copyRef assign),
     (''Annotations'', copyRef assign), (''OwnerReferences'', copyRef OwnerReference_DeepCopyInto),
     (''Finalizers'', copyRef assign), (''ManagedFields'', copyRef ManagedFieldsEntry_DeepCopyInto)]"

lemma ObjectMeta_copies [copy_rules]: "copies ObjectMetaT ObjectMeta_DeepCopyInto"
  by (rule copies_struct [OF ObjectMetaT_def ObjectMeta_DeepCopyInto_def]) (simp add: copy_rules)

subsection \<open>Quota specifications\<close>

definition ScopedResourceSelectorRequirementT :: gty where
  "ScopedResourceSelectorRequirementT = StructT
     [(''ScopeName'', FlatT), (''Operator'', FlatT), (''Values'', RefT FlatT)]"

definition ScopedResourceSelectorRequirement_DeepCopyInto :: gcopy where
  "ScopedResourceSelectorRequirement_DeepCopyInto = deepCopyInto
     [(''Values'', copyRef assign)]"

lemma ScopedResourceSelectorRequirement_copies [copy_rules]: "copies ScopedResourceSelectorRequirementT ScopedResourceSelectorRequirement_DeepCopyInto"
  by (rule copies_struct [OF ScopedResourceSelectorRequirementT_def ScopedResourceSelectorRequirement_DeepCopyInto_def]) (simp add: copy_rules)

definition ScopeSelectorT :: gty where
  "ScopeSelectorT = StructT
     [(''MatchExpressions'', RefT ScopedResourceSelectorRequirementT)]"

definition ScopeSelector_DeepCopyInto :: gcopy where
  "ScopeSelector_DeepCopyInto = deepCopyInto
     [(''MatchExpressions'', copyRef ScopedResourceSelectorRequirement_DeepCopyInto)]"

lemma ScopeSelector_copies [copy_rules]: "copies ScopeSelectorT ScopeSelector_DeepCopyInto"
  by (rule copies_struct [OF ScopeSelectorT_def ScopeSelector_DeepCopyInto_def]) (simp add: copy_rules)

definition ResourceQuotaSpecT :: gty where
  "ResourceQuotaSpecT = StructT
     [(''Hard'', RefT QuantityT), (''Scopes'', RefT FlatT), (''ScopeSelector'', RefT ScopeSelectorT)]"

definition ResourceQuotaSpec_DeepCopyInto :: gcopy where
  "ResourceQuotaSpec_DeepCopyInto = deepCopyInto
     [(''Hard'', copyRef Quantity_DeepCopy), (''Scopes'', copyRef assign),
     (''ScopeSelector'', copyRef ScopeSelector_DeepCopyInto)]"

lemma ResourceQuotaSpec_copies [copy_rules]: "copies ResourceQuotaSpecT ResourceQuotaSpec_DeepCopyInto"
  by (rule copies_struct [OF ResourceQuotaSpecT_def ResourceQuotaSpec_DeepCopyInto_def]) (simp add: copy_rules)

subsection \<open>Placement and affinity\<close>

definition LabelSelectorRequirementT :: gty where
  "LabelSelectorRequirementT = StructT
     [(''Key'', FlatT), (''Operator'', FlatT), (''Values'', RefT FlatT)]"

definition LabelSelectorRequirement_DeepCopyInto :: gcopy where
  "LabelSelectorRequirement_DeepCopyInto = deepCopyInto
     [(''Values'', copyRef assign)]"

lemma LabelSelectorRequirement_copies [copy_rules]: "copies LabelSelectorRequirementT LabelSelectorRequirement_DeepCopyInto"
  by (rule copies_struct [OF LabelSelectorRequirementT_def LabelSelectorRequirement_DeepCopyInto_def]) (simp add: copy_rules)

definition LabelSelectorT :: gty where
  "LabelSelectorT = StructT
     [(''MatchLabels'', RefT FlatT), (''MatchExpressions'', RefT LabelSelectorRequirementT)]"

definition LabelSelector_DeepCopyInto :: gcopy where
  "LabelSelector_DeepCopyInto = deepCopyInto
     [(''MatchLabels'', copyRef assign), (''MatchExpressions'', copyRef LabelSelectorRequirement_DeepCopyInto)]"

lemma LabelSelector_copies [copy_rules]: "copies LabelSelectorT LabelSelector_DeepCopyInto"
  by (rule copies_struct [OF LabelSelectorT_def LabelSelector_DeepCopyInto_def]) (simp add: copy_rules)

definition NodeSelectorRequirementT :: gty where
  "NodeSelectorRequirementT = StructT
     [(''Key'', FlatT), (''Operator'', FlatT), (''Values'', RefT FlatT)]"

definition NodeSelectorRequirement_DeepCopyInto :: gcopy where
  "NodeSelectorRequirement_DeepCopyInto = deepCopyInto
     [(''Values'', copyRef assign)]"

lemma NodeSelectorRequirement_copies [copy_rules]: "copies NodeSelectorRequirementT NodeSelectorRequirement_DeepCopyInto"
  by (rule copies_struct [OF NodeSelectorRequirementT_def NodeSelectorRequirement_DeepCopyInto_def]) (simp add: copy_rules)

definition NodeSelectorTermT :: gty where
  "NodeSelectorTermT = StructT
     [(''MatchExpressions'', RefT NodeSelectorRequirementT), (''MatchFields'', RefT NodeSelectorRequirementT)]"

definition NodeSelectorTerm_DeepCopyInto :: gcopy where
  "NodeSelectorTerm_DeepCopyInto = deepCopyInto
     [(''MatchExpressions'', copyRef NodeSelectorRequirement_DeepCopyInto),
     (''MatchFields'', copyRef NodeSelectorRequirement_DeepCopyInto)]"

lemma NodeSelectorTerm_copies [copy_rules]: "copies NodeSelectorTermT NodeSelectorTerm_DeepCopyInto"
  by (rule copies_struct [OF NodeSelectorTermT_def NodeSelectorTerm_DeepCopyInto_def]) (simp add: copy_rules)

definition NodeSelectorT :: gty where
  "NodeSelectorT = StructT
     [(''NodeSelectorTerms'', RefT NodeSelectorTermT)]"

definition NodeSelector_DeepCopyInto :: gcopy where
  "NodeSelector_DeepCopyInto = deepCopyInto
     [(''NodeSelectorTerms'', copyRef NodeSelectorTerm_DeepCopyInto)]"

lemma NodeSelector_copies [copy_rules]: "copies NodeSelectorT NodeSelector_DeepCopyInto"
  by (rule copies_struct [OF NodeSelectorT_def NodeSelector_DeepCopyInto_def]) (simp add: copy_rules)

definition PreferredSchedulingTermT :: gty where
  "PreferredSchedulingTermT = StructT
     [(''Weight'', FlatT), (''Preference'', NodeSelectorTermT)]"

definition PreferredSchedulingTerm_DeepCopyInto :: gcopy where
  "PreferredSchedulingTerm_DeepCopyInto = deepCopyInto
     [(''Preference'', NodeSelectorTerm_DeepCopyInto)]"

lemma PreferredSchedulingTerm_copies [copy_rules]: "copies PreferredSchedulingTermT PreferredSchedulingTerm_DeepCopyInto"
  by (rule copies_struct [OF PreferredSchedulingTermT_def PreferredSchedulingTerm_DeepCopyInto_def]) (simp add: copy_rules)

definition NodeAffinityT :: gty where
  "NodeAffinityT = StructT
     [(''RequiredDuringSchedulingIgnoredDuringExecution'', RefT NodeSelectorT),
     (''PreferredDuringSchedulingIgnoredDuringExecution'', RefT PreferredSchedulingTermT)]"

definition NodeAffinity_DeepCopyInto :: gcopy where
  "NodeAffinity_DeepCopyInto = deepCopyInto
     [(''RequiredDuringSchedulingIgnoredDuringExecution'', copyRef NodeSelector_DeepCopyInto),
     (''PreferredDuringSchedulingIgnoredDuringExecution'', copyRef PreferredSchedulingTerm_DeepCopyInto)]"

lemma NodeAffinity_copies [copy_rules]: "copies NodeAffinityT NodeAffinity_DeepCopyInto"
  by (rule copies_struct [OF NodeAffinityT_def NodeAffinity_DeepCopyInto_def]) (simp add: copy_rules)

definition PodAffinityTermT :: gty where
  "PodAffinityTermT = StructT
     [(''LabelSelector'', RefT LabelSelectorT), (''Namespaces'', RefT FlatT), (''TopologyKey'', FlatT),
     (''NamespaceSelector'', RefT LabelSelectorT), (''MatchLabelKeys'', RefT FlatT),
     (''MismatchLabelKeys'', RefT FlatT)]"

definition PodAffinityTerm_DeepCopyInto :: gcopy where
  "PodAffinityTerm_DeepCopyInto = deepCopyInto
     [(''LabelSelector'', copyRef LabelSelector_DeepCopyInto), (''Namespaces'', copyRef assign),
     (''NamespaceSelector'', copyRef LabelSelector_DeepCopyInto), (''MatchLabelKeys'', copyRef assign),
     (''MismatchLabelKeys'', copyRef assign)]"

lemma PodAffinityTerm_copies [copy_rules]: "copies PodAffinityTermT PodAffinityTerm_DeepCopyInto"
  by (rule copies_struct [OF PodAffinityTermT_def PodAffinityTerm_DeepCopyInto_def]) (simp add: copy_rules)

definition WeightedPodAffinityTermT :: gty where
  "WeightedPodAffinityTermT = StructT
     [(''Weight'', FlatT), (''PodAffinityTerm'', PodAffinityTermT)]"

definition WeightedPodAffinityTerm_DeepCopyInto :: gcopy where
  "WeightedPodAffinityTerm_DeepCopyInto = deepCopyInto
     [(''PodAffinityTerm'', PodAffinityTerm_DeepCopyInto)]"

lemma WeightedPodAffinityTerm_copies [copy_rules]: "copies WeightedPodAffinityTermT WeightedPodAffinityTerm_DeepCopyInto"
  by (rule copies_struct [OF WeightedPodAffinityTermT_def WeightedPodAffinityTerm_DeepCopyInto_def]) (simp add: copy_rules)

definition PodAffinityT :: gty where
  "PodAffinityT = StructT
     [(''RequiredDuringSchedulingIgnoredDuringExecution'', RefT PodAffinityTermT),
     (''PreferredDuringSchedulingIgnoredDuringExecution'', RefT WeightedPodAffinityTermT)]"

definition PodAffinity_DeepCopyInto :: gcopy where
  "PodAffinity_DeepCopyInto = deepCopyInto
     [(''RequiredDuringSchedulingIgnoredDuringExecution'', copyRef PodAffinityTerm_DeepCopyInto),
     (''PreferredDuringSchedulingIgnoredDuringExecution'', copyRef WeightedPodAffinityTerm_DeepCopyInto)]"

lemma PodAffinity_copies [copy_rules]: "copies PodAffinityT PodAffinity_DeepCopyInto"
  by (rule copies_struct [OF PodAffinityT_def PodAffinity_DeepCopyInto_def]) (simp add: copy_rules)

definition PodAntiAffinityT :: gty where
  "PodAntiAffinityT = StructT
     [(''RequiredDuringSchedulingIgnoredDuringExecution'', RefT PodAffinityTermT),
     (''PreferredDuringSchedulingIgnoredDuringExecution'', RefT WeightedPodAffinityTermT)]"

definition PodAntiAffinity_DeepCopyInto :: gcopy where
  "PodAntiAffinity_DeepCopyInto = deepCopyInto
     [(''RequiredDuringSchedulingIgnoredDuringExecution'', copyRef PodAffinityTerm_DeepCopyInto),
     (''PreferredDuringSchedulingIgnoredDuringExecution'', copyRef WeightedPodAffinityTerm_DeepCopyInto)]"

lemma PodAntiAffinity_copies [copy_rules]: "copies PodAntiAffinityT PodAntiAffinity_DeepCopyInto"
  by (rule copies_struct [OF PodAntiAffinityT_def PodAntiAffinity_DeepCopyInto_def]) (simp add: copy_rules)

definition AffinityT :: gty where
  "AffinityT = StructT
     [(''NodeAffinity'', RefT NodeAffinityT), (''PodAffinity'', RefT PodAffinityT),
     (''PodAntiAffinity'', RefT PodAntiAffinityT)]"

definition Affinity_DeepCopyInto :: gcopy where
  "Affinity_DeepCopyInto = deepCopyInto
     [(''NodeAffinity'', copyRef NodeAffinity_DeepCopyInto), (''PodAffinity'', copyRef PodAffinity_DeepCopyInto),
     (''PodAntiAffinity'', copyRef PodAntiAffinity_DeepCopyInto)]"

lemma Affinity_copies [copy_rules]: "copies AffinityT Affinity_DeepCopyInto"
  by (rule copies_struct [OF AffinityT_def Affinity_DeepCopyInto_def]) (simp add: copy_rules)

definition TolerationT :: gty where
  "TolerationT = StructT
     [(''Key'', FlatT), (''Operator'', FlatT), (''Value'', FlatT), (''Effect'', FlatT),
     (''TolerationSeconds'', RefT FlatT)]"

definition Toleration_DeepCopyInto :: gcopy where
  "Toleration_DeepCopyInto = deepCopyInto
     [(''TolerationSeconds'', copyRef assign)]"

lemma Toleration_copies [copy_rules]: "copies TolerationT Toleration_DeepCopyInto"
  by (rule copies_struct [OF TolerationT_def Toleration_DeepCopyInto_def]) (simp add: copy_rules)

subsection \<open>Types of the operator SDK\<close>

definition NodePlacementT :: gty where
  "NodePlacementT = StructT
     [(''NodeSelector'', RefT FlatT), (''Affinity'', RefT AffinityT), (''Tolerations'', RefT TolerationT)]"

definition NodePlacement_DeepCopyInto :: gcopy where
  "NodePlacement_DeepCopyInto = deepCopyInto
     [(''NodeSelector'', copyRef assign), (''Affinity'', copyRef Affinity_DeepCopyInto),
     (''Tolerations'', copyRef Toleration_DeepCopyInto)]"

lemma NodePlacement_copies [copy_rules]: "copies NodePlacementT NodePlacement_DeepCopyInto"
  by (rule copies_struct [OF NodePlacementT_def NodePlacement_DeepCopyInto_def]) (simp add: copy_rules)

definition ConditionT :: gty where
  "ConditionT = StructT
     [(''Type'', FlatT), (''Status'', FlatT), (''Reason'', FlatT), (''Message'', FlatT),
     (''LastHeartbeatTime'', TimeT), (''LastTransitionTime'', TimeT)]"

definition Condition_DeepCopyInto :: gcopy where
  "Condition_DeepCopyInto = deepCopyInto
     [(''LastHeartbeatTime'', Time_DeepCopyInto), (''LastTransitionTime'', Time_DeepCopyInto)]"

lemma Condition_copies [copy_rules]: "copies ConditionT Condition_DeepCopyInto"
  by (rule copies_struct [OF ConditionT_def Condition_DeepCopyInto_def]) (simp add: copy_rules)

definition StatusT :: gty where
  "StatusT = StructT
     [(''Phase'', FlatT), (''Conditions'', RefT ConditionT), (''OperatorVersion'', FlatT), (''TargetVersion'', FlatT),
     (''ObservedVersion'', FlatT)]"

definition Status_DeepCopyInto :: gcopy where
  "Status_DeepCopyInto = deepCopyInto
     [(''Conditions'', copyRef Condition_DeepCopyInto)]"

lemma Status_copies [copy_rules]: "copies StatusT Status_DeepCopyInto"
  by (rule copies_struct [OF StatusT_def Status_DeepCopyInto_def]) (simp add: copy_rules)

subsection \<open>The VMMRQ\<close>

definition ResourceQuotaNameAndSpecT :: gty where
  "ResourceQuotaNameAndSpecT = StructT
     [(''Name'', FlatT), (''Spec'', ResourceQuotaSpecT)]"

definition ResourceQuotaNameAndSpec_DeepCopyInto :: gcopy where
  "ResourceQuotaNameAndSpec_DeepCopyInto = deepCopyInto
     [(''Spec'', ResourceQuotaSpec_DeepCopyInto)]"

lemma ResourceQuotaNameAndSpec_copies [copy_rules]: "copies ResourceQuotaNameAndSpecT ResourceQuotaNameAndSpec_DeepCopyInto"
  by (rule copies_struct [OF ResourceQuotaNameAndSpecT_def ResourceQuotaNameAndSpec_DeepCopyInto_def]) (simp add: copy_rules)

definition VirtualMachineMigrationResourceQuotaSpecT :: gty where
  "VirtualMachineMigrationResourceQuotaSpecT = StructT
     [(''AdditionalMigrationResources'', RefT QuantityT)]"

definition VirtualMachineMigrationResourceQuotaSpec_DeepCopyInto :: gcopy where
  "VirtualMachineMigrationResourceQuotaSpec_DeepCopyInto = deepCopyInto
     [(''AdditionalMigrationResources'', copyRef Quantity_DeepCopy)]"

lemma VirtualMachineMigrationResourceQuotaSpec_copies [copy_rules]: "copies VirtualMachineMigrationResourceQuotaSpecT VirtualMachineMigrationResourceQuotaSpec_DeepCopyInto"
  by (rule copies_struct [OF VirtualMachineMigrationResourceQuotaSpecT_def VirtualMachineMigrationResourceQuotaSpec_DeepCopyInto_def]) (simp add: copy_rules)

definition VirtualMachineMigrationResourceQuotaStatusT :: gty where
  "VirtualMachineMigrationResourceQuotaStatusT = StructT
     [(''CreationTime'', RefT TimeT), (''AdditionalMigrationResources'', RefT QuantityT),
     (''MigrationsToBlockingResourceQuotas'', RefT (RefT FlatT)),
     (''OriginalBlockingResourceQuotas'', RefT ResourceQuotaNameAndSpecT)]"

definition VirtualMachineMigrationResourceQuotaStatus_DeepCopyInto :: gcopy where
  "VirtualMachineMigrationResourceQuotaStatus_DeepCopyInto = deepCopyInto
     [(''CreationTime'', Time_DeepCopy), (''AdditionalMigrationResources'', copyRef Quantity_DeepCopy),
     (''MigrationsToBlockingResourceQuotas'', copyRef (copyRef assign)),
     (''OriginalBlockingResourceQuotas'', copyRef ResourceQuotaNameAndSpec_DeepCopyInto)]"

lemma VirtualMachineMigrationResourceQuotaStatus_copies [copy_rules]: "copies VirtualMachineMigrationResourceQuotaStatusT VirtualMachineMigrationResourceQuotaStatus_DeepCopyInto"
  by (rule copies_struct [OF VirtualMachineMigrationResourceQuotaStatusT_def VirtualMachineMigrationResourceQuotaStatus_DeepCopyInto_def]) (simp add: copy_rules)

definition VirtualMachineMigrationResourceQuotaT :: gty where
  "VirtualMachineMigrationResourceQuotaT = StructT
     [(''TypeMeta'', TypeMetaT), (''ObjectMeta'', ObjectMetaT), (''Spec'', VirtualMachineMigrationResourceQuotaSpecT),
     (''Status'', VirtualMachineMigrationResourceQuotaStatusT)]"

definition VirtualMachineMigrationResourceQuota_DeepCopyInto :: gcopy where
  "VirtualMachineMigrationResourceQuota_DeepCopyInto = deepCopyInto
     [(''TypeMeta'', assign), (''ObjectMeta'', ObjectMeta_DeepCopyInto),
     (''Spec'', VirtualMachineMigrationResourceQuotaSpec_DeepCopyInto),
     (''Status'', VirtualMachineMigrationResourceQuotaStatus_DeepCopyInto)]"

lemma VirtualMachineMigrationResourceQuota_copies [copy_rules]: "copies VirtualMachineMigrationResourceQuotaT VirtualMachineMigrationResourceQuota_DeepCopyInto"
  by (rule copies_struct [OF VirtualMachineMigrationResourceQuotaT_def VirtualMachineMigrationResourceQuota_DeepCopyInto_def]) (simp add: copy_rules)

definition VirtualMachineMigrationResourceQuotaListT :: gty where
  "VirtualMachineMigrationResourceQuotaListT = StructT
     [(''TypeMeta'', TypeMetaT), (''ListMeta'', ListMetaT), (''Items'', RefT VirtualMachineMigrationResourceQuotaT)]"

definition VirtualMachineMigrationResourceQuotaList_DeepCopyInto :: gcopy where
  "VirtualMachineMigrationResourceQuotaList_DeepCopyInto = deepCopyInto
     [(''TypeMeta'', assign), (''ListMeta'', ListMeta_DeepCopyInto),
     (''Items'', copyRef VirtualMachineMigrationResourceQuota_DeepCopyInto)]"

lemma VirtualMachineMigrationResourceQuotaList_copies [copy_rules]: "copies VirtualMachineMigrationResourceQuotaListT VirtualMachineMigrationResourceQuotaList_DeepCopyInto"
  by (rule copies_struct [OF VirtualMachineMigrationResourceQuotaListT_def VirtualMachineMigrationResourceQuotaList_DeepCopyInto_def]) (simp add: copy_rules)

definition ResourceQuotaNameAndSpec_DeepCopy :: gcopy where
  "ResourceQuotaNameAndSpec_DeepCopy = copyRef ResourceQuotaNameAndSpec_DeepCopyInto"

definition VirtualMachineMigrationResourceQuotaSpec_DeepCopy :: gcopy where
  "VirtualMachineMigrationResourceQuotaSpec_DeepCopy = copyRef VirtualMachineMigrationResourceQuotaSpec_DeepCopyInto"

definition VirtualMachineMigrationResourceQuotaStatus_DeepCopy :: gcopy where
  "VirtualMachineMigrationResourceQuotaStatus_DeepCopy = copyRef VirtualMachineMigrationResourceQuotaStatus_DeepCopyInto"

definition VirtualMachineMigrationResourceQuota_DeepCopy :: gcopy where
  "VirtualMachineMigrationResourceQuota_DeepCopy = copyRef VirtualMachineMigrationResourceQuota_DeepCopyInto"

definition VirtualMachineMigrationResourceQuotaList_DeepCopy :: gcopy where
  "VirtualMachineMigrationResourceQuotaList_DeepCopy = copyRef VirtualMachineMigrationResourceQuotaList_DeepCopyInto"

subsection \<open>The MTQ\<close>

definition CertConfigT :: gty where
  "CertConfigT = StructT
     [(''Duration'', RefT FlatT), (''RenewBefore'', RefT FlatT)]"

definition CertConfig_DeepCopyInto :: gcopy where
  "CertConfig_DeepCopyInto = deepCopyInto
     [(''Duration'', copyRef assign), (''RenewBefore'', copyRef assign)]"

lemma CertConfig_copies [copy_rules]: "copies CertConfigT CertConfig_DeepCopyInto"
  by (rule copies_struct [OF CertConfigT_def CertConfig_DeepCopyInto_def]) (simp add: copy_rules)

definition MTQCertConfigT :: gty where
  "MTQCertConfigT = StructT
     [(''CA'', RefT CertConfigT), (''Server'', RefT CertConfigT)]"

definition MTQCertConfig_DeepCopyInto :: gcopy where
  "MTQCertConfig_DeepCopyInto = deepCopyInto
     [(''CA'', copyRef CertConfig_DeepCopyInto), (''Server'', copyRef CertConfig_DeepCopyInto)]"

lemma MTQCertConfig_copies [copy_rules]: "copies MTQCertConfigT MTQCertConfig_DeepCopyInto"
  by (rule copies_struct [OF MTQCertConfigT_def MTQCertConfig_DeepCopyInto_def]) (simp add: copy_rules)

definition MTQSpecT :: gty where
  "MTQSpecT = StructT
     [(''ImagePullPolicy'', FlatT), (''Infra'', NodePlacementT), (''Workloads'', NodePlacementT),
     (''CertConfig'', RefT MTQCertConfigT), (''PriorityClass'', RefT FlatT)]"

definition MTQSpec_DeepCopyInto :: gcopy where
  "MTQSpec_DeepCopyInto = deepCopyInto
     [(''Infra'', NodePlacement_DeepCopyInto), (''Workloads'', NodePlacement_DeepCopyInto),
     (''CertConfig'', copyRef MTQCertConfig_DeepCopyInto), (''PriorityClass'', copyRef assign)]"

lemma MTQSpec_copies [copy_rules]: "copies MTQSpecT MTQSpec_DeepCopyInto"
  by (rule copies_struct [OF MTQSpecT_def MTQSpec_DeepCopyInto_def]) (simp add: copy_rules)

definition MTQStatusT :: gty where
  "MTQStatusT = StructT
     [(''Status'', StatusT)]"

definition MTQStatus_DeepCopyInto :: gcopy where
  "MTQStatus_DeepCopyInto = deepCopyInto
     [(''Status'', Status_DeepCopyInto)]"

lemma MTQStatus_copies [copy_rules]: "copies MTQStatusT MTQStatus_DeepCopyInto"
  by (rule copies_struct [OF MTQStatusT_def MTQStatus_DeepCopyInto_def]) (simp add: copy_rules)

definition MTQT :: gty where
  "MTQT = StructT
     [(''TypeMeta'', TypeMetaT), (''ObjectMeta'', ObjectMetaT), (''Spec'', MTQSpecT), (''Status'', MTQStatusT)]"

definition MTQ_DeepCopyInto :: gcopy where
  "MTQ_DeepCopyInto = deepCopyInto
     [(''TypeMeta'', assign), (''ObjectMeta'', ObjectMeta_DeepCopyInto), (''Spec'', MTQSpec_DeepCopyInto),
     (''Status'', MTQStatus_DeepCopyInto)]"

lemma MTQ_copies [copy_rules]: "copies MTQT MTQ_DeepCopyInto"
  by (rule copies_struct [OF MTQT_def MTQ_DeepCopyInto_def]) (simp add: copy_rules)

definition MTQListT :: gty where
  "MTQListT = StructT
     [(''TypeMeta'', TypeMetaT), (''ListMeta'', ListMetaT), (''Items'', RefT MTQT)]"

definition MTQList_DeepCopyInto :: gcopy where
  "MTQList_DeepCopyInto = deepCopyInto
     [(''TypeMeta'', assign), (''ListMeta'', ListMeta_DeepCopyInto), (''Items'', copyRef MTQ_DeepCopyInto)]"

lemma MTQList_copies [copy_rules]: "copies MTQListT MTQList_DeepCopyInto"
  by (rule copies_struct [OF MTQListT_def MTQList_DeepCopyInto_def]) (simp add: copy_rules)

definition CertConfig_DeepCopy :: gcopy where
  "CertConfig_DeepCopy = copyRef CertConfig_DeepCopyInto"

definition MTQCertConfig_DeepCopy :: gcopy where
  "MTQCertConfig_DeepCopy = copyRef MTQCertConfig_DeepCopyInto"

definition MTQSpec_DeepCopy :: gcopy where
  "MTQSpec_DeepCopy = copyRef MTQSpec_DeepCopyInto"

definition MTQStatus_DeepCopy :: gcopy where
  "MTQStatus_DeepCopy = copyRef MTQStatus_DeepCopyInto"

definition MTQ_DeepCopy :: gcopy where
  "MTQ_DeepCopy = copyRef MTQ_DeepCopyInto"

definition MTQList_DeepCopy :: gcopy where
  "MTQList_DeepCopy = copyRef MTQList_DeepCopyInto"

subsection \<open>The objects the API server serves\<close>

definition VirtualMachineMigrationResourceQuota_DeepCopyObject :: gcopy where
  "VirtualMachineMigrationResourceQuota_DeepCopyObject = deepCopyObject VirtualMachineMigrationResourceQuota_DeepCopy"

definition VirtualMachineMigrationResourceQuotaList_DeepCopyObject :: gcopy where
  "VirtualMachineMigrationResourceQuotaList_DeepCopyObject = deepCopyObject VirtualMachineMigrationResourceQuotaList_DeepCopy"

definition MTQ_DeepCopyObject :: gcopy where
  "MTQ_DeepCopyObject = deepCopyObject MTQ_DeepCopy"

definition MTQList_DeepCopyObject :: gcopy where
  "MTQList_DeepCopyObject = deepCopyObject MTQList_DeepCopy"

interpretation vmmrqC: deep_copier VirtualMachineMigrationResourceQuotaT VirtualMachineMigrationResourceQuota_DeepCopyInto
  by unfold_locales (rule VirtualMachineMigrationResourceQuota_copies)

interpretation vmmrqListC: deep_copier VirtualMachineMigrationResourceQuotaListT VirtualMachineMigrationResourceQuotaList_DeepCopyInto
  by unfold_locales (rule VirtualMachineMigrationResourceQuotaList_copies)

interpretation vmmrqSpecC: deep_copier VirtualMachineMigrationResourceQuotaSpecT VirtualMachineMigrationResourceQuotaSpec_DeepCopyInto
  by unfold_locales (rule VirtualMachineMigrationResourceQuotaSpec_copies)

interpretation vmmrqStatusC: deep_copier VirtualMachineMigrationResourceQuotaStatusT VirtualMachineMigrationResourceQuotaStatus_DeepCopyInto
  by unfold_locales (rule VirtualMachineMigrationResourceQuotaStatus_copies)

interpretation nameAndSpecC: deep_copier ResourceQuotaNameAndSpecT ResourceQuotaNameAndSpec_DeepCopyInto
  by unfold_locales (rule ResourceQuotaNameAndSpec_copies)

interpretation mtqC: deep_copier MTQT MTQ_DeepCopyInto
  by unfold_locales (rule MTQ_copies)

interpretation mtqListC: deep_copier MTQListT MTQList_DeepCopyInto
  by unfold_locales (rule MTQList_copies)

interpretation mtqSpecC: deep_copier MTQSpecT MTQSpec_DeepCopyInto
  by unfold_locales (rule MTQSpec_copies)

interpretation mtqStatusC: deep_copier MTQStatusT MTQStatus_DeepCopyInto
  by unfold_locales (rule MTQStatus_copies)

interpretation mtqCertConfigC: deep_copier MTQCertConfigT MTQCertConfig_DeepCopyInto
  by unfold_locales (rule MTQCertConfig_copies)

interpretation certConfigC: deep_copier CertConfigT CertConfig_DeepCopyInto
  by unfold_locales (rule CertConfig_copies)

text \<open>The deep copies the package exports: of the objects the API server serves, and of every type.\<close>

definition generatedCopies :: "(gty \<times> gcopy) list" where
  "generatedCopies =
     [(VirtualMachineMigrationResourceQuotaT, VirtualMachineMigrationResourceQuota_DeepCopyObject),
      (VirtualMachineMigrationResourceQuotaListT, VirtualMachineMigrationResourceQuotaList_DeepCopyObject),
      (MTQT, MTQ_DeepCopyObject),
      (MTQListT, MTQList_DeepCopyObject),
      (VirtualMachineMigrationResourceQuotaT, VirtualMachineMigrationResourceQuota_DeepCopy),
      (VirtualMachineMigrationResourceQuotaListT, VirtualMachineMigrationResourceQuotaList_DeepCopy),
      (VirtualMachineMigrationResourceQuotaSpecT, VirtualMachineMigrationResourceQuotaSpec_DeepCopy),
      (VirtualMachineMigrationResourceQuotaStatusT, VirtualMachineMigrationResourceQuotaStatus_DeepCopy),
      (ResourceQuotaNameAndSpecT, ResourceQuotaNameAndSpec_DeepCopy),
      (MTQT, MTQ_DeepCopy),
      (MTQListT, MTQList_DeepCopy),
      (MTQSpecT, MTQSpec_DeepCopy),
      (MTQStatusT, MTQStatus_DeepCopy),
      (MTQCertConfigT, MTQCertConfig_DeepCopy),
      (CertConfigT, CertConfig_DeepCopy)]"

lemmas generated_copies =
  VirtualMachineMigrationResourceQuota_DeepCopyObject_def
  VirtualMachineMigrationResourceQuotaList_DeepCopyObject_def
  MTQ_DeepCopyObject_def
  MTQList_DeepCopyObject_def
  VirtualMachineMigrationResourceQuota_DeepCopy_def
  VirtualMachineMigrationResourceQuotaList_DeepCopy_def
  VirtualMachineMigrationResourceQuotaSpec_DeepCopy_def
  VirtualMachineMigrationResourceQuotaStatus_DeepCopy_def
  ResourceQuotaNameAndSpec_DeepCopy_def
  MTQ_DeepCopy_def
  MTQList_DeepCopy_def
  MTQSpec_DeepCopy_def
  MTQStatus_DeepCopy_def
  MTQCertConfig_DeepCopy_def
  CertConfig_DeepCopy_def

lemma generated_deep_copier:
  assumes "(t, f) \<in> set generatedCopies"
  shows "\<exists>copyInto. deep_copier t copyInto \<and> f = copyRef copyInto"
  using assms vmmrqC.deep_copier_axioms vmmrqListC.deep_copier_axioms vmmrqSpecC.deep_copier_axioms
    vmmrqStatusC.deep_copier_axioms nameAndSpecC.deep_copier_axioms mtqC.deep_copier_axioms
    mtqListC.deep_copier_axioms mtqSpecC.deep_copier_axioms mtqStatusC.deep_copier_axioms
    mtqCertConfigC.deep_copier_axioms certConfigC.deep_copier_axioms
  unfolding generatedCopies_def generated_copies deepCopyObject_eq by auto

text \<open>C29: deep copies share nothing. Every generated DeepCopy, and the DeepCopyObject of the types the
  API server serves (the VMMRQ, the MTQ and their lists), gives an object that reads like the
  original, and from then on neither object sees what is written through the other: no map, slice
  or pointer below one of them is reachable from the other, and the copy reaches each of its own in
  one way only.
\<close>
theorem deep_copies_share_nothing:
  assumes "(t, deepCopy) \<in> set generatedCopies"
    and "deepCopy v m = (v', m')" and "hasType m (RefT t) v"
  shows "reads m' (RefT t) v' = reads m (RefT t) v
     \<and> (\<forall>a \<in> set (cellsOf m' (RefT t) v'). reads (store a es m') (RefT t) v = reads m (RefT t) v)
     \<and> (\<forall>a \<in> set (cellsOf m (RefT t) v). reads (store a es m') (RefT t) v' = reads m (RefT t) v)
     \<and> distinct (cellsOf m' (RefT t) v')"
proof -
  obtain into where d: "deep_copier t into" and f: "deepCopy = copyRef into"
    using generated_deep_copier [OF assms(1)] by blast
  note apart = deep_copier.writes_stay_apart [OF d, of v m v' m']
  show ?thesis
    using assms(2,3) apart unfolding f by blast
qed

subsection \<open>An object in memory\<close>

text \<open>
  A VMMRQ whose status refers to the very map of its specification, as the controller
  leaves it after taking the specification over.
\<close>

definition demoQuantity :: gval where
  "demoQuantity = Struct [(''i'', Flat ''2''), (''d'', Null), (''s'', Flat ''2Gi''), (''Format'', Flat ''BinarySI'')]"

definition demoObjectMeta :: gval where
  "demoObjectMeta = Struct
     [(''Name'', Flat ''vmmrq''), (''GenerateName'', Flat []), (''Namespace'', Flat ''tenant''),
      (''SelfLink'', Flat []), (''UID'', Flat ''u''), (''ResourceVersion'', Flat ''7''),
      (''Generation'', Flat ''1''), (''CreationTimestamp'', Flat ''t''), (''DeletionTimestamp'', Null),
      (''DeletionGracePeriodSeconds'', Null), (''Labels'', Ref 4), (''Annotations'', Null),
      (''OwnerReferences'', Null), (''Finalizers'', Null), (''ManagedFields'', Null)]"

definition demoObject :: gval where
  "demoObject = Struct
     [(''TypeMeta'', Struct [(''Kind'', Flat ''VMMRQ''), (''APIVersion'', Flat ''v1alpha1'')]),
      (''ObjectMeta'', demoObjectMeta),
      (''Spec'', Struct [(''AdditionalMigrationResources'', Ref 1)]),
      (''Status'', Struct
         [(''CreationTime'', Null), (''AdditionalMigrationResources'', Ref 1),
          (''MigrationsToBlockingResourceQuotas'', Ref 2), (''OriginalBlockingResourceQuotas'', Null)])]"

definition demoMem :: gmem where
  "demoMem =
     \<lparr>gm_cells = (\<lambda>_. [])
        (0 := [([], demoObject)], 1 := [(''requests.memory'', demoQuantity)],
         2 := [(''mig'', Ref 3)], 3 := [(''0'', Flat ''rq'')], 4 := [(''app'', Flat ''vm'')]),
      gm_next = 5\<rparr>"

abbreviation vmmrqRef :: gty where
  "vmmrqRef \<equiv> RefT VirtualMachineMigrationResourceQuotaT"

lemma demo_typed: "hasType demoMem vmmrqRef (Ref 0)"
  by code_simp

lemma demo_copied:
  "fst (VirtualMachineMigrationResourceQuota_DeepCopyObject (Ref 0) demoMem) = Ref 5"
  by code_simp

text \<open>Assigning the struct is not enough: emptying the shared map shows through the original.\<close>

lemma assigned_struct_shares:
  "case copyRef assign (Ref 0) demoMem of
     (v', m') \<Rightarrow> 1 \<in> set (cellsOf m' vmmrqRef v') \<and> reads (store 1 [] m') vmmrqRef (Ref 0) \<noteq> reads demoMem vmmrqRef (Ref 0)"
  by code_simp

theorem deep_copies_share_nothing_witness:
  "\<exists>m'. VirtualMachineMigrationResourceQuota_DeepCopyObject (Ref 0) demoMem = (Ref 5, m')
     \<and> reads m' vmmrqRef (Ref 5) = reads demoMem vmmrqRef (Ref 0)
     \<and> reads (store 5 [] m') vmmrqRef (Ref 0) = reads demoMem vmmrqRef (Ref 0)
     \<and> reads (store 1 [] m') vmmrqRef (Ref 5) = reads demoMem vmmrqRef (Ref 0)
     \<and> distinct (cellsOf m' vmmrqRef (Ref 5))"
proof -
  obtain m' where run: "VirtualMachineMigrationResourceQuota_DeepCopyObject (Ref 0) demoMem = (Ref 5, m')"
    using demo_copied by (metis prod.collapse)
  have served: "(VirtualMachineMigrationResourceQuotaT, VirtualMachineMigrationResourceQuota_DeepCopyObject)
      \<in> set generatedCopies"
    by (simp add: generatedCopies_def)
  have "1 \<in> set (cellsOf demoMem vmmrqRef (Ref 0))" by code_simp
  moreover have "5 \<in> set (cellsOf m' vmmrqRef (Ref 5))" by simp
  ultimately show ?thesis
    using deep_copies_share_nothing [OF served run demo_typed, of "[]"] run by blast
qed

end
