(* ===== verification/Scheme.thy ===== *)
theory Scheme
  imports Prelude
begin

text \<open>
  The registration of the API types. A \<open>runtime.Scheme\<close> (\<open>runtime/scheme.go\<close>) relates kinds to Go
  types, in both directions; \<open>register.go\<close> of the API package adds the four types of the project to
  one, and the generated client set and its fake each fill a scheme of their own when their packages
  are initialised. A panic is \<open>None\<close>. The conversion and defaulting functions that registration also
  installs are left out: the types have one version.
\<close>

subsection \<open>Kinds and schemes\<close>

record groupVersion =
  gv_group :: string
  gv_version :: string

record gvKind =
  gk_group :: string
  gk_version :: string
  gk_kind :: string

text \<open>A \<open>reflect.Type\<close> of a struct: its package and its name.\<close>

record goType =
  gt_pkg :: string
  gt_name :: string

definition WithKind :: "groupVersion \<Rightarrow> string \<Rightarrow> gvKind" where
  "WithKind gv kind = \<lparr>gk_group = gv_group gv, gk_version = gv_version gv, gk_kind = kind\<rparr>"

definition GroupVersion :: "gvKind \<Rightarrow> groupVersion" where
  "GroupVersion k = \<lparr>gv_group = gk_group k, gv_version = gk_version k\<rparr>"

record runtimeScheme =
  sc_gvkToType :: "gvKind \<rightharpoonup> goType"
  sc_typeToGVK :: "goType \<rightharpoonup> gvKind list"
  sc_unversionedTypes :: "goType \<rightharpoonup> gvKind"
  sc_unversionedKinds :: "string \<rightharpoonup> goType"
  sc_observedVersions :: "groupVersion list"

definition NewScheme :: runtimeScheme where
  "NewScheme =
     \<lparr>sc_gvkToType = Map.empty, sc_typeToGVK = Map.empty, sc_unversionedTypes = Map.empty,
      sc_unversionedKinds = Map.empty, sc_observedVersions = []\<rparr>"

definition APIVersionInternal :: string where
  "APIVersionInternal = ''__internal''"

definition addObservedVersion :: "groupVersion \<Rightarrow> runtimeScheme \<Rightarrow> runtimeScheme" where
  "addObservedVersion v s =
     (if gv_version v = [] \<or> gv_version v = APIVersionInternal then s
      else if v \<in> set (sc_observedVersions s) then s
      else s\<lparr>sc_observedVersions := sc_observedVersions s @ [v]\<rparr>)"

definition kindsOf :: "runtimeScheme \<Rightarrow> goType \<Rightarrow> gvKind list" where
  "kindsOf s t = (case sc_typeToGVK s t of None \<Rightarrow> [] | Some gvks \<Rightarrow> gvks)"

definition AddKnownTypeWithName :: "gvKind \<Rightarrow> goType \<Rightarrow> runtimeScheme \<Rightarrow> runtimeScheme option" where
  "AddKnownTypeWithName gvk t s0 =
     (let s = addObservedVersion (GroupVersion gvk) s0 in
      if gk_version gvk = [] then None
      else if (case sc_gvkToType s gvk of None \<Rightarrow> False | Some oldT \<Rightarrow> oldT \<noteq> t) then None
      else
        let s1 = s\<lparr>sc_gvkToType := (sc_gvkToType s)(gvk \<mapsto> t)\<rparr> in
        if gvk \<in> set (kindsOf s1 t) then Some s1
        else Some (s1\<lparr>sc_typeToGVK := (sc_typeToGVK s1)(t \<mapsto> kindsOf s1 t @ [gvk])\<rparr>))"

fun addTypes :: "groupVersion \<Rightarrow> goType list \<Rightarrow> runtimeScheme \<Rightarrow> runtimeScheme option" where
  "addTypes gv [] s = Some s"
| "addTypes gv (t # ts) s =
     (case AddKnownTypeWithName (WithKind gv (gt_name t)) t s of None \<Rightarrow> None | Some s' \<Rightarrow> addTypes gv ts s')"

definition AddKnownTypes :: "groupVersion \<Rightarrow> goType list \<Rightarrow> runtimeScheme \<Rightarrow> runtimeScheme option" where
  "AddKnownTypes gv types s = addTypes gv types (addObservedVersion gv s)"

fun markUnversioned :: "groupVersion \<Rightarrow> goType list \<Rightarrow> runtimeScheme \<Rightarrow> runtimeScheme option" where
  "markUnversioned v [] s = Some s"
| "markUnversioned v (t # ts) s =
     (let gvk = WithKind v (gt_name t); s1 = s\<lparr>sc_unversionedTypes := (sc_unversionedTypes s)(t \<mapsto> gvk)\<rparr> in
      if (case sc_unversionedKinds s1 (gk_kind gvk) of None \<Rightarrow> False | Some old \<Rightarrow> t \<noteq> old) then None
      else markUnversioned v ts (s1\<lparr>sc_unversionedKinds := (sc_unversionedKinds s1)(gk_kind gvk \<mapsto> t)\<rparr>))"

definition AddUnversionedTypes :: "groupVersion \<Rightarrow> goType list \<Rightarrow> runtimeScheme \<Rightarrow> runtimeScheme option" where
  "AddUnversionedTypes v types s =
     (case AddKnownTypes v types (addObservedVersion v s) of None \<Rightarrow> None | Some s' \<Rightarrow> markUnversioned v types s')"

text \<open>\<open>ObjectKinds\<close> and \<open>New\<close>: the two directions.\<close>

definition ObjectKinds :: "runtimeScheme \<Rightarrow> goType \<Rightarrow> gvKind list result" where
  "ObjectKinds s t =
     (case sc_typeToGVK s t of None \<Rightarrow> Inl (GoErr (''no kind is registered for the type '' @ gt_name t)) | Some gvks \<Rightarrow> Inr gvks)"

definition newOf :: "runtimeScheme \<Rightarrow> gvKind \<Rightarrow> goType result" where
  "newOf s kind =
     (case sc_gvkToType s kind of
        Some t \<Rightarrow> Inr t
      | None \<Rightarrow>
          (case sc_unversionedKinds s (gk_kind kind) of
             Some t \<Rightarrow> Inr t
           | None \<Rightarrow> Inl (GoErr (''no kind '' @ gk_kind kind @ '' is registered for version '' @ gk_version kind))))"

subsection \<open>The two directions agree\<close>

definition schemeOk :: "runtimeScheme \<Rightarrow> bool" where
  "schemeOk s \<longleftrightarrow>
     (\<forall>k t. sc_gvkToType s k = Some t \<longleftrightarrow> k \<in> set (kindsOf s t)) \<and> (\<forall>t. distinct (kindsOf s t))"

lemma schemeOk_iff: "schemeOk s \<Longrightarrow> k \<in> set (kindsOf s t) \<longleftrightarrow> sc_gvkToType s k = Some t"
  by (simp add: schemeOk_def)

lemma NewScheme_ok: "schemeOk NewScheme"
  by (simp add: schemeOk_def NewScheme_def kindsOf_def)

lemma addObservedVersion_maps [simp]:
  "sc_gvkToType (addObservedVersion v s) = sc_gvkToType s"
  "sc_typeToGVK (addObservedVersion v s) = sc_typeToGVK s"
  "schemeOk (addObservedVersion v s) = schemeOk s"
  by (simp_all add: addObservedVersion_def schemeOk_def kindsOf_def)

lemma AddKnownTypeWithName_ok:
  assumes run: "AddKnownTypeWithName gvk t s = Some s'" and ok: "schemeOk s"
  shows "schemeOk s'" and "gvk \<in> set (kindsOf s' t)" and "sc_gvkToType s \<subseteq>\<^sub>m sc_gvkToType s'"
proof -
  have old: "sc_gvkToType s gvk = None \<or> sc_gvkToType s gvk = Some t"
    using run by (auto simp: AddKnownTypeWithName_def Let_def split: if_splits option.splits)
  have types: "sc_gvkToType s' = (sc_gvkToType s)(gvk \<mapsto> t)"
    using run by (auto simp: AddKnownTypeWithName_def Let_def split: if_splits)
  have kinds: "kindsOf s' u = (if u = t \<and> gvk \<notin> set (kindsOf s t) then kindsOf s t @ [gvk] else kindsOf s u)" for u
    using run by (auto simp: AddKnownTypeWithName_def Let_def kindsOf_def split: if_splits)
  have other: "u = t" if "gvk \<in> set (kindsOf s u)" for u
    using old that schemeOk_iff [OF ok] by auto
  show "schemeOk s'"
    using ok other unfolding schemeOk_def types kinds by auto
  show "gvk \<in> set (kindsOf s' t)" by (simp add: kinds)
  show "sc_gvkToType s \<subseteq>\<^sub>m sc_gvkToType s'"
    using old by (auto simp: types map_le_def)
qed

lemma addTypes_ok:
  "addTypes gv ts s = Some s' \<Longrightarrow> schemeOk s \<Longrightarrow> schemeOk s' \<and> sc_gvkToType s \<subseteq>\<^sub>m sc_gvkToType s'"
proof (induction ts arbitrary: s)
  case (Cons t ts)
  obtain s1 where s1: "AddKnownTypeWithName (WithKind gv (gt_name t)) t s = Some s1" "addTypes gv ts s1 = Some s'"
    using Cons.prems(1) by (auto split: option.splits)
  from Cons.IH [OF s1(2)] AddKnownTypeWithName_ok [OF s1(1) Cons.prems(2)] show ?case
    using map_le_trans by blast
qed simp

lemma markUnversioned_maps:
  "markUnversioned v ts s = Some s' \<Longrightarrow>
     sc_gvkToType s' = sc_gvkToType s \<and> sc_typeToGVK s' = sc_typeToGVK s"
  by (induction v ts s rule: markUnversioned.induct) (auto simp: Let_def split: if_splits)

lemma schemeOk_cong:
  "sc_gvkToType s' = sc_gvkToType s \<Longrightarrow> sc_typeToGVK s' = sc_typeToGVK s \<Longrightarrow> schemeOk s' = schemeOk s"
  by (simp add: schemeOk_def kindsOf_def)

subsection \<open>The API package\<close>

definition SchemeGroupVersion :: groupVersion where
  "SchemeGroupVersion = \<lparr>gv_group = ''mtq.kubevirt.io'', gv_version = ''v1alpha1''\<rparr>"

definition VirtualMachineMigrationResourceQuotaKind :: gvKind where
  "VirtualMachineMigrationResourceQuotaKind = WithKind SchemeGroupVersion ''VirtualMachineMigrationResourceQuota''"

definition VirtualMachineMigrationResourceQuotaListKind :: gvKind where
  "VirtualMachineMigrationResourceQuotaListKind =
     WithKind SchemeGroupVersion ''VirtualMachineMigrationResourceQuotaList''"

text \<open>\<open>Kind\<close> and \<open>Resource\<close>: the group with a kind or a resource, the version dropped.\<close>

definition schemeKind :: "string \<Rightarrow> string \<times> string" where
  "schemeKind kind = (let k = WithKind SchemeGroupVersion kind in (gk_group k, gk_kind k))"

definition schemeResource :: "string \<Rightarrow> string \<times> string" where
  "schemeResource resource = (gv_group SchemeGroupVersion, resource)"

definition apiType :: "string \<Rightarrow> goType" where
  "apiType name = \<lparr>gt_pkg = ''core/v1alpha1'', gt_name = name\<rparr>"

definition metaType :: "string \<Rightarrow> goType" where
  "metaType name = \<lparr>gt_pkg = ''meta/v1'', gt_name = name\<rparr>"

definition apiTypes :: "goType list" where
  "apiTypes = map apiType
     [''VirtualMachineMigrationResourceQuota'', ''VirtualMachineMigrationResourceQuotaList'', ''MTQ'', ''MTQList'']"

definition optionsTypes :: "goType list" where
  "optionsTypes = map metaType
     [''ListOptions'', ''GetOptions'', ''DeleteOptions'', ''CreateOptions'', ''UpdateOptions'', ''PatchOptions'']"

definition unversionedTypes :: "goType list" where
  "unversionedTypes = map metaType [''Status'', ''APIVersions'', ''APIGroupList'', ''APIGroup'', ''APIResourceList'']"

text \<open>\<open>metav1.AddToGroupVersion\<close>: watch events, the options of requests, and the unversioned types.\<close>

definition AddToGroupVersion :: "groupVersion \<Rightarrow> runtimeScheme \<Rightarrow> runtimeScheme option" where
  "AddToGroupVersion gv s =
     Option.bind (AddKnownTypeWithName (WithKind gv ''WatchEvent'') (metaType ''WatchEvent'') s) (\<lambda>s1.
     Option.bind (AddKnownTypeWithName (WithKind \<lparr>gv_group = gv_group gv, gv_version = APIVersionInternal\<rparr> ''WatchEvent'')
       (metaType ''InternalEvent'') s1) (\<lambda>s2.
     Option.bind (AddKnownTypes gv optionsTypes s2) (\<lambda>s3.
     AddUnversionedTypes \<lparr>gv_group = [], gv_version = ''v1''\<rparr> unversionedTypes s3)))"

text \<open>A function of a scheme builder: the error it returns and the scheme it leaves, or a panic.\<close>

type_synonym schemeFun = "runtimeScheme \<Rightarrow> (goerror option \<times> runtimeScheme) option"

definition addKnownTypes :: schemeFun where
  "addKnownTypes s =
     Option.bind (AddKnownTypes SchemeGroupVersion apiTypes s) (\<lambda>s1.
     map_option (\<lambda>s2. (None, s2)) (AddToGroupVersion SchemeGroupVersion s1))"

fun builderAddToScheme :: "schemeFun list \<Rightarrow> schemeFun" where
  "builderAddToScheme [] s = Some (None, s)"
| "builderAddToScheme (f # fs) s =
     (case f s of
        None \<Rightarrow> None
      | Some (Some err, s') \<Rightarrow> Some (Some err, s')
      | Some (None, s') \<Rightarrow> builderAddToScheme fs s')"

definition SchemeBuilder :: "schemeFun list" where
  "SchemeBuilder = [addKnownTypes]"

definition AddToScheme :: schemeFun where
  "AddToScheme = builderAddToScheme SchemeBuilder"

subsection \<open>The schemes of the client sets\<close>

text \<open>\<open>utilruntime.Must\<close> panics on an error.\<close>

definition Must :: "(goerror option \<times> runtimeScheme) option \<Rightarrow> runtimeScheme option" where
  "Must r = (case r of Some (None, s) \<Rightarrow> Some s | _ \<Rightarrow> None)"

definition localSchemeBuilder :: "schemeFun list" where
  "localSchemeBuilder = [AddToScheme]"

definition versioned_AddToScheme :: schemeFun where
  "versioned_AddToScheme = builderAddToScheme localSchemeBuilder"

text \<open>The \<open>init\<close> of package \<open>scheme\<close>; that of package \<open>fake\<close> does the same to its own scheme.\<close>

definition versioned_Scheme :: "runtimeScheme option" where
  "versioned_Scheme =
     Option.bind (AddToGroupVersion \<lparr>gv_group = [], gv_version = ''v1''\<rparr> NewScheme) (\<lambda>s. Must (versioned_AddToScheme s))"

definition fake_localSchemeBuilder :: "schemeFun list" where
  "fake_localSchemeBuilder = [AddToScheme]"

definition fake_AddToScheme :: schemeFun where
  "fake_AddToScheme = builderAddToScheme fake_localSchemeBuilder"

definition fake_scheme :: "runtimeScheme option" where
  "fake_scheme =
     Option.bind (AddToGroupVersion \<lparr>gv_group = [], gv_version = ''v1''\<rparr> NewScheme) (\<lambda>s. Must (fake_AddToScheme s))"

lemma AddKnownTypes_ok:
  "AddKnownTypes gv ts s = Some s' \<Longrightarrow> schemeOk s \<Longrightarrow> schemeOk s'"
  using addTypes_ok [of gv ts "addObservedVersion gv s"] by (simp add: AddKnownTypes_def)

lemma AddUnversionedTypes_ok:
  "AddUnversionedTypes v ts s = Some s' \<Longrightarrow> schemeOk s \<Longrightarrow> schemeOk s'"
  using AddKnownTypes_ok [of v ts "addObservedVersion v s"] schemeOk_cong markUnversioned_maps
  unfolding AddUnversionedTypes_def by (metis addObservedVersion_maps(3) option.case_eq_if option.exhaust_sel option.simps(3))

lemma AddToGroupVersion_ok:
  "AddToGroupVersion gv s = Some s' \<Longrightarrow> schemeOk s \<Longrightarrow> schemeOk s'"
  unfolding AddToGroupVersion_def bind_eq_Some_conv
  using AddKnownTypeWithName_ok(1) AddKnownTypes_ok AddUnversionedTypes_ok by blast

lemma addKnownTypes_ok:
  "addKnownTypes s = Some (e, s') \<Longrightarrow> schemeOk s \<Longrightarrow> schemeOk s'"
  by (auto simp: addKnownTypes_def bind_eq_Some_conv intro: AddKnownTypes_ok AddToGroupVersion_ok)

lemma fake_scheme_eq: "fake_scheme = versioned_Scheme"
  by (simp add: fake_scheme_def versioned_Scheme_def fake_AddToScheme_def versioned_AddToScheme_def
      fake_localSchemeBuilder_def localSchemeBuilder_def)

text \<open>
  Initialisation never panics, whatever was registered: the four kinds decode to their types and
  the types encode with their kinds.
\<close>

definition knowsTypes :: "runtimeScheme \<Rightarrow> bool" where
  "knowsTypes s \<longleftrightarrow>
     list_all (\<lambda>t. newOf s (WithKind SchemeGroupVersion (gt_name t)) = Inr t
       \<and> ObjectKinds s t = Inr [WithKind SchemeGroupVersion (gt_name t)]) apiTypes"

lemma versioned_Scheme_known: "case versioned_Scheme of None \<Rightarrow> False | Some s \<Rightarrow> knowsTypes s"
  by code_simp

lemma builder_one [simp]: "builderAddToScheme [f] = f"
  by (auto simp: fun_eq_iff split: option.splits prod.splits)

lemma AddToScheme_eq: "versioned_AddToScheme = addKnownTypes"
  by (simp add: versioned_AddToScheme_def localSchemeBuilder_def AddToScheme_def SchemeBuilder_def
      del: builderAddToScheme.simps)

text \<open>
  Initialisation does not panic, in neither client set; afterwards every kind that creates a type
  is among the kinds the type is encoded with, and the four types of the project have one each.
\<close>

theorem client_schemes_agree:
  "\<exists>s. versioned_Scheme = Some s \<and> fake_scheme = Some s \<and> knowsTypes s \<and> schemeOk s
     \<and> (\<forall>k t. sc_gvkToType s k = Some t \<longrightarrow> newOf s k = Inr t \<and> (\<exists>ks. ObjectKinds s t = Inr ks \<and> k \<in> set ks))"
proof -
  obtain s where s: "versioned_Scheme = Some s" "knowsTypes s"
    using versioned_Scheme_known by (auto split: option.splits)
  obtain s0 where s0: "AddToGroupVersion \<lparr>gv_group = [], gv_version = ''v1''\<rparr> NewScheme = Some s0"
      "Must (versioned_AddToScheme s0) = Some s"
    using s(1) by (auto simp: versioned_Scheme_def bind_eq_Some_conv)
  have ok0: "schemeOk s0" using AddToGroupVersion_ok [OF s0(1) NewScheme_ok] .
  have "addKnownTypes s0 = Some (None, s)"
    using s0(2) by (auto simp: Must_def AddToScheme_eq split: option.splits prod.splits)
  then have ok: "schemeOk s"
    using ok0 by (rule addKnownTypes_ok)
  have "newOf s k = Inr t \<and> (\<exists>ks. ObjectKinds s t = Inr ks \<and> k \<in> set ks)" if "sc_gvkToType s k = Some t" for k t
    using that schemeOk_iff [OF ok, of k t]
    by (cases "sc_typeToGVK s t") (auto simp: newOf_def ObjectKinds_def kindsOf_def)
  then show ?thesis using s ok fake_scheme_eq by auto
qed

end
