(* ===== verification/FakeClientset.thy ===== *)
theory FakeClientset
  imports FakeClients Scheme "HOL-Library.List_Lexorder" "HOL-Library.Char_ord"
begin

text \<open>
  The fake client set of the unit tests (\<open>fake/clientset_generated.go\<close>): its one reactor answers
  from an object tracker (client-go's \<open>testing/fixture.go\<close>), which is seeded with the objects the
  test starts from and remembers what the test writes. Objects are stored and returned as deep
  copies (\<open>DeepCopy\<close>), so here they are values. Patches are applied by JSON libraries, which are an
  argument. A watcher is the list of the events it was sent.
\<close>

subsection \<open>Objects and the tracker\<close>

record 'b tracked =
  to_type :: goType
  to_namespace :: string
  to_name :: string
  to_body :: 'b

datatype 'b trackEvent = Added "'b tracked" | Modified "'b tracked" | Deleted "'b tracked"

record 'b watcher =
  wt_gvr :: gvResource
  wt_ns :: string
  wt_events :: "'b trackEvent list"

record 'b tracker =
  tr_objects :: "gvResource \<Rightarrow> ((string \<times> string) \<times> 'b tracked) list option"
  tr_watchers :: "'b watcher list"

definition NewObjectTracker :: "'b tracker" where
  "NewObjectTracker = \<lparr>tr_objects = (\<lambda>_. None), tr_watchers = []\<rparr>"

text \<open>\<open>getWatches\<close>: the watchers of the namespace and those of all namespaces.\<close>

definition watches :: "gvResource \<Rightarrow> string \<Rightarrow> 'b watcher \<Rightarrow> bool" where
  "watches gvr ns w \<longleftrightarrow> wt_gvr w = gvr \<and> (wt_ns w = ns \<or> ns \<noteq> [] \<and> wt_ns w = [])"

definition broadcast :: "gvResource \<Rightarrow> string \<Rightarrow> 'b trackEvent \<Rightarrow> 'b tracker \<Rightarrow> 'b tracker" where
  "broadcast gvr ns ev t =
     t\<lparr>tr_watchers := map (\<lambda>w. if watches gvr ns w then w\<lparr>wt_events := wt_events w @ [ev]\<rparr> else w) (tr_watchers t)\<rparr>"

definition tracker_Watch :: "gvResource \<Rightarrow> string \<Rightarrow> 'b tracker \<Rightarrow> 'b tracker" where
  "tracker_Watch gvr ns t = t\<lparr>tr_watchers := tr_watchers t @ [\<lparr>wt_gvr = gvr, wt_ns = ns, wt_events = []\<rparr>]\<rparr>"

definition groupResource :: "gvResource \<Rightarrow> string" where
  "groupResource gvr =
     (if gvr_group gvr = [] then gvr_resource gvr else gvr_resource gvr @ ''.'' @ gvr_group gvr)"

definition notFound :: "gvResource \<Rightarrow> string \<Rightarrow> goerror" where
  "notFound gvr name = NotFoundErr (groupResource gvr @ '' '' @ name @ '' not found'')"

definition alreadyExists :: "gvResource \<Rightarrow> string \<Rightarrow> goerror" where
  "alreadyExists gvr name = GoErr (groupResource gvr @ '' '' @ name @ '' already exists'')"

definition namespaceMismatch :: "string \<Rightarrow> string \<Rightarrow> goerror" where
  "namespaceMismatch ns ns' =
     GoErr (''request namespace does not match object namespace, request: '' @ ns @ '' object: '' @ ns')"

definition objectsOf :: "'b tracker \<Rightarrow> gvResource \<Rightarrow> ((string \<times> string) \<times> 'b tracked) list" where
  "objectsOf t gvr = (case tr_objects t gvr of None \<Rightarrow> [] | Some objs \<Rightarrow> objs)"

definition setObjects :: "gvResource \<Rightarrow> ((string \<times> string) \<times> 'b tracked) list \<Rightarrow> 'b tracker \<Rightarrow> 'b tracker" where
  "setObjects gvr objs t = t\<lparr>tr_objects := (tr_objects t)(gvr := Some objs)\<rparr>"

definition withNamespace :: "string \<Rightarrow> 'b tracked \<Rightarrow> 'b tracked" where
  "withNamespace ns obj = (if to_namespace obj = [] then obj\<lparr>to_namespace := ns\<rparr> else obj)"

definition tracker_add ::
  "gvResource \<Rightarrow> 'b tracked \<Rightarrow> string \<Rightarrow> bool \<Rightarrow> 'b tracker \<Rightarrow> goerror option \<times> 'b tracker" where
  "tracker_add gvr obj ns replaceExisting t =
     (let new = withNamespace ns obj in
      if ns \<noteq> to_namespace new then (Some (namespaceMismatch ns (to_namespace new)), t)
      else
        let objs = objectsOf t gvr; key = (to_namespace new, to_name new) in
        if map_of objs key \<noteq> None
        then (if replaceExisting
              then (None, setObjects gvr (AList.update key new objs) (broadcast gvr ns (Modified new) t))
              else (Some (alreadyExists gvr (to_name new)), setObjects gvr objs t))
        else if replaceExisting then (Some (notFound gvr (to_name new)), setObjects gvr objs t)
        else (None, broadcast gvr ns (Added new) (setObjects gvr (AList.update key new objs) t)))"

definition tracker_Create where
  "tracker_Create gvr obj ns t = tracker_add gvr obj ns False t"

definition tracker_Update where
  "tracker_Update gvr obj ns t = tracker_add gvr obj ns True t"

definition tracker_Get :: "gvResource \<Rightarrow> string \<Rightarrow> string \<Rightarrow> 'b tracker \<Rightarrow> 'b tracked result" where
  "tracker_Get gvr ns name t =
     (case map_of (objectsOf t gvr) (ns, name) of None \<Rightarrow> Inl (notFound gvr name) | Some obj \<Rightarrow> Inr obj)"

definition tracker_Delete :: "gvResource \<Rightarrow> string \<Rightarrow> string \<Rightarrow> 'b tracker \<Rightarrow> goerror option \<times> 'b tracker" where
  "tracker_Delete gvr ns name t =
     (case map_of (objectsOf t gvr) (ns, name) of
        None \<Rightarrow> (Some (notFound gvr name), t)
      | Some obj \<Rightarrow>
          (None, broadcast gvr ns (Deleted obj) (setObjects gvr (AList.delete (ns, name) (objectsOf t gvr)) t)))"

text \<open>In the order of namespace and name.\<close>

definition filterByNamespace :: "((string \<times> string) \<times> 'b tracked) list \<Rightarrow> string \<Rightarrow> 'b tracked list" where
  "filterByNamespace objs ns =
     sort_key (\<lambda>obj. [to_namespace obj, to_name obj])
       (filter (\<lambda>obj. \<not> (ns \<noteq> [] \<and> to_namespace obj \<noteq> ns)) (map snd objs))"

text \<open>The registered types with a field \<open>Items\<close>, and the type of their items.\<close>

definition itemType :: "goType \<Rightarrow> goType option" where
  "itemType t =
     map_of [(apiType ''VirtualMachineMigrationResourceQuotaList'', apiType ''VirtualMachineMigrationResourceQuota''),
             (apiType ''MTQList'', apiType ''MTQ'')] t"

definition tracker_List ::
  "runtimeScheme \<Rightarrow> gvResource \<Rightarrow> gvKind \<Rightarrow> string \<Rightarrow> 'b tracker \<Rightarrow> 'b tracked list result" where
  "tracker_List s gvr gvk ns t =
     (let listGVK0 = gvk\<lparr>gk_kind := gk_kind gvk @ ''List''\<rparr>;
          listGVK = (if gk_version listGVK0 = [] then listGVK0\<lparr>gk_version := APIVersionInternal\<rparr> else listGVK0) in
      case newOf s listGVK of
        Inl err \<Rightarrow> Inl err
      | Inr list \<Rightarrow>
          (case itemType list of
             None \<Rightarrow> Inl (GoErr (gk_kind listGVK @ '' is not a list type''))
           | Some item \<Rightarrow>
               (case tr_objects t gvr of
                  None \<Rightarrow> Inr []
                | Some objs \<Rightarrow>
                    (let matchingObjs = filterByNamespace objs ns in
                     if list_all (\<lambda>obj. to_type obj = item) matchingObjs then Inr matchingObjs
                     else Inl (GoErr ''cannot assign or convert an item'')))))"

subsection \<open>Seeding\<close>

text \<open>\<open>meta.UnsafeGuessKindToResource\<close>, the plural; the one irregular suffix is \<open>endpoints\<close>.\<close>

definition UnsafeGuessKindToResource :: "gvKind \<Rightarrow> gvResource" where
  "UnsafeGuessKindToResource kind =
     (let singular = ToLower (gk_kind kind);
          withRes = (\<lambda>r. \<lparr>gvr_group = gk_group kind, gvr_version = gk_version kind, gvr_resource = r\<rparr>) in
      if gk_kind kind = [] then \<lparr>gvr_group = [], gvr_version = [], gvr_resource = []\<rparr>
      else if length singular \<ge> 9 \<and> drop (length singular - 9) singular = ''endpoints'' then withRes singular
      else if last singular = CHR ''s'' then withRes (singular @ ''es'')
      else if last singular = CHR ''y'' then withRes (butlast singular @ ''ies'')
      else withRes (singular @ ''s''))"

fun addKinds :: "gvKind list \<Rightarrow> 'b tracked \<Rightarrow> 'b tracker \<Rightarrow> goerror option \<times> 'b tracker" where
  "addKinds [] obj t = (None, t)"
| "addKinds (gvk # gvks) obj t =
     (let gvr0 = UnsafeGuessKindToResource gvk;
          gvr = (if gvr_version gvr0 = APIVersionInternal then gvr0\<lparr>gvr_version := []\<rparr> else gvr0) in
      case tracker_add gvr obj (to_namespace obj) False t of
        (Some err, t') \<Rightarrow> (Some err, t')
      | (None, t') \<Rightarrow> addKinds gvks obj t')"

definition addObject :: "runtimeScheme \<Rightarrow> 'b tracked \<Rightarrow> 'b tracker \<Rightarrow> goerror option \<times> 'b tracker" where
  "addObject s obj t =
     (case ObjectKinds s (to_type obj) of
        Inl err \<Rightarrow> (Some err, t)
      | Inr gvks \<Rightarrow>
          if gvks = [] then (Some (GoErr ''no registered kinds''), t) else addKinds gvks obj t)"

datatype 'b seed = SeedObject "'b tracked" | SeedList "'b tracked list"

fun addObjects :: "runtimeScheme \<Rightarrow> 'b tracked list \<Rightarrow> 'b tracker \<Rightarrow> goerror option \<times> 'b tracker" where
  "addObjects s [] t = (None, t)"
| "addObjects s (obj # objs) t =
     (case addObject s obj t of (Some err, t') \<Rightarrow> (Some err, t') | (None, t') \<Rightarrow> addObjects s objs t')"

fun tracker_Add :: "runtimeScheme \<Rightarrow> 'b seed \<Rightarrow> 'b tracker \<Rightarrow> goerror option \<times> 'b tracker" where
  "tracker_Add s (SeedObject obj) t = addObject s obj t"
| "tracker_Add s (SeedList objs) t = addObjects s objs t"

subsection \<open>The reactor\<close>

definition oneAnswer :: "'b tracked result \<Rightarrow> 'b tracked answer" where
  "oneAnswer r = (case r of Inl err \<Rightarrow> (None, Some err) | Inr obj \<Rightarrow> (Some (FakeOne obj), None))"

definition thenGet ::
  "gvResource \<Rightarrow> string \<Rightarrow> string \<Rightarrow> goerror option \<times> 'b tracker \<Rightarrow> 'b tracked answer option \<times> 'b tracker" where
  "thenGet gvr ns name r =
     (case r of
        (Some err, t) \<Rightarrow> (Some (None, Some err), t)
      | (None, t) \<Rightarrow> (Some (oneAnswer (tracker_Get gvr ns name t)), t))"

definition reactCreate ::
  "('b tracked, 'l, 'd) testAction \<Rightarrow> 'b tracked \<Rightarrow> 'b tracker \<Rightarrow> 'b tracked answer option \<times> 'b tracker" where
  "reactCreate a obj t =
     (let gvr = ta_resource a; ns = ta_namespace a in
      if ta_subresource a = [] then thenGet gvr ns (to_name obj) (tracker_Create gvr obj ns t)
      else
        (case tracker_Get gvr ns (to_name obj) t of
           Inl err \<Rightarrow> (Some (None, Some err), t)
         | Inr oldObj \<Rightarrow>
             if to_type oldObj = to_type obj then thenGet gvr ns (to_name obj) (tracker_Update gvr obj ns t)
             else (Some (Some (FakeOne obj), None), t)))"

definition reactPatch ::
  "(string \<times> string \<Rightarrow> 'b tracked \<Rightarrow> 'b tracked result) \<Rightarrow> ('b tracked, 'l, 'd) testAction \<Rightarrow> string \<times> string \<Rightarrow>
   'b tracker \<Rightarrow> 'b tracked answer option \<times> 'b tracker" where
  "reactPatch applyPatch a patch t =
     (let gvr = ta_resource a; ns = ta_namespace a in
      case tracker_Get gvr ns (ta_name a) t of
        Inl err \<Rightarrow> (Some (None, Some err), t)
      | Inr old \<Rightarrow>
          (case applyPatch patch old of
             Inl err \<Rightarrow> (Some (None, Some err), t)
           | Inr obj \<Rightarrow>
               (case tracker_Update gvr obj ns t of
                  (Some err, t') \<Rightarrow> (Some (None, Some err), t')
                | (None, t') \<Rightarrow> (Some (Some (FakeOne obj), None), t'))))"

text \<open>
  \<open>ObjectReaction\<close>, by the type of the action. The deletion of a collection has no case: the
  reactor leaves it alone.
\<close>

definition ObjectReaction ::
  "(string \<times> string \<Rightarrow> 'b tracked \<Rightarrow> 'b tracked result) \<Rightarrow> runtimeScheme \<Rightarrow> ('b tracked, 'l, 'd) testAction \<Rightarrow>
   'b tracker \<Rightarrow> 'b tracked answer option \<times> 'b tracker" where
  "ObjectReaction applyPatch s a t =
     (let gvr = ta_resource a; ns = ta_namespace a in
      if ta_verb a = ''list'' then
        (case tracker_List s gvr \<lparr>gk_group = gvr_group gvr, gk_version = gvr_version gvr, gk_kind = ta_kind a\<rparr> ns t of
           Inl err \<Rightarrow> (Some (None, Some err), t)
         | Inr objs \<Rightarrow> (Some (Some (FakeList [] objs), None), t))
      else if ta_verb a = ''get'' then (Some (oneAnswer (tracker_Get gvr ns (ta_name a) t)), t)
      else if ta_verb a = ''delete'' then
        (case tracker_Delete gvr ns (ta_name a) t of (err, t') \<Rightarrow> (Some (None, err), t'))
      else
        (case (ta_object a, ta_patch a) of
           (Some obj, _) \<Rightarrow>
             if ta_verb a = ''create'' then reactCreate a obj t
             else if ta_verb a = ''update'' then thenGet gvr ns (to_name obj) (tracker_Update gvr obj ns t)
             else (None, t)
         | (None, Some patch) \<Rightarrow> if ta_verb a = ''patch'' then reactPatch applyPatch a patch t else (None, t)
         | (None, None) \<Rightarrow> (None, t)))"

subsection \<open>The client set\<close>

record ('b, 'l, 'd) fakeClientset =
  cs_actions :: "('b tracked, 'l, 'd) testAction list"
  cs_tracker :: "'b tracker"

fun seedTracker :: "runtimeScheme \<Rightarrow> 'b seed list \<Rightarrow> 'b tracker \<Rightarrow> 'b tracker option" where
  "seedTracker s [] o' = Some o'"
| "seedTracker s (obj # objects) o' =
     (case tracker_Add s obj o' of (Some err, t) \<Rightarrow> None | (None, t) \<Rightarrow> seedTracker s objects t)"

definition NewSimpleClientset :: "runtimeScheme \<Rightarrow> 'b seed list \<Rightarrow> ('b, 'l, 'd) fakeClientset option" where
  "NewSimpleClientset s objects =
     map_option (\<lambda>t. \<lparr>cs_actions = [], cs_tracker = t\<rparr>) (seedTracker s objects NewObjectTracker)"

text \<open>The chains of reactors the constructor installs, on the tracker as it stands.\<close>

definition cs_fake ::
  "(string \<times> string \<Rightarrow> 'b tracked \<Rightarrow> 'b tracked result) \<Rightarrow> runtimeScheme \<Rightarrow> ('b, 'l, 'd) fakeClientset \<Rightarrow>
   ('b tracked, 'l, 'd) fakeState" where
  "cs_fake applyPatch s cs =
     \<lparr>fk_actions = cs_actions cs,
      fk_reactionChain = [\<lambda>a. fst (ObjectReaction applyPatch s a (cs_tracker cs))],
      fk_watchReactionChain = [\<lambda>a. Some None]\<rparr>"

text \<open>What an invocation leaves: the action is recorded and the reactor has changed its tracker.\<close>

definition cs_after ::
  "(string \<times> string \<Rightarrow> 'b tracked \<Rightarrow> 'b tracked result) \<Rightarrow> runtimeScheme \<Rightarrow> ('b tracked, 'l, 'd) testAction \<Rightarrow>
   ('b, 'l, 'd) fakeClientset \<Rightarrow> ('b, 'l, 'd) fakeClientset" where
  "cs_after applyPatch s a cs =
     cs\<lparr>cs_actions := cs_actions cs @ [a],
        cs_tracker := (if ta_verb a = ''watch'' then tracker_Watch (ta_resource a) (ta_namespace a) (cs_tracker cs)
                       else snd (ObjectReaction applyPatch s a (cs_tracker cs)))\<rparr>"

datatype 'o fakeResult =
    OneResult "'o option" "goerror option"
  | ListResult "(string \<times> 'o list) option" "goerror option"
  | ErrResult "goerror option"

text \<open>
  A call of a typed fake client, given the action its method builds: the answer is looked at as
  the method does (\<open>fake_one\<close>, \<open>fake_list\<close>), or only its error is returned. A panic is \<open>None\<close>.
\<close>

fun cs_call ::
  "(string \<times> string \<Rightarrow> 'b tracked \<Rightarrow> 'b tracked result) \<Rightarrow> runtimeScheme \<Rightarrow> (string \<Rightarrow> 'l option) \<Rightarrow> ('l \<Rightarrow> 'b tracked \<Rightarrow> bool) \<Rightarrow>
   'b tracked \<Rightarrow> (('b tracked, 'd) typedCall \<Rightarrow> ('b tracked, 'l, 'd) testAction option) \<Rightarrow> ('b tracked, 'd) typedCall \<Rightarrow>
   ('b, 'l, 'd) fakeClientset \<Rightarrow> ('b tracked fakeResult \<times> ('b, 'l, 'd) fakeClientset) option" where
  "cs_call ap s parse matches zero mk call cs =
     (case mk call of
        None \<Rightarrow> None
      | Some a \<Rightarrow>
          map_option (\<lambda>r. (r, cs_after ap s a cs))
            (case call of
               ListCall opts \<Rightarrow> map_option (\<lambda>x. ListResult (fst (fst x)) (snd (fst x))) (fake_list parse matches (Some a) opts (cs_fake ap s cs))
             | WatchCall opts \<Rightarrow> Some (ErrResult (fst (InvokesWatch a (cs_fake ap s cs))))
             | DeleteCall name opts \<Rightarrow> Some (ErrResult (snd (fst (Invokes a (FakeOne zero) (cs_fake ap s cs)))))
             | DeleteCollectionCall opts listOpts \<Rightarrow> Some (ErrResult (snd (fst (Invokes a (FakeList [] []) (cs_fake ap s cs)))))
             | _ \<Rightarrow> map_option (\<lambda>x. OneResult (fst (fst x)) (snd (fst x))) (fake_one zero (Some a) (cs_fake ap s cs))))"

subsection \<open>The store the tests see\<close>

definition stored :: "'b tracker \<Rightarrow> gvResource \<Rightarrow> string \<times> string \<Rightarrow> 'b tracked option" where
  "stored t gvr k = map_of (objectsOf t gvr) k"

definition entriesOk :: "((string \<times> string) \<times> 'b tracked) list \<Rightarrow> bool" where
  "entriesOk objs \<longleftrightarrow> distinct (map fst objs) \<and> (\<forall>e \<in> set objs. fst e = (to_namespace (snd e), to_name (snd e)))"

definition trackerOk :: "'b tracker \<Rightarrow> bool" where
  "trackerOk t \<longleftrightarrow> (\<forall>gvr. entriesOk (objectsOf t gvr))"

lemma set_update: "set (AList.update k v objs) \<subseteq> insert (k, v) (set objs)"
  by (induction objs) auto

lemma entriesOk_update:
  "entriesOk objs \<Longrightarrow> entriesOk (AList.update (to_namespace obj, to_name obj) obj objs)"
  using set_update [of "(to_namespace obj, to_name obj)" obj objs]
  by (fastforce simp: entriesOk_def distinct_update)

lemma entriesOk_delete: "entriesOk objs \<Longrightarrow> entriesOk (AList.delete k objs)"
  by (auto simp: entriesOk_def AList.delete_eq distinct_map_filter)

lemma NewObjectTracker_ok: "trackerOk NewObjectTracker"
  by (simp add: trackerOk_def entriesOk_def objectsOf_def NewObjectTracker_def)

lemma objectsOf_upd [simp]:
  "objectsOf (setObjects gvr objs t) g = (if g = gvr then objs else objectsOf t g)"
  "objectsOf (broadcast gvr ns ev t) = objectsOf t"
  "objectsOf (tracker_Watch gvr ns t) = objectsOf t"
  by (simp_all add: objectsOf_def setObjects_def broadcast_def tracker_Watch_def fun_eq_iff)

lemma withNamespace_name [simp]: "to_name (withNamespace ns obj) = to_name obj"
  by (simp add: withNamespace_def)

text \<open>
  What a write does to the store, and what it answers: the object is stored under the namespace
  of the request, unless it says another.
\<close>

definition addError :: "gvResource \<Rightarrow> 'b tracked \<Rightarrow> string \<Rightarrow> bool \<Rightarrow> (string \<times> string \<Rightarrow> 'b tracked option) \<Rightarrow> goerror option" where
  "addError gvr obj ns replaceExisting m =
     (if ns \<noteq> to_namespace (withNamespace ns obj) then Some (namespaceMismatch ns (to_namespace (withNamespace ns obj)))
      else if (m (ns, to_name obj) \<noteq> None) = replaceExisting then None
      else Some ((if replaceExisting then notFound else alreadyExists) gvr (to_name obj)))"

lemma tracker_add_stored:
  assumes "tracker_add gvr obj ns rep t = (e, t')"
  shows "e = addError gvr obj ns rep (stored t gvr)"
    and "stored t' g = (if e = None \<and> g = gvr then (stored t gvr)((ns, to_name obj) \<mapsto> withNamespace ns obj) else stored t g)"
  using assms
  by (auto simp: tracker_add_def addError_def Let_def stored_def fun_eq_iff update_conv' split: if_splits)

lemma tracker_add_ok: "tracker_add gvr obj ns rep t = (e, t') \<Longrightarrow> trackerOk t \<Longrightarrow> trackerOk t'"
  using entriesOk_update [of "objectsOf t gvr" "withNamespace ns obj"]
  by (auto simp: tracker_add_def trackerOk_def Let_def split: if_splits)

lemma tracker_Delete_stored:
  assumes "tracker_Delete gvr ns name t = (e, t')"
  shows "e = (if stored t gvr (ns, name) = None then Some (notFound gvr name) else None)"
    and "stored t' g = (if g = gvr then (stored t gvr)((ns, name) := None) else stored t g)"
  using assms
  by (auto simp: tracker_Delete_def stored_def fun_eq_iff AList.delete_conv' split: option.splits if_splits)

lemma tracker_Delete_ok: "tracker_Delete gvr ns name t = (e, t') \<Longrightarrow> trackerOk t \<Longrightarrow> trackerOk t'"
  using entriesOk_delete [of "objectsOf t gvr" "(ns, name)"]
  by (auto simp: tracker_Delete_def trackerOk_def split: option.splits)

lemma stored_key:
  assumes "trackerOk t" and "stored t gvr (ns, name) = Some obj"
  shows "to_namespace obj = ns \<and> to_name obj = name"
proof -
  have "((ns, name), obj) \<in> set (objectsOf t gvr)"
    using assms(2) map_of_SomeD unfolding stored_def by fastforce
  moreover have "\<forall>e \<in> set (objectsOf t gvr). fst e = (to_namespace (snd e), to_name (snd e))"
    using assms(1) by (simp add: trackerOk_def entriesOk_def)
  ultimately have "fst ((ns, name), obj) = (to_namespace (snd ((ns, name), obj)), to_name (snd ((ns, name), obj)))"
    by (rule bspec [rotated])
  then show ?thesis by simp
qed

lemma filterByNamespace_set:
  assumes "trackerOk t"
  shows "set (filterByNamespace (objectsOf t gvr) ns) = {obj. \<exists>k. stored t gvr k = Some obj \<and> (ns = [] \<or> fst k = ns)}"
proof -
  have d: "distinct (map fst (objectsOf t gvr))"
    and k: "\<And>e. e \<in> set (objectsOf t gvr) \<Longrightarrow> fst e = (to_namespace (snd e), to_name (snd e))"
    using assms by (auto simp: trackerOk_def entriesOk_def)
  show ?thesis
    using k by (force simp: filterByNamespace_def stored_def map_of_eq_Some_iff [OF d])
qed

text \<open>The answer and the store after a call, in terms of the store before it.\<close>

definition answered :: "'o option \<Rightarrow> goerror \<Rightarrow> 'o fakeResult" where
  "answered x err = (case x of None \<Rightarrow> OneResult None (Some err) | Some obj \<Rightarrow> OneResult (Some obj) None)"

fun storeCall ::
  "gvResource \<Rightarrow> string \<Rightarrow> ('b tracked, 'd) typedCall \<Rightarrow> (string \<times> string \<Rightarrow> 'b tracked option) \<Rightarrow>
   'b tracked fakeResult \<times> (string \<times> string \<Rightarrow> 'b tracked option)" where
  "storeCall R ns (GetCall name opts) m = (answered (m (ns, name)) (notFound R name), m)"
| "storeCall R ns (CreateCall obj opts) m =
     (case addError R obj ns False m of
        Some err \<Rightarrow> (OneResult None (Some err), m)
      | None \<Rightarrow> (OneResult (Some (withNamespace ns obj)) None, m((ns, to_name obj) := Some (withNamespace ns obj))))"
| "storeCall R ns (UpdateCall obj opts) m =
     (case addError R obj ns True m of
        Some err \<Rightarrow> (OneResult None (Some err), m)
      | None \<Rightarrow> (OneResult (Some (withNamespace ns obj)) None, m((ns, to_name obj) := Some (withNamespace ns obj))))"
| "storeCall R ns (UpdateStatusCall obj opts) m =
     (case addError R obj ns True m of
        Some err \<Rightarrow> (OneResult None (Some err), m)
      | None \<Rightarrow> (OneResult (Some (withNamespace ns obj)) None, m((ns, to_name obj) := Some (withNamespace ns obj))))"
| "storeCall R ns (DeleteCall name opts) m =
     (ErrResult (if m (ns, name) = None then Some (notFound R name) else None), m((ns, name) := None))"
| "storeCall R ns _ m = (ErrResult None, m)"

lemma thenGet_add:
  assumes "tracker_add gvr obj ns rep t = (e, t')"
  shows "thenGet gvr ns (to_name obj) (e, t') =
    (Some (case addError gvr obj ns rep (stored t gvr) of
             Some err \<Rightarrow> (None, Some err)
           | None \<Rightarrow> (Some (FakeOne (withNamespace ns obj)), None)), t')"
proof (cases e)
  case None
  have "map_of (objectsOf t' gvr) (ns, to_name obj) = Some (withNamespace ns obj)"
    using tracker_add_stored(2) [OF assms, of gvr] None by (simp add: stored_def fun_eq_iff)
  then show ?thesis
    using tracker_add_stored(1) [OF assms] None by (simp add: thenGet_def tracker_Get_def oneAnswer_def)
next
  case (Some err)
  then show ?thesis using tracker_add_stored(1) [OF assms] by (auto simp: thenGet_def)
qed

text \<open>The reaction to each action a store call becomes.\<close>

lemma reactions:
  "ObjectReaction ap s (NewGetAction R ns name) t = (Some (oneAnswer (tracker_Get R ns name t)), t)"
  "ObjectReaction ap s (NewCreateAction R ns obj) t = thenGet R ns (to_name obj) (tracker_add R obj ns False t)"
  "ObjectReaction ap s (NewUpdateAction R ns obj) t = thenGet R ns (to_name obj) (tracker_add R obj ns True t)"
  "ObjectReaction ap s (NewUpdateSubresourceAction R sub ns obj) t = thenGet R ns (to_name obj) (tracker_add R obj ns True t)"
  "ObjectReaction ap s (NewDeleteActionWithOptions R ns name opts) t =
     (case tracker_Delete R ns name t of (err, t') \<Rightarrow> (Some (None, err), t'))"
  "NewDeleteCollectionAction parse R ns lo = Some a \<Longrightarrow> ObjectReaction ap s a t = (None, t)"
  by (auto simp: ObjectReaction_def action_constructors reactCreate_def tracker_Create_def tracker_Update_def
      Let_def)

lemma root_actions:
  "NewRootGetAction R name = NewGetAction R [] name"
  "NewRootCreateAction R obj = NewCreateAction R [] obj"
  "NewRootUpdateAction R obj = NewUpdateAction R [] obj"
  "NewRootUpdateSubresourceAction R sub obj = NewUpdateSubresourceAction R sub [] obj"
  "NewRootDeleteActionWithOptions R name opts = NewDeleteActionWithOptions R [] name opts"
  "NewRootDeleteCollectionAction parse R lo = NewDeleteCollectionAction parse R [] lo"
  by (simp_all add: action_constructors)

lemma verbs:
  "ta_verb (NewGetAction R ns name) = ''get''"
  "ta_verb (NewCreateAction R ns obj) = ''create''"
  "ta_verb (NewUpdateAction R ns obj) = ''update''"
  "ta_verb (NewUpdateSubresourceAction R sub ns obj) = ''update''"
  "ta_verb (NewDeleteActionWithOptions R ns name opts) = ''delete''"
  "NewDeleteCollectionAction parse R ns lo = Some a \<Longrightarrow> ta_verb a = ''delete-collection''"
  by (auto simp: action_constructors)

fun storesCall :: "('o, 'd) typedCall \<Rightarrow> bool" where
  "storesCall (ListCall opts) = False"
| "storesCall (WatchCall opts) = False"
| "storesCall (PatchCall name pt data opts subs) = False"
| "storesCall _ = True"

definition actsLike ::
  "(('b tracked, 'd) typedCall \<Rightarrow> ('b tracked, 'l, 'd) testAction option) \<Rightarrow> (string \<Rightarrow> 'l option) \<Rightarrow> gvResource \<Rightarrow> string \<Rightarrow> bool" where
  "actsLike mk parse R ns \<longleftrightarrow>
     (\<forall>name go obj wo d lo.
        mk (GetCall name go) = Some (NewGetAction R ns name)
        \<and> mk (CreateCall obj wo) = Some (NewCreateAction R ns obj)
        \<and> mk (UpdateCall obj wo) = Some (NewUpdateAction R ns obj)
        \<and> mk (UpdateStatusCall obj wo) = Some (NewUpdateSubresourceAction R ''status'' ns obj)
        \<and> mk (DeleteCall name d) = Some (NewDeleteActionWithOptions R ns name d)
        \<and> mk (DeleteCollectionCall d lo) = NewDeleteCollectionAction parse R ns lo)"

lemma fakes_act:
  "actsLike (fakeVmmrqs_action parse ns) parse virtualmachinemigrationresourcequotasResource ns"
  "actsLike (fakeMTQs_action parse) parse mtqsResource []"
  by (simp_all add: actsLike_def root_actions)

lemma fake_one_reaction:
  "fst (ObjectReaction ap s a (cs_tracker cs)) = Some ans \<Longrightarrow>
     fake_one zero (Some a) (cs_fake ap s cs) =
       map_option (\<lambda>r. (r, (cs_fake ap s cs)\<lparr>fk_actions := cs_actions cs @ [a]\<rparr>)) (asObject ans)"
  by (simp add: fake_one_def Invokes_def cs_fake_def)

lemma invokes_reaction:
  "fst (Invokes a d (cs_fake ap s cs)) = (case fst (ObjectReaction ap s a (cs_tracker cs)) of None \<Rightarrow> (Some d, None) | Some x \<Rightarrow> x)"
  by (simp add: Invokes_def cs_fake_def split: option.splits)

definition storeStep ::
  "gvResource \<Rightarrow> string \<Rightarrow> ('b tracked, 'd) typedCall \<Rightarrow> ('b, 'l, 'd) fakeClientset \<Rightarrow>
   ('b tracked fakeResult \<times> ('b, 'l, 'd) fakeClientset) option \<Rightarrow> bool" where
  "storeStep R ns call cs out \<longleftrightarrow>
     (\<exists>r cs'. out = Some (r, cs')
        \<and> r = fst (storeCall R ns call (stored (cs_tracker cs) R))
        \<and> stored (cs_tracker cs') = (stored (cs_tracker cs))(R := snd (storeCall R ns call (stored (cs_tracker cs) R)))
        \<and> trackerOk (cs_tracker cs'))"

lemma add_step:
  assumes call: "storeCall R ns call (stored (cs_tracker cs) R) =
      (case addError R obj ns rep (stored (cs_tracker cs) R) of
         Some err \<Rightarrow> (OneResult None (Some err), stored (cs_tracker cs) R)
       | None \<Rightarrow> (OneResult (Some (withNamespace ns obj)) None,
                  (stored (cs_tracker cs) R)((ns, to_name obj) := Some (withNamespace ns obj))))"
    and react: "ObjectReaction ap s a (cs_tracker cs) = thenGet R ns (to_name obj) (tracker_add R obj ns rep (cs_tracker cs))"
    and verb: "ta_verb a \<noteq> ''watch''" and ok: "trackerOk (cs_tracker cs)"
  shows "storeStep R ns call cs
    (map_option (\<lambda>r. (r, cs_after ap s a cs))
       (map_option (\<lambda>x. OneResult (fst (fst x)) (snd (fst x))) (fake_one zero (Some a) (cs_fake ap s cs))))"
proof -
  let ?m = "stored (cs_tracker cs) R"
  obtain e t' where add: "tracker_add R obj ns rep (cs_tracker cs) = (e, t')" by fastforce
  note r = thenGet_add [OF add] and st = tracker_add_stored [OF add] and ok' = tracker_add_ok [OF add ok]
  have all: "stored t' = (stored (cs_tracker cs))(R := snd (storeCall R ns call ?m))"
    using st by (auto simp: fun_eq_iff call split: option.splits)
  show ?thesis
    using r all ok' verb react add
    by (cases "addError R obj ns rep ?m")
      (simp_all add: storeStep_def call fake_one_reaction asObject_def cs_after_def del: fun_upd_apply)
qed

theorem cs_call_stores:
  assumes mk: "actsLike mk parse R ns" and call: "storesCall call" and ok: "trackerOk (cs_tracker cs)"
    and made: "mk call \<noteq> None"
  shows "storeStep R ns call cs (cs_call ap s parse matches zero mk call cs)"
proof (cases call)
  case (GetCall name opts)
  have m: "mk call = Some (NewGetAction R ns name)" using mk GetCall by (simp add: actsLike_def)
  show ?thesis
    using ok GetCall m
    by (auto simp: storeStep_def fake_one_reaction reactions cs_after_def verbs tracker_Get_def stored_def oneAnswer_def
        asObject_def answered_def split: option.splits)
next
  case (CreateCall obj opts)
  have m: "mk call = Some (NewCreateAction R ns obj)" using mk CreateCall by (simp add: actsLike_def)
  show ?thesis
    using add_step [where R = R and ns = ns and cs = cs and ap = ap and s = s and rep = False and a = "NewCreateAction R ns obj" and call = call and obj = obj and zero = zero]
      ok CreateCall m by (simp add: reactions verbs)
next
  case (UpdateCall obj opts)
  have m: "mk call = Some (NewUpdateAction R ns obj)" using mk UpdateCall by (simp add: actsLike_def)
  show ?thesis
    using add_step [where R = R and ns = ns and cs = cs and ap = ap and s = s and rep = True and a = "NewUpdateAction R ns obj" and call = call and obj = obj and zero = zero]
      ok UpdateCall m by (simp add: reactions verbs)
next
  case (UpdateStatusCall obj opts)
  have m: "mk call = Some (NewUpdateSubresourceAction R ''status'' ns obj)" using mk UpdateStatusCall by (simp add: actsLike_def)
  show ?thesis
    using add_step [where R = R and ns = ns and cs = cs and ap = ap and s = s and rep = True and a = "NewUpdateSubresourceAction R ''status'' ns obj" and call = call and obj = obj and zero = zero]
      ok UpdateStatusCall m by (simp add: reactions verbs)
next
  case (DeleteCall name opts)
  have m: "mk call = Some (NewDeleteActionWithOptions R ns name opts)" using mk DeleteCall by (simp add: actsLike_def)
  obtain e t' where del: "tracker_Delete R ns name (cs_tracker cs) = (e, t')" by fastforce
  have all: "stored t' = (stored (cs_tracker cs))(R := (stored (cs_tracker cs) R)((ns, name) := None))"
    using tracker_Delete_stored(2) [OF del] by (auto simp: fun_eq_iff)
  show ?thesis
    using tracker_Delete_stored(1) [OF del] tracker_Delete_ok [OF del ok] all del DeleteCall m
    by (simp add: storeStep_def invokes_reaction reactions cs_after_def verbs del: fun_upd_apply)
next
  case (DeleteCollectionCall opts lo)
  have m: "mk call = NewDeleteCollectionAction parse R ns lo" using mk DeleteCollectionCall by (simp add: actsLike_def)
  show ?thesis
  proof (cases "NewDeleteCollectionAction parse R ns lo :: ('a tracked, 'c, 'b) testAction option")
    case None
    then show ?thesis using m made by simp
  next
    case (Some a)
    have "ObjectReaction ap s a (cs_tracker cs) = (None, cs_tracker cs)" and "ta_verb a \<noteq> ''watch''"
      using reactions(6) [OF Some] verbs(6) [OF Some] by simp_all
    then show ?thesis
      using ok DeleteCollectionCall m Some by (simp add: storeStep_def invokes_reaction cs_after_def)
  qed
qed (use call in simp_all)

subsection \<open>Seeds\<close>

definition resourceOf :: "goType \<Rightarrow> gvResource" where
  "resourceOf t = UnsafeGuessKindToResource (WithKind SchemeGroupVersion (gt_name t))"

text \<open>The resource the tracker guesses for a seeded object is the one its fake client asks for.\<close>

lemma guessed_resources:
  "resourceOf (apiType ''VirtualMachineMigrationResourceQuota'') = virtualmachinemigrationresourcequotasResource"
  "resourceOf (apiType ''MTQ'') = mtqsResource"
  by code_simp+

lemma addObject_stored:
  assumes "knowsTypes s" and "to_type obj \<in> set apiTypes" and "addObject s obj t = (None, t')"
  shows "stored t' = (stored t)(resourceOf (to_type obj) := (stored t (resourceOf (to_type obj)))((to_namespace obj, to_name obj) \<mapsto> obj))"
    and "stored t (resourceOf (to_type obj)) (to_namespace obj, to_name obj) = None"
    and "trackerOk t \<Longrightarrow> trackerOk t'"
proof -
  let ?R = "resourceOf (to_type obj)"
  have k: "ObjectKinds s (to_type obj) = Inr [WithKind SchemeGroupVersion (gt_name (to_type obj))]"
    using assms(1,2) by (auto simp: knowsTypes_def list_all_iff)
  have v: "gvr_version ?R \<noteq> APIVersionInternal"
    by (simp add: resourceOf_def UnsafeGuessKindToResource_def Let_def WithKind_def SchemeGroupVersion_def APIVersionInternal_def)
  have add: "tracker_add ?R obj (to_namespace obj) False t = (None, t')"
    using assms(3) v by (auto simp: addObject_def k Let_def resourceOf_def split: prod.splits option.splits)
  have same: "withNamespace (to_namespace obj) obj = obj" by (simp add: withNamespace_def)
  have "addError ?R obj (to_namespace obj) False (stored t ?R) = None"
    using tracker_add_stored(1) [OF add] by simp
  then show "stored t ?R (to_namespace obj, to_name obj) = None"
    by (simp add: addError_def same split: if_splits)
  show "stored t' = (stored t)(?R := (stored t ?R)((to_namespace obj, to_name obj) \<mapsto> obj))"
    using tracker_add_stored(2) [OF add] by (auto simp: fun_eq_iff same)
  show "trackerOk t \<Longrightarrow> trackerOk t'" by (rule tracker_add_ok [OF add])
qed

lemma seedTracker_stored:
  assumes "knowsTypes s"
  shows "(\<And>obj. obj \<in> set objs \<Longrightarrow> to_type obj \<in> set apiTypes) \<Longrightarrow>
    seedTracker s (map SeedObject objs) t = Some t' \<Longrightarrow> trackerOk t \<Longrightarrow>
    trackerOk t' \<and> (\<forall>R. stored t R \<subseteq>\<^sub>m stored t' R)
    \<and> (\<forall>obj \<in> set objs. stored t' (resourceOf (to_type obj)) (to_namespace obj, to_name obj) = Some obj)"
proof (induction objs arbitrary: t)
  case (Cons obj objs)
  obtain t1 where t1: "addObject s obj t = (None, t1)" "seedTracker s (map SeedObject objs) t1 = Some t'"
    using Cons.prems(2) by (auto split: prod.splits option.splits)
  note st = addObject_stored [OF assms Cons.prems(1) t1(1)]
  have le: "stored t R \<subseteq>\<^sub>m stored t1 R" for R
    using st(1,2) by (auto simp: map_le_def)
  have rest: "trackerOk t'" "\<forall>R. stored t1 R \<subseteq>\<^sub>m stored t' R"
    "\<forall>o' \<in> set objs. stored t' (resourceOf (to_type o')) (to_namespace o', to_name o') = Some o'"
    using Cons.IH [OF Cons.prems(1) t1(2)] st(3) Cons.prems(3) by auto
  have "stored t1 (resourceOf (to_type obj)) (to_namespace obj, to_name obj) = Some obj"
    using st(1) by simp
  then have "stored t' (resourceOf (to_type obj)) (to_namespace obj, to_name obj) = Some obj"
    using rest(2) unfolding map_le_def by (metis domI)
  moreover have "stored t R \<subseteq>\<^sub>m stored t' R" for R
    using le rest(2) map_le_trans by blast
  ultimately show ?case using rest by simp
qed (simp add: map_le_def)

text \<open>
  A test that seeds the fake client set finds what it seeded: unless the constructor panics, the
  typed client of an object's namespace gets the object, and every further call of the typed
  clients, but for a selector that does not parse, answers and changes a plain store (\<open>storeCall\<close>). Two answers differ from a real server:
  \<open>UpdateStatus\<close> writes the whole object, and \<open>DeleteCollection\<close> reports success and deletes
  nothing.
\<close>

theorem fake_clientset_is_a_store:
  assumes "NewSimpleClientset s (map SeedObject objs) = Some cs" and "knowsTypes s"
    and types: "\<And>obj. obj \<in> set objs \<Longrightarrow> to_type obj \<in> set apiTypes"
  shows "(\<forall>obj \<in> set objs. stored (cs_tracker cs) (resourceOf (to_type obj)) (to_namespace obj, to_name obj) = Some obj)
     \<and> trackerOk (cs_tracker cs)
     \<and> (\<forall>cs' ns call. trackerOk (cs_tracker cs') \<and> storesCall call \<longrightarrow>
          (fakeVmmrqs_action parse ns call \<noteq> None \<longrightarrow>
             storeStep virtualmachinemigrationresourcequotasResource ns call cs'
               (cs_call ap s parse matches zero (fakeVmmrqs_action parse ns) call cs'))
        \<and> (fakeMTQs_action parse call \<noteq> None \<longrightarrow>
             storeStep mtqsResource [] call cs' (cs_call ap s parse matches zero (fakeMTQs_action parse) call cs')))"
proof -
  obtain t where t: "seedTracker s (map SeedObject objs) NewObjectTracker = Some t" "cs_tracker cs = t"
    using assms(1) by (auto simp: NewSimpleClientset_def)
  show ?thesis
    using seedTracker_stored [OF assms(2) types t(1) NewObjectTracker_ok] t(2) cs_call_stores fakes_act by blast
qed

end
