(* ===== verification/Wiring.thy ===== *)
theory Wiring
  imports Application OperatorSetup Listers InformerFactory
begin

text \<open>
  The code that connects components: the clients and the TLS configuration the programs start with
  (\<open>pkg/util\<close>), the certificate manager and the watches of the operator, and the way from an
  informer factory to an informer and a lister (\<open>factory.go\<close>, \<open>interface.go\<close>, \<open>generic.go\<close> under
  \<open>pkg/generated/informers\<close>). The configuration of the cluster, the HTTP client, the file system,
  the manager of controller-runtime and the indexers behind the informers are arguments.
\<close>

subsection \<open>pkg/util\<close>

definition GetVirtCli :: "'c result \<Rightarrow> ('c \<Rightarrow> 'k result) \<Rightarrow> 'k result" where
  "GetVirtCli clientConfig clientFor = (case clientConfig of Inl err \<Rightarrow> Inl err | Inr c \<Rightarrow> clientFor c)"

text \<open>\<open>None\<close>: the process exits without a configuration and panics without a client.\<close>

definition GetMTQCli ::
  "string \<Rightarrow> (string \<Rightarrow> string result) \<Rightarrow> ('l restConfig \<Rightarrow> 64 word result) \<Rightarrow> 'l restConfig result \<Rightarrow> restEndpoint option" where
  "GetMTQCli userAgent parseHost httpClientFor clientConfig =
     (case clientConfig of
        Inl err \<Rightarrow> None
      | Inr cfg \<Rightarrow> core_NewForConfigOrDie userAgent parseHost httpClientFor cfg)"

text \<open>The file that tells the probe the lock server has started: the files there are, changed.\<close>

definition readyFile :: string where
  "readyFile = ''/tmp/ready''"

definition CreateReadyFile :: "(string \<Rightarrow> goerror option) \<Rightarrow> string set \<Rightarrow> goerror option \<times> string set" where
  "CreateReadyFile create files =
     (case create readyFile of Some err \<Rightarrow> (Some err, files) | None \<Rightarrow> (None, insert readyFile files))"

definition DeleteReadyFile :: "string set \<Rightarrow> string set" where
  "DeleteReadyFile files = files - {readyFile}"

text \<open>Both callbacks look at what the certificate manager holds at the time of the handshake.\<close>

record 'c serverTLS =
  st_getCertificate :: "'c option \<Rightarrow> 'c result"
  st_getConfigForClient :: "'c option \<Rightarrow> 'c tlsConfig result"

definition SetupTLS :: "suites \<Rightarrow> suites \<Rightarrow> 'c serverTLS" where
  "SetupTLS secure insecure =
     \<lparr>st_getCertificate = GetCertificate, st_getConfigForClient = GetConfigForClient secure insecure\<rparr>"

text \<open>
  Handshakes wait for a certificate; with one they present it, ask the client for a certificate
  only if it has one, and need TLS 1.2.
\<close>

theorem handshake:
  "st_getConfigForClient (SetupTLS secure insecure) current =
     (case st_getCertificate (SetupTLS secure insecure) current of
        Inl err \<Rightarrow> Inl err
      | Inr crt \<Rightarrow>
          Inr \<lparr>tc_cipherSuites = [], tc_minVersion = 0x0303, tc_certificates = [crt], tc_clientAuth = VerifyClientCertIfGiven\<rparr>)"
  by (simp add: SetupTLS_def GetCertificate_def GetConfigForClient_def TLSVersion_def VersionTLS10_def VersionTLS11_def
      VersionTLS12_def split: option.splits)

subsection \<open>The operator\<close>

definition NewCertManager :: "goerror option \<Rightarrow> goerror option \<Rightarrow> string \<Rightarrow> string list \<Rightarrow> certManager result" where
  "NewCertManager clientErr addErr installNamespace additionalNamespaces =
     (case clientErr of
        Some err \<Rightarrow> Inl err
      | None \<Rightarrow>
          (let cm = newCertManager installNamespace additionalNamespaces in
           case addErr of Some err \<Rightarrow> Inl err | None \<Rightarrow> Inr cm))"

text \<open>The last step of \<open>add\<close>: its one error is either of the two.\<close>

lemma addReconciler_NewCertManager:
  "addReconciler None None (if clientErr = None then addErr else clientErr) r =
     NewCertManager clientErr addErr (re_namespace r) []"
  by (simp add: addReconciler_def NewCertManager_def Let_def split: option.splits)

definition re_watch :: "(string list \<Rightarrow> 's \<Rightarrow> goerror option \<times> 's) \<Rightarrow> ('s \<Rightarrow> goerror option \<times> 's) \<Rightarrow> 's \<Rightarrow> goerror option \<times> 's" where
  "re_watch watchResourceTypes watchCRD s =
     (case watchResourceTypes watchedTypes s of
        (Some err, s') \<Rightarrow> (Some err, s')
      | (None, s') \<Rightarrow> (case watchCRD s' of (Some err, s'') \<Rightarrow> (Some err, s'') | (None, s'') \<Rightarrow> (None, s'')))"

subsection \<open>From a factory to an informer\<close>

text \<open>
  The accessors carry the namespace and the tweak; the factory is a pointer, here the state the
  last accessor runs on.
\<close>

record informerScope =
  is_namespace :: string
  is_tweak :: "tweakFunc option"

definition core_New :: "string \<Rightarrow> tweakFunc option \<Rightarrow> informerScope" where
  "core_New namespace tweakListOptions = \<lparr>is_namespace = namespace, is_tweak = tweakListOptions\<rparr>"

definition factory_Mtq :: "'d informerFactory \<Rightarrow> informerScope" where
  "factory_Mtq f = core_New (sf_namespace f) (sf_tweakListOptions f)"

definition v1alpha1_New :: "string \<Rightarrow> tweakFunc option \<Rightarrow> informerScope" where
  "v1alpha1_New namespace tweakListOptions = \<lparr>is_namespace = namespace, is_tweak = tweakListOptions\<rparr>"

definition group_V1alpha1 :: "informerScope \<Rightarrow> informerScope" where
  "group_V1alpha1 g = v1alpha1_New (is_namespace g) (is_tweak g)"

text \<open>The MTQ has no namespace; its accessor keeps only the tweak.\<close>

record mtqInformer =
  mi_tweak :: "tweakFunc option"

record vmmrqInformer =
  vi_namespace :: string
  vi_tweak :: "tweakFunc option"

definition version_MTQs :: "informerScope \<Rightarrow> mtqInformer" where
  "version_MTQs v = \<lparr>mi_tweak = is_tweak v\<rparr>"

definition version_VirtualMachineMigrationResourceQuotas :: "informerScope \<Rightarrow> vmmrqInformer" where
  "version_VirtualMachineMigrationResourceQuotas v = \<lparr>vi_namespace = is_namespace v, vi_tweak = is_tweak v\<rparr>"

definition vmmrq_defaultInformer :: "vmmrqInformer \<Rightarrow> restEndpoint \<Rightarrow> 64 word \<Rightarrow> 'd sharedInformer" where
  "vmmrq_defaultInformer i client resyncPeriod =
     NewFilteredVirtualMachineMigrationResourceQuotaInformer client (vi_namespace i) resyncPeriod [NamespaceIndex] (vi_tweak i)"

definition mtq_defaultInformer :: "mtqInformer \<Rightarrow> restEndpoint \<Rightarrow> 64 word \<Rightarrow> 'd sharedInformer" where
  "mtq_defaultInformer i client resyncPeriod = NewFilteredMTQInformer client resyncPeriod [NamespaceIndex] (mi_tweak i)"

definition vmmrqInformer_Informer :: "vmmrqInformer \<Rightarrow> 'd informerFactory \<Rightarrow> 'd sharedInformer \<times> 'd informerFactory" where
  "vmmrqInformer_Informer i f = InformerFor VMMRQType (vmmrq_defaultInformer i) f"

definition mtqInformer_Informer :: "mtqInformer \<Rightarrow> 'd informerFactory \<Rightarrow> 'd sharedInformer \<times> 'd informerFactory" where
  "mtqInformer_Informer i f = InformerFor MTQType (mtq_defaultInformer i) f"

text \<open>
  An accessor obtained once may be used at any later time: it yields the informer the factory
  would yield itself.
\<close>

lemma accessors_agree:
  assumes "sameSettings f f0"
  shows "vmmrqInformer_Informer (version_VirtualMachineMigrationResourceQuotas (group_V1alpha1 (factory_Mtq f0))) f = vmmrq_Informer f"
    and "mtqInformer_Informer (version_MTQs (group_V1alpha1 (factory_Mtq f0))) f = mtq_Informer f"
  using assms
  by (simp_all add: sameSettings_def vmmrqInformer_Informer_def mtqInformer_Informer_def vmmrq_Informer_def mtq_Informer_def
      vmmrq_defaultInformer_def [abs_def] mtq_defaultInformer_def [abs_def] version_MTQs_def
      version_VirtualMachineMigrationResourceQuotas_def group_V1alpha1_def v1alpha1_New_def factory_Mtq_def core_New_def)

subsection \<open>From an informer to a lister\<close>

text \<open>A lister is the indexer of its informer: \<open>indexerOf\<close> says which one.\<close>

definition vmmrqInformer_Lister ::
  "(objType \<Rightarrow> ('o, 's) indexer) \<Rightarrow> vmmrqInformer \<Rightarrow> 'd informerFactory \<Rightarrow> ('o, 's) indexer \<times> 'd informerFactory" where
  "vmmrqInformer_Lister indexerOf i f = (case vmmrqInformer_Informer i f of (informer, f') \<Rightarrow> (indexerOf (si_type informer), f'))"

definition mtqInformer_Lister ::
  "(objType \<Rightarrow> ('o, 's) indexer) \<Rightarrow> mtqInformer \<Rightarrow> 'd informerFactory \<Rightarrow> ('o, 's) indexer \<times> 'd informerFactory" where
  "mtqInformer_Lister indexerOf i f = (case mtqInformer_Informer i f of (informer, f') \<Rightarrow> (indexerOf (si_type informer), f'))"

text \<open>The lister of a \<open>GenericInformer\<close>, which \<open>ForResource\<close> returns as informer, group and resource.\<close>

record ('o, 's) genericLister =
  gl_indexer :: "('o, 's) indexer"
  gl_resource :: string

definition genericInformer_Lister ::
  "(objType \<Rightarrow> ('o, 's) indexer) \<Rightarrow> 'd sharedInformer \<times> string \<times> string \<Rightarrow> ('o, 's) genericLister" where
  "genericInformer_Lister indexerOf g =
     (case g of (informer, grp, resource) \<Rightarrow> \<lparr>gl_indexer = indexerOf (si_type informer), gl_resource = resource\<rparr>)"

definition genericLister_List :: "('o \<Rightarrow> objectMeta) \<Rightarrow> ('o, 's) genericLister \<Rightarrow> selector \<Rightarrow> 's \<Rightarrow> 'o list" where
  "genericLister_List meta l selector s = cache_ListAll meta (gl_indexer l) selector s"

definition genericLister_Get :: "('o, 's) genericLister \<Rightarrow> string \<Rightarrow> 's \<Rightarrow> 'o result" where
  "genericLister_Get l name s = getByKey (gl_indexer l) name (gl_resource l) name s"

definition genericNamespaceLister_List ::
  "('o \<Rightarrow> objectMeta) \<Rightarrow> ('o, 's) genericLister \<Rightarrow> string \<Rightarrow> selector \<Rightarrow> 's \<Rightarrow> 'o list" where
  "genericNamespaceLister_List meta l namespace selector s = cache_ListAllByNamespace meta (gl_indexer l) namespace selector s"

definition genericNamespaceLister_Get :: "('o, 's) genericLister \<Rightarrow> string \<Rightarrow> string \<Rightarrow> 's \<Rightarrow> 'o result" where
  "genericNamespaceLister_Get l namespace name s =
     getByKey (gl_indexer l) (namespace @ ''/'' @ name) (gl_resource l) name s"

text \<open>A map that only ever holds informers of their own type, as the factory's does.\<close>

definition typedInformers :: "'d informerFactory \<Rightarrow> bool" where
  "typedInformers f \<longleftrightarrow> (\<forall>(t, i) \<in> set (sf_informers f). si_type i = t)"

lemma accessor_types:
  assumes "typedInformers f"
  shows "si_type (fst (vmmrqInformer_Informer i f)) = VMMRQType" and "si_type (fst (mtqInformer_Informer j f)) = MTQType"
    and "typedInformers (snd (vmmrqInformer_Informer i f))" and "typedInformers (snd (mtqInformer_Informer j f))"
  using assms
  by (auto simp: typedInformers_def vmmrqInformer_Informer_def mtqInformer_Informer_def InformerFor_def Let_def
      vmmrq_defaultInformer_def mtq_defaultInformer_def NewFilteredVirtualMachineMigrationResourceQuotaInformer_def
      NewFilteredMTQInformer_def dest!: map_of_SomeD split: option.splits)

text \<open>
  The generic lister of the resource answers what the typed lister of its informer answers; only the
  text of a missing object's error differs (it says the resource where the typed lister says the
  singular).
\<close>

theorem generic_lister_agrees:
  assumes "ForResource virtualmachinemigrationresourcequotasResource f = (Inr g, f')"
    and "vmmrqInformer_Lister indexerOf (version_VirtualMachineMigrationResourceQuotas (group_V1alpha1 (factory_Mtq f))) f = (idx, f'')"
  shows "f' = f''"
    and "genericLister_List meta (genericInformer_Lister indexerOf g) selector s = vmmrqLister_List meta idx selector s"
    and "genericNamespaceLister_List meta (genericInformer_Lister indexerOf g) ns selector s =
           vmmrqNamespaceLister_List meta (VirtualMachineMigrationResourceQuotas idx ns) selector s"
    and "map_sum (\<lambda>_. ()) id (genericNamespaceLister_Get (genericInformer_Lister indexerOf g) ns name s) =
           map_sum (\<lambda>_. ()) id (vmmrqNamespaceLister_Get (VirtualMachineMigrationResourceQuotas idx ns) name s)"
proof -
  have same: "sameSettings f f" by (simp add: sameSettings_def)
  obtain informer f1 where i: "vmmrq_Informer f = (informer, f1)" by fastforce
  have ne: "virtualmachinemigrationresourcequotasResource \<noteq> mtqsResource"
    by (simp add: virtualmachinemigrationresourcequotasResource_def mtqsResource_def)
  have g: "fst g = informer" "f' = f1"
    using assms(1) i ne by (auto simp: ForResource_def)
  have l: "idx = indexerOf (si_type informer)" "f'' = f1"
    using assms(2) i accessors_agree(1) [OF same] by (simp_all add: vmmrqInformer_Lister_def)
  show "f' = f''" using g l by simp
  have idx: "gl_indexer (genericInformer_Lister indexerOf g) = idx"
    using g l by (cases g) (simp add: genericInformer_Lister_def)
  show "genericLister_List meta (genericInformer_Lister indexerOf g) selector s = vmmrqLister_List meta idx selector s"
    by (simp add: genericLister_List_def idx vmmrqLister_List_def)
  show "genericNamespaceLister_List meta (genericInformer_Lister indexerOf g) ns selector s =
      vmmrqNamespaceLister_List meta (VirtualMachineMigrationResourceQuotas idx ns) selector s"
    by (simp add: genericNamespaceLister_List_def idx vmmrqNamespaceLister_List_def VirtualMachineMigrationResourceQuotas_def)
  show "map_sum (\<lambda>_. ()) id (genericNamespaceLister_Get (genericInformer_Lister indexerOf g) ns name s) =
      map_sum (\<lambda>_. ()) id (vmmrqNamespaceLister_Get (VirtualMachineMigrationResourceQuotas idx ns) name s)"
    by (simp add: genericNamespaceLister_Get_def idx vmmrqNamespaceLister_Get_def VirtualMachineMigrationResourceQuotas_def
        getByKey_def split: option.splits)
qed

end
