(* ===== verification/Spec2Isabelle.thy ===== *)
theory Spec2Isabelle
  imports QuotaTheorems MigrationCycle Listers NamespaceLockMap LockServer RestartStall WorkerLoop OperatorTheorems Tools
    DeepCopy FakeClientset Wiring
begin

text \<open>
  Managed Tenant Quota (MTQ). Migrating a virtual machine needs room for a second pod, which a
  resource quota of the namespace may refuse. An administrator creates one
  VirtualMachineMigrationResourceQuota (VMMRQ) in the namespace; the MTQ controller then locks the
  namespace with a validating webhook, raises the blocking quotas by the additional resources the
  VMMRQ grants, lets the migration start, restores the quotas and unlocks. The lock server answers
  the webhook. The MTQ operator deploys both, with their permissions and certificates.

  The controller, \<open>pkg/mtq-controller\<close>.
  \<open>GoHeap\<close>, \<open>ApiTypes\<close>: Go maps are shared by reference, so resource lists live on a heap, and
  the API types (\<open>types.go\<close>) are records over addresses in memory and over association lists on the
  wire. \<open>GoMemory\<close>, \<open>DeepCopy\<close>: every generated deep copy (\<open>zz_generated.deepcopy.go\<close>), field by
  field, over a memory of cells in which assigning a struct shares its pointers, slices and maps;
  \<open>deepCopyVmmrq\<close> of \<open>ApiTypes\<close> is the view of it the controller's passes use. \<open>Scheme\<close>: the
  registration of the types (\<open>register.go\<close>). \<open>World\<close>: the API server as a record of functions on any
  state, the informers of a pass, and the state a pass changes. \<open>NamespaceCache\<close>,
  \<open>NamespaceLockMap\<close>: the lock cache and the two-level mutexes (\<open>namespace-lock-utils\<close>), the
  latter as a step relation over any number of workers. \<open>WebhookConfig\<close>, \<open>WebhookLock\<close>: the
  locking webhook (\<open>pkg/validating-webhook-lock\<close>). \<open>QuotaMaps\<close>, \<open>QuotaOps\<close>, \<open>Migrations\<close>,
  \<open>VmmrqController\<close>: \<open>vmmrq-controller.go\<close>; \<open>execute\<close> is cut into its consecutive parts, which
  \<open>Passes\<close> sequences. \<open>WorkerLoop\<close>: the loop of a worker.

  The lock server, \<open>pkg/mtq-lock-server\<close> and \<open>cmd/mtq-lock-server\<close>: \<open>LockServer\<close>.

  The operator, \<open>pkg/mtq-operator\<close>: \<open>KubeTypes\<close> (the objects and the SDK's resource builder),
  \<open>OperatorUtils\<close>, \<open>ClusterResources\<close>, \<open>NamespacedResources\<close>, \<open>OperatorResources\<close> (the factories
  under \<open>resources/\<close>), \<open>CrdSchema\<close>, \<open>MtqSchema\<close> (the schemas in \<open>crds_generated.go\<close> and the JSON of
  the VMMRQ and the MTQ),
  \<open>CertFactory\<close>, \<open>CertRotation\<close> with \<open>GoTime\<close> (certificates; durations are 64-bit words),
  \<open>OperatorReconcile\<close>, \<open>OperatorSetup\<close> (reconciler, hooks, construction from the environment).
  \<open>Utilities\<close>, \<open>Application\<close>: \<open>pkg/util\<close>, the start of the controller and of the lock server,
  leader election.

  The generated clients, \<open>pkg/generated\<close>: \<open>RestRequest\<close> (the request builder of client-go),
  \<open>RequestInfo\<close> (what the API server reads of a request), \<open>TypedClients\<close> (every method of both
  typed clients, and how they are made of a configuration), \<open>FakeClients\<close>, \<open>FakeClientset\<close> (the clients
  of the unit tests and the object tracker behind them), \<open>ClientRoutes\<close>, \<open>ClientTheorems\<close>; \<open>InformerFactory\<close> (the shared informer factory as a step
  relation over its goroutines); \<open>ObjectStore\<close>, \<open>Listers\<close> (the indexed store behind an informer, and
  the listers, over the locale \<open>object_store\<close> of what they rely on).

  The build tools and commands, \<open>tools\<close> and \<open>cmd\<close>: \<open>Tools\<close>. What connects the components (how a
  program gets its clients, an informer its factory's settings, a lister its informer): \<open>Wiring\<close>.

  What is shown. Of a pass, for every behaviour of the API server and every point at which it can
  end (this theory, over \<open>QuotaEffects\<close>, \<open>ControllerTrace\<close>, \<open>PassFront\<close>, \<open>PassSafety\<close>,
  \<open>PassStatus\<close>, \<open>PassFrame\<close>): quotas move only to saved limits or under the lock, the lock goes
  last, saved limits are not lost, the cache is truthful, failures end the pass and are returned,
  other namespaces are left alone. When nothing fails (\<open>MigrationCycle\<close>), a pass raises what blocks a
  migration and a pass after the migration restores it and unlocks: \<open>raise_completes\<close>,
  \<open>release_completes\<close>. Of the quota operations (\<open>QuotaSpec\<close>, \<open>QuotaTheorems\<close>): they
  compute their value-level specification in spite of the sharing. Of the mutexes: mutual
  exclusion, no deadlock. Of the lock server: it fails closed and decides what the webhook
  intercepts. Of the deployment (\<open>DeployTheorems\<close>): the permissions suffice, the webhook reaches
  the server, the environment round trip. Of the certificates (\<open>CertTheorems\<close>): order of a
  synchronisation, forced rotation, bounds. Of reconciliation and start-up: \<open>OperatorTheorems\<close>.
  Of the clients: a call is refused exactly when a name is not valid, and otherwise the server
  reads it as what it says; so what the controller really sends are the accesses its roles were
  checked for (\<open>controller_requests_authorized\<close>), and the fakes see the same actions. Of the
  informers: each runs once, and a shutdown ends them; their store stays a map with exact indices,
  and the listers answer what is in it. Of the resource definitions: what fits them. Of the tools:
  the generated Go file means what was generated, and nothing the server fills in is printed.
  Some theorems state what the code does where that is not what it means to do:
  \<open>failed_restore_is_forgotten\<close>, \<open>own_lock_is_rewritten\<close>, \<open>cache_writes_can_overlap\<close>,
  \<open>failed_read_marks_deployed_failed\<close>, and \<open>RestartStall\<close>, which runs the controller with the
  permissions the operator gives it. Of the API types (\<open>DeepCopy\<close>): each \<open>DeepCopyInto\<close> keeps the
  contract \<open>copies\<close>, by one lemma per shape of the generated code, and the locale \<open>deep_copier\<close>,
  interpreted for the four served types, turns it into what the owner of a copy relies on
  (\<open>deep_copies_share_nothing\<close>); client and fake client know the same kinds, and the fake client set
  is a plain store (\<open>client_schemes_agree\<close>, \<open>fake_clientset_is_a_store\<close>).

  How the code is read. A function that returns an error returns a sum, \<open>Inl\<close> the error; a panic is
  \<open>None\<close> or the outcome \<open>Panicked\<close>. \<open>range\<close> over a map takes the order of the association list, or
  an order that is an argument (\<open>e_rangeKeys\<close>, \<open>tableOrder\<close>); the theorems hold for all of them.
  Log lines and metrics are left out. Loops over lists are structural recursions. The one loop that
  may not end, \<open>runWorker\<close>, is a partial function, and \<open>worker_ends\<close> shows when it returns. No fuel
  is used. Goroutines that only run an informer appear in the list of what is started.

  Parameters. The API server, the informer stores, KubeVirt's pod template service, the quota
  admission plugin, the certificate rotation library, the JSON and YAML codecs, files and
  environment variables are arguments. Hypotheses about them are named and instantiated by a witness: objects
  decode to maps with distinct keys (\<open>listsOk\<close>, \<open>liveWorld\<close>), a configuration that is read is there
  (\<open>lockHonest\<close>), the failure policy of a stored webhook is set (\<open>serverDefaults\<close>), a written secret
  keeps its name (\<open>keepsNames\<close>), the server enforces the roles (\<open>enforcesRoles\<close>), quantities are
  printed in the format of the API (\<open>printsQuantities\<close>), the names of stored objects have no slash
  (\<open>simpleNames\<close>); for progress, writes are accepted
  (\<open>acceptsWrites\<close>) and the informers answer (\<open>storesAnswer\<close>, \<open>informerOk\<close>).

  Not modelled: the digits of a big decimal and the location of a time, which are values here; the
  reflector that fills the store of an informer, and retries, throttling and answers of the HTTP
  client; conversion and defaulting functions of a scheme (there is one version); descriptions and
  number formats of the resource definitions; the texts and the icon of the ClusterServiceVersion;
  sockets, signals, flags and logging; the tests.
\<close>

section \<open>Properties of a pass\<close>

text \<open>C1: every update of a resource quota that a pass sends either writes back the limits the
  VMMRQ's status saved for that quota, or is sent while the webhook configuration that locks
  the namespace is in place; whatever the API server answers and wherever the pass ends,
  provided the namespace cache does not claim a lock that is not there and a read of the
  configuration succeeds only when it is there.\<close>

theorem quota_changes_guarded:
  assumes "parseKey key = Inr (ns, name)" and "liveWorld w" and "listsOk A ns w"
    and "lockHonest ns b (sentBy A en key w)" and "GetLockState (w_nsc w) ns = Locked \<Longrightarrow> b"
  shows "guardedUpdates ns b (savedBy A ns w) (sentBy A en key w)"
  using assms by (rule pass_guarded)

theorem quota_changes_guarded_witness:
  "guardedUpdates ''ns1'' False (savedBy apiA ''ns1'' worldA) (sentBy apiA envA keyA worldA)
   \<and> (UpdateRQ (updatedTo 3), None) \<in> set (sentBy apiA envA keyA worldA)"
proof
  show "guardedUpdates ''ns1'' False (savedBy apiA ''ns1'' worldA) (sentBy apiA envA keyA worldA)"
  proof (rule quota_changes_guarded [OF sc_parse])
    show "liveWorld worldA" by simp
    show "lockHonest ''ns1'' False (sentBy apiA envA keyA worldA)" by (simp add: sc_sentA)
    show "GetLockState (w_nsc worldA) ''ns1'' = Locked \<Longrightarrow> False"
      by (simp add: worldA_def scWorld_def nsc.get_empty)
  qed simp
qed (simp add: sc_sentA)

text \<open>C2: a pass deletes the locking webhook only as its last call, only for its own namespace,
  with every quota update before it accepted, and only when the VMMRQ stored in the cluster
  saves no quota spec any more: it listed none, or a status update without any was accepted
  earlier in the pass.\<close>

theorem lock_released_last:
  assumes "parseKey key = Inr (ns, name)" and "liveWorld w" and "listsOk A ns w"
    and "(DeleteVWC n, e) \<in> set (sentBy A en key w)"
  shows "\<exists>v l. listed A ns w v \<and> sentBy A en key w = l @ [(DeleteVWC (lockName ns), e)]
     \<and> (v_orig v = [] \<or> (\<exists>v'. (UpdateVmmrqStatus v', None) \<in> set l \<and> v_orig v' = []))
     \<and> (\<forall>q x. (UpdateRQ q, x) \<in> set l \<longrightarrow> x = None)"
  using assms by (rule pass_unlocks_last)

theorem lock_released_last_witness:
  "\<exists>v l. listed apiB ''ns1'' worldB v \<and> sentBy apiB envB keyA worldB = l @ [(DeleteVWC (lockName ''ns1''), None)]
     \<and> (v_orig v = [] \<or> (\<exists>v'. (UpdateVmmrqStatus v', None) \<in> set l \<and> v_orig v' = []))
     \<and> (\<forall>q x. (UpdateRQ q, x) \<in> set l \<longrightarrow> x = None)"
  by (rule lock_released_last [OF sc_parse, where n = "lockName ''ns1''"])
    (simp_all add: sc_sentB)

text \<open>C3: a status update that drops the saved spec of a quota is sent only after that quota was
  restored: it is gone from the informer, the informer already showed the saved limits when
  the pass began, or an update writing exactly those limits was accepted in the same pass.\<close>

theorem dropped_spec_was_restored:
  assumes "parseKey key = Inr (ns, name)" and "liveWorld w" and "listsOk A ns w"
    and "(UpdateVmmrqStatus v', e) \<in> set (sentBy A en key w)" and "listed A ns w v"
    and "x \<in> set (v_orig v)" and "ns_name x \<notin> ns_name ` set (v_orig v')" and "distinct (map ns_name (v_orig v))"
  shows "restoredBy w (sentBy A en key w) (metaKey ns (ns_name x)) (wireAmounts (spec_hard (ns_spec x)))"
  using assms by (rule pass_dropped)

theorem dropped_spec_was_restored_witness:
  "restoredBy worldB (sentBy apiB envB keyA worldB) (metaKey ''ns1'' ''rq1'') (wireAmounts (Some (cpu 2)))"
proof -
  have "restoredBy worldB (sentBy apiB envB keyA worldB) (metaKey ''ns1'' (ns_name scSaved))
      (wireAmounts (spec_hard (ns_spec scSaved)))"
  proof (rule dropped_spec_was_restored [OF sc_parse])
    show "(UpdateVmmrqStatus (scVmmrq (Some []) []), None) \<in> set (sentBy apiB envB keyA worldB)"
      by (simp add: sc_sentB)
    show "listed apiB ''ns1'' worldB (scVmmrq (Some [(''m1'', [''rq1''])]) [scSaved])" by (simp add: apiB_def)
  qed (simp_all add: scVmmrq_def)
  then show ?thesis by (simp add: scSaved_def plainSpec_def)
qed

text \<open>C4: a status update of a pass either repeats the listed VMMRQ (with the additional resources
  of its spec), or publishes for each quota the spec already saved under its name, and for a
  quota with none saved the spec the informer held when the pass began. In particular the
  raised limits the pass is about to write are never published as a quota's original spec,
  although the published objects share their maps with the informer's.\<close>

theorem published_specs_are_originals:
  assumes "parseKey key = Inr (ns, name)" and "liveWorld w" and "listsOk A ns w"
    and "(UpdateVmmrqStatus v', e) \<in> set (sentBy A en key w)"
  shows "\<exists>v. listed A ns w v \<and>
     (v' = syncedV v \<or> (\<forall>x \<in> set (v_orig v'). publishedSpec (v_orig v) (quotasOf en ns w) x))"
  using assms by (rule pass_published)

theorem published_specs_are_originals_witness:
  "\<exists>v. listed apiA ''ns1'' worldA v \<and> (scVmmrq (Some [(''m1'', [''rq1''])]) [scSaved] = syncedV v
     \<or> (\<forall>x \<in> set (v_orig (scVmmrq (Some [(''m1'', [''rq1''])]) [scSaved])). publishedSpec (v_orig v) (quotasOf envA ''ns1'' worldA) x))"
  by (rule published_specs_are_originals [OF sc_parse, where e = None])
    (simp_all add: sc_sentA)

text \<open>C8: if the namespace cache tells the truth about a set of locked namespaces before a pass, it
  tells the truth after it about the set as the pass's calls changed it, on every path through
  the pass and whatever failed.\<close>

theorem cache_stays_truthful:
  assumes "parseKey key = Inr (ns, name)" and "liveWorld w" and "listsOk A ns w"
    and "nsc.truthful (w_nsc w) L"
  shows "nsc.truthful (w_nsc (snd (execute A en key w))) (lockedAfter ns L (sentBy A en key w))"
  using assms by (rule pass_truthful)

theorem cache_stays_truthful_witness:
  "nsc.truthful (w_nsc (snd (execute apiA envA keyA worldA))) (lockedAfter ''ns1'' {} (sentBy apiA envA keyA worldA))
   \<and> lockedAfter ''ns1'' {} (sentBy apiA envA keyA worldA) = {''ns1''}"
proof
  show "nsc.truthful (w_nsc (snd (execute apiA envA keyA worldA))) (lockedAfter ''ns1'' {} (sentBy apiA envA keyA worldA))"
    by (rule cache_stays_truthful [OF sc_parse])
      (simp_all, simp add: worldA_def scWorld_def nsc.truthful_empty)
qed (simp add: sc_sentA lockedAfter_def)





text \<open>C38: a pass never panics, as long as the webhook configurations the server returns have their
  failure policy set, as the server's defaulting does: it never assigns into a nil migration
  table and never dereferences a nil field while it compares a configuration with its own.\<close>

theorem pass_never_panics:
  assumes "parseKey key = Inr (ns, name)" and "liveWorld w" and "listsOk A ns w" and "serverDefaults A"
  shows "fst (execute A en key w) \<noteq> Panicked"
  using assms by (rule pass_no_panic)

theorem pass_never_panics_witness: "fst (execute apiA envA keyA worldA) \<noteq> Panicked"
  by (rule pass_never_panics [OF sc_parse])
    (simp_all, simp add: serverDefaults_def apiA_def scApi_def)

text \<open>A pass leaves the controller's shared state of other namespaces alone: the informer keeps its
  quota objects in order, those outside the namespace unchanged, and the cached lock state of
  every other namespace is the one before the pass. Passes of different namespaces, which run
  concurrently, do not see each other.\<close>

theorem pass_leaves_neighbours:
  assumes "parseKey key = Inr (ns, name)"
  shows "map rqKey (w_rqs (snd (execute A en key w))) = map rqKey (w_rqs w)
     \<and> filter (\<lambda>q. \<not> inNs ns q) (w_rqs (snd (execute A en key w))) = filter (\<lambda>q. \<not> inNs ns q) (w_rqs w)
     \<and> (\<forall>n. n \<noteq> ns \<longrightarrow> GetLockState (w_nsc (snd (execute A en key w))) n = GetLockState (w_nsc w) n)"
  using execute_stays [OF assms, of w A en] by (simp add: stays_def)

theorem pass_leaves_neighbours_witness:
  "GetLockState (w_nsc (snd (execute apiA envA keyA worldA))) ''ns2'' = Unknown
   \<and> map rqKey (w_rqs (snd (execute apiA envA keyA worldA))) = [''ns1/rq1'']"
  using pass_leaves_neighbours [OF sc_parse, of apiA envA worldA]
  by (simp add: worldA_def scWorld_def nsc.get_empty scQuota_def rqKey_def metaKey_def)

end
